(* ===== verification/Py_Prelude.thy ===== *)
theory Py_Prelude
  imports Main "HOL-Library.Char_ord"
begin

text \<open>
  The part of Python that both programs (\<^verbatim>\<open>ipbenchd.py\<close>, \<^verbatim>\<open>ipbench.py\<close>) rest on:
  byte strings and text, slicing with negative indices, \<^verbatim>\<open>str.strip\<close>, \<^verbatim>\<open>str.find\<close>,
  \<^verbatim>\<open>str.split\<close>, \<^verbatim>\<open>int()\<close> and \<^verbatim>\<open>repr\<close> of an int, the character classes of \<^verbatim>\<open>re\<close>, the
  exceptions, and the state-and-exception computations in which every handler is written.

  A Python \<^verbatim>\<open>bytes\<close> is a \<open>string\<close> (one \<open>char\<close> per byte). A Python \<^verbatim>\<open>str\<close> is the \<open>string\<close>
  of its UTF-8 encoding, so \<^verbatim>\<open>encode('utf-8')\<close> is the identity and \<^verbatim>\<open>decode('utf-8')\<close> is the
  check that the bytes are well formed; positions and slices of a \<^verbatim>\<open>str\<close> count code points
  (\<open>cps\<close>). Of the Unicode character classes (word, space and digit characters, used by
  \<^verbatim>\<open>re\<close>, \<^verbatim>\<open>strip\<close> and \<^verbatim>\<open>int\<close>) only the ASCII part is modelled: a code point above 127
  belongs to none of them.
\<close>

named_theorems io_simps \<open>unfolding the state-and-exception computations\<close>
named_theorems text_simps \<open>evaluation of the text operations on ASCII text\<close>

section \<open>Characters and text\<close>

type_synonym bytes = string
type_synonym str = string

abbreviation code :: "char \<Rightarrow> nat" where
  "code c \<equiv> of_char c"

definition is_digit :: "char \<Rightarrow> bool" where
  "is_digit c \<longleftrightarrow> 48 \<le> code c \<and> code c \<le> 57"

definition is_word :: "char \<Rightarrow> bool" where
  \<comment> \<open>the class \<^verbatim>\<open>\w\<close> of \<^verbatim>\<open>re\<close>\<close>
  "is_word c \<longleftrightarrow> is_digit c \<or> (65 \<le> code c \<and> code c \<le> 90)
     \<or> (97 \<le> code c \<and> code c \<le> 122) \<or> code c = 95"

definition is_space :: "char \<Rightarrow> bool" where
  \<comment> \<open>the class \<^verbatim>\<open>\s\<close> of \<^verbatim>\<open>re\<close>, and what \<^verbatim>\<open>str.strip()\<close> removes\<close>
  "is_space c \<longleftrightarrow> (9 \<le> code c \<and> code c \<le> 13) \<or> (28 \<le> code c \<and> code c \<le> 32)"

definition is_cspace :: "char \<Rightarrow> bool" where
  \<comment> \<open>what \<^verbatim>\<open>int()\<close> skips around an ASCII numeral\<close>
  "is_cspace c \<longleftrightarrow> (9 \<le> code c \<and> code c \<le> 13) \<or> code c = 32"

definition ascii :: "string \<Rightarrow> bool" where
  "ascii s \<longleftrightarrow> (\<forall>c \<in> set s. code c < 128)"

lemma ascii_simps [simp]:
  "ascii []" "ascii (c # s) \<longleftrightarrow> code c < 128 \<and> ascii s" "ascii (s @ t) \<longleftrightarrow> ascii s \<and> ascii t"
  by (auto simp: ascii_def)

lemma is_digit_word: "is_digit c \<Longrightarrow> is_word c"
  by (simp add: is_word_def)

lemma is_word_not_space: "is_word c \<Longrightarrow> \<not> is_space c"
  by (auto simp: is_word_def is_space_def is_digit_def)

lemma is_cspace_space: "is_cspace c \<Longrightarrow> is_space c"
  by (auto simp: is_cspace_def is_space_def)

lemma is_digit_ascii: "is_digit c \<Longrightarrow> code c < 128"
  by (simp add: is_digit_def)

definition newline :: char where
  "newline = CHR 0x0A"

definition nl :: string where
  "nl = [newline]"

subsection \<open>UTF-8\<close>

definition is_cont :: "char \<Rightarrow> bool" where
  "is_cont c \<longleftrightarrow> 128 \<le> code c \<and> code c \<le> 191"

text \<open>The length of the well-formed sequence at the head of the bytes, \<open>0\<close> if there is none.\<close>

fun utf8_seq :: "bytes \<Rightarrow> nat" where
  "utf8_seq [] = 0"
| "utf8_seq (a # s) =
     (if code a < 128 then 1
      else if 194 \<le> code a \<and> code a \<le> 223 then
        (case s of b # _ \<Rightarrow> if is_cont b then 2 else 0 | [] \<Rightarrow> 0)
      else if 224 \<le> code a \<and> code a \<le> 239 then
        (case s of b # c # _ \<Rightarrow>
           if is_cont b \<and> is_cont c \<and> (code a = 224 \<longrightarrow> 160 \<le> code b)
              \<and> (code a = 237 \<longrightarrow> code b \<le> 159) then 3 else 0
         | _ \<Rightarrow> 0)
      else if 240 \<le> code a \<and> code a \<le> 244 then
        (case s of b # c # d # _ \<Rightarrow>
           if is_cont b \<and> is_cont c \<and> is_cont d \<and> (code a = 240 \<longrightarrow> 144 \<le> code b)
              \<and> (code a = 244 \<longrightarrow> code b \<le> 143) then 4 else 0
         | _ \<Rightarrow> 0)
      else 0)"

lemma drop_utf8_seq: "utf8_seq s \<noteq> 0 \<Longrightarrow> length (drop (utf8_seq s) s) < length s"
  by (cases s) (auto simp del: utf8_seq.simps(2))

function utf8_valid :: "bytes \<Rightarrow> bool" where
  "utf8_valid s =
     (if s = [] then True
      else if utf8_seq s = 0 then False
      else utf8_valid (drop (utf8_seq s) s))"
  by pat_completeness auto
termination
  by (relation "measure length") (auto dest: drop_utf8_seq)

text \<open>\<^verbatim>\<open>decode('utf-8', errors='ignore')\<close> drops the bytes that start no well-formed sequence.\<close>

function utf8_ignore :: "bytes \<Rightarrow> str" where
  "utf8_ignore s =
     (if s = [] then []
      else if utf8_seq s = 0 then utf8_ignore (tl s)
      else take (utf8_seq s) s @ utf8_ignore (drop (utf8_seq s) s))"
  by pat_completeness auto
termination
  by (relation "measure length") (auto dest: drop_utf8_seq)

declare utf8_valid.simps [simp del] utf8_ignore.simps [simp del]

definition ascii_ignore :: "bytes \<Rightarrow> str" where
  "ascii_ignore s = filter (\<lambda>c. code c < 128) s"

lemma ascii_utf8_valid: "ascii s \<Longrightarrow> utf8_valid s"
  by (induction s) (subst utf8_valid.simps, simp)+

lemma ascii_utf8_ignore: "ascii s \<Longrightarrow> utf8_ignore s = s"
  by (induction s) (subst utf8_ignore.simps, simp)+

lemma ascii_ignore_id: "ascii s \<Longrightarrow> ascii_ignore s = s"
  by (simp add: ascii_ignore_def ascii_def)

text \<open>The code points of a text, each as the bytes of its encoding.\<close>

fun cps :: "str \<Rightarrow> string list" where
  "cps [] = []"
| "cps (c # s) = (case cps s of
       [] \<Rightarrow> [[c]]
     | p # ps \<Rightarrow> if is_cont (hd p) then (c # p) # ps else [c] # p # ps)"

lemma cps_ascii: "ascii s \<Longrightarrow> cps s = map (\<lambda>c. [c]) s"
  by (induction s) (auto simp: is_cont_def split: list.splits)

lemma concat_cps: "concat (cps s) = s"
  by (induction s) (auto split: list.splits if_splits)

lemma concat_singles [simp]: "concat (map (\<lambda>c. [c]) s) = s"
  by (induction s) auto

subsection \<open>Slices and searches\<close>

definition py_idx :: "nat \<Rightarrow> int \<Rightarrow> nat" where
  \<comment> \<open>a slice bound: negative bounds count from the end, and bounds are clipped\<close>
  "py_idx n i = (if i < 0 then nat (max 0 (int n + i)) else min n (nat i))"

definition py_from :: "'a list \<Rightarrow> int \<Rightarrow> 'a list" where
  \<comment> \<open>\<^verbatim>\<open>xs[i:]\<close>\<close>
  "py_from xs i = drop (py_idx (length xs) i) xs"

definition py_slice :: "'a list \<Rightarrow> int \<Rightarrow> int \<Rightarrow> 'a list" where
  \<comment> \<open>\<^verbatim>\<open>xs[i:j]\<close>\<close>
  "py_slice xs i j = drop (py_idx (length xs) i) (take (py_idx (length xs) j) xs)"

definition str_from :: "str \<Rightarrow> int \<Rightarrow> str" where
  "str_from s i = concat (py_from (cps s) i)"

definition str_slice :: "str \<Rightarrow> int \<Rightarrow> int \<Rightarrow> str" where
  "str_slice s i j = concat (py_slice (cps s) i j)"

definition str_find :: "str \<Rightarrow> char \<Rightarrow> int" where
  \<comment> \<open>\<^verbatim>\<open>s.find(c)\<close> for an ASCII character\<close>
  "str_find s c = (if c \<in> set s then int (length (cps (takeWhile (\<lambda>x. x \<noteq> c) s))) else - 1)"

lemma py_slice_map: "py_slice (map f xs) i j = map f (py_slice xs i j)"
  by (simp add: py_slice_def drop_map take_map)

lemma py_from_map: "py_from (map f xs) i = map f (py_from xs i)"
  by (simp add: py_from_def drop_map)

lemma str_from_ascii: "ascii s \<Longrightarrow> str_from s i = py_from s i"
  by (simp add: str_from_def cps_ascii py_from_map)

lemma str_slice_ascii: "ascii s \<Longrightarrow> str_slice s i j = py_slice s i j"
  by (simp add: str_slice_def cps_ascii py_slice_map)

lemma ascii_takeWhile: "ascii s \<Longrightarrow> ascii (takeWhile P s)"
  by (auto simp: ascii_def dest: set_takeWhileD)

lemma str_find_ascii:
  "ascii s \<Longrightarrow> str_find s c =
     (if c \<in> set s then int (length (takeWhile (\<lambda>x. x \<noteq> c) s)) else - 1)"
  by (simp add: str_find_def cps_ascii ascii_takeWhile)

lemma py_from_append [text_simps]: "i = int (length p) \<Longrightarrow> py_from (p @ q) i = q"
  by (simp add: py_from_def py_idx_def)

lemma py_slice_append [text_simps]:
  "i = int (length p) \<Longrightarrow> j = int (length p + length q) \<Longrightarrow> py_slice (p @ q @ r) i j = q"
  by (auto simp: py_slice_def py_idx_def)

lemma py_slice_prefix: "j = int (length q) \<Longrightarrow> py_slice (q @ r) 0 j = q"
  using py_slice_append [of 0 "[]" j q r] by simp

lemma takeWhile_neq [text_simps]: "c \<notin> set p \<Longrightarrow> takeWhile (\<lambda>x. x \<noteq> c) p = p"
  by (auto simp: takeWhile_eq_all_conv)

lemma str_find_append:
  "ascii p \<Longrightarrow> c \<notin> set p \<Longrightarrow> str_find (p @ c # q) c = int (length p)"
  by (simp add: str_find_def takeWhile_tail cps_ascii takeWhile_neq)

subsection \<open>strip, join and split\<close>

definition lstrip :: "str \<Rightarrow> str" where
  "lstrip s = dropWhile is_space s"

definition strip :: "str \<Rightarrow> str" where
  "strip s = rev (lstrip (rev (lstrip s)))"

lemma lstrip_id: "s = [] \<or> \<not> is_space (hd s) \<Longrightarrow> lstrip s = s"
  by (cases s) (auto simp: lstrip_def)

lemma strip_Nil [simp]: "strip [] = []"
  by (simp add: strip_def lstrip_def)

lemma strip_id: "s = [] \<or> (\<not> is_space (hd s) \<and> \<not> is_space (last s)) \<Longrightarrow> strip s = s"
  by (cases "s = []") (auto simp: strip_def lstrip_id hd_rev)


lemma is_space_newline [simp]: "is_space newline"
  by (simp add: is_space_def newline_def)

lemma strip_append_space: "is_space x \<Longrightarrow> strip (s @ [x]) = strip s"
proof (cases "lstrip s = []")
  case True
  then have "\<forall>c \<in> set s. is_space c"
    by (simp add: lstrip_def dropWhile_eq_Nil_conv)
  then show "is_space x \<Longrightarrow> strip (s @ [x]) = strip s"
    by (auto simp: strip_def lstrip_def dropWhile_append dropWhile_eq_Nil_conv
        dest: set_dropWhileD)
next
  case False
  then have "\<exists>c \<in> set s. \<not> is_space c"
    by (auto simp: lstrip_def dropWhile_eq_Nil_conv)
  then have "lstrip (s @ [x]) = lstrip s @ [x]"
    by (auto simp: lstrip_def dropWhile_append)
  then show "is_space x \<Longrightarrow> strip (s @ [x]) = strip s"
    by (simp add: strip_def) (simp add: lstrip_def)
qed

lemma strip_append_newline: "strip (s @ [newline]) = strip s"
  by (simp add: strip_append_space)

text \<open>\<^verbatim>\<open>" ".join(ws)\<close>\<close>

fun join_sp :: "str list \<Rightarrow> str" where
  "join_sp [] = []"
| "join_sp [w] = w"
| "join_sp (w # ws) = w @ '' '' @ join_sp ws"

text \<open>
  \<^verbatim>\<open>s.split(sep)\<close> for the two separators of the program, each one character doubled:
  the leftmost occurrence ends a part, and the search goes on after it.
\<close>

fun split2 :: "char \<Rightarrow> str \<Rightarrow> str list" where
  "split2 a [] = [[]]"
| "split2 a [x] = [[x]]"
| "split2 a (x # y # zs) =
     (if x = a \<and> y = a then [] # split2 a zs
      else (case split2 a (y # zs) of p # ps \<Rightarrow> (x # p) # ps | [] \<Rightarrow> [[x]]))"

lemma split2_nonempty [simp]: "split2 a s \<noteq> []"
  by (induction a s rule: split2.induct) (auto split: list.splits)

lemma split2_first: "a \<notin> set p \<Longrightarrow> split2 a (p @ a # a # q) = p # split2 a q"
proof (induction p)
  case Nil
  then show ?case by simp
next
  case (Cons x p)
  then have "split2 a (p @ a # a # q) = p # split2 a q"
    by simp
  moreover obtain y zs where y: "p @ a # a # q = y # zs" and "y = a \<or> y \<in> set p"
    by (cases p) auto
  ultimately show ?case
    using Cons.prems by auto
qed

lemma split2_none: "a \<notin> set p \<Longrightarrow> split2 a p = [p]"
  by (induction a p rule: split2.induct) auto

definition no_sep :: "char \<Rightarrow> str \<Rightarrow> bool" where
  \<comment> \<open>the doubled character does not occur\<close>
  "no_sep a s \<longleftrightarrow> split2 a s = [s]"

lemma no_sepI: "a \<notin> set s \<Longrightarrow> no_sep a s"
  by (simp add: no_sep_def split2_none)

lemma no_sep_Cons: "no_sep a s \<Longrightarrow> x \<noteq> a \<Longrightarrow> no_sep a (x # s)"
  by (cases s) (auto simp: no_sep_def)

lemma no_sep_prefix: "no_sep a s \<Longrightarrow> a \<notin> set p \<Longrightarrow> no_sep a (p @ s)"
  by (induction p) (auto intro: no_sep_Cons)

lemma split2_whole: "split2 a s = [p] \<Longrightarrow> p = s"
  by (induction a s arbitrary: p rule: split2.induct) (auto split: if_splits list.splits)

lemma no_sep_snoc: "no_sep a s \<Longrightarrow> x \<noteq> a \<Longrightarrow> no_sep a (s @ [x])"
  unfolding no_sep_def
proof (induction a s rule: split2.induct)
  case (3 a y z zs)
  then have "split2 a (z # zs) = [z # zs]"
    by (auto split: if_splits list.splits dest: split2_whole)
  with 3 show ?case
    by (auto split: if_splits list.splits)
qed auto

section \<open>Numerals\<close>

definition digit_char :: "nat \<Rightarrow> char" where
  "digit_char d = char_of (48 + d)"

fun show_nat :: "nat \<Rightarrow> str" where
  "show_nat n = (if n < 10 then [digit_char n] else show_nat (n div 10) @ [digit_char (n mod 10)])"

declare show_nat.simps [simp del]

definition repr_int :: "int \<Rightarrow> str" where
  \<comment> \<open>\<^verbatim>\<open>repr\<close>, \<^verbatim>\<open>str\<close> and \<^verbatim>\<open>%d\<close> of an int\<close>
  "repr_int i = (if i < 0 then ''-'' @ show_nat (nat (- i)) else show_nat (nat i))"

definition digit_val :: "char \<Rightarrow> nat" where
  "digit_val c = code c - 48"

text \<open>The digits of \<^verbatim>\<open>int()\<close>: an underscore may stand between two digits.\<close>

fun int_tail :: "nat \<Rightarrow> str \<Rightarrow> nat option" where
  "int_tail acc [] = Some acc"
| "int_tail acc (c # cs) =
     (if is_digit c then int_tail (10 * acc + digit_val c) cs
      else if c = CHR ''_'' then
        (case cs of
           d # ds \<Rightarrow> if is_digit d then int_tail (10 * acc + digit_val d) ds else None
         | [] \<Rightarrow> None)
      else None)"

fun int_digits :: "str \<Rightarrow> nat option" where
  "int_digits [] = None"
| "int_digits (c # cs) = (if is_digit c then int_tail (digit_val c) cs else None)"

definition cstrip :: "str \<Rightarrow> str" where
  "cstrip s = rev (dropWhile is_cspace (rev (dropWhile is_cspace s)))"

definition py_int :: "str \<Rightarrow> int option" where
  \<comment> \<open>\<^verbatim>\<open>int(s)\<close>; \<open>None\<close> is the \<^verbatim>\<open>ValueError\<close>\<close>
  "py_int s = (case cstrip s of
       [] \<Rightarrow> None
     | c # cs \<Rightarrow>
         if c = CHR ''-'' then map_option (\<lambda>n. - int n) (int_digits cs)
         else if c = CHR ''+'' then map_option int (int_digits cs)
         else map_option int (int_digits (c # cs)))"

lemma code_digit_char: "d < 10 \<Longrightarrow> code (digit_char d) = 48 + d"
  by (simp add: digit_char_def)

lemma is_digit_digit_char: "d < 10 \<Longrightarrow> is_digit (digit_char d)"
  by (simp add: is_digit_def code_digit_char)

lemma digit_val_digit_char: "d < 10 \<Longrightarrow> digit_val (digit_char d) = d"
  by (simp add: digit_val_def code_digit_char)

lemma show_nat_nonempty [simp]: "show_nat n \<noteq> []"
  by (subst show_nat.simps) simp

lemma show_nat_digits: "c \<in> set (show_nat n) \<Longrightarrow> is_digit c"
proof (induction n rule: show_nat.induct)
  case (1 n)
  then show ?case
    by (subst (asm) (2) show_nat.simps) (auto simp: is_digit_digit_char split: if_splits)
qed

lemma show_nat_ascii: "ascii (show_nat n)"
  by (auto simp: ascii_def dest!: show_nat_digits is_digit_ascii)

lemma repr_int_ascii: "ascii (repr_int i)"
  by (simp add: repr_int_def show_nat_ascii)

lemma int_tail_append:
  "\<forall>c \<in> set s. is_digit c \<Longrightarrow> is_digit d \<Longrightarrow>
     int_tail acc (s @ [d]) = map_option (\<lambda>n. 10 * n + digit_val d) (int_tail acc s)"
  by (induction s arbitrary: acc) auto

lemma int_digits_append:
  assumes "s \<noteq> []" and "\<forall>c \<in> set s. is_digit c" and "is_digit d"
  shows "int_digits (s @ [d]) = map_option (\<lambda>n. 10 * n + digit_val d) (int_digits s)"
  using assms by (cases s) (auto simp: int_tail_append)

lemma int_digits_show_nat: "int_digits (show_nat n) = Some n"
proof (induction n rule: show_nat.induct)
  case (1 n)
  show ?case
  proof (cases "n < 10")
    case True
    then show ?thesis
      by (subst show_nat.simps) (simp add: is_digit_digit_char digit_val_digit_char)
  next
    case False
    then have "show_nat n = show_nat (n div 10) @ [digit_char (n mod 10)]"
      by (subst show_nat.simps) simp
    moreover have "int_digits (show_nat (n div 10)) = Some (n div 10)"
      using 1 False by simp
    ultimately show ?thesis
      by (simp add: int_digits_append show_nat_digits is_digit_digit_char digit_val_digit_char)
  qed
qed

lemma digit_not_cspace: "is_digit c \<Longrightarrow> \<not> is_cspace c"
  by (auto simp: is_digit_def is_cspace_def)

lemma dropWhile_none: "\<forall>c \<in> set s. \<not> P c \<Longrightarrow> dropWhile P s = s"
  by (cases s) auto

lemma cstrip_trim:
  assumes s: "\<forall>c \<in> set s. \<not> is_cspace c" and t: "\<forall>c \<in> set t. is_cspace c"
  shows "cstrip (s @ t) = s"
proof -
  have "dropWhile is_cspace (s @ t) = (if s = [] then [] else s @ t)"
    using s t by (cases s) (auto simp: dropWhile_eq_Nil_conv)
  moreover have "dropWhile is_cspace (rev t @ rev s) = rev s"
    using s t by (subst dropWhile_append2) (auto intro: dropWhile_none)
  ultimately show ?thesis
    by (auto simp: cstrip_def)
qed

lemma py_int_digits:
  assumes "d \<noteq> []" and "\<forall>c \<in> set d. is_digit c" and "\<forall>c \<in> set t. is_cspace c"
  shows "py_int (d @ t) = map_option int (int_digits d)"
proof -
  have "cstrip (d @ t) = d"
    using assms by (intro cstrip_trim) (auto dest: digit_not_cspace)
  moreover obtain c cs where d: "d = c # cs"
    using assms(1) by (cases d) auto
  moreover have "c \<noteq> CHR ''-''" "c \<noteq> CHR ''+''"
    using assms(2) d by (auto simp: is_digit_def)
  ultimately show ?thesis
    by (simp add: py_int_def)
qed

text \<open>\<^verbatim>\<open>int(repr(n))\<close> is \<^verbatim>\<open>n\<close>, also with white space after it.\<close>

lemma py_int_show_nat:
  "\<forall>c \<in> set t. is_cspace c \<Longrightarrow> py_int (show_nat n @ t) = Some (int n)"
  by (simp add: py_int_digits show_nat_digits int_digits_show_nat)

lemma py_int_repr_int: "py_int (repr_int i) = Some i"
proof (cases "i < 0")
  case False
  then show ?thesis
    using py_int_show_nat [of "[]" "nat i"] by (simp add: repr_int_def)
next
  case True
  then have "cstrip (repr_int i) = ''-'' @ show_nat (nat (- i))"
    using cstrip_trim [of "repr_int i" "[]"] show_nat_digits digit_not_cspace
    by (auto simp: repr_int_def) (auto simp: is_cspace_def)
  then show ?thesis
    using True by (simp add: py_int_def int_digits_show_nat)
qed

end
