(* ===== verification/Py_Effects.thy ===== *)
theory Py_Effects
  imports Py_Prelude
begin

text \<open>
  Python statements with effects. A computation of type \<open>('w, 'a) io\<close> reads and updates a
  world of type \<open>'w\<close> and ends in one of four ways: it returns a value, it raises an
  exception, it waits for input that has not arrived (a blocking read at the end of the input
  that the run is given), or its process is gone (\<^verbatim>\<open>os._exit\<close>, a signal that kills).
  Exceptions and their \<^verbatim>\<open>except\<close> clauses are values, so each of them is a branch of the model.
\<close>

section \<open>Exceptions and results\<close>

datatype exn =
    RuntimeError str
  | ValueError
  | TypeError
  | AttributeError
  | KeyError
  | IndexError
  | UnboundLocalError
  | UnicodeDecodeError
  | OverflowError
  | OSError
  | BrokenPipeError
  | ConnectionResetError
  | ProcessLookupError
  | PermissionError
  | InitializationError str
  | IpBenchError str
  | KeyboardInterrupt
  | SystemExit int

text \<open>\<^verbatim>\<open>except Exception\<close> catches everything but \<^verbatim>\<open>KeyboardInterrupt\<close> and \<^verbatim>\<open>SystemExit\<close>.\<close>

fun is_Exception :: "exn \<Rightarrow> bool" where
  "is_Exception KeyboardInterrupt = False"
| "is_Exception (SystemExit n) = False"
| "is_Exception e = True"

datatype 'a res =
    Ret 'a
  | Raise exn
  | Wait
  | Halt

type_synonym ('w, 'a) io = "'w \<Rightarrow> 'a res \<times> 'w"

definition ret :: "'a \<Rightarrow> ('w, 'a) io" where
  "ret x = (\<lambda>w. (Ret x, w))"

definition raise :: "exn \<Rightarrow> ('w, 'a) io" where
  "raise e = (\<lambda>w. (Raise e, w))"

definition bind :: "('w, 'a) io \<Rightarrow> ('a \<Rightarrow> ('w, 'b) io) \<Rightarrow> ('w, 'b) io" where
  "bind m f = (\<lambda>w. case m w of
       (Ret x, w') \<Rightarrow> f x w'
     | (Raise e, w') \<Rightarrow> (Raise e, w')
     | (Wait, w') \<Rightarrow> (Wait, w')
     | (Halt, w') \<Rightarrow> (Halt, w'))"

text \<open>\<^verbatim>\<open>try: m; except ...: ...; else: f\<close>, with the handler chosen by \<open>h\<close>.\<close>

definition try_else ::
  "('w, 'a) io \<Rightarrow> (exn \<Rightarrow> ('w, 'b) io option) \<Rightarrow> ('a \<Rightarrow> ('w, 'b) io) \<Rightarrow> ('w, 'b) io" where
  "try_else m h f = (\<lambda>w. case m w of
       (Ret x, w') \<Rightarrow> f x w'
     | (Raise e, w') \<Rightarrow> (case h e of Some k \<Rightarrow> k w' | None \<Rightarrow> (Raise e, w'))
     | (Wait, w') \<Rightarrow> (Wait, w')
     | (Halt, w') \<Rightarrow> (Halt, w'))"

text \<open>\<^verbatim>\<open>except RuntimeError as detail:\<close> with the message of the exception.\<close>

fun except_RuntimeError :: "(str \<Rightarrow> ('w, 'a) io) \<Rightarrow> exn \<Rightarrow> ('w, 'a) io option" where
  "except_RuntimeError k (RuntimeError detail) = Some (k detail)"
| "except_RuntimeError k e = None"

fun except_ProcessLookupError :: "('w, 'a) io \<Rightarrow> exn \<Rightarrow> ('w, 'a) io option" where
  "except_ProcessLookupError k ProcessLookupError = Some k"
| "except_ProcessLookupError k e = None"

definition lift_sum :: "exn + 'a \<Rightarrow> ('w, 'a) io" where
  "lift_sum r = (case r of Inl e \<Rightarrow> raise e | Inr x \<Rightarrow> ret x)"

text \<open>\<^verbatim>\<open>except OSError:\<close>, with the subclasses that occur here.\<close>

fun is_OSError :: "exn \<Rightarrow> bool" where
  "is_OSError OSError = True"
| "is_OSError BrokenPipeError = True"
| "is_OSError ConnectionResetError = True"
| "is_OSError ProcessLookupError = True"
| "is_OSError PermissionError = True"
| "is_OSError e = False"

text \<open>\<^verbatim>\<open>for x in xs: f(x)\<close>\<close>

fun for_each :: "'a list \<Rightarrow> ('a \<Rightarrow> ('w, unit) io) \<Rightarrow> ('w, unit) io" where
  "for_each [] f = ret ()"
| "for_each (x # xs) f = bind (f x) (\<lambda>_. for_each xs f)"

text \<open>A computation on a part of the world.\<close>

definition zoom :: "('w \<Rightarrow> 's) \<Rightarrow> ('s \<Rightarrow> 'w \<Rightarrow> 'w) \<Rightarrow> ('s, 'a) io \<Rightarrow> ('w, 'a) io" where
  "zoom get put m = (\<lambda>w. case m (get w) of (r, s) \<Rightarrow> (r, put s w))"

lemma bind_cong [fundef_cong]:
  assumes "m w = m' w'" and "w = w'"
    and "\<And>x v. m' w' = (Ret x, v) \<Longrightarrow> f x v = f' x v"
  shows "bind m f w = bind m' f' w'"
  using assms by (auto simp: bind_def split: prod.splits res.splits)

lemma try_else_cong [fundef_cong]:
  assumes "m w = m' w'" and "w = w'"
    and "\<And>e v. m' w' = (Raise e, v) \<Longrightarrow> h e = h' e"
    and "\<And>x v. m' w' = (Ret x, v) \<Longrightarrow> f x v = f' x v"
  shows "try_else m h f w = try_else m' h' f' w'"
  using assms by (auto simp: try_else_def split: prod.splits res.splits option.splits)

lemma ret_apply [simp, io_simps]: "ret x w = (Ret x, w)"
  by (simp add: ret_def)

lemma raise_apply [simp, io_simps]: "raise e w = (Raise e, w)"
  by (simp add: raise_def)

lemma bind_results:
  "m w = (Ret x, w') \<Longrightarrow> bind m f w = f x w'"
  "m w = (Raise e, w') \<Longrightarrow> bind m f w = (Raise e, w')"
  "m w = (Wait, w') \<Longrightarrow> bind m f w = (Wait, w')"
  "m w = (Halt, w') \<Longrightarrow> bind m f w = (Halt, w')"
  by (simp_all add: bind_def)

lemma try_else_results:
  "m w = (Ret x, w') \<Longrightarrow> try_else m h f w = f x w'"
  "m w = (Raise e, w') \<Longrightarrow> h e = Some k \<Longrightarrow> try_else m h f w = k w'"
  "m w = (Raise e, w') \<Longrightarrow> h e = None \<Longrightarrow> try_else m h f w = (Raise e, w')"
  "m w = (Wait, w') \<Longrightarrow> try_else m h f w = (Wait, w')"
  "m w = (Halt, w') \<Longrightarrow> try_else m h f w = (Halt, w')"
  by (simp_all add: try_else_def)

lemma bind_eval:
  "bind m f w = (case m w of
       (Ret x, w') \<Rightarrow> f x w' | (Raise e, w') \<Rightarrow> (Raise e, w')
     | (Wait, w') \<Rightarrow> (Wait, w') | (Halt, w') \<Rightarrow> (Halt, w'))"
  by (simp add: bind_def)

lemma try_else_eval:
  "try_else m h f w = (case m w of
       (Ret x, w') \<Rightarrow> f x w'
     | (Raise e, w') \<Rightarrow> (case h e of Some k \<Rightarrow> k w' | None \<Rightarrow> (Raise e, w'))
     | (Wait, w') \<Rightarrow> (Wait, w') | (Halt, w') \<Rightarrow> (Halt, w'))"
  by (simp add: try_else_def)

lemma bind_ret [simp]: "bind (ret x) f = f x"
  by (simp add: bind_def)

lemma bind_raise [simp]: "bind (raise e) f = raise e"
  by (simp add: bind_def raise_def)

lemma bind_assoc: "bind (bind m f) g = bind m (\<lambda>x. bind (f x) g)"
  by (auto simp: bind_def fun_eq_iff split: prod.splits res.splits)

lemma for_each_append: "for_each (xs @ ys) f = bind (for_each xs f) (\<lambda>_. for_each ys f)"
  by (induction xs) (simp_all add: bind_assoc del: ret_apply)

lemma bind_RetE:
  assumes "bind m f w = (Ret y, w'')"
  obtains x w' where "m w = (Ret x, w')" and "f x w' = (Ret y, w'')"
  using assms by (auto simp: bind_def split: prod.splits res.splits)

text \<open>The same elimination for the whole result of a sequence.\<close>

lemma bind_split:
  "P (bind m f w) \<longleftrightarrow>
     (\<forall>x w'. m w = (Ret x, w') \<longrightarrow> P (f x w')) \<and>
     (\<forall>e w'. m w = (Raise e, w') \<longrightarrow> P (Raise e, w')) \<and>
     (\<forall>w'. m w = (Wait, w') \<longrightarrow> P (Wait, w')) \<and>
     (\<forall>w'. m w = (Halt, w') \<longrightarrow> P (Halt, w'))"
  by (auto simp: bind_def split: prod.splits res.splits)

lemma try_else_split:
  "P (try_else m h f w) \<longleftrightarrow>
     (\<forall>x w'. m w = (Ret x, w') \<longrightarrow> P (f x w')) \<and>
     (\<forall>e w' k. m w = (Raise e, w') \<longrightarrow> h e = Some k \<longrightarrow> P (k w')) \<and>
     (\<forall>e w'. m w = (Raise e, w') \<longrightarrow> h e = None \<longrightarrow> P (Raise e, w')) \<and>
     (\<forall>w'. m w = (Wait, w') \<longrightarrow> P (Wait, w')) \<and>
     (\<forall>w'. m w = (Halt, w') \<longrightarrow> P (Halt, w'))"
  by (auto simp: try_else_def split: prod.splits res.splits option.splits)

section \<open>What a computation keeps\<close>

text \<open>
  \<open>step_inv R m\<close>: the world after \<open>m\<close> is related to the world before it by \<open>R\<close>, however
  \<open>m\<close> ends. For a transitive and reflexive \<open>R\<close> the rule of each construct follows from the
  rules of its parts, so frames ("this field is not written"), invariants and monotonicity
  ("the output only grows") of a handler are proved from those of the calls it makes.
\<close>

definition step_inv :: "('w \<Rightarrow> 'w \<Rightarrow> bool) \<Rightarrow> ('w, 'a) io \<Rightarrow> bool" where
  "step_inv R m \<longleftrightarrow> (\<forall>w. R w (snd (m w)))"

named_theorems step_invs \<open>step invariants of the operations\<close>

locale world_order =
  fixes R :: "'w \<Rightarrow> 'w \<Rightarrow> bool"
  assumes r_refl: "R w w"
    and r_trans: "R w w' \<Longrightarrow> R w' w'' \<Longrightarrow> R w w''"
begin

lemma inv_ret: "step_inv R (ret x)"
  by (simp add: step_inv_def r_refl)

lemma inv_raise: "step_inv R (raise e)"
  by (simp add: step_inv_def r_refl)

lemma at_bind:
  assumes "R w (snd (m w))"
    and "\<And>x w'. m w = (Ret x, w') \<Longrightarrow> R w' (snd (f x w'))"
  shows "R w (snd (bind m f w))"
  using assms
  by (cases "m w", cases "fst (m w)") (auto simp: bind_results intro: r_trans)

lemma at_step: "step_inv R m \<Longrightarrow> R w (snd (m w))"
  by (simp add: step_inv_def)

lemma inv_bind:
  assumes "step_inv R m" and "\<And>x. step_inv R (f x)"
  shows "step_inv R (bind m f)"
  using assms by (auto simp: step_inv_def intro!: at_bind)

lemma at_try_else:
  assumes "R w (snd (m w))"
    and "\<And>e k w'. m w = (Raise e, w') \<Longrightarrow> h e = Some k \<Longrightarrow> R w' (snd (k w'))"
    and "\<And>x w'. m w = (Ret x, w') \<Longrightarrow> R w' (snd (f x w'))"
  shows "R w (snd (try_else m h f w))"
  using assms
  by (auto simp: try_else_def split: prod.splits res.splits option.splits intro: r_trans)

lemma inv_try_else:
  assumes "step_inv R m" and "\<And>e k. h e = Some k \<Longrightarrow> step_inv R k" and "\<And>x. step_inv R (f x)"
  shows "step_inv R (try_else m h f)"
  using assms by (auto simp: step_inv_def intro!: at_try_else)

lemma inv_if: "(b \<Longrightarrow> step_inv R m) \<Longrightarrow> (\<not> b \<Longrightarrow> step_inv R m') \<Longrightarrow> step_inv R (if b then m else m')"
  by simp

lemma inv_option:
  "(y = None \<Longrightarrow> step_inv R m) \<Longrightarrow> (\<And>x. y = Some x \<Longrightarrow> step_inv R (f x)) \<Longrightarrow>
     step_inv R (case y of None \<Rightarrow> m | Some x \<Rightarrow> f x)"
  by (cases y) simp_all

lemma inv_prod: "(\<And>a b. step_inv R (f a b)) \<Longrightarrow> step_inv R (case p of (a, b) \<Rightarrow> f a b)"
  by (cases p) simp

end

end
