(* ===== verification/Test_Status.thy ===== *)
theory Test_Status
  imports Py_Effects
begin

text \<open>
  The class \<^verbatim>\<open>TestStatus\<close> of \<^verbatim>\<open>ipbenchd.py\<close>: the pid of the process that runs a test, written
  as a decimal line at the start of 20 bytes of shared anonymous memory. The memory is a byte
  list with the position of the \<^verbatim>\<open>mmap\<close> object; every operation of the class is a computation
  on it. \<open>shm_holds m p\<close> says what the memory stands for: \<open>m\<close> holds the number \<open>p\<close>, whatever
  an earlier, longer line left behind it. The interface \<open>pid_cell\<close> states the contract the
  handlers rely on, and is interpreted on the class's own operations.
\<close>

record shm =
  mm_buf :: bytes
  mm_pos :: nat

section \<open>The operations of mmap objects that the class uses\<close>

definition mmap_write :: "bytes \<Rightarrow> (shm, unit) io" where
  "mmap_write b m =
     (if mm_pos m + length b \<le> length (mm_buf m)
      then (Ret (), m\<lparr>mm_buf := take (mm_pos m) (mm_buf m) @ b @ drop (mm_pos m + length b) (mm_buf m),
                      mm_pos := mm_pos m + length b\<rparr>)
      else (Raise ValueError, m))"

definition mmap_seek :: "nat \<Rightarrow> (shm, unit) io" where
  "mmap_seek n m = (Ret (), m\<lparr>mm_pos := n\<rparr>)"

definition mmap_readline :: "(shm, bytes) io" where
  "mmap_readline m =
     (let rest = drop (mm_pos m) (mm_buf m);
          line = takeWhile (\<lambda>c. c \<noteq> newline) rest @ (if newline \<in> set rest then nl else [])
      in (Ret line, m\<lparr>mm_pos := mm_pos m + length line\<rparr>))"

definition mmap_set_head :: "bytes \<Rightarrow> (shm, unit) io" where
  \<comment> \<open>\<^verbatim>\<open>self.mmap_obj[0:len(b)] = b\<close>\<close>
  "mmap_set_head b m = (Ret (), m\<lparr>mm_buf := b @ drop (length b) (mm_buf m)\<rparr>)"

section \<open>The class\<close>

definition write_pid :: "int \<Rightarrow> (shm, unit) io" where
  "write_pid pid = bind (mmap_write (repr_int pid @ nl)) (\<lambda>_. mmap_seek 0)"

definition read_pid :: "(shm, int) io" where
  "read_pid =
     bind mmap_readline (\<lambda>string_pid.
     bind (mmap_seek 0) (\<lambda>_.
       case py_int string_pid of None \<Rightarrow> raise ValueError | Some p \<Rightarrow> ret p))"

text \<open>The argument of \<^verbatim>\<open>dbprint\<close> is evaluated whether or not debugging is on.\<close>

definition clear_pid :: "(shm, unit) io" where
  "clear_pid =
     bind (mmap_set_head (''0'' @ nl)) (\<lambda>_.
     bind read_pid (\<lambda>_. ret ()))"

definition running :: "int \<Rightarrow> (shm, unit) io" where
  "running pid = write_pid pid"

definition not_running :: "(shm, unit) io" where
  "not_running = clear_pid"

definition is_running :: "(shm, bool) io" where
  "is_running = bind read_pid (\<lambda>p. ret (p > 0))"

definition running_pid :: "(shm, int) io" where
  "running_pid = read_pid"

definition TestStatus :: "unit res \<times> shm" where
  \<comment> \<open>the constructor: \<^verbatim>\<open>mmap.mmap(-1, 20, ...)\<close> is 20 zero bytes at position 0\<close>
  "TestStatus = clear_pid \<lparr>mm_buf = replicate 20 (CHR 0x00), mm_pos = 0\<rparr>"

section \<open>What the memory stands for\<close>

definition shm_holds :: "shm \<Rightarrow> nat \<Rightarrow> bool" where
  "shm_holds m p \<longleftrightarrow> mm_pos m = 0 \<and> length (mm_buf m) = 20 \<and>
     take (Suc (length (show_nat p))) (mm_buf m) = show_nat p @ nl"

lemma length_show_nat: "n < 10 ^ Suc k \<Longrightarrow> length (show_nat n) \<le> Suc k"
proof (induction k arbitrary: n)
  case 0
  then show ?case by (subst show_nat.simps) simp
next
  case (Suc k)
  show ?case
  proof (cases "n < 10")
    case True
    then show ?thesis by (subst show_nat.simps) simp
  next
    case False
    have "n div 10 < 10 ^ Suc k"
      using Suc.prems by (simp add: less_mult_imp_div_less)
    with Suc.IH False show ?thesis
      by (subst show_nat.simps) fastforce
  qed
qed

lemma length_show_nat_ge: "10 ^ k \<le> n \<Longrightarrow> k < length (show_nat n)"
proof (induction k arbitrary: n)
  case (Suc k)
  then have "10 ^ k \<le> n div 10"
    by (simp add: less_eq_div_iff_mult_less_eq mult.commute)
  moreover have "\<not> n < 10"
    using Suc.prems one_le_power [of "10 :: nat" k] unfolding power_Suc by linarith
  ultimately show ?case
    using Suc.IH by (subst show_nat.simps) fastforce
qed simp

lemma newline_not_digit: "newline \<notin> set (show_nat p)"
  using show_nat_digits [of newline p] by (auto simp: is_digit_def newline_def)

lemma is_cspace_newline [simp]: "is_cspace newline"
  by (simp add: is_cspace_def newline_def)

lemma shm_holdsE:
  assumes "shm_holds m p"
  obtains rest where "m = \<lparr>mm_buf = show_nat p @ nl @ rest, mm_pos = 0\<rparr>"
    and "length (show_nat p) + 1 + length rest = 20"
proof -
  let ?n = "Suc (length (show_nat p))"
  have "mm_buf m = take ?n (mm_buf m) @ drop ?n (mm_buf m)"
    by simp
  also have "\<dots> = show_nat p @ nl @ drop ?n (mm_buf m)"
    using assms by (simp add: shm_holds_def)
  finally have b: "mm_buf m = show_nat p @ nl @ drop ?n (mm_buf m)" .
  then have "length (show_nat p) + 1 + length (drop ?n (mm_buf m)) = 20"
    using assms by (metis add.assoc length_append length_Cons list.size(3) nl_def plus_1_eq_Suc
        shm_holds_def One_nat_def add.commute)
  moreover have "m = \<lparr>mm_buf = show_nat p @ nl @ drop ?n (mm_buf m), mm_pos = 0\<rparr>"
    using assms b by (simp add: shm_holds_def)
  ultimately show ?thesis
    using that by blast
qed

lemma shm_holdsI:
  "length (show_nat p) + 1 + length rest = 20 \<Longrightarrow>
     shm_holds \<lparr>mm_buf = show_nat p @ nl @ rest, mm_pos = 0\<rparr> p"
  by (simp add: shm_holds_def nl_def)

lemma read_pid_holds:
  assumes "shm_holds m p"
  shows "read_pid m = (Ret (int p), m)"
proof -
  obtain rest where m: "m = \<lparr>mm_buf = show_nat p @ nl @ rest, mm_pos = 0\<rparr>"
    using assms by (rule shm_holdsE)
  have "mmap_readline m = (Ret (show_nat p @ nl), m\<lparr>mm_pos := length (show_nat p) + 1\<rparr>)"
    using newline_not_digit [of p]
    by (simp add: m mmap_readline_def nl_def takeWhile_tail takeWhile_neq)
  moreover have "py_int (show_nat p @ nl) = Some (int p)"
    by (rule py_int_show_nat) (simp add: nl_def)
  ultimately show ?thesis
    by (simp add: read_pid_def bind_results mmap_seek_def m)
qed

lemma write_pid_holds:
  assumes "shm_holds m p" and "q < 10 ^ 19"
  shows "\<exists>m'. write_pid (int q) m = (Ret (), m') \<and> shm_holds m' q"
proof -
  have q: "length (show_nat q) \<le> 19"
    using length_show_nat [of q 18] assms(2) by simp
  have m: "mm_pos m = 0" "length (mm_buf m) = 20"
    using assms(1) by (simp_all add: shm_holds_def)
  let ?b = "show_nat q @ nl"
  let ?m = "\<lparr>mm_buf = ?b @ drop (length ?b) (mm_buf m), mm_pos = 0\<rparr>"
  have "write_pid (int q) m = (Ret (), ?m)"
    using q m by (simp add: write_pid_def repr_int_def mmap_write_def bind_results mmap_seek_def nl_def)
  moreover have "shm_holds ?m q"
    using q m shm_holdsI [of q "drop (length ?b) (mm_buf m)"] by (simp add: nl_def)
  ultimately show ?thesis by blast
qed

lemma clear_pid_any:
  assumes "mm_pos m = 0" and "length (mm_buf m) = 20"
  shows "\<exists>m'. clear_pid m = (Ret (), m') \<and> shm_holds m' 0"
proof -
  let ?m = "\<lparr>mm_buf = show_nat 0 @ nl @ drop 2 (mm_buf m), mm_pos = 0\<rparr>"
  have z: "show_nat 0 = ''0''"
    by code_simp
  then have h: "shm_holds ?m 0"
    using assms by (intro shm_holdsI) simp
  have "mmap_set_head (''0'' @ nl) m = (Ret (), ?m)"
    using assms z by (simp add: mmap_set_head_def nl_def numeral_2_eq_2)
  then have "clear_pid m = (Ret (), ?m)"
    using read_pid_holds [OF h] by (simp add: clear_pid_def bind_results)
  with h show ?thesis by blast
qed

lemma clear_pid_holds: "shm_holds m p \<Longrightarrow> \<exists>m'. clear_pid m = (Ret (), m') \<and> shm_holds m' 0"
  by (rule clear_pid_any) (auto simp: shm_holds_def)

lemma TestStatus_holds: "\<exists>m. TestStatus = (Ret (), m) \<and> shm_holds m 0"
  unfolding TestStatus_def by (rule clear_pid_any) simp_all

section \<open>The interface: a cell that holds the pid of the running test\<close>

datatype pid_op = Mark nat | Clear

fun last_pid :: "nat \<Rightarrow> pid_op list \<Rightarrow> nat" where
  "last_pid p [] = p"
| "last_pid p (Mark q # ops) = last_pid q ops"
| "last_pid p (Clear # ops) = last_pid 0 ops"

fun run_ops :: "(int \<Rightarrow> ('m, unit) io) \<Rightarrow> ('m, unit) io \<Rightarrow> pid_op list \<Rightarrow> ('m, unit) io" where
  "run_ops wr cl [] = ret ()"
| "run_ops wr cl (Mark q # ops) = bind (wr (int q)) (\<lambda>_. run_ops wr cl ops)"
| "run_ops wr cl (Clear # ops) = bind cl (\<lambda>_. run_ops wr cl ops)"

definition marks_below :: "nat \<Rightarrow> pid_op list \<Rightarrow> bool" where
  "marks_below b ops \<longleftrightarrow> (\<forall>q. Mark q \<in> set ops \<longrightarrow> q < b)"

locale pid_cell =
  fixes holds :: "'m \<Rightarrow> nat \<Rightarrow> bool"
    and rd :: "('m, int) io"
    and wr :: "int \<Rightarrow> ('m, unit) io"
    and cl :: "('m, unit) io"
    and cap :: nat
  assumes rd_law: "holds m p \<Longrightarrow> rd m = (Ret (int p), m)"
    and wr_law: "holds m p \<Longrightarrow> q < cap \<Longrightarrow> \<exists>m'. wr (int q) m = (Ret (), m') \<and> holds m' q"
    and cl_law: "holds m p \<Longrightarrow> \<exists>m'. cl m = (Ret (), m') \<and> holds m' 0"
begin

lemma holds_unique: "holds m p \<Longrightarrow> holds m q \<Longrightarrow> p = q"
  using rd_law [of m p] rd_law [of m q] by simp

lemma run_last:
  "holds m p \<Longrightarrow> marks_below cap ops \<Longrightarrow>
     \<exists>m'. run_ops wr cl ops m = (Ret (), m') \<and> holds m' (last_pid p ops)"
proof (induction ops arbitrary: m p)
  case Nil
  then show ?case by simp
next
  case (Cons op ops)
  then have ops: "marks_below cap ops"
    by (simp add: marks_below_def)
  show ?case
  proof (cases op)
    case (Mark q)
    with Cons.prems obtain m' where "wr (int q) m = (Ret (), m')" "holds m' q"
      using wr_law [of m p q] by (auto simp: marks_below_def)
    with Cons.IH ops Mark show ?thesis
      by (simp add: bind_results)
  next
    case Clear
    with Cons.prems obtain m' where "cl m = (Ret (), m')" "holds m' 0"
      using cl_law by blast
    with Cons.IH ops Clear show ?thesis
      by (simp add: bind_results)
  qed
qed

lemma read_last:
  assumes "holds m p" and "marks_below cap ops"
  shows "fst (bind (run_ops wr cl ops) (\<lambda>_. rd) m) = Ret (int (last_pid p ops))"
  using run_last [OF assms] rd_law by (auto simp: bind_results)

end

interpretation status_cell: pid_cell shm_holds read_pid write_pid clear_pid "10 ^ 19"
  by unfold_locales (rule read_pid_holds write_pid_holds clear_pid_holds; assumption)+

section \<open>The operations as the handlers use them\<close>

lemma is_running_holds: "shm_holds m p \<Longrightarrow> is_running m = (Ret (0 < p), m)"
  by (simp add: is_running_def bind_results status_cell.rd_law)

lemma running_pid_holds: "shm_holds m p \<Longrightarrow> running_pid m = (Ret (int p), m)"
  by (simp add: running_pid_def status_cell.rd_law)

lemma running_holds:
  "shm_holds m p \<Longrightarrow> q < 10 ^ 19 \<Longrightarrow> \<exists>m'. running (int q) m = (Ret (), m') \<and> shm_holds m' q"
  by (simp add: running_def status_cell.wr_law)

lemma not_running_holds: "shm_holds m p \<Longrightarrow> \<exists>m'. not_running m = (Ret (), m') \<and> shm_holds m' 0"
  by (simp add: not_running_def status_cell.cl_law)

lemma running_too_long:
  assumes "shm_holds m p" and "10 ^ 19 \<le> q"
  shows "running (int q) m = (Raise ValueError, m)"
proof -
  have "\<not> mm_pos m + length (show_nat q @ nl) \<le> length (mm_buf m)"
    using assms length_show_nat_ge [of 19 q] by (simp add: shm_holds_def nl_def)
  then show ?thesis
    by (simp add: running_def write_pid_def repr_int_def bind_eval mmap_write_def)
qed

end
