(* ===== verification/Status_Codes.thy ===== *)
theory Status_Codes
  imports Py_Effects
begin

text \<open>
  The text of the control protocol: the reply lines that \<^verbatim>\<open>str_status\<close> of \<^verbatim>\<open>ipbenchd.py\<close> builds
  and \<^verbatim>\<open>IpbenchTestClient._parse_return_code\<close> of \<^verbatim>\<open>ipbench.py\<close> reads, and the two help
  texts. The round trip between the two programs is \<open>parse_str_status\<close>.
\<close>

section \<open>Replies, as the daemon writes them\<close>

definition HELP_TEXT :: str where
  "HELP_TEXT = nl @ ''HELP OPTIONS'' @ nl @ ''------------'' @ nl @ ''HELP'' @ nl @ ''HELLO''
     @ nl @ ''LOAD''
     @ nl @ ''SETUP target::<test-target>||port::<test-port>||args::<test-args>''
     @ nl @ ''START'' @ nl @ ''ABORT'' @ nl @ ''STATUS'' @ nl @ ''QUIT'' @ nl"

definition HELP_TEXT_TARGET :: str where
  "HELP_TEXT_TARGET = nl @ ''HELP OPTIONS'' @ nl @ ''------------'' @ nl @ ''HELP'' @ nl @ ''HELLO''
     @ nl @ ''LOAD'' @ nl @ ''SETUP args::<target-test-args>''
     @ nl @ ''START'' @ nl @ ''STOP'' @ nl @ ''ABORT'' @ nl @ ''STATUS'' @ nl @ ''QUIT'' @ nl"

fun errCodes :: "int \<Rightarrow> str option" where
  "errCodes errCode =
     (if errCode = 100 then Some ''IPBENCH V1.0''
      else if errCode = 200 then Some ''OK''
      else if errCode = 220 then Some ''VALID DATA''
      else if errCode = 221 then Some ''INVALID DATA''
      else if errCode = 222 then Some ''CLOSING CONTROL CONNECTION''
      else if errCode = 400 then Some ''ERROR''
      else if errCode = 421 then Some ''SERVICE NOT AVAILABLE''
      else if errCode = 451 then Some ''LOCAL PROCESSING ERROR''
      else if errCode = 500 then Some ''SYNTAX ERROR''
      else None)"

declare errCodes.simps [simp del]

lemma known_codes [simp]:
  "errCodes 100 = Some ''IPBENCH V1.0''" "errCodes 200 = Some ''OK''"
  "errCodes 220 = Some ''VALID DATA''" "errCodes 221 = Some ''INVALID DATA''"
  "errCodes 222 = Some ''CLOSING CONTROL CONNECTION''"
  "errCodes 421 = Some ''SERVICE NOT AVAILABLE''"
  "errCodes 451 = Some ''LOCAL PROCESSING ERROR''" "errCodes 500 = Some ''SYNTAX ERROR''"
  by (simp_all add: errCodes.simps)

definition str_status :: "int \<Rightarrow> str list \<Rightarrow> exn + str" where
  "str_status errCode msg =
     (case errCodes errCode of
        None \<Rightarrow> Inl KeyError
      | Some t \<Rightarrow>
          if length msg = 0 then Inr (repr_int errCode @ '' '' @ t @ nl)
          else Inr (repr_int errCode @ '' '' @ t @ '' ('' @ join_sp msg @ '')'' @ nl))"

section \<open>Replies, as the controller reads them\<close>

record return_code =
  rc_code :: int
  rc_str :: str
  rc_msg :: str

definition parse_return_code_text :: "str \<Rightarrow> exn + return_code" where
  "parse_return_code_text data =
     (case py_int (str_slice data 0 3) of
        None \<Rightarrow> Inl ValueError
      | Some c \<Rightarrow>
          let fence1 = str_find data (CHR ''('') in
          if fence1 = - 1
          then Inr \<lparr>rc_code = c, rc_str = strip (str_from data 4), rc_msg = []\<rparr>
          else let fence2 = str_find data (CHR '')'') in
            Inr \<lparr>rc_code = c, rc_str = strip (str_slice data 4 fence1),
                 rc_msg = strip (str_slice data (fence1 + 1) fence2)\<rparr>)"

section \<open>Commands, as the controller builds them\<close>

definition load_message :: "str \<Rightarrow> str" where
  "load_message test_name = ''LOAD '' @ test_name"

definition setup_message :: "str \<Rightarrow> int \<Rightarrow> str \<Rightarrow> str" where
  "setup_message target port args =
     ''SETUP target::'' @ target @ ''||'' @ ''port::'' @ repr_int port @ ''||'' @ ''args::\"'' @ args @ ''\"''"

definition target_setup_message :: "str \<Rightarrow> str" where
  "target_setup_message args = ''SETUP args::\"'' @ args @ ''\"''"

section \<open>The round trip\<close>

definition no_paren :: "str \<Rightarrow> bool" where
  "no_paren s \<longleftrightarrow> CHR ''('' \<notin> set s \<and> CHR '')'' \<notin> set s"

definition head_ok :: "int \<Rightarrow> str \<Rightarrow> bool" where
  "head_ok c t \<longleftrightarrow> length (repr_int c) = 3 \<and> no_paren (repr_int c) \<and> no_paren t \<and> ascii t
     \<and> strip (t @ nl) = t \<and> strip (t @ '' '') = t"

lemma errCodes_head: "errCodes c = Some t \<Longrightarrow> head_ok c t"
proof -
  have "head_ok 100 ''IPBENCH V1.0''" "head_ok 200 ''OK''" "head_ok 220 ''VALID DATA''"
    "head_ok 221 ''INVALID DATA''" "head_ok 222 ''CLOSING CONTROL CONNECTION''"
    "head_ok 400 ''ERROR''" "head_ok 421 ''SERVICE NOT AVAILABLE''"
    "head_ok 451 ''LOCAL PROCESSING ERROR''" "head_ok 500 ''SYNTAX ERROR''"
    by code_simp+
  moreover assume "errCodes c = Some t"
  ultimately show ?thesis
    by (auto simp: errCodes.simps split: if_splits)
qed

lemma ascii_nl [simp]: "ascii nl"
  by (simp add: nl_def newline_def)

lemma slice_code:
  assumes "ascii (p @ q)" and "length p = 3"
  shows "str_slice (p @ q) 0 3 = p"
  using assms by (simp only: str_slice_ascii) (simp add: py_slice_prefix)

lemma parse_plain:
  assumes h: "head_ok c t"
  shows "parse_return_code_text (repr_int c @ '' '' @ t @ nl)
     = Inr \<lparr>rc_code = c, rc_str = t, rc_msg = []\<rparr>"
proof -
  let ?d = "repr_int c @ '' '' @ t @ nl"
  have a: "ascii ?d"
    using h by (simp add: head_ok_def repr_int_ascii)
  have "str_slice ?d 0 3 = repr_int c"
    using a h by (intro slice_code) (simp_all add: head_ok_def)
  moreover have "str_find ?d (CHR ''('') = - 1"
    using h by (simp add: str_find_def head_ok_def no_paren_def nl_def newline_def)
  moreover have "str_from ?d 4 = t @ nl"
    using a h py_from_append [of 4 "repr_int c @ '' ''" "t @ nl"]
    by (simp add: str_from_ascii head_ok_def)
  ultimately show ?thesis
    using h by (simp add: parse_return_code_text_def py_int_repr_int head_ok_def)
qed

abbreviation before_paren :: "str \<Rightarrow> str" where
  "before_paren \<equiv> takeWhile (\<lambda>x. x \<noteq> CHR '')'')"

lemma paren_split: "\<exists>r'. m @ '')'' @ r = before_paren m @ CHR '')'' # r'"
  by (induction m) auto

lemma parse_with_msg:
  assumes h: "head_ok c t" and m: "ascii m"
  shows "parse_return_code_text (repr_int c @ '' '' @ t @ '' ('' @ m @ '')'' @ nl)
     = Inr \<lparr>rc_code = c, rc_str = t, rc_msg = strip (before_paren m)\<rparr>"
proof -
  obtain r where r: "m @ '')'' @ nl = before_paren m @ CHR '')'' # r"
    using paren_split by blast
  let ?p = "repr_int c @ '' ''" and ?m = "before_paren m"
  let ?d = "repr_int c @ '' '' @ t @ '' ('' @ m @ '')'' @ nl"
  have d: "?d = ?p @ t @ '' ('' @ ?m @ CHR '')'' # r"
    using r by simp
  have len: "length (repr_int c) = 3" and np: "no_paren (repr_int c)" "no_paren t" and at: "ascii t"
    using h by (simp_all add: head_ok_def)
  have a: "ascii ?d"
    using at m by (simp add: repr_int_ascii)
  then have ar: "ascii (?p @ t @ '' ('' @ ?m @ CHR '')'' # r)"
    by (simp only: d)
  have "CHR '')'' \<notin> set ?m"
    by (auto dest: set_takeWhileD)
  then have f2: "str_find ?d (CHR '')'') = int (6 + length t + length ?m)"
    unfolding d using str_find_append [of "?p @ t @ '' ('' @ ?m" "CHR '')''" r] np at len ar
    by (simp add: no_paren_def repr_int_ascii)
  have f1: "str_find ?d (CHR ''('') = int (5 + length t)"
    unfolding d using str_find_append [of "?p @ t @ '' ''" "CHR ''(''" "?m @ CHR '')'' # r"] np at len
    by (simp add: no_paren_def repr_int_ascii)
  have "str_slice ?d 0 3 = repr_int c"
    using a len by (intro slice_code) simp_all
  moreover have "str_slice ?d 4 (int (5 + length t)) = t @ '' ''"
    unfolding d using ar len
      py_slice_append [of 4 ?p "int (5 + length t)" "t @ '' ''" "''('' @ ?m @ CHR '')'' # r"]
    by (simp add: str_slice_ascii)
  moreover have "str_slice ?d (int (5 + length t) + 1) (int (6 + length t + length ?m)) = ?m"
    unfolding d using ar len
      py_slice_append [of "int (5 + length t) + 1" "?p @ t @ '' (''"
        "int (6 + length t + length ?m)" ?m "CHR '')'' # r"]
    by (simp add: str_slice_ascii)
  ultimately show ?thesis
    using h f1 f2 by (simp add: parse_return_code_text_def py_int_repr_int head_ok_def)
qed

lemma parse_reply:
  assumes "str_status c msg = Inr s" and "ascii (join_sp msg)"
  shows "\<exists>t. errCodes c = Some t \<and>
     parse_return_code_text s = Inr \<lparr>rc_code = c, rc_str = t, rc_msg = strip (before_paren (join_sp msg))\<rparr>"
proof -
  obtain t where t: "errCodes c = Some t"
    using assms(1) by (auto simp: str_status_def split: option.splits)
  note h = errCodes_head [OF t]
  show ?thesis
    using assms t parse_plain [OF h] parse_with_msg [OF h, of "join_sp msg"]
    by (cases msg) (auto simp: str_status_def split: if_splits)
qed

end
