(* ===== verification/Shunt.thy ===== *)
theory Shunt
  imports Py_Effects
begin

text \<open>
  The extension module (\<^verbatim>\<open>src/ipbench2/src/pymod/ipbench.c\<close> and \<^verbatim>\<open>except.c\<close>) that both Python
  programs call: it loads a test plugin and forwards every call to it. The plugin, a shared
  object found in a directory at run time, is a parameter: a record of the functions of
  \<^verbatim>\<open>struct ipbench_plugin\<close> over a state of its own. A C function that returns \<open>-1\<close> is a
  \<^verbatim>\<open>RuntimeError\<close> with the text of \<^verbatim>\<open>errmsg\<close> in Python (the \<^verbatim>\<open>%exception\<close> clause of
  \<^verbatim>\<open>ipbench.i.in\<close>; every error code the C code sets is \<^verbatim>\<open>ipbench_RuntimeError\<close>); a call
  through the null plugin pointer ends the process (\<open>Halt\<close>). Times are kept in microseconds.

  A \<^verbatim>\<open>SIGUSR1\<close> stops the test of a target: its C handler runs at once, also while the plugin's
  \<^verbatim>\<open>start\<close> runs. \<open>sigusr1_at\<close> says when it arrives, and two more functions of the plugin split its
  \<^verbatim>\<open>start\<close> at that moment: \<open>pl_start_until\<close> is what it has done by then, with the time if it has
  written that yet, and \<open>pl_start_on\<close> what it does from the return of the handler to its own.

  \<open>'s shunt\<close> is such a module as the daemon sees it, and \<open>shunt_contract\<close> the contract the
  daemon's handlers rely on.
\<close>

section \<open>Plugins\<close>

record client_data =
  cd_data :: "bytes option"
  cd_size :: nat
  cd_valid :: bool

record 'p plugin =
  pl_magic :: str
  pl_name :: str
  default_port :: int
  pl_setup_client :: "str \<Rightarrow> int \<Rightarrow> str \<Rightarrow> 'p \<Rightarrow> int \<times> 'p"
  pl_setup_target :: "str \<Rightarrow> 'p \<Rightarrow> int \<times> 'p"
  pl_setup_controller :: "str option \<Rightarrow> 'p \<Rightarrow> int \<times> 'p"
  pl_start :: "'p \<Rightarrow> int \<times> int \<times> 'p"
  pl_start_until :: "'p \<Rightarrow> int option \<times> 'p"
  pl_start_on :: "'p \<Rightarrow> int \<times> int option \<times> 'p"
  pl_stop :: "'p \<Rightarrow> int \<times> int \<times> 'p"
  pl_marshall :: "int \<Rightarrow> 'p \<Rightarrow> int \<times> bytes option \<times> 'p"
  pl_unmarshall :: "bytes \<Rightarrow> 'p \<Rightarrow> int \<times> bytes option \<times> 'p"
  pl_output :: "client_data option list \<Rightarrow> 'p \<Rightarrow> int \<times> 'p"

text \<open>
  What \<^verbatim>\<open>dlopen\<close> and \<^verbatim>\<open>dlsym\<close> find behind a directory entry: nothing that loads, a shared
  object without the plugin header, or a plugin.
\<close>

datatype 'p dl_object = NotLoadable | NoHeader | Header "'p plugin"

type_synonym 'p dirent = "str \<times> 'p dl_object"

text \<open>When a \<^verbatim>\<open>SIGUSR1\<close> arrives, seen from the call of \<^verbatim>\<open>start\<close>.\<close>

datatype arrival = BeforeStart | DuringStart | AfterStart

record 'p cmod =
  scandir_result :: "'p dirent list option"
  ipbench_plugin :: "'p plugin option"
  plugin_state :: 'p
  nclients :: nat
  client_data :: "client_data option list"
  target_data :: "client_data option"
  run_secs :: int
  timer_start :: int
  errmsg :: str
  sigusr1_set :: bool
  sigusr1_at :: "arrival option"

definition MAX_PLUGINS :: nat where
  "MAX_PLUGINS = 15"

definition so_suffix :: "str \<Rightarrow> bool" where
  \<comment> \<open>the \<^verbatim>\<open>filter\<close> of \<^verbatim>\<open>scandir\<close>: names that end in \<^verbatim>\<open>.so\<close>\<close>
  "so_suffix d_name \<longleftrightarrow> 3 \<le> length d_name \<and> drop (length d_name - 3) d_name = ''.so''"

section \<open>Errors\<close>

definition ipbench_error :: "str \<Rightarrow> ('p cmod, 'a) io" where
  "ipbench_error msg w = (Raise (RuntimeError (take 255 msg)), w\<lparr>errmsg := take 255 msg\<rparr>)"

definition ipbench_plugin_error :: "str \<Rightarrow> str \<Rightarrow> ('p cmod, 'a) io" where
  "ipbench_plugin_error msg source = ipbench_error (take 254 (msg @ '': '' @ source))"

text \<open>A \<open>-1\<close> that was returned without setting the message reports the previous message.\<close>

definition stale_error :: "('p cmod, 'a) io" where
  "stale_error w = (Raise (RuntimeError (errmsg w)), w)"

definition with_plugin :: "('p plugin \<Rightarrow> ('p cmod, 'a) io) \<Rightarrow> ('p cmod, 'a) io" where
  "with_plugin f w = (case ipbench_plugin w of None \<Rightarrow> (Halt, w) | Some p \<Rightarrow> f p w)"

section \<open>The functions of the module\<close>

fun find_plugin :: "str \<Rightarrow> 'p dirent list \<Rightarrow> 'p plugin option" where
  \<comment> \<open>one directory entry after another, in the order the loop visits them\<close>
  "find_plugin plugin_name [] = None"
| "find_plugin plugin_name ((d_name, obj) # rest) =
     (case obj of
        NotLoadable \<Rightarrow> find_plugin plugin_name rest
      | NoHeader \<Rightarrow> find_plugin plugin_name rest
      | Header p \<Rightarrow>
          if pl_magic p \<noteq> ''IPBENCH_PLUGIN'' then find_plugin plugin_name rest
          else if plugin_name \<noteq> pl_name p then find_plugin plugin_name rest
          else Some p)"

definition load_plugin :: "str \<Rightarrow> ('p cmod, unit) io" where
  "load_plugin plugin_name w =
     (let finish = (\<lambda>w. case ipbench_plugin w of
            None \<Rightarrow> ipbench_plugin_error ''Can not find plugin'' plugin_name w
          | Some _ \<Rightarrow> (Ret (), w))
      in case map_option (filter (so_suffix \<circ> fst)) (scandir_result w) of
           None \<Rightarrow> finish w
         | Some namelist \<Rightarrow>
             if length namelist > MAX_PLUGINS then stale_error w
             else (case find_plugin plugin_name (rev namelist) of
                     None \<Rightarrow> finish w
                   | Some p \<Rightarrow> finish (w\<lparr>ipbench_plugin := Some p\<rparr>)))"

definition get_default_port :: "('p cmod, int) io" where
  "get_default_port = with_plugin (\<lambda>p.
     if default_port p = - 1 then stale_error else ret (default_port p))"

definition setup_controller_client :: "int \<Rightarrow> str option \<Rightarrow> ('p cmod, unit) io" where
  "setup_controller_client totalclients args = with_plugin (\<lambda>p w.
     let (_, s) = pl_setup_controller p args (plugin_state w) in
     (Ret (), w\<lparr>nclients := nat totalclients,
                client_data := replicate (nat totalclients) None, plugin_state := s\<rparr>))"

definition setup_controller_target :: "str option \<Rightarrow> ('p cmod, unit) io" where
  "setup_controller_target args = with_plugin (\<lambda>p w.
     let (_, s) = pl_setup_controller p args (plugin_state w) in
     (Ret (), w\<lparr>plugin_state := s\<rparr>))"

text \<open>A Python int that is not in the range of a C int does not reach the function.\<close>

definition c_int :: "int \<Rightarrow> bool" where
  "c_int i \<longleftrightarrow> - (2 ^ 31) \<le> i \<and> i < 2 ^ 31"

definition setup_client :: "str \<Rightarrow> int \<Rightarrow> str \<Rightarrow> ('p cmod, unit) io" where
  "setup_client hostname port clientargs =
     (if \<not> c_int port then raise OverflowError
      else with_plugin (\<lambda>p w.
        let (r, s) = pl_setup_client p hostname port clientargs (plugin_state w);
            w' = w\<lparr>plugin_state := s\<rparr>
        in if r = - 1 then ipbench_plugin_error ''Client setup failed'' (pl_name p) w'
           else (Ret (), w')))"

definition setup_target :: "str \<Rightarrow> ('p cmod, unit) io" where
  "setup_target clientargs = with_plugin (\<lambda>p w.
     let (r, s) = pl_setup_target p clientargs (plugin_state w);
         w' = w\<lparr>sigusr1_set := True, plugin_state := s\<rparr>
     in if r = - 1 then ipbench_plugin_error ''Target setup failed'' (pl_name p) w'
        else (Ret (), w'))"

definition start :: "('p cmod, unit) io" where
  "start = with_plugin (\<lambda>p w.
     let (sts, t, s) = pl_start p (plugin_state w);
         w' = w\<lparr>timer_start := t, plugin_state := s\<rparr>
     in if sts \<noteq> 0 then ipbench_plugin_error ''Plugin failed to start!'' (pl_name p) w'
        else (Ret (), w'))"

definition stop :: "('p cmod, unit) io" where
  "stop = with_plugin (\<lambda>p w.
     let (sts, t, s) = pl_stop p (plugin_state w);
         w' = w\<lparr>plugin_state := s\<rparr>
     in if sts \<noteq> 0 then ipbench_plugin_error ''Plugin failed to stop!'' (pl_name p) w'
        else (Ret (), w'\<lparr>run_secs := t - timer_start w'\<rparr>))"

text \<open>
  The handler of \<^verbatim>\<open>SIGUSR1\<close>. What \<^verbatim>\<open>stop\<close> returns is dropped; before \<^verbatim>\<open>setup\<close> has installed the
  handler the signal ends the process.
\<close>

definition sigusr1_handler :: "('p cmod, unit) io" where
  "sigusr1_handler w =
     (if \<not> sigusr1_set w then (Halt, w)
      else (case stop w of (Halt, w') \<Rightarrow> (Halt, w') | (_, w') \<Rightarrow> (Ret (), w')))"

definition stamp :: "int option \<Rightarrow> 'p cmod \<Rightarrow> 'p cmod" where
  \<comment> \<open>what the plugin writes through the pointer to \<^verbatim>\<open>timer_start\<close>\<close>
  "stamp t w = (case t of None \<Rightarrow> w | Some x \<Rightarrow> w\<lparr>timer_start := x\<rparr>)"

definition start_interrupted :: "('p cmod, unit) io" where
  \<comment> \<open>\<^verbatim>\<open>start\<close> with the handler run in the middle of the plugin's \<^verbatim>\<open>start\<close>\<close>
  "start_interrupted = with_plugin (\<lambda>p w.
     let (t, s) = pl_start_until p (plugin_state w) in
     bind sigusr1_handler (\<lambda>_ w.
       let (sts, t, s) = pl_start_on p (plugin_state w);
           w' = (stamp t w)\<lparr>plugin_state := s\<rparr>
       in if sts \<noteq> 0 then ipbench_plugin_error ''Plugin failed to start!'' (pl_name p) w'
          else (Ret (), w')) ((stamp t w)\<lparr>plugin_state := s\<rparr>))"

definition start_target :: "('p cmod, unit) io" where
  "start_target w =
     (case sigusr1_at w of
        None \<Rightarrow> start w
      | Some BeforeStart \<Rightarrow> bind sigusr1_handler (\<lambda>_. start) w
      | Some DuringStart \<Rightarrow> start_interrupted w
      | Some AfterStart \<Rightarrow>
          try_else start (\<lambda>e. Some (bind sigusr1_handler (\<lambda>_. raise e))) (\<lambda>_. sigusr1_handler) w)"

text \<open>
  The value of \<^verbatim>\<open>marshall\<close> in Python is the pair of the return code and the data; when the
  plugin sets no data (a null pointer) the wrapper appends nothing and returns the bare code.
\<close>

definition marshall :: "('p cmod, int \<times> bytes option) io" where
  "marshall = with_plugin (\<lambda>p w.
     let (sts, data, s) = pl_marshall p (run_secs w) (plugin_state w)
     in (Ret (if sts \<noteq> 0 then 1 else 0, data), w\<lparr>plugin_state := s\<rparr>))"

definition unmarshall_client :: "nat \<Rightarrow> bytes \<Rightarrow> bool \<Rightarrow> ('p cmod, int) io" where
  "unmarshall_client clientid data valid = with_plugin (\<lambda>p w.
     let (sts, d, s) = pl_unmarshall p data (plugin_state w);
         e = \<lparr>cd_data = d, cd_size = (case d of None \<Rightarrow> 0 | Some b \<Rightarrow> length b), cd_valid = valid\<rparr>;
         w' = w\<lparr>plugin_state := s, client_data := (client_data w)[clientid := Some e]\<rparr>
     in if clientid \<ge> length (client_data w) then (Halt, w)
        else if sts = - 1 then stale_error w' else (Ret sts, w'))"

definition unmarshall_target :: "bytes \<Rightarrow> bool \<Rightarrow> ('p cmod, int) io" where
  "unmarshall_target data valid = with_plugin (\<lambda>p w.
     let (sts, d, s) = pl_unmarshall p data (plugin_state w);
         e = \<lparr>cd_data = d, cd_size = (case d of None \<Rightarrow> 0 | Some b \<Rightarrow> length b), cd_valid = valid\<rparr>;
         w' = w\<lparr>plugin_state := s, target_data := Some e\<rparr>
     in if sts = - 1 then stale_error w' else (Ret sts, w'))"

definition output_client :: "('p cmod, int) io" where
  "output_client = with_plugin (\<lambda>p w.
     let (sts, s) = pl_output p (client_data w) (plugin_state w);
         w' = w\<lparr>plugin_state := s\<rparr>
     in if sts = - 1 then stale_error w' else (Ret sts, w'))"

definition output_target :: "('p cmod, int) io" where
  "output_target = with_plugin (\<lambda>p w.
     let (sts, s) = pl_output p [target_data w] (plugin_state w);
         w' = w\<lparr>plugin_state := s\<rparr>
     in if sts = - 1 then stale_error w' else (Ret sts, w'))"

section \<open>The module as the daemon calls it\<close>

record 's shunt =
  sh_load :: "str \<Rightarrow> ('s, unit) io"
  sh_setup3 :: "str \<Rightarrow> int \<Rightarrow> str \<Rightarrow> ('s, unit) io"
  sh_setup1 :: "str \<Rightarrow> ('s, unit) io"
  sh_start :: "('s, unit) io"
  sh_marshall :: "('s, int \<times> bytes option) io"

text \<open>
  Two modules are compiled from the one source; \<^verbatim>\<open>setup\<close> has three arguments in the client
  module and one in the target module, and a call with the other number is a \<^verbatim>\<open>TypeError\<close>.
\<close>

definition ipbench_client :: "'p cmod shunt" where
  "ipbench_client = \<lparr>sh_load = load_plugin, sh_setup3 = setup_client,
     sh_setup1 = (\<lambda>_. raise TypeError), sh_start = start, sh_marshall = marshall\<rparr>"

definition ipbench_target :: "'p cmod shunt" where
  "ipbench_target = \<lparr>sh_load = load_plugin, sh_setup3 = (\<lambda>_ _ _. raise TypeError),
     sh_setup1 = setup_target, sh_start = start_target, sh_marshall = marshall\<rparr>"

definition only_runtime :: "('s, 'a) io \<Rightarrow> bool" where
  "only_runtime m \<longleftrightarrow> (\<forall>s e. fst (m s) = Raise e \<longrightarrow> (\<exists>msg. e = RuntimeError msg))"

definition call_setup :: "'s shunt \<Rightarrow> bool \<Rightarrow> str \<Rightarrow> int \<Rightarrow> str \<Rightarrow> ('s, unit) io" where
  "call_setup S tgt host port args =
     (if tgt then sh_setup1 S args else sh_setup3 S host port args)"

locale shunt_contract =
  fixes S :: "'s shunt" and tgt :: bool
  assumes load_only: "only_runtime (sh_load S n)"
    and setup_only: "fst (call_setup S t host port args s) = Raise e \<Longrightarrow>
           (\<exists>msg. e = RuntimeError msg) \<or> (e = OverflowError \<and> \<not> c_int port) \<or>
           (e = TypeError \<and> t \<noteq> tgt)"
    and start_only: "only_runtime (sh_start S)"
    and marshall_never: "fst (sh_marshall S s) \<noteq> Raise e"

lemma only_runtime_simps [simp]:
  "only_runtime (ipbench_error msg)"
  "only_runtime (ipbench_plugin_error msg src)"
  "only_runtime stale_error"
  "only_runtime (ret x)"
  by (auto simp: only_runtime_def ipbench_error_def ipbench_plugin_error_def stale_error_def)

lemma only_runtimeD: "only_runtime m \<Longrightarrow> m w = (Raise e, w') \<Longrightarrow> \<exists>msg. e = RuntimeError msg"
  by (metis fst_conv only_runtime_def)

lemma only_runtimeI: "(\<And>w e w'. m w = (Raise e, w') \<Longrightarrow> \<exists>msg. e = RuntimeError msg) \<Longrightarrow> only_runtime m"
  by (metis only_runtime_def surjective_pairing)

lemmas shunt_only = ipbench_error_def ipbench_plugin_error_def stale_error_def with_plugin_def

lemma load_plugin_only: "only_runtime (load_plugin n)"
  by (rule only_runtimeI) (auto simp: load_plugin_def Let_def shunt_only split: option.splits if_splits)

lemma setup_client_only:
  "fst (setup_client h port a s) = Raise e \<Longrightarrow>
     (\<exists>msg. e = RuntimeError msg) \<or> (e = OverflowError \<and> \<not> c_int port)"
  by (auto simp: setup_client_def Let_def shunt_only split: option.splits if_splits prod.splits)

lemma setup_target_only: "only_runtime (setup_target a)"
  by (rule only_runtimeI)
    (auto simp: setup_target_def Let_def shunt_only split: option.splits if_splits prod.splits)

lemma start_plugin_only: "only_runtime start"
  by (rule only_runtimeI)
    (auto simp: start_def Let_def shunt_only split: option.splits if_splits prod.splits)

lemma sigusr1_handler_never: "sigusr1_handler w \<noteq> (Raise e, w')"
  by (auto simp: sigusr1_handler_def split: prod.splits res.splits)

lemma start_target_only: "only_runtime start_target"
proof (rule only_runtimeI)
  fix w e and w' :: "'a cmod"
  assume r: "start_target w = (Raise e, w')"
  show "\<exists>msg. e = RuntimeError msg"
  proof (cases "sigusr1_at w = Some DuringStart")
    case True
    with r show ?thesis
      by (auto simp: start_target_def start_interrupted_def Let_def bind_eval sigusr1_handler_never shunt_only
          split: option.splits prod.splits res.splits if_splits)
  next
    case False
    with r show ?thesis
      by (auto simp: start_target_def bind_eval try_else_eval sigusr1_handler_never
          split: option.splits arrival.splits prod.splits res.splits
          dest: only_runtimeD [OF start_plugin_only])
  qed
qed

lemma marshall_plugin_never: "fst (marshall w) \<noteq> Raise e"
  by (auto simp: marshall_def Let_def with_plugin_def split: option.splits prod.splits)

interpretation client_module: shunt_contract "ipbench_client" False
  by unfold_locales
    (auto simp add: ipbench_client_def call_setup_def load_plugin_only
      start_plugin_only marshall_plugin_never dest: setup_client_only split: if_splits)

interpretation target_module: shunt_contract "ipbench_target" True
  by unfold_locales
    (auto simp add: ipbench_target_def call_setup_def load_plugin_only start_target_only
      marshall_plugin_never setup_target_only [unfolded only_runtime_def] split: if_splits)

section \<open>The time of a test\<close>

text \<open>
  A test of a target that is stopped while it runs, by a plugin that has taken its start time: the
  results are marshalled with the time between the two time stamps.
\<close>

lemma stopped_run_secs:
  assumes "ipbench_plugin w = Some p" and "sigusr1_set w" and "sigusr1_at w = Some DuringStart"
    and "pl_start_until p (plugin_state w) = (Some t1, s1)" and "pl_stop p s1 = (0, t2, s2)"
    and "pl_start_on p s2 = (0, None, s3)" and "pl_marshall p (t2 - t1) s3 = (sts, d, s4)"
  shows "\<exists>w'. start_target w = (Ret (), w') \<and>
    marshall w' = (Ret (if sts \<noteq> 0 then 1 else 0, d), w'\<lparr>plugin_state := s4\<rparr>)"
  using assms
  by (simp add: start_target_def start_interrupted_def with_plugin_def sigusr1_handler_def stop_def
      bind_eval stamp_def marshall_def)

text \<open>A signal that comes before the test starts stops nothing: the plugin's \<^verbatim>\<open>start\<close> runs after its \<^verbatim>\<open>stop\<close>.\<close>

lemma stopped_too_early:
  assumes "ipbench_plugin w = Some p" and "sigusr1_set w" and "sigusr1_at w = Some BeforeStart"
    and "pl_stop p (plugin_state w) = (0, t2, s1)" and "pl_start p s1 = (0, t1, s2)"
  shows "start_target w = (Ret (), w\<lparr>timer_start := t1, run_secs := t2 - timer_start w, plugin_state := s2\<rparr>)"
  using assms
  by (simp add: start_target_def sigusr1_handler_def stop_def start_def with_plugin_def bind_eval)

section \<open>What loading finds\<close>

lemma find_plugin_matches:
  "find_plugin n ds = Some p \<Longrightarrow>
     pl_name p = n \<and> pl_magic p = ''IPBENCH_PLUGIN'' \<and> (\<exists>d. (d, Header p) \<in> set ds)"
  by (induction n ds rule: find_plugin.induct) (auto split: dl_object.splits if_splits)

lemma find_plugin_complete:
  "(d, Header p) \<in> set ds \<Longrightarrow> pl_magic p = ''IPBENCH_PLUGIN'' \<Longrightarrow> find_plugin (pl_name p) ds \<noteq> None"
  by (induction "pl_name p" ds rule: find_plugin.induct) (auto split: dl_object.splits)

end
