(* ===== verification/State_Machine.thy ===== *)
theory State_Machine
  imports Py_Effects
begin

text \<open>
  The class \<^verbatim>\<open>StateMachine\<close> of \<^verbatim>\<open>ipbenchd.py\<close>: a dictionary of handlers by upper-case name,
  a start state and a list of end states. A handler takes a cargo and returns the name of the
  next state with a new cargo (\<open>Some\<close>), or falls off its end or returns early and gives
  \<^verbatim>\<open>None\<close> (\<open>None\<close>), on which the unpacking in \<^verbatim>\<open>run\<close> fails. The loop of \<^verbatim>\<open>run\<close> has no bound
  of its own, so it is a partial function: \<open>None\<close> is a run that never returns. The locale
  \<open>ranked_machine\<close> is the contract under which it does return.
\<close>

type_synonym ('w, 'c) handler = "'c \<Rightarrow> ('w, (str \<times> 'c) option) io"

record ('w, 'c) machine =
  handlers :: "str \<rightharpoonup> ('w, 'c) handler"
  start_state :: "str option"
  end_states :: "str list"

definition StateMachine :: "('w, 'c) machine" where
  "StateMachine = \<lparr>handlers = Map.empty, start_state = None, end_states = []\<rparr>"

definition upper_char :: "char \<Rightarrow> char" where
  "upper_char c = (if 97 \<le> code c \<and> code c \<le> 122 then char_of (code c - 32) else c)"

definition upper :: "str \<Rightarrow> str" where
  "upper s = map upper_char s"

definition add_state ::
  "str \<Rightarrow> ('w, 'c) handler \<Rightarrow> bool \<Rightarrow> ('w, 'c) machine \<Rightarrow> ('w, 'c) machine" where
  "add_state name hd_fn end_state m =
     (let nm = upper name;
          m' = m\<lparr>handlers := (handlers m)(nm \<mapsto> hd_fn)\<rparr>
      in if end_state then m'\<lparr>end_states := end_states m' @ [nm]\<rparr> else m')"

definition set_start :: "str \<Rightarrow> ('w, 'c) machine \<Rightarrow> ('w, 'c) machine" where
  "set_start name m = m\<lparr>start_state := Some (upper name)\<rparr>"

partial_function (option) run_loop ::
  "('w, 'c) machine \<Rightarrow> ('w, 'c) handler \<Rightarrow> 'c \<Rightarrow> 'w \<Rightarrow> (unit res \<times> 'w) option" where
  "run_loop m hd_fn cargo w =
     (case hd_fn cargo w of
        (Ret (Some (new_state, cargo')), w') \<Rightarrow>
          if upper new_state \<in> set (end_states m) then Some (Ret (), w')
          else (case handlers m (upper new_state) of
                  None \<Rightarrow> Some (Raise KeyError, w')
                | Some hd_fn' \<Rightarrow> run_loop m hd_fn' cargo' w')
      | (Ret None, w') \<Rightarrow> Some (Raise TypeError, w')
      | (Raise e, w') \<Rightarrow> Some (Raise e, w')
      | (Wait, w') \<Rightarrow> Some (Wait, w')
      | (Halt, w') \<Rightarrow> Some (Halt, w'))"

definition run_machine :: "('w, 'c) machine \<Rightarrow> 'c \<Rightarrow> 'w \<Rightarrow> (unit res \<times> 'w) option" where
  "run_machine m cargo w =
     (case Option.bind (start_state m) (handlers m) of
        None \<Rightarrow> Some (Raise (InitializationError ''must call .set_start() before .run()''), w)
      | Some hd_fn \<Rightarrow>
          if end_states m = []
          then Some (Raise (InitializationError ''at least one state must be an end_state''), w)
          else run_loop m hd_fn cargo w)"

lemma handlers_add_state [simp]:
  "handlers (add_state name h e m) = (handlers m)(upper name \<mapsto> h)"
  "start_state (add_state name h e m) = start_state m"
  "end_states (add_state name h e m) = end_states m @ (if e then [upper name] else [])"
  by (auto simp: add_state_def Let_def)

lemma handlers_set_start [simp]:
  "handlers (set_start name m) = handlers m"
  "start_state (set_start name m) = Some (upper name)"
  "end_states (set_start name m) = end_states m"
  by (simp_all add: set_start_def)

lemma run_loop_step:
  "hd_fn cargo w = (Ret (Some (s, c)), w') \<Longrightarrow> upper s \<in> set (end_states m) \<Longrightarrow>
     run_loop m hd_fn cargo w = Some (Ret (), w')"
  "hd_fn cargo w = (Ret (Some (s, c)), w') \<Longrightarrow> upper s \<notin> set (end_states m) \<Longrightarrow>
     handlers m (upper s) = Some h \<Longrightarrow> run_loop m hd_fn cargo w = run_loop m h c w'"
  "hd_fn cargo w = (Ret (Some (s, c)), w') \<Longrightarrow> upper s \<notin> set (end_states m) \<Longrightarrow>
     handlers m (upper s) = None \<Longrightarrow> run_loop m hd_fn cargo w = Some (Raise KeyError, w')"
  "hd_fn cargo w = (Ret None, w') \<Longrightarrow> run_loop m hd_fn cargo w = Some (Raise TypeError, w')"
  "hd_fn cargo w = (Raise e, w') \<Longrightarrow> run_loop m hd_fn cargo w = Some (Raise e, w')"
  "hd_fn cargo w = (Wait, w') \<Longrightarrow> run_loop m hd_fn cargo w = Some (Wait, w')"
  "hd_fn cargo w = (Halt, w') \<Longrightarrow> run_loop m hd_fn cargo w = Some (Halt, w')"
  by (simp_all add: run_loop.simps [of m hd_fn cargo w])

section \<open>The contract under which a run returns\<close>

locale ranked_machine =
  fixes m :: "('w, 'c) machine" and rank :: "str \<Rightarrow> nat"
  assumes declared: "handlers m n = Some h \<Longrightarrow> h c w = (Ret (Some (s, c')), w') \<Longrightarrow>
      upper s \<in> set (end_states m) \<or> (\<exists>h'. handlers m (upper s) = Some h' \<and> rank (upper s) < rank n)"
    and started: "Option.bind (start_state m) (handlers m) \<noteq> None"
    and ends: "end_states m \<noteq> []"
begin

lemma loop_returns: "handlers m n = Some h \<Longrightarrow> \<exists>r. run_loop m h c w = Some r"
proof (induction "rank n" arbitrary: n h c w rule: less_induct)
  case less
  obtain r w' where hw: "h c w = (r, w')"
    by (cases "h c w")
  consider s c' where "r = Ret (Some (s, c'))" | "r = Ret None" | e where "r = Raise e"
    | "r = Wait" | "r = Halt"
    by (cases r) (auto, metis not_None_eq surj_pair)
  then show ?case
  proof cases
    case 1
    show ?thesis
    proof (cases "upper s \<in> set (end_states m)")
      case True
      then show ?thesis using hw 1 by (simp add: run_loop_step)
    next
      case False
      with declared [OF less.prems hw [unfolded 1]]
      obtain h' where h': "handlers m (upper s) = Some h'" "rank (upper s) < rank n"
        by blast
      then have "\<exists>r. run_loop m h' c' w' = Some r"
        using less.hyps by blast
      then show ?thesis
        using run_loop_step(2) [of h c w, OF hw [unfolded 1] False h'(1)] by simp
    qed
  qed (use hw in \<open>auto simp: run_loop_step\<close>)
qed

lemma run_returns: "\<exists>r. run_machine m c w = Some r"
  using started ends loop_returns
  by (auto simp: run_machine_def split: option.splits bind_splits)

text \<open>No run of such a machine looks up an undeclared state.\<close>

lemma loop_raises:
  "handlers m n = Some h \<Longrightarrow> run_loop m h c w = Some (Raise e, w') \<Longrightarrow>
     (\<And>n h c v. handlers m n = Some h \<Longrightarrow> fst (h c v) = Raise e \<Longrightarrow> P) \<Longrightarrow>
     (\<And>n h c v. e = TypeError \<Longrightarrow> handlers m n = Some h \<Longrightarrow> fst (h c v) = Ret None \<Longrightarrow> P) \<Longrightarrow> P"
proof (induction "rank n" arbitrary: n h c w rule: less_induct)
  case less
  obtain r w'' where hw: "h c w = (r, w'')"
    by (cases "h c w")
  consider s c' where "r = Ret (Some (s, c'))" | "r = Ret None" | e where "r = Raise e"
    | "r = Wait" | "r = Halt"
    by (cases r) (auto, metis not_None_eq surj_pair)
  then show ?case
  proof cases
    case 1
    have nend: "upper s \<notin> set (end_states m)"
      using less.prems(2) run_loop_step(1) [of h c w, OF hw [unfolded 1]] by auto
    with declared [OF less.prems(1) hw [unfolded 1]]
    obtain h' where h': "handlers m (upper s) = Some h'" "rank (upper s) < rank n"
      by blast
    then have "run_loop m h' c' w'' = Some (Raise e, w')"
      using less.prems(2) run_loop_step(2) [of h c w, OF hw [unfolded 1] nend h'(1)] by simp
    with less.hyps h' less.prems(3,4) show ?thesis by blast
  next
    case 2
    with less.prems hw show ?thesis
      by (metis Pair_inject fst_conv option.inject res.inject(2) run_loop_step(4))
  next
    case 3
    with less.prems hw show ?thesis
      by (metis Pair_inject fst_conv option.inject res.inject(2) run_loop_step(5))
  qed (use less.prems hw in \<open>auto simp: run_loop_step\<close>)
qed

end

locale ordered_machine = ranked_machine m rank + world_order R
  for m :: "('w, 'c) machine" and rank :: "str \<Rightarrow> nat" and R :: "'w \<Rightarrow> 'w \<Rightarrow> bool" +
  assumes handler_inv: "handlers m n = Some h \<Longrightarrow> step_inv R (h c)"
begin

lemma loop_inv: "handlers m n = Some h \<Longrightarrow> run_loop m h c w = Some (r, w') \<Longrightarrow> R w w'"
proof (induction "rank n" arbitrary: n h c w rule: less_induct)
  case less
  obtain r' w'' where hw: "h c w = (r', w'')"
    by (cases "h c w")
  have R: "R w w''"
    using handler_inv [OF less.prems(1), of c] hw by (metis snd_conv step_inv_def)
  consider s c' where "r' = Ret (Some (s, c'))" "upper s \<notin> set (end_states m)"
    | "w'' = w'"
  proof (cases "\<exists>s c'. r' = Ret (Some (s, c')) \<and> upper s \<notin> set (end_states m)")
    case True
    then show ?thesis using that(1) by blast
  next
    case False
    then have "w'' = w'"
      using less.prems(2) hw
      by (subst (asm) run_loop.simps) (auto split: res.splits option.splits if_splits prod.splits)
    then show ?thesis by (rule that(2))
  qed
  then show ?case
  proof cases
    case 1
    with declared [OF less.prems(1) hw [unfolded 1(1)]]
    obtain h' where h': "handlers m (upper s) = Some h'" "rank (upper s) < rank n"
      by blast
    then have "run_loop m h' c' w'' = Some (r, w')"
      using less.prems(2) run_loop_step(2) [of h c w, OF hw [unfolded 1(1)] 1(2) h'(1)] by simp
    with less.hyps h' have "R w'' w'" by blast
    with R show ?thesis by (rule r_trans)
  next
    case 2
    with R show ?thesis by simp
  qed
qed

lemma run_inv: "run_machine m c w = Some (r, w') \<Longrightarrow> R w w'"
  using loop_inv r_refl
  by (auto simp: run_machine_def split: option.splits bind_splits if_splits)

end

end
