(* ===== verification/Daemon_World.thy ===== *)
theory Daemon_World
  imports Test_Status Status_Codes Shunt State_Machine
begin

text \<open>
  The world of one handler process of the daemon, and the primitive effects its code uses:
  the buffered connection, the shared \<^verbatim>\<open>TEST_RUNNING\<close>, signals, \<^verbatim>\<open>os.fork\<close> and the test
  module \<^verbatim>\<open>SHUNT\<close>.

  \<^item> \<open>rfile\<close> is what the successive \<^verbatim>\<open>self.rfile.readline()\<close> calls return: a line with its
    newline, a last line without one, or \<open>[]\<close> once the peer has closed its side. The list is the
    finite part of the connection that a run looks at: at its end the process is about to read
    again (\<open>Wait\<close>), or the read fails because the peer has reset the connection (\<open>rreset\<close>). A
    connection that the peer has closed gives \<open>[]\<close> for ever, so it is looked at through every
    number of empty reads.
  \<^item> \<open>wfile\<close> is what has been written, one entry per \<^verbatim>\<open>write\<close>; \<open>wleft = Some n\<close> means that
    the peer resets the connection after \<open>n\<close> more writes.
  \<^item> \<open>kill_env\<close> says what \<^verbatim>\<open>os.kill\<close> finds; \<open>signals\<close> lists the signals that were delivered.
  \<^item> \<open>forks\<close> are the results of the successive \<^verbatim>\<open>os.fork\<close> calls as this process sees them.
\<close>

datatype signal = SIGINT | SIGKILL | SIGUSR1

datatype kill_result = Delivered | NoSuchProcess | NotPermitted

datatype fork_result = InParent int | InChild int

record 's daemon =
  opt_target :: bool
  rfile :: "bytes list"
  rreset :: bool
  wfile :: "bytes list"
  wleft :: "nat option"
  test_running :: shm
  own_pid :: int
  kill_env :: "int \<Rightarrow> signal \<Rightarrow> kill_result"
  signals :: "(int \<times> signal) list"
  forks :: "fork_result list"
  shunt_state :: 's

section \<open>The connection\<close>

definition asks :: "('w \<Rightarrow> 'a) \<Rightarrow> ('w, 'a) io" where
  "asks f w = (Ret (f w), w)"

definition write_bytes :: "bytes \<Rightarrow> ('s daemon, unit) io" where
  "write_bytes b w =
     (case wleft w of
        None \<Rightarrow> (Ret (), w\<lparr>wfile := wfile w @ [b]\<rparr>)
      | Some 0 \<Rightarrow> (Raise BrokenPipeError, w)
      | Some (Suc n) \<Rightarrow> (Ret (), w\<lparr>wfile := wfile w @ [b], wleft := Some n\<rparr>))"

definition send :: "str \<Rightarrow> ('s daemon, unit) io" where
  \<comment> \<open>\<^verbatim>\<open>self.wfile.write(msg.encode('utf-8'))\<close>\<close>
  "send msg = write_bytes msg"

definition send_status :: "int \<Rightarrow> str list \<Rightarrow> ('s daemon, unit) io" where
  \<comment> \<open>\<^verbatim>\<open>self.send(str_status(...))\<close>\<close>
  "send_status c msg = (case str_status c msg of Inl e \<Rightarrow> raise e | Inr s \<Rightarrow> send s)"

definition readline :: "('s daemon, str) io" where
  \<comment> \<open>\<^verbatim>\<open>self.rfile.readline().decode('utf-8')\<close>\<close>
  "readline w =
     (case rfile w of
        [] \<Rightarrow> (if rreset w then Raise ConnectionResetError else Wait, w)
      | b # bs \<Rightarrow>
          (if utf8_valid b then Ret b else Raise UnicodeDecodeError, w\<lparr>rfile := bs\<rparr>))"

section \<open>Processes and the shared state\<close>

definition on_status :: "(shm, 'a) io \<Rightarrow> ('s daemon, 'a) io" where
  "on_status = zoom test_running (\<lambda>s w. w\<lparr>test_running := s\<rparr>)"

definition on_shunt :: "('s, 'a) io \<Rightarrow> ('s daemon, 'a) io" where
  "on_shunt = zoom shunt_state (\<lambda>s w. w\<lparr>shunt_state := s\<rparr>)"

text \<open>
  \<^verbatim>\<open>os.kill\<close>. A process that interrupts itself gets the \<^verbatim>\<open>KeyboardInterrupt\<close> of Python's
  \<^verbatim>\<open>SIGINT\<close> handler out of the call; one that kills itself is gone.
\<close>

definition os_kill :: "int \<Rightarrow> signal \<Rightarrow> ('s daemon, unit) io" where
  "os_kill p sig w =
     (case kill_env w p sig of
        NoSuchProcess \<Rightarrow> (Raise ProcessLookupError, w)
      | NotPermitted \<Rightarrow> (Raise PermissionError, w)
      | Delivered \<Rightarrow>
          let w' = w\<lparr>signals := signals w @ [(p, sig)]\<rparr> in
          if p = own_pid w
          then (case sig of SIGINT \<Rightarrow> (Raise KeyboardInterrupt, w')
                | SIGKILL \<Rightarrow> (Halt, w') | SIGUSR1 \<Rightarrow> (Ret (), w'))
          else (Ret (), w'))"

definition os_fork :: "('s daemon, int) io" where
  "os_fork w =
     (case forks w of
        [] \<Rightarrow> (Raise OSError, w)
      | InParent child # fs \<Rightarrow> (Ret child, w\<lparr>forks := fs\<rparr>)
      | InChild p # fs \<Rightarrow> (Ret 0, w\<lparr>forks := fs, own_pid := p\<rparr>))"

definition os_exit :: "('s daemon, 'a) io" where
  "os_exit w = (Halt, w)"

section \<open>Laws of the primitives\<close>

lemma asks_apply [simp, io_simps]: "asks f w = (Ret (f w), w)"
  by (simp add: asks_def)

lemma bind_asks [simp, io_simps]: "bind (asks f) g w = g (f w) w"
  by (simp add: bind_def)

lemma str_status_cases:
  "str_status c msg = Inl KeyError \<or> (\<exists>s. str_status c msg = Inr s)"
  by (auto simp: str_status_def split: option.splits)

lemma send_unlimited [io_simps]:
  "wleft w = None \<Longrightarrow> send s w = (Ret (), w\<lparr>wfile := wfile w @ [s]\<rparr>)"
  by (simp add: send_def write_bytes_def)

lemma send_status_unlimited [io_simps]:
  "wleft w = None \<Longrightarrow> str_status c msg = Inr s \<Longrightarrow>
     send_status c msg w = (Ret (), w\<lparr>wfile := wfile w @ [s]\<rparr>)"
  by (simp add: send_status_def send_unlimited)

lemma readline_Cons [io_simps]:
  "rfile w = b # bs \<Longrightarrow> utf8_valid b \<Longrightarrow> readline w = (Ret b, w\<lparr>rfile := bs\<rparr>)"
  by (simp add: readline_def)

lemma readline_Nil [io_simps]:
  "rfile w = [] \<Longrightarrow> readline w = (if rreset w then Raise ConnectionResetError else Wait, w)"
  by (simp add: readline_def)

lemma on_status_eval [io_simps]:
  "on_status m w = (case m (test_running w) of (r, s) \<Rightarrow> (r, w\<lparr>test_running := s\<rparr>))"
  by (simp add: on_status_def zoom_def)

lemma same_status [simp]: "w\<lparr>test_running := test_running w\<rparr> = w"
  by simp

lemma on_shunt_eval [io_simps]:
  "on_shunt m w = (case m (shunt_state w) of (r, s) \<Rightarrow> (r, w\<lparr>shunt_state := s\<rparr>))"
  by (simp add: on_shunt_def zoom_def)

text \<open>Reading consumes a line, writing reads nothing.\<close>

lemma readline_consumes: "readline w = (Ret l, w') \<Longrightarrow> length (rfile w') < length (rfile w)"
  by (auto simp: readline_def split: list.splits if_splits)

lemma send_rfile: "send s w = (r, w') \<Longrightarrow> rfile w' = rfile w"
  by (auto simp: send_def write_bytes_def split: option.splits nat.splits)

lemma send_status_rfile: "send_status c msg w = (r, w') \<Longrightarrow> rfile w' = rfile w"
  by (auto simp: send_status_def dest: send_rfile split: sum.splits)

lemma on_status_rfile: "on_status m w = (r, w') \<Longrightarrow> rfile w' = rfile w"
  by (auto simp: on_status_def zoom_def split: prod.splits)

lemma on_shunt_rfile: "on_shunt m w = (r, w') \<Longrightarrow> rfile w' = rfile w"
  by (auto simp: on_shunt_def zoom_def split: prod.splits)

lemmas rfile_kept = send_rfile send_status_rfile on_status_rfile on_shunt_rfile

section \<open>Orders on worlds: what a handler may do to its environment\<close>

text \<open>
  Along any run the input is consumed from the front, the output and the delivered signals
  only grow, and the mode of the daemon and the kernel's answers stay.
\<close>

definition world_le :: "'s daemon \<Rightarrow> 's daemon \<Rightarrow> bool" where
  "world_le w w' \<longleftrightarrow>
     opt_target w' = opt_target w \<and> kill_env w' = kill_env w \<and> rreset w' = rreset w \<and>
     (\<exists>n. rfile w' = drop n (rfile w)) \<and>
     (\<exists>out. wfile w' = wfile w @ out) \<and>
     (\<exists>sigs. signals w' = signals w @ sigs)"

lemma world_le_trans: "world_le w w' \<Longrightarrow> world_le w' w'' \<Longrightarrow> world_le w w''"
  unfolding world_le_def by (metis append.assoc drop_drop)

lemma world_le_refl [simp]: "world_le w w"
  by (auto simp: world_le_def intro: exI [of _ 0])

interpretation env_order: world_order world_le
  by unfold_locales (rule world_le_refl, rule world_le_trans)

lemma step_invI: "(\<And>w r w'. m w = (r, w') \<Longrightarrow> R w w') \<Longrightarrow> step_inv R m"
  by (metis step_inv_def surjective_pairing)

lemma world_le_fields:
  "world_le w w' \<Longrightarrow> world_le w (w'\<lparr>test_running := s\<rparr>)"
  "world_le w w' \<Longrightarrow> world_le w (w'\<lparr>shunt_state := s'\<rparr>)"
  "world_le w (w\<lparr>wfile := wfile w @ out\<rparr>)"
  "world_le w (w\<lparr>wfile := wfile w @ out, wleft := n\<rparr>)"
  "world_le w (w\<lparr>rfile := drop k (rfile w)\<rparr>)"
  "world_le w (w\<lparr>signals := signals w @ sigs\<rparr>)"
  "world_le w (w\<lparr>forks := fs\<rparr>)"
  "world_le w (w\<lparr>forks := fs, own_pid := p\<rparr>)"
  by (auto simp: world_le_def intro: exI [of _ 0])

lemma write_le: "step_inv world_le (write_bytes b)"
  by (rule step_invI)
    (auto simp: write_bytes_def world_le_fields world_le_refl split: option.splits nat.splits)

lemma send_le: "step_inv world_le (send s)"
  by (simp add: send_def write_le)

lemma send_status_le: "step_inv world_le (send_status c msg)"
  by (auto simp: send_status_def send_le env_order.inv_raise split: sum.splits)

lemma readline_le: "step_inv world_le readline"
  by (rule step_invI)
    (auto simp: readline_def world_le_def split: list.splits intro: exI [of _ 0] exI [of _ 1])

lemma on_status_le: "step_inv world_le (on_status m)"
  by (rule step_invI)
    (auto simp: on_status_def zoom_def world_le_fields world_le_refl split: prod.splits)

lemma on_shunt_le: "step_inv world_le (on_shunt m)"
  by (rule step_invI)
    (auto simp: on_shunt_def zoom_def world_le_fields world_le_refl split: prod.splits)

lemma os_kill_le: "step_inv world_le (os_kill p sig)"
  by (rule step_invI)
    (auto simp: os_kill_def Let_def world_le_fields world_le_refl
      split: kill_result.splits signal.splits if_splits)

lemma os_fork_le: "step_inv world_le os_fork"
  by (rule step_invI)
    (auto simp: os_fork_def world_le_fields world_le_refl split: list.splits fork_result.splits)

lemma os_exit_le: "step_inv world_le os_exit"
  by (rule step_invI) (auto simp: os_exit_def world_le_refl)

lemma asks_le: "step_inv world_le (asks f)"
  by (rule step_invI) (auto simp: world_le_refl)

lemmas prims_le = write_le send_le send_status_le readline_le on_status_le on_shunt_le
  os_kill_le os_fork_le os_exit_le asks_le env_order.inv_ret env_order.inv_raise

end
