(* ===== verification/Daemon.thy ===== *)
theory Daemon
  imports Daemon_World
begin

text \<open>
  The class \<^verbatim>\<open>IpbenchClient\<close> of \<^verbatim>\<open>ipbenchd.py\<close>: the handlers of one control connection, in the
  order the file has them. Each returns the next state of the machine with its cargo. The
  loops are recursive functions; they end because every iteration reads a line, and they
  stop in \<open>Wait\<close> when the input does. Debug output (\<^verbatim>\<open>dbprint\<close>, to standard error) is left out.
\<close>

datatype cargo = One | Err int str

type_synonym 's step = "('s daemon, (str \<times> cargo) option) io"

definition goto :: "str \<Rightarrow> 's step" where
  "goto s = ret (Some (s, One))"

definition go_error :: "int \<Rightarrow> str \<Rightarrow> 's step" where
  "go_error c msg = ret (Some (''ERROR'', Err c msg))"

section \<open>The regular expressions\<close>

definition match_nonspace0 :: "str \<Rightarrow> str" where
  \<comment> \<open>\<^verbatim>\<open>re.match(r"\S*", s).group(0)\<close>, which always matches\<close>
  "match_nonspace0 s = takeWhile (\<lambda>c. \<not> is_space c) s"

definition match_nonspace :: "str \<Rightarrow> str option" where
  \<comment> \<open>\<^verbatim>\<open>re.match(r"(\S+)", s)\<close>\<close>
  "match_nonspace s =
     (let t = takeWhile (\<lambda>c. \<not> is_space c) s in if t = [] then None else Some t)"

definition match_word :: "str \<Rightarrow> str option" where
  \<comment> \<open>\<^verbatim>\<open>re.match(r"(\w+)", s)\<close>\<close>
  "match_word s = (let t = takeWhile is_word s in if t = [] then None else Some t)"

definition is_argchar :: "char \<Rightarrow> bool" where
  \<comment> \<open>\<^verbatim>\<open>[\s\w-]\<close>\<close>
  "is_argchar c \<longleftrightarrow> is_space c \<or> is_word c \<or> c = CHR ''-''"

definition match_word_then :: "(char \<Rightarrow> bool) \<Rightarrow> str \<Rightarrow> (str \<times> str) option" where
  \<comment> \<open>a word, a space, and one or more characters of a class\<close>
  "match_word_then cls s =
     (case match_word s of
        None \<Rightarrow> None
      | Some t \<Rightarrow>
          (case drop (length t) s of
             c # r \<Rightarrow>
               (let a = takeWhile cls r in if c = CHR '' '' \<and> a \<noteq> [] then Some (t, a) else None)
           | [] \<Rightarrow> None))"

definition match_load :: "str \<Rightarrow> (str \<times> str) option" where
  \<comment> \<open>\<^verbatim>\<open>re.match(r"(\w+) ([\s\w-]+)", s)\<close>\<close>
  "match_load = match_word_then is_argchar"

definition match_setup :: "str \<Rightarrow> (str \<times> str) option" where
  \<comment> \<open>\<^verbatim>\<open>re.match(r"(\w+) (..*)", s)\<close>\<close>
  "match_setup = match_word_then (\<lambda>c. c \<noteq> newline)"

section \<open>parse_common_opts\<close>

definition help_reply :: "('s daemon, unit) io" where
  "help_reply =
     bind (asks opt_target) (\<lambda>target.
     bind (send (if target then HELP_TEXT_TARGET else HELP_TEXT)) (\<lambda>_.
     send_status 200 []))"

definition status_reply :: "('s daemon, unit) io" where
  "status_reply =
     bind (asks opt_target) (\<lambda>target.
     bind (send (if target then ''Target Daemon mode'' @ nl else ''Testing Daemon mode'' @ nl)) (\<lambda>_.
     bind (on_status is_running) (\<lambda>run.
     bind (if \<not> run then send (''Not running a test'' @ nl)
           else bind (on_status running_pid) (\<lambda>pid.
                  send (''Running a test ('' @ repr_int pid @ '')'' @ nl))) (\<lambda>_.
     send_status 200 []))))"

lemma help_reply_le: "step_inv world_le help_reply"
  unfolding help_reply_def by (intro env_order.inv_bind prims_le)

lemma status_reply_le: "step_inv world_le status_reply"
  unfolding status_reply_def by (intro env_order.inv_bind env_order.inv_if prims_le)

lemma world_le_length: "world_le w w' \<Longrightarrow> length (rfile w') \<le> length (rfile w)"
  by (auto simp: world_le_def)

lemma step_length: "step_inv world_le m \<Longrightarrow> m w = (r, w') \<Longrightarrow> length (rfile w') \<le> length (rfile w)"
  by (metis snd_conv step_inv_def world_le_length)

function parse_common_opts :: "('s daemon, str) io" where
  "parse_common_opts w =
     bind readline (\<lambda>raw w.
       let line_in = strip raw; cmd = match_nonspace0 line_in in
       if cmd = ''HELP'' then bind help_reply (\<lambda>_ w. parse_common_opts w) w
       else if cmd = ''STATUS'' then bind status_reply (\<lambda>_ w. parse_common_opts w) w
       else ret line_in w) w"
  by pat_completeness auto
termination
  by (relation "measure (\<lambda>w. length (rfile w))")
    (auto dest!: readline_consumes step_length [OF help_reply_le] step_length [OF status_reply_le])

declare parse_common_opts.simps [simp del]

definition common_step :: "str \<Rightarrow> ('s daemon, str) io" where
  \<comment> \<open>what follows \<^verbatim>\<open>readline\<close> in one iteration\<close>
  "common_step raw w =
     (let line_in = strip raw; cmd = match_nonspace0 line_in in
      if cmd = ''HELP'' then bind help_reply (\<lambda>_ w. parse_common_opts w) w
      else if cmd = ''STATUS'' then bind status_reply (\<lambda>_ w. parse_common_opts w) w
      else ret line_in w)"

lemma parse_common_opts_unfold: "parse_common_opts w = bind readline common_step w"
  by (subst parse_common_opts.simps) (simp add: common_step_def [abs_def])

lemmas at_steps = env_order.at_step [OF readline_le] env_order.at_step [OF help_reply_le]
  env_order.at_step [OF status_reply_le]

lemma parse_common_opts_at: "world_le w (snd (parse_common_opts w))"
proof (induction w rule: parse_common_opts.induct)
  case (1 w)
  have "world_le w' (snd (common_step raw w'))" if "readline w = (Ret raw, w')" for raw w'
    using 1 [OF that refl refl]
    by (auto simp: common_step_def Let_def world_le_refl intro!: env_order.at_bind at_steps)
  then show ?case
    unfolding parse_common_opts_unfold by (intro env_order.at_bind at_steps)
qed

lemma parse_common_opts_le: "step_inv world_le parse_common_opts"
  by (simp add: step_inv_def parse_common_opts_at)

lemma common_step_at: "world_le w (snd (common_step raw w))"
  by (auto simp: common_step_def Let_def world_le_refl
      intro!: env_order.at_bind at_steps parse_common_opts_at)

lemma parse_common_opts_consumes:
  assumes "parse_common_opts w = (Ret l, w')"
  shows "length (rfile w') < length (rfile w)"
proof -
  obtain raw w1 where r: "readline w = (Ret raw, w1)" and c: "common_step raw w1 = (Ret l, w')"
    using assms unfolding parse_common_opts_unfold by (rule bind_RetE)
  have "length (rfile w') \<le> length (rfile w1)"
    using common_step_at [of w1 raw] c world_le_length by fastforce
  then show ?thesis
    using readline_consumes [OF r] by simp
qed

section \<open>listen\<close>

function client_listen :: "'s step" where
  "client_listen w =
     bind parse_common_opts (\<lambda>line_in w.
       if line_in = ''ABORT'' then goto ''ABORT'' w
       else if line_in = ''QUIT'' then go_error 222 ''Come back soon!'' w
       else (case match_nonspace line_in of
           None \<Rightarrow> bind (send_status 500 []) (\<lambda>_ w. client_listen w) w
         | Some cmd \<Rightarrow>
             if cmd = ''HELLO'' then
               bind (on_status is_running) (\<lambda>run.
                 if run then go_error 421 ''Already Running''
                 else bind (send_status 200 [''Ready to go'']) (\<lambda>_.
                      bind (asks own_pid) (\<lambda>pid.
                      bind (on_status (running pid)) (\<lambda>_.
                      goto ''SETUP'')))) w
             else bind (send_status 500 []) (\<lambda>_ w. client_listen w) w)) w"
  by pat_completeness auto
termination
  by (relation "measure (\<lambda>w. length (rfile w))")
    (auto dest!: parse_common_opts_consumes send_status_rfile)

declare client_listen.simps [simp del]

section \<open>setup\<close>

text \<open>
  The local variables of the loop; \<open>None\<close> is a variable that no command has bound yet, whose
  use raises \<^verbatim>\<open>UnboundLocalError\<close>. They survive from one iteration to the next.
\<close>

record setup_vars =
  test_target :: "str option"
  test_port :: "int option"
  test_args :: "str option"

definition no_vars :: setup_vars where
  "no_vars = \<lparr>test_target = None, test_port = None, test_args = None\<rparr>"

fun parse_setup_args :: "str list \<Rightarrow> setup_vars \<Rightarrow> exn + setup_vars" where
  "parse_setup_args [] v = Inr v"
| "parse_setup_args (arg # rest) v =
     (case split2 (CHR '':'') arg of
        [subcmd, val] \<Rightarrow>
          if subcmd = ''target'' then parse_setup_args rest (v\<lparr>test_target := Some val\<rparr>)
          else if subcmd = ''port'' then
            (case py_int val of None \<Rightarrow> Inl ValueError
             | Some n \<Rightarrow> parse_setup_args rest (v\<lparr>test_port := Some n\<rparr>))
          else if subcmd = ''args'' then
            parse_setup_args rest (v\<lparr>test_args := Some (str_slice val 1 (- 1))\<rparr>)
          else parse_setup_args rest v
      | _ \<Rightarrow> Inl ValueError)"

definition need :: "'a option \<Rightarrow> ('w, 'a) io" where
  "need x = (case x of None \<Rightarrow> raise UnboundLocalError | Some y \<Rightarrow> ret y)"

text \<open>The body of \<^verbatim>\<open>try\<close> for the \<^verbatim>\<open>SETUP\<close> command.\<close>

definition shunt_setup :: "'s shunt \<Rightarrow> setup_vars \<Rightarrow> ('s daemon, unit) io" where
  "shunt_setup S v =
     bind (asks opt_target) (\<lambda>target.
       if \<not> target then
         bind (need (test_target v)) (\<lambda>t.
         bind (need (test_port v)) (\<lambda>p.
         bind (need (test_args v)) (\<lambda>a.
         on_shunt (call_setup S target t p a))))
       else
         bind (need (test_args v)) (\<lambda>a.
         on_shunt (call_setup S target [] 0 a)))"

definition runtime_to_error :: "exn \<Rightarrow> 's step option" where
  \<comment> \<open>\<^verbatim>\<open>except RuntimeError as detail: return ("ERROR", (451, str(detail).strip()))\<close>\<close>
  "runtime_to_error = except_RuntimeError (\<lambda>detail. go_error 451 (strip detail))"

text \<open>The inner loop, after \<^verbatim>\<open>LOAD\<close> has succeeded.\<close>

function setup_loop :: "'s shunt \<Rightarrow> setup_vars \<Rightarrow> 's step" where
  "setup_loop S v w =
     bind (send_status 200 []) (\<lambda>_.
     bind parse_common_opts (\<lambda>line_in w.
       if line_in = ''ABORT'' then goto ''ABORT'' w
       else if line_in = ''QUIT'' then go_error 222 ''Come back soon!'' w
       else (case match_setup line_in of
           None \<Rightarrow> bind (send_status 500 []) (\<lambda>_ w. setup_loop S v w) w
         | Some (cmd, arglist) \<Rightarrow>
             bind (lift_sum (parse_setup_args (split2 (CHR ''|'') arglist) v)) (\<lambda>v'.
             try_else (if cmd = ''SETUP'' then shunt_setup S v' else ret ())
               runtime_to_error
               (\<lambda>_. bind (send_status 200 []) (\<lambda>_. goto ''RUN''))) w))) w"
  by pat_completeness auto
termination
  by (relation "measure (\<lambda>(S, v, w). length (rfile w))")
    (auto dest!: parse_common_opts_consumes send_status_rfile)

declare setup_loop.simps [simp del]

function client_setup :: "'s shunt \<Rightarrow> 's step" where
  "client_setup S w =
     bind parse_common_opts (\<lambda>line_in w.
       if line_in = ''ABORT'' then goto ''ABORT'' w
       else if line_in = ''QUIT'' then go_error 222 ''Come back soon!'' w
       else (case match_load line_in of
           None \<Rightarrow> bind (send_status 500 []) (\<lambda>_ w. client_setup S w) w
         | Some (cmd, arg) \<Rightarrow>
             if cmd = ''LOAD'' then
               try_else (on_shunt (sh_load S arg)) runtime_to_error (\<lambda>_. setup_loop S no_vars) w
             else bind (send_status 500 []) (\<lambda>_ w. client_setup S w) w)) w"
  by pat_completeness auto
termination
  by (relation "measure (\<lambda>(S, w). length (rfile w))")
    (auto dest!: parse_common_opts_consumes send_status_rfile)

declare client_setup.simps [simp del]

section \<open>run\<close>

function client_run :: "'s shunt \<Rightarrow> 's step" where
  "client_run S w =
     bind parse_common_opts (\<lambda>line_in w.
       if line_in = ''ABORT'' then goto ''ABORT'' w
       else if line_in = ''QUIT'' then go_error 222 ''Come back soon!'' w
       else (case match_word line_in of
           None \<Rightarrow> bind (send_status 500 []) (\<lambda>_ w. client_run S w) w
         | Some cmd \<Rightarrow>
             if cmd = ''START'' then
               try_else (on_shunt (sh_start S)) runtime_to_error (\<lambda>_. goto ''MARSHALL'') w
             else bind (send_status 500 []) (\<lambda>_ w. client_run S w) w)) w"
  by pat_completeness auto
termination
  by (relation "measure (\<lambda>(S, w). length (rfile w))")
    (auto dest!: parse_common_opts_consumes send_status_rfile)

declare client_run.simps [simp del]

section \<open>marshall, reset, error and abort\<close>

text \<open>
  The unpacking \<^verbatim>\<open>(valid, data) = SHUNT.marshall()\<close> fails with a \<^verbatim>\<open>TypeError\<close> when the module
  returned the bare code.
\<close>

definition shunt_marshall :: "'s shunt \<Rightarrow> ('s daemon, int \<times> bytes) io" where
  "shunt_marshall S =
     bind (on_shunt (sh_marshall S)) (\<lambda>(valid, data).
       case data of None \<Rightarrow> raise TypeError | Some d \<Rightarrow> ret (valid, d))"

definition client_marshall :: "'s shunt \<Rightarrow> 's step" where
  "client_marshall S =
     try_else (shunt_marshall S) runtime_to_error (\<lambda>(valid, data).
       bind (if valid \<noteq> 0 then send_status 221 [''Data to follow'']
             else send_status 220 [''Data to follow'']) (\<lambda>_.
       bind (send (''Content-length: '' @ repr_int (int (length data)) @ nl)) (\<lambda>_.
       bind (write_bytes data) (\<lambda>_.
       bind (on_status not_running) (\<lambda>_.
       goto ''RESET'')))))"

definition client_reset :: "'s step" where
  "client_reset = ret None"

definition client_error :: "cargo \<Rightarrow> 's step" where
  "client_error val =
     (case val of
        One \<Rightarrow> raise TypeError
      | Err errCode msg \<Rightarrow>
          bind (if errCode \<noteq> 421 then on_status not_running else ret ()) (\<lambda>_.
          bind (send_status errCode [msg]) (\<lambda>_.
          goto ''RESET'')))"

definition client_abort :: "'s step" where
  "client_abort =
     bind (on_status is_running) (\<lambda>run.
       if \<not> run then goto ''RESET''
       else
         bind (on_status running_pid) (\<lambda>pid_to_kill.
         try_else (os_kill pid_to_kill SIGINT)
           (except_ProcessLookupError (bind (on_status not_running) (\<lambda>_. ret None)))
           (\<lambda>_. try_else (os_kill pid_to_kill SIGKILL)
                  (except_ProcessLookupError (goto ''RESET''))
                  (\<lambda>_. goto ''RESET''))))"

end
