(* ===== verification/Daemon_Target.thy ===== *)
theory Daemon_Target
  imports Daemon
begin

text \<open>
  The class \<^verbatim>\<open>IpbenchTarget\<close> of \<^verbatim>\<open>ipbenchd.py\<close>: its \<^verbatim>\<open>run\<close> forks, the parent runs the test
  and the child reads the connection for the \<^verbatim>\<open>STOP\<close> command. The model follows one
  process: the result of \<^verbatim>\<open>os.fork\<close> in the world says which side of the fork it is, so the
  parent and the child are two runs of the same function.
\<close>

text \<open>The child's answer to the line it has read; \<open>None\<close> is the \<^verbatim>\<open>continue\<close> of the outer loop.\<close>

definition target_child :: "int \<Rightarrow> str \<Rightarrow> ('s daemon, (str \<times> cargo) option option) io" where
  "target_child ppid line_in =
     (if line_in = ''ABORT'' then bind (os_kill ppid SIGINT) (\<lambda>_. os_exit)
      else if line_in = ''QUIT'' then bind (go_error 222 ''Come back soon!'') (\<lambda>r. ret (Some r))
      else (case match_word line_in of
          None \<Rightarrow> bind (send_status 500 []) (\<lambda>_. ret None)
        | Some cmd \<Rightarrow>
            bind (if cmd = ''STOP'' then bind (os_kill ppid SIGUSR1) (\<lambda>_. os_exit) else ret ()) (\<lambda>_.
            bind (goto ''MARSHALL'') (\<lambda>r. ret (Some r)))))"

lemma target_child_le: "step_inv world_le (target_child ppid line)"
  unfolding target_child_def goto_def go_error_def
  by (intro env_order.inv_bind env_order.inv_if env_order.inv_option prims_le)

lemma child_read_le: "step_inv world_le (bind parse_common_opts (target_child ppid))"
  by (intro env_order.inv_bind parse_common_opts_le target_child_le)

function target_run :: "'s shunt \<Rightarrow> 's step" where
  "target_run S w =
     bind parse_common_opts (\<lambda>line_in w.
       if line_in = ''ABORT'' then goto ''ABORT'' w
       else if line_in = ''QUIT'' then go_error 222 ''Come back soon!'' w
       else (case match_word line_in of
           None \<Rightarrow> bind (send_status 500 []) (\<lambda>_ w. target_run S w) w
         | Some cmd \<Rightarrow>
             if cmd = ''START'' then
               bind (asks own_pid) (\<lambda>ppid.
               bind os_fork (\<lambda>pid w.
                 if pid > 0 then
                   try_else (on_shunt (sh_start S))
                     (except_RuntimeError (\<lambda>detail.
                        bind (os_kill pid SIGKILL) (\<lambda>_. go_error 451 (strip detail))))
                     (\<lambda>_. goto ''MARSHALL'') w
                 else
                   bind (bind parse_common_opts (target_child ppid)) (\<lambda>r w.
                     case r of None \<Rightarrow> target_run S w | Some next \<Rightarrow> ret next w) w)) w
             else bind (send_status 500 []) (\<lambda>_ w. target_run S w) w)) w"
  by pat_completeness auto
termination
  by (relation "measure (\<lambda>(S, w). length (rfile w))")
    (auto dest!: parse_common_opts_consumes send_status_rfile step_length [OF child_read_le]
      step_length [OF os_fork_le])

declare target_run.simps [simp del]

end
