(* ===== verification/Daemon_Handler.thy ===== *)
theory Daemon_Handler
  imports Daemon_Target
begin

text \<open>
  \<^verbatim>\<open>IpbenchRequestHandler.handle\<close> of \<^verbatim>\<open>ipbenchd.py\<close>: the greeting, the machine with the
  handlers of the mode, and what becomes of an exception. \<open>None\<close> is a handler that never
  returns; the interpretation \<open>daemon_machine_ok\<close> shows that there is none.
\<close>

text \<open>
  The objects of the two classes are their methods, bound to the module that the constructor
  imports; \<^verbatim>\<open>IpbenchTarget\<close> inherits all of them but \<^verbatim>\<open>run\<close>.
\<close>

record 's ipbench_object =
  m_listen :: "'s step"
  m_setup :: "'s step"
  m_run :: "'s step"
  m_marshall :: "'s step"
  m_reset :: "'s step"
  m_error :: "cargo \<Rightarrow> 's step"
  m_abort :: "'s step"

definition IpbenchClient :: "'s shunt \<Rightarrow> 's ipbench_object" where
  "IpbenchClient SHUNT =
     \<lparr>m_listen = client_listen, m_setup = client_setup SHUNT, m_run = client_run SHUNT,
      m_marshall = client_marshall SHUNT, m_reset = client_reset, m_error = client_error,
      m_abort = client_abort\<rparr>"

definition IpbenchTarget :: "'s shunt \<Rightarrow> 's ipbench_object" where
  "IpbenchTarget SHUNT = (IpbenchClient SHUNT)\<lparr>m_run := target_run SHUNT\<rparr>"

definition daemon_machine :: "'s shunt \<Rightarrow> bool \<Rightarrow> ('s daemon, cargo) machine" where
  "daemon_machine S target =
     (let c = (if target then IpbenchTarget S else IpbenchClient S) in
      add_state ''RESET'' (\<lambda>fd. m_reset c) True
     (set_start ''LISTEN''
     (add_state ''ABORT'' (\<lambda>val. m_abort c) False
     (add_state ''ERROR'' (m_error c) False
     (add_state ''MARSHALL'' (\<lambda>val. m_marshall c) False
     (add_state ''RUN'' (\<lambda>val. m_run c) False
     (add_state ''SETUP'' (\<lambda>val. m_setup c) False
     (add_state ''LISTEN'' (\<lambda>cargo. m_listen c) False StateMachine))))))))"

lemma object_methods:
  "m_listen (if t then IpbenchTarget S else IpbenchClient S) = client_listen"
  "m_setup (if t then IpbenchTarget S else IpbenchClient S) = client_setup S"
  "m_run (if t then IpbenchTarget S else IpbenchClient S) = (if t then target_run S else client_run S)"
  "m_marshall (if t then IpbenchTarget S else IpbenchClient S) = client_marshall S"
  "m_reset (if t then IpbenchTarget S else IpbenchClient S) = client_reset"
  "m_error (if t then IpbenchTarget S else IpbenchClient S) = client_error"
  "m_abort (if t then IpbenchTarget S else IpbenchClient S) = client_abort"
  by (simp_all add: IpbenchTarget_def IpbenchClient_def)

lemma daemon_machine_states:
  "daemon_machine S target =
     add_state ''RESET'' (\<lambda>fd. client_reset) True
     (set_start ''LISTEN''
     (add_state ''ABORT'' (\<lambda>val. client_abort) False
     (add_state ''ERROR'' client_error False
     (add_state ''MARSHALL'' (\<lambda>val. client_marshall S) False
     (add_state ''RUN'' (\<lambda>val. if target then target_run S else client_run S) False
     (add_state ''SETUP'' (\<lambda>val. client_setup S) False
     (add_state ''LISTEN'' (\<lambda>cargo. client_listen) False StateMachine)))))))"
  by (simp only: daemon_machine_def Let_def object_methods)

text \<open>The greeting; an exception that \<^verbatim>\<open>except Exception\<close> catches is only printed.\<close>

definition greet :: "('s daemon, unit) io" where
  "greet = try_else (send_status 100 []) (\<lambda>e. if is_Exception e then Some (ret ()) else None) ret"

fun handle_exception :: "(unit res \<times> 's daemon) \<Rightarrow> (unit res \<times> 's daemon)" where
  "handle_exception (Raise e, w) = (Raise (if is_Exception e then SystemExit 0 else e), w)"
| "handle_exception r = r"

text \<open>\<open>C\<close> and \<open>T\<close> are the modules that \<^verbatim>\<open>import\<close> binds to \<^verbatim>\<open>SHUNT\<close> in the two modes.\<close>

definition handle :: "'s shunt \<Rightarrow> 's shunt \<Rightarrow> 's daemon \<Rightarrow> (unit res \<times> 's daemon) option" where
  "handle C T w =
     (case greet w of
        (Ret _, w1) \<Rightarrow>
          let target = opt_target w1; S = (if target then T else C) in
          map_option handle_exception (run_machine (daemon_machine S target) One w1)
      | (r, w1) \<Rightarrow> Some (r, w1))"

end
