(* ===== verification/Daemon_Facts.thy ===== *)
theory Daemon_Facts
  imports Daemon_Handler
begin

text \<open>
  What each handler may do, whatever it reads: the states it can go to with which cargo
  (\<open>next_in\<close>), and that it only consumes input and only adds output and signals
  (\<open>world_le\<close>). Both give the machine of \<open>handle\<close> its contracts, so every run of a handler
  process returns.
\<close>

section \<open>Successor states\<close>

definition next_in :: "(str \<Rightarrow> cargo \<Rightarrow> bool) \<Rightarrow> (str \<times> cargo) option res \<times> 'w \<Rightarrow> bool" where
  "next_in P r \<longleftrightarrow> (\<forall>s c w'. r = (Ret (Some (s, c)), w') \<longrightarrow> P s c)"

lemma next_in_simps [simp]:
  "next_in P (Ret (Some (s, c)), w) \<longleftrightarrow> P s c"
  "next_in P (Ret None, w)"
  "next_in P (Raise e, w)"
  "next_in P (Wait, w)"
  "next_in P (Halt, w)"
  by (auto simp: next_in_def)

lemma next_goto [simp]:
  "next_in P (goto s w) \<longleftrightarrow> P s One"
  "next_in P (go_error c m w) \<longleftrightarrow> P ''ERROR'' (Err c m)"
  by (auto simp: goto_def go_error_def)

lemma next_bind: "(\<And>x w'. m w = (Ret x, w') \<Longrightarrow> next_in P (f x w')) \<Longrightarrow> next_in P (bind m f w)"
  by (auto simp: bind_split [where P = "next_in P"])

lemma next_try:
  "(\<And>x w'. m w = (Ret x, w') \<Longrightarrow> next_in P (f x w')) \<Longrightarrow>
   (\<And>e k w'. h e = Some k \<Longrightarrow> next_in P (k w')) \<Longrightarrow> next_in P (try_else m h f w)"
  by (auto simp: try_else_split [where P = "next_in P"])

text \<open>The codes with which a connection ends in \<^verbatim>\<open>ERROR\<close>: a farewell, a busy daemon, a failed call of the module.\<close>

fun error_cargo :: "cargo \<Rightarrow> bool" where
  "error_cargo One = False"
| "error_cargo (Err n m) = (n = 222 \<or> n = 421 \<or> n = 451)"

definition quits :: "str \<Rightarrow> cargo \<Rightarrow> bool" where
  "quits s c \<longleftrightarrow> (s = ''ABORT'' \<and> c = One) \<or> (s = ''ERROR'' \<and> error_cargo c \<and> (\<forall>m. c \<noteq> Err 421 m))"

definition then_to :: "str \<Rightarrow> str \<Rightarrow> cargo \<Rightarrow> bool" where
  "then_to t s c \<longleftrightarrow> (s = t \<and> c = One) \<or> quits s c"

lemma then_to_simps [simp]:
  "then_to t t One" "then_to t ''ABORT'' One"
  "error_cargo (Err n m) \<Longrightarrow> n \<noteq> 421 \<Longrightarrow> then_to t ''ERROR'' (Err n m)"
  by (simp_all add: then_to_def quits_def)

text \<open>Only \<^verbatim>\<open>listen\<close> refuses with 421.\<close>

definition listen_to :: "str \<Rightarrow> cargo \<Rightarrow> bool" where
  "listen_to s c \<longleftrightarrow> then_to ''SETUP'' s c \<or> (s = ''ERROR'' \<and> c = Err 421 ''Already Running'')"

lemma next_runtime_to [simp]: "runtime_to_error e = Some k \<Longrightarrow> next_in (then_to t) (k w)"
  by (cases e) (auto simp: runtime_to_error_def)

lemmas reads = parse_common_opts_consumes send_status_rfile

lemma listen_next: "next_in listen_to (client_listen w)"
proof (induction "length (rfile w)" arbitrary: w rule: less_induct)
  case less
  show ?case
    by (subst client_listen.simps)
      (auto simp: listen_to_def intro!: next_bind less dest!: reads split: option.splits)
qed

lemma setup_loop_next: "next_in (then_to ''RUN'') (setup_loop S v w)"
proof (induction "length (rfile w)" arbitrary: w rule: less_induct)
  case less
  show ?case
    by (subst setup_loop.simps)
      (auto intro!: next_bind next_try less dest!: reads split: option.splits)
qed

lemma setup_next: "next_in (then_to ''RUN'') (client_setup S w)"
proof (induction "length (rfile w)" arbitrary: w rule: less_induct)
  case less
  show ?case
    by (subst client_setup.simps)
      (auto intro!: next_bind next_try setup_loop_next less dest!: reads split: option.splits)
qed

lemma run_next: "next_in (then_to ''MARSHALL'') (client_run S w)"
proof (induction "length (rfile w)" arbitrary: w rule: less_induct)
  case less
  show ?case
    by (subst client_run.simps)
      (auto intro!: next_bind next_try less dest!: reads split: option.splits)
qed

lemma child_next:
  "target_child ppid l w = (Ret (Some r), w') \<Longrightarrow> next_in (then_to ''MARSHALL'') (Ret r, w')"
  by (auto simp: target_child_def goto_def go_error_def os_exit_def
      split: if_splits option.splits elim!: bind_RetE)

lemma next_except_runtime:
  "except_RuntimeError f e = Some k \<Longrightarrow> (\<And>d. next_in P (f d w)) \<Longrightarrow> next_in P (k w)"
  by (cases e) auto

lemma next_except_lookup:
  "except_ProcessLookupError m e = Some k \<Longrightarrow> next_in P (m w) \<Longrightarrow> next_in P (k w)"
  by (cases e) auto

lemma child_reads:
  "bind parse_common_opts (target_child p) w = (r, w') \<Longrightarrow> length (rfile w') \<le> length (rfile w)"
  "os_fork w = (r', w') \<Longrightarrow> length (rfile w') \<le> length (rfile w)"
  by (simp_all add: step_length [OF child_read_le] step_length [OF os_fork_le])

lemma target_run_next: "next_in (then_to ''MARSHALL'') (target_run S w)"
proof (induction "length (rfile w)" arbitrary: w rule: less_induct)
  case less
  have child: "next_in (then_to ''MARSHALL'') (Ret r, w'')"
    if "bind parse_common_opts (target_child p) w' = (Ret (Some r), w'')" for p w' w'' r
    using that by (auto elim!: bind_RetE dest: child_next)
  have loop: "next_in (then_to ''MARSHALL'') (target_run S w')"
    if "length (rfile w') < length (rfile w)" for w'
    using that by (rule less)
  show ?case
    by (subst target_run.simps)
      (auto intro!: next_bind next_try loop split: option.splits elim!: next_except_runtime;
        (erule child | force dest!: reads child_reads))
qed

lemma marshall_next: "next_in (then_to ''RESET'') (client_marshall S w)"
  by (auto simp: client_marshall_def intro!: next_bind next_try)

lemma error_next: "next_in (\<lambda>s c. s = ''RESET'') (client_error c w)"
  by (auto simp: client_error_def intro!: next_bind split: cargo.splits)

lemma abort_next: "next_in (\<lambda>s c. s = ''RESET'') (client_abort w)"
  by (auto simp: client_abort_def intro!: next_bind next_try elim!: next_except_lookup)

section \<open>Effects on the world\<close>

text \<open>
  A reflexive and transitive relation that every primitive effect respects is respected by
  every handler. The relation may speak of the input, the output, the signals and the shared
  memory; it is interpreted by \<open>world_le\<close> here and by the invariant of the shared memory
  below. \<open>daemon_reads\<close> asks for it only of the effects that do not write the status, and gives
  it for the handlers that do not either.
\<close>

locale daemon_reads = world_order R for R :: "'s daemon \<Rightarrow> 's daemon \<Rightarrow> bool" +
  assumes write_R: "step_inv R (write_bytes b)"
    and readline_R: "step_inv R readline"
    and is_running_R: "step_inv R (on_status is_running)"
    and running_pid_R: "step_inv R (on_status running_pid)"
    and shunt_unit_R: "step_inv R (on_shunt (m :: ('s, unit) io))"
    and shunt_data_R: "step_inv R (on_shunt (m' :: ('s, int \<times> bytes option) io))"
    and kill_R: "step_inv R (os_kill p sig)"
    and fork_R: "step_inv R os_fork"
begin

lemma refl_R [simp]: "R w w"
  by (rule r_refl)

lemma pure_R [simp]:
  "R w (snd (goto s w))" "R w (snd (go_error c m w))" "R w (snd (ret x w))"
  "R w (snd (raise e w))" "R w (snd (os_exit w))" "R w (snd (asks f w))"
  by (simp_all add: goto_def go_error_def os_exit_def)

lemma send_R: "R w (snd (send s w))"
  using write_R by (simp add: send_def step_inv_def)

lemma send_status_R: "R w (snd (send_status c msg w))"
  by (auto simp: send_status_def send_R split: sum.splits)

lemma lift_sum_R: "R w (snd (lift_sum r w))"
  by (auto simp: lift_sum_def split: sum.splits)

lemma need_R: "R w (snd (need x w))"
  by (auto simp: need_def split: option.splits)

lemmas prims_R = write_R [THEN at_step] readline_R [THEN at_step] is_running_R [THEN at_step]
  running_pid_R [THEN at_step] shunt_unit_R [THEN at_step] shunt_data_R [THEN at_step]
  kill_R [THEN at_step] fork_R [THEN at_step] send_R send_status_R lift_sum_R need_R

lemmas rules_R = at_bind at_try_else prims_R

lemma help_R: "R w (snd (help_reply w))"
  unfolding help_reply_def by (auto intro!: rules_R)

lemma status_R: "R w (snd (status_reply w))"
  unfolding status_reply_def by (auto intro!: rules_R)

lemma common_opts_R: "R w (snd (parse_common_opts w))"
proof (induction w rule: parse_common_opts.induct)
  case (1 w)
  have "R w' (snd (common_step raw w'))" if "readline w = (Ret raw, w')" for raw w'
    using 1 [OF that refl refl]
    by (auto simp: common_step_def Let_def intro!: at_bind help_R status_R)
  then show ?case
    unfolding parse_common_opts_unfold by (intro rules_R)
qed

lemma runtime_R: "runtime_to_error e = Some k \<Longrightarrow> R w (snd (k w))"
  by (cases e) (auto simp: runtime_to_error_def)

lemma shunt_setup_R: "R w (snd (shunt_setup S v w))"
  unfolding shunt_setup_def by (auto intro!: rules_R)

lemma setup_loop_R: "R w (snd (setup_loop S v w))"
proof (induction "length (rfile w)" arbitrary: w rule: less_induct)
  case less
  show ?case
    by (subst setup_loop.simps)
      (auto intro!: rules_R common_opts_R shunt_setup_R less dest!: reads split: option.splits
        elim!: runtime_R)
qed

lemma setup_R: "R w (snd (client_setup S w))"
proof (induction "length (rfile w)" arbitrary: w rule: less_induct)
  case less
  show ?case
    by (subst client_setup.simps)
      (auto intro!: rules_R common_opts_R setup_loop_R less dest!: reads split: option.splits
        elim!: runtime_R)
qed

lemma run_R: "R w (snd (client_run S w))"
proof (induction "length (rfile w)" arbitrary: w rule: less_induct)
  case less
  show ?case
    by (subst client_run.simps)
      (auto intro!: rules_R common_opts_R less dest!: reads split: option.splits elim!: runtime_R)
qed

lemma except_kill_R:
  "except_RuntimeError (\<lambda>d. bind (os_kill p s) (\<lambda>_. go_error c (f d))) e = Some k \<Longrightarrow>
     R w (snd (k w))"
  by (cases e) (auto intro!: rules_R)

lemma child_R: "R w (snd (target_child ppid l w))"
  unfolding target_child_def by (auto intro!: rules_R split: option.splits)

lemma target_run_R: "R w (snd (target_run S w))"
proof (induction "length (rfile w)" arbitrary: w rule: less_induct)
  case less
  have loop: "R w' (snd (target_run S w'))" if "length (rfile w') < length (rfile w)" for w'
    using that by (rule less)
  show ?case
    by (subst target_run.simps)
      (auto intro!: rules_R common_opts_R child_R loop split: option.splits elim!: except_kill_R;
        force dest!: reads child_reads)
qed

end

locale daemon_order = daemon_reads R for R :: "'s daemon \<Rightarrow> 's daemon \<Rightarrow> bool" +
  assumes not_running_R: "step_inv R (on_status not_running)"
    and running_R: "R w (snd (on_status (running (own_pid w)) w))"
begin

lemmas writes_R = rules_R not_running_R [THEN at_step] running_R

lemma listen_R: "R w (snd (client_listen w))"
proof (induction "length (rfile w)" arbitrary: w rule: less_induct)
  case less
  show ?case
    by (subst client_listen.simps)
      (auto intro!: writes_R common_opts_R less dest!: reads split: option.splits)
qed

lemma marshall_R: "R w (snd (client_marshall S w))"
  by (auto simp: client_marshall_def shunt_marshall_def intro!: writes_R split: option.splits
      elim!: runtime_R)

lemma error_R: "R w (snd (client_error c w))"
  by (auto simp: client_error_def intro!: writes_R split: cargo.splits)

lemma except_lookup_R:
  "except_ProcessLookupError m e = Some k \<Longrightarrow> (\<And>w. R w (snd (m w))) \<Longrightarrow> R w (snd (k w))"
  by (cases e) auto

lemma abort_R: "R w (snd (client_abort w))"
  by (auto simp: client_abort_def intro!: writes_R elim!: except_lookup_R)

end

interpretation env_daemon: daemon_order world_le
  by unfold_locales
    (auto simp: write_le readline_le on_status_le on_shunt_le os_kill_le os_fork_le
      intro: on_status_le [THEN env_order.at_step])

section \<open>The machine of the daemon\<close>

lemma upper_names [simp]:
  "upper ''RESET'' = ''RESET''" "upper ''LISTEN'' = ''LISTEN''" "upper ''ABORT'' = ''ABORT''"
  "upper ''ERROR'' = ''ERROR''" "upper ''MARSHALL'' = ''MARSHALL''" "upper ''RUN'' = ''RUN''"
  "upper ''SETUP'' = ''SETUP''"
  by code_simp+

lemma daemon_machine_simps:
  "handlers (daemon_machine S target) ''RESET'' = Some (\<lambda>fd. client_reset)"
  "handlers (daemon_machine S target) ''ABORT'' = Some (\<lambda>val. client_abort)"
  "handlers (daemon_machine S target) ''ERROR'' = Some client_error"
  "handlers (daemon_machine S target) ''MARSHALL'' = Some (\<lambda>val. client_marshall S)"
  "handlers (daemon_machine S target) ''RUN'' =
     Some (\<lambda>val. if target then target_run S else client_run S)"
  "handlers (daemon_machine S target) ''SETUP'' = Some (\<lambda>val. client_setup S)"
  "handlers (daemon_machine S target) ''LISTEN'' = Some (\<lambda>cargo. client_listen)"
  "start_state (daemon_machine S target) = Some ''LISTEN''"
  "end_states (daemon_machine S target) = [''RESET'']"
  by (simp_all add: daemon_machine_states StateMachine_def)

lemma daemon_handler_cases:
  assumes "handlers (daemon_machine S target) n = Some h"
  obtains "n = ''RESET''" "h = (\<lambda>fd. client_reset)"
  | "n = ''ABORT''" "h = (\<lambda>val. client_abort)"
  | "n = ''ERROR''" "h = client_error"
  | "n = ''MARSHALL''" "h = (\<lambda>val. client_marshall S)"
  | "n = ''RUN''" "h = (\<lambda>val. if target then target_run S else client_run S)"
  | "n = ''SETUP''" "h = (\<lambda>val. client_setup S)"
  | "n = ''LISTEN''" "h = (\<lambda>cargo. client_listen)"
  using assms by (auto simp: daemon_machine_states StateMachine_def split: if_splits)

text \<open>The order in which a connection passes through the states.\<close>

definition state_rank :: "str \<Rightarrow> nat" where
  "state_rank n =
     (if n = ''LISTEN'' then 5 else if n = ''SETUP'' then 4 else if n = ''RUN'' then 3
      else if n = ''MARSHALL'' then 2 else if n = ''ABORT'' \<or> n = ''ERROR'' then 1 else 0)"

definition state_goes :: "str \<Rightarrow> str \<Rightarrow> cargo \<Rightarrow> bool" where
  "state_goes n s c \<longleftrightarrow>
     (if n = ''LISTEN'' then listen_to s c
      else if n = ''SETUP'' then then_to ''RUN'' s c
      else if n = ''RUN'' then then_to ''MARSHALL'' s c
      else if n = ''MARSHALL'' then then_to ''RESET'' s c
      else s = ''RESET'')"

lemma daemon_next:
  "handlers (daemon_machine S target) n = Some h \<Longrightarrow> next_in (state_goes n) (h c w)"
  by (erule daemon_handler_cases)
    (auto simp: state_goes_def [abs_def] client_reset_def listen_next setup_next run_next
      target_run_next marshall_next error_next abort_next)

context daemon_order
begin

lemma handlers_R: "handlers (daemon_machine S target) n = Some h \<Longrightarrow> step_inv R (h c)"
  by (erule daemon_handler_cases)
    (auto simp: step_inv_def client_reset_def listen_R setup_R run_R target_run_R
      marshall_R error_R abort_R)

lemma greet_R: "R w (snd (greet w))"
  unfolding greet_def by (auto intro!: rules_R split: if_splits)

end

interpretation daemon_machine_ok: ranked_machine "daemon_machine S target" state_rank
  for S :: "'s shunt" and target :: bool
proof unfold_locales
  fix n h c w s c' w'
  assume h: "handlers (daemon_machine S target) n = Some h" and r: "h c w = (Ret (Some (s, c')), w')"
  have g: "state_goes n s c'"
    using daemon_next [OF h, of c w] by (simp add: r)
  show "upper s \<in> set (end_states (daemon_machine S target)) \<or>
    (\<exists>h'. handlers (daemon_machine S target) (upper s) = Some h' \<and> state_rank (upper s) < state_rank n)"
    using h g
    by (elim daemon_handler_cases)
      (auto simp: state_goes_def listen_to_def then_to_def quits_def daemon_machine_simps state_rank_def)
qed (auto simp: daemon_machine_simps)

text \<open>Every relation of the handlers is one of the whole machine, and so of a connection.\<close>

sublocale daemon_order \<subseteq> conn: ordered_machine "daemon_machine S target" state_rank R
  for S :: "'s shunt" and target :: bool
  by unfold_locales (rule handlers_R)

context daemon_order
begin

lemma handle_R:
  assumes "handle C T w = Some (r, w')"
  shows "R w w'"
proof -
  obtain g w1 where g: "greet w = (g, w1)" and "R w w1"
    using greet_R [of w] by (cases "greet w") auto
  moreover have "R w1 w'" if "g = Ret ()"
  proof -
    from assms g that obtain r0 where
      "run_machine (daemon_machine (if opt_target w1 then T else C) (opt_target w1)) One w1 = Some (r0, w')"
      by (auto simp: handle_def Let_def elim!: handle_exception.elims)
    then show ?thesis by (rule conn.run_inv)
  qed
  moreover have "w1 = w'" if "g \<noteq> Ret ()"
    using assms g that by (cases g) (auto simp: handle_def)
  ultimately show ?thesis
    by (metis r_trans)
qed

end

section \<open>The invariant of the shared memory\<close>

text \<open>
  The memory holds a pid out of \<open>Q\<close>, or 0; this process and the children it may become have
  pids out of \<open>Q\<close>.
\<close>

definition cell_inv :: "nat set \<Rightarrow> 's daemon \<Rightarrow> bool" where
  "cell_inv Q w \<longleftrightarrow>
     (\<exists>p. shm_holds (test_running w) p \<and> (p = 0 \<or> p \<in> Q)) \<and>
     (\<exists>q \<in> Q. q < 10 ^ 19 \<and> own_pid w = int q) \<and>
     (\<forall>c. InChild c \<in> set (forks w) \<longrightarrow> (\<exists>q \<in> Q. q < 10 ^ 19 \<and> c = int q))"

definition keeps_cell :: "nat set \<Rightarrow> 's daemon \<Rightarrow> 's daemon \<Rightarrow> bool" where
  "keeps_cell Q w w' \<longleftrightarrow> (cell_inv Q w \<longrightarrow> cell_inv Q w')"

lemma keeps_cellI:
  assumes "\<And>w. cell_inv Q w \<Longrightarrow> cell_inv Q (snd (m w))"
  shows "step_inv (keeps_cell Q) m"
  using assms by (simp add: step_inv_def keeps_cell_def)

lemma cell_inv_fields [simp]:
  "cell_inv Q (w\<lparr>rfile := x\<rparr>) = cell_inv Q w"
  "cell_inv Q (w\<lparr>wfile := y\<rparr>) = cell_inv Q w"
  "cell_inv Q (w\<lparr>wleft := z\<rparr>) = cell_inv Q w"
  "cell_inv Q (w\<lparr>shunt_state := s\<rparr>) = cell_inv Q w"
  "cell_inv Q (w\<lparr>signals := sg\<rparr>) = cell_inv Q w"
  by (simp_all add: cell_inv_def)

lemma cell_inv_status:
  assumes "cell_inv Q w"
    and "\<And>p. shm_holds (test_running w) p \<Longrightarrow> p = 0 \<or> p \<in> Q \<Longrightarrow>
           \<exists>p'. shm_holds (snd (m (test_running w))) p' \<and> (p' = 0 \<or> p' \<in> Q)"
  shows "cell_inv Q (snd (on_status m w))"
  using assms by (auto simp: cell_inv_def on_status_eval split: prod.splits)

lemma cell_not_running: "cell_inv Q w \<Longrightarrow> cell_inv Q (snd (on_status not_running w))"
  by (erule cell_inv_status) (metis not_running_holds snd_conv)

lemma cell_running: "cell_inv Q w \<Longrightarrow> cell_inv Q (snd (on_status (running (own_pid w)) w))"
proof (rule cell_inv_status)
  fix p
  assume "cell_inv Q w" and p: "shm_holds (test_running w) p"
  then obtain q where "q \<in> Q" "q < 10 ^ 19" "own_pid w = int q"
    by (auto simp: cell_inv_def)
  then show "\<exists>p'. shm_holds (snd (running (own_pid w) (test_running w))) p' \<and> (p' = 0 \<or> p' \<in> Q)"
    using running_holds [OF p] by fastforce
qed

lemma cell_fork: "cell_inv Q w \<Longrightarrow> cell_inv Q (snd (os_fork w))"
  by (auto simp: cell_inv_def os_fork_def split: list.splits fork_result.splits)

interpretation cell_daemon: daemon_order "keeps_cell Q" for Q :: "nat set"
proof unfold_locales
  show "step_inv (keeps_cell Q) (on_status is_running)"
    by (intro keeps_cellI cell_inv_status) (auto simp: is_running_holds)
  show "step_inv (keeps_cell Q) (on_status running_pid)"
    by (intro keeps_cellI cell_inv_status) (auto simp: running_pid_holds)
  show "step_inv (keeps_cell Q) (on_status not_running)"
    by (intro keeps_cellI cell_not_running)
  show "keeps_cell Q w (snd (on_status (running (own_pid w)) w))" for w
    by (simp add: keeps_cell_def cell_running)
  show "step_inv (keeps_cell Q) os_fork"
    by (intro keeps_cellI cell_fork)
qed (auto simp: keeps_cell_def step_inv_def write_bytes_def readline_def on_shunt_eval
    os_kill_def Let_def
    split: option.splits nat.splits list.splits prod.splits kill_result.splits signal.splits)

end
