(* ===== verification/Setup_Text.thy ===== *)
theory Setup_Text
  imports Daemon
begin

text \<open>
  The \<^verbatim>\<open>LOAD\<close> and \<^verbatim>\<open>SETUP\<close> lines of the controller, as the daemon's regular expressions and
  splits take them apart. \<open>plugin_name\<close>, \<open>target_text\<close> and \<open>args_text\<close> are the texts that
  survive the trip.
\<close>

definition plugin_name :: "str \<Rightarrow> bool" where
  "plugin_name t \<longleftrightarrow> t \<noteq> [] \<and> ascii t \<and> (\<forall>c \<in> set t. is_argchar c) \<and> \<not> is_space (last t)"

definition line_text :: "str \<Rightarrow> bool" where
  "line_text s \<longleftrightarrow> ascii s \<and> newline \<notin> set s"

definition target_text :: "str \<Rightarrow> bool" where
  "target_text h \<longleftrightarrow> line_text h \<and> CHR ''|'' \<notin> set h \<and> no_sep (CHR '':'') h"

definition args_text :: "str \<Rightarrow> bool" where
  "args_text a \<longleftrightarrow> line_text a \<and> no_sep (CHR ''|'') a \<and> no_sep (CHR '':'') a"

lemma protocol_lines [simp]: "target_text h \<Longrightarrow> line_text h" "args_text a \<Longrightarrow> line_text a"
  by (simp_all add: target_text_def args_text_def)

section \<open>Taking the lines apart\<close>

lemma takeWhile_word:
  "(\<forall>c \<in> set t. P c) \<Longrightarrow> \<not> P c \<Longrightarrow> takeWhile P (t @ c # r) = t"
  by (induction t) auto

lemma not_word_space [simp]: "\<not> is_word (CHR '' '')"
  by code_simp

lemma match_word_then_ok:
  assumes "t \<noteq> []" and "\<forall>c \<in> set t. is_word c" and "r \<noteq> []" and "\<forall>c \<in> set r. cls c"
  shows "match_word_then cls (t @ '' '' @ r) = Some (t, r)"
proof -
  have "takeWhile is_word (t @ '' '' @ r) = t"
    using assms takeWhile_word [of t is_word "CHR '' ''" r] by simp
  moreover have r: "takeWhile cls r = r"
    using assms by (simp add: takeWhile_eq_all_conv)
  ultimately show ?thesis
    using assms(1,3) by (simp add: match_word_then_def match_word_def Let_def r)
qed

lemma words [simp]:
  "\<forall>c \<in> set ''LOAD''. is_word c" "\<forall>c \<in> set ''SETUP''. is_word c"
  by code_simp+

lemma match_load_message:
  "plugin_name t \<Longrightarrow> match_load (load_message t) = Some (''LOAD'', t)"
  using match_word_then_ok [of "''LOAD''" t is_argchar]
  by (auto simp: match_load_def load_message_def plugin_name_def)

definition target_field :: "str \<Rightarrow> str" where
  "target_field h = ''target::'' @ h"

definition port_field :: "int \<Rightarrow> str" where
  "port_field p = ''port::'' @ repr_int p"

definition args_field :: "str \<Rightarrow> str" where
  "args_field a = ''args::\"'' @ a @ ''\"''"

lemmas field_defs = target_field_def port_field_def args_field_def

definition setup_arglist :: "str \<Rightarrow> int \<Rightarrow> str \<Rightarrow> str" where
  "setup_arglist h p a = target_field h @ ''||'' @ port_field p @ ''||'' @ args_field a"

lemma repr_int_chars: "c \<in> set (repr_int p) \<Longrightarrow> is_digit c \<or> c = CHR ''-''"
  by (auto simp: repr_int_def split: if_splits dest: show_nat_digits)

lemma repr_int_no:
  "newline \<notin> set (repr_int p)" "CHR ''|'' \<notin> set (repr_int p)" "CHR '':'' \<notin> set (repr_int p)"
  by (auto simp: newline_def is_digit_def dest!: repr_int_chars)

lemma match_setup_message:
  assumes "line_text h" and "line_text a"
  shows "match_setup (setup_message h p a) = Some (''SETUP'', setup_arglist h p a)"
proof -
  have "\<forall>c \<in> set (setup_arglist h p a). c \<noteq> newline"
    using assms repr_int_no(1) [of p]
    by (auto simp: setup_arglist_def field_defs line_text_def)
      (simp_all add: newline_def)
  then show ?thesis
    using match_word_then_ok [of "''SETUP''" "setup_arglist h p a" "\<lambda>c. c \<noteq> newline"]
    by (simp add: match_setup_def setup_message_def setup_arglist_def field_defs)
qed

lemma match_target_setup_message:
  assumes "args_text a"
  shows "match_setup (target_setup_message a) = Some (''SETUP'', args_field a)"
proof -
  have "\<forall>c \<in> set (args_field a). c \<noteq> newline"
    using assms by (auto simp: args_field_def args_text_def line_text_def) (simp_all add: newline_def)
  then show ?thesis
    using match_word_then_ok [of "''SETUP''" "args_field a" "\<lambda>c. c \<noteq> newline"]
    by (simp add: match_setup_def target_setup_message_def args_field_def)
qed

lemma split_args_part:
  assumes "args_text a"
  shows "split2 (CHR ''|'') (args_field a) = [args_field a]"
proof -
  have "no_sep (CHR ''|'') (args_field a)"
    unfolding args_field_def
    using assms by (intro no_sep_prefix no_sep_snoc) (auto simp: args_text_def)
  then show ?thesis by (simp add: no_sep_def)
qed

lemma split_setup_arglist:
  assumes "target_text h" and "args_text a"
  shows "split2 (CHR ''|'') (setup_arglist h p a) = [target_field h, port_field p, args_field a]"
proof -
  have "CHR ''|'' \<notin> set (target_field h)" "CHR ''|'' \<notin> set (port_field p)"
    using assms(1) repr_int_no by (auto simp: field_defs target_text_def)
  then show ?thesis
    by (simp add: setup_arglist_def split2_first split_args_part [OF assms(2)])
qed

lemma split_field:
  "CHR '':'' \<notin> set k \<Longrightarrow> no_sep (CHR '':'') v \<Longrightarrow> split2 (CHR '':'') (k @ ''::'' @ v) = [k, v]"
  using split2_first [of "CHR '':''" k v] by (simp add: no_sep_def)

lemma unquote: "ascii a \<Longrightarrow> str_slice (''\"'' @ a @ ''\"'') 1 (- 1) = a"
  using py_slice_append [of 1 "''\"''" "int (length a + 1)" a "''\"''"]
  by (simp add: str_slice_ascii py_slice_def py_idx_def)

lemma quoted_no_sep: "args_text a \<Longrightarrow> no_sep (CHR '':'') (''\"'' @ a @ ''\"'')"
  by (intro no_sep_prefix no_sep_snoc) (auto simp: args_text_def)

lemma split_target_field:
  "target_text h \<Longrightarrow> split2 (CHR '':'') (target_field h) = [''target'', h]"
  using split_field [of "''target''" h] by (simp add: target_text_def target_field_def)

lemma split_port_field: "split2 (CHR '':'') (port_field p) = [''port'', repr_int p]"
  using split_field [of "''port''" "repr_int p"] repr_int_no by (simp add: no_sepI port_field_def)

lemma split_args_field:
  "args_text a \<Longrightarrow> split2 (CHR '':'') (args_field a) = [''args'', ''\"'' @ a @ ''\"'']"
  using split_field [of "''args''" "''\"'' @ a @ ''\"''"] quoted_no_sep [of a]
  by (simp add: args_field_def)

lemma parse_args_step:
  assumes "args_text a"
  shows "parse_setup_args [args_field a] v = Inr (v\<lparr>test_args := Some a\<rparr>)"
  using split_args_field [OF assms] unquote [of a] assms by (simp add: args_text_def line_text_def)

lemma parse_setup_message:
  assumes "target_text h" and "args_text a"
  shows "parse_setup_args (split2 (CHR ''|'') (setup_arglist h p a)) v =
    Inr \<lparr>test_target = Some h, test_port = Some p, test_args = Some a\<rparr>"
  using split_target_field [OF assms(1)] split_port_field [of p] parse_args_step [OF assms(2)]
  by (simp add: split_setup_arglist [OF assms] py_int_repr_int)

lemma parse_target_setup_message:
  assumes "args_text a"
  shows "parse_setup_args (split2 (CHR ''|'') (args_field a)) v = Inr (v\<lparr>test_args := Some a\<rparr>)"
  using assms by (simp only: split_args_part parse_args_step)

end
