(* ===== verification/Daemon_Session.thy ===== *)
theory Daemon_Session
  imports Daemon_Facts Setup_Text
begin

text \<open>
  What the handlers do on the lines of the protocol, while the peer keeps the connection:
  one lemma per state and command, and the properties of whole connections that follow by
  composing them through the machine.
\<close>

section \<open>Reading one line\<close>

lemma utf8_valid_nl: "ascii s \<Longrightarrow> utf8_valid (s @ nl)"
  by (simp add: ascii_utf8_valid)

lemma common_opts_line:
  assumes "rfile w = l # ls" and "utf8_valid l"
    and "match_nonspace0 (strip l) \<noteq> ''HELP''" and "match_nonspace0 (strip l) \<noteq> ''STATUS''"
  shows "parse_common_opts w = (Ret (strip l), w\<lparr>rfile := ls\<rparr>)"
  using assms by (simp add: parse_common_opts_unfold bind_results readline_Cons common_step_def)

lemma common_opts_Nil:
  "rfile w = [] \<Longrightarrow> parse_common_opts w = (if rreset w then Raise ConnectionResetError else Wait, w)"
  by (simp add: parse_common_opts_unfold bind_eval readline_Nil)

text \<open>A command line of the controller: ASCII, not empty, no white space at either end.\<close>

definition command :: "str \<Rightarrow> bool" where
  "command s \<longleftrightarrow> ascii s \<and> s \<noteq> [] \<and> \<not> is_space (hd s) \<and> \<not> is_space (last s)
     \<and> match_nonspace0 s \<noteq> ''HELP'' \<and> match_nonspace0 s \<noteq> ''STATUS''"

lemma common_opts_command:
  assumes "rfile w = (s @ nl) # ls" and "command s"
  shows "parse_common_opts w = (Ret s, w\<lparr>rfile := ls\<rparr>)"
proof -
  have "strip (s @ nl) = s"
    using assms(2) by (simp add: nl_def strip_append_newline strip_id command_def)
  then show ?thesis
    using assms common_opts_line [of w "s @ nl" ls] by (simp add: command_def utf8_valid_nl)
qed

lemma fixed_commands [simp]:
  "command ''HELLO''" "command ''START''" "command ''QUIT''" "command ''ABORT''" "command ''STOP''"
  by code_simp+

lemma fixed_matches [simp]:
  "match_nonspace ''HELLO'' = Some ''HELLO''" "match_word ''START'' = Some ''START''"
  "match_word ''STOP'' = Some ''STOP''"
  by code_simp+

section \<open>The replies\<close>

definition reply :: "int \<Rightarrow> str list \<Rightarrow> str" where
  "reply c msg = (case str_status c msg of Inr s \<Rightarrow> s | Inl _ \<Rightarrow> [])"

lemma str_status_reply: "errCodes c \<noteq> None \<Longrightarrow> str_status c msg = Inr (reply c msg)"
  by (auto simp: reply_def str_status_def split: option.splits)

lemma send_reply [io_simps]:
  "wleft w = None \<Longrightarrow> errCodes c \<noteq> None \<Longrightarrow>
     send_status c msg w = (Ret (), w\<lparr>wfile := wfile w @ [reply c msg]\<rparr>)"
  by (simp add: send_status_unlimited str_status_reply)

section \<open>listen\<close>

lemma listen_hello:
  assumes "rfile w = (''HELLO'' @ nl) # ls" and "wleft w = None"
    and "shm_holds (test_running w) 0" and "own_pid w = int q" and "q < 10 ^ 19"
  shows "\<exists>m. shm_holds m q \<and> client_listen w =
    (Ret (Some (''SETUP'', One)),
     w\<lparr>rfile := ls, wfile := wfile w @ [reply 200 [''Ready to go'']], test_running := m\<rparr>)"
proof -
  obtain m where m: "shm_holds m q" "running (int q) (test_running w) = (Ret (), m)"
    using running_holds [OF assms(3,5)] by blast
  have "client_listen w =
    (Ret (Some (''SETUP'', One)),
     w\<lparr>rfile := ls, wfile := wfile w @ [reply 200 [''Ready to go'']], test_running := m\<rparr>)"
    using assms m
    by (subst client_listen.simps)
      (simp add: bind_eval common_opts_command on_status_eval is_running_holds
        on_status_eval m(2) send_reply goto_def)
  with m show ?thesis by blast
qed

lemma listen_busy:
  assumes "rfile w = (''HELLO'' @ nl) # ls" and "shm_holds (test_running w) p" and "0 < p"
  shows "client_listen w =
    (Ret (Some (''ERROR'', Err 421 ''Already Running'')), w\<lparr>rfile := ls\<rparr>)"
  using assms
  by (subst client_listen.simps)
    (simp add: bind_eval common_opts_command on_status_eval is_running_holds go_error_def)

lemma listen_quit:
  "rfile w = (''QUIT'' @ nl) # ls \<Longrightarrow> client_listen w =
    (Ret (Some (''ERROR'', Err 222 ''Come back soon!'')), w\<lparr>rfile := ls\<rparr>)"
  by (subst client_listen.simps) (simp add: bind_eval common_opts_command go_error_def)

lemma listen_abort:
  "rfile w = (''ABORT'' @ nl) # ls \<Longrightarrow> client_listen w =
    (Ret (Some (''ABORT'', One)), w\<lparr>rfile := ls\<rparr>)"
  by (subst client_listen.simps) (simp add: bind_eval common_opts_command goto_def)

text \<open>At the end of the peer's input every read gives an empty line, which is answered by 500.\<close>

lemma listen_eof:
  assumes "wleft w = None"
  shows "rfile w = replicate n [] \<Longrightarrow> client_listen w =
    (if rreset w then Raise ConnectionResetError else Wait,
     w\<lparr>rfile := [], wfile := wfile w @ replicate n (reply 500 [])\<rparr>)"
  using assms
proof (induction n arbitrary: w)
  case 0
  then show ?case
    by (subst client_listen.simps) (simp add: bind_eval common_opts_Nil)
next
  case (Suc n)
  let ?w = "w\<lparr>rfile := replicate n [], wfile := wfile w @ [reply 500 []]\<rparr>"
  have "parse_common_opts w = (Ret [], w\<lparr>rfile := replicate n []\<rparr>)"
    using Suc.prems common_opts_line [of w "[]" "replicate n []"]
    by (simp add: utf8_valid.simps match_nonspace0_def)
  then have "client_listen w = client_listen ?w"
    using Suc.prems
    by (subst client_listen.simps) (simp add: bind_eval match_nonspace_def send_reply)
  then show ?case
    using Suc.IH [of ?w] Suc.prems by simp
qed

section \<open>setup\<close>

lemma last_append_ne: "s \<noteq> [] \<Longrightarrow> last (p @ s) = last s"
  by simp

lemma spaces [simp]: "is_space (CHR '' '')" "\<not> is_space (CHR ''S'')" "\<not> is_space (CHR ''L'')"
  "\<not> is_space (CHR 0x22)"
  by code_simp+

lemma nonspaces [simp]:
  "\<forall>c \<in> set ''LOAD''. \<not> is_space c" "\<forall>c \<in> set ''SETUP''. \<not> is_space c"
  by code_simp+

lemma nonspace0_word: "\<forall>c \<in> set t. \<not> is_space c \<Longrightarrow> match_nonspace0 (t @ '' '' @ r) = t"
  using takeWhile_word [of t "\<lambda>c. \<not> is_space c" "CHR '' ''" r] by (simp add: match_nonspace0_def)

lemma command_load: "plugin_name t \<Longrightarrow> command (load_message t)"
  using nonspace0_word [of "''LOAD''" t]
  by (simp add: command_def load_message_def plugin_name_def)

lemma command_setup:
  assumes "line_text h" and "line_text a"
  shows "command (setup_message h p a)"
  using assms nonspace0_word [of "''SETUP''" "setup_arglist h p a"]
  by (simp add: command_def setup_message_def setup_arglist_def field_defs line_text_def
      repr_int_ascii)

lemma command_target_setup: "args_text a \<Longrightarrow> command (target_setup_message a)"
  using nonspace0_word [of "''SETUP''" "args_field a"]
  by (simp add: command_def target_setup_message_def field_defs args_text_def line_text_def)

lemma runtime_to_error_Runtime [simp]:
  "runtime_to_error (RuntimeError m) = Some (go_error 451 (strip m))"
  by (simp add: runtime_to_error_def)

lemma setup_load_ok:
  assumes "rfile w = (load_message t @ nl) # ls" and "plugin_name t"
    and "sh_load S t (shunt_state w) = (Ret (), s)"
  shows "client_setup S w = setup_loop S no_vars (w\<lparr>rfile := ls, shunt_state := s\<rparr>)"
  using assms common_opts_command [OF assms(1) command_load]
  by (subst client_setup.simps)
    (simp add: bind_eval try_else_eval match_load_message on_shunt_eval,
      simp add: load_message_def)

lemma setup_load_fail:
  assumes "rfile w = (load_message t @ nl) # ls" and "plugin_name t"
    and "sh_load S t (shunt_state w) = (Raise (RuntimeError m), s)"
  shows "client_setup S w =
    (Ret (Some (''ERROR'', Err 451 (strip m))), w\<lparr>rfile := ls, shunt_state := s\<rparr>)"
  using assms common_opts_command [OF assms(1) command_load]
  by (subst client_setup.simps)
    (simp add: bind_eval try_else_eval match_load_message on_shunt_eval go_error_def,
      simp add: load_message_def)

text \<open>What the module answers to \<^verbatim>\<open>SETUP\<close> decides the next state.\<close>

lemma setup_loop_command:
  assumes "rfile w = (setup_message h p a @ nl) # ls" and "wleft w = None" and "\<not> opt_target w"
    and "target_text h" and "args_text a"
  shows "setup_loop S v w =
    try_else (on_shunt (sh_setup3 S h p a)) runtime_to_error
      (\<lambda>_. bind (send_status 200 []) (\<lambda>_. goto ''RUN''))
      (w\<lparr>wfile := wfile w @ [reply 200 []], rfile := ls\<rparr>)"
proof -
  let ?w = "w\<lparr>wfile := wfile w @ [reply 200 []]\<rparr>"
  have "parse_common_opts ?w = (Ret (setup_message h p a), ?w\<lparr>rfile := ls\<rparr>)"
    using assms by (intro common_opts_command command_setup) simp_all
  moreover have "setup_message h p a \<noteq> ''ABORT''" "setup_message h p a \<noteq> ''QUIT''"
    by (simp_all add: setup_message_def)
  ultimately show ?thesis
    using assms
    by (subst setup_loop.simps)
      (simp add: bind_eval try_else_eval send_reply match_setup_message parse_setup_message
        lift_sum_def shunt_setup_def need_def call_setup_def)
qed

lemma setup_loop_ok:
  assumes "rfile w = (setup_message h p a @ nl) # ls" and "wleft w = None" and "\<not> opt_target w"
    and "target_text h" and "args_text a" and "sh_setup3 S h p a (shunt_state w) = (Ret (), s)"
  shows "setup_loop S v w =
    (Ret (Some (''RUN'', One)),
     w\<lparr>rfile := ls, wfile := wfile w @ [reply 200 [], reply 200 []], shunt_state := s\<rparr>)"
  using assms
  by (simp add: setup_loop_command bind_eval try_else_eval on_shunt_eval send_reply goto_def)

lemma setup_loop_fail:
  assumes "rfile w = (setup_message h p a @ nl) # ls" and "wleft w = None" and "\<not> opt_target w"
    and "target_text h" and "args_text a"
    and "sh_setup3 S h p a (shunt_state w) = (Raise (RuntimeError m), s)"
  shows "setup_loop S v w =
    (Ret (Some (''ERROR'', Err 451 (strip m))),
     w\<lparr>rfile := ls, wfile := wfile w @ [reply 200 []], shunt_state := s\<rparr>)"
  using assms
  by (simp add: setup_loop_command try_else_eval on_shunt_eval go_error_def)

section \<open>run and marshall\<close>

lemma run_start:
  assumes "rfile w = (''START'' @ nl) # ls"
  shows "client_run S w =
    try_else (on_shunt (sh_start S)) runtime_to_error (\<lambda>_. goto ''MARSHALL'') (w\<lparr>rfile := ls\<rparr>)"
  using assms by (subst client_run.simps) (simp add: bind_eval common_opts_command)

lemma run_ok:
  assumes "rfile w = (''START'' @ nl) # ls" and "sh_start S (shunt_state w) = (Ret (), s)"
  shows "client_run S w = (Ret (Some (''MARSHALL'', One)), w\<lparr>rfile := ls, shunt_state := s\<rparr>)"
  using assms by (simp add: run_start try_else_eval on_shunt_eval goto_def)

lemma run_fail:
  assumes "rfile w = (''START'' @ nl) # ls"
    and "sh_start S (shunt_state w) = (Raise (RuntimeError m), s)"
  shows "client_run S w =
    (Ret (Some (''ERROR'', Err 451 (strip m))), w\<lparr>rfile := ls, shunt_state := s\<rparr>)"
  using assms by (simp add: run_start try_else_eval on_shunt_eval go_error_def)

definition marshall_replies :: "int \<Rightarrow> bytes \<Rightarrow> bytes list" where
  "marshall_replies valid data =
     [reply (if valid \<noteq> 0 then 221 else 220) [''Data to follow''],
      ''Content-length: '' @ repr_int (int (length data)) @ nl, data]"

lemma marshall_ok:
  assumes "wleft w = None" and "shm_holds (test_running w) p"
    and "sh_marshall S (shunt_state w) = (Ret (valid, Some d), s)"
  shows "\<exists>m. shm_holds m 0 \<and> client_marshall S w =
    (Ret (Some (''RESET'', One)),
     w\<lparr>wfile := wfile w @ marshall_replies valid d, shunt_state := s, test_running := m\<rparr>)"
proof -
  obtain m where m: "shm_holds m 0" "not_running (test_running w) = (Ret (), m)"
    using not_running_holds [OF assms(2)] by blast
  have "client_marshall S w =
    (Ret (Some (''RESET'', One)),
     w\<lparr>wfile := wfile w @ marshall_replies valid d, shunt_state := s, test_running := m\<rparr>)"
    using assms
    by (simp add: client_marshall_def shunt_marshall_def bind_eval try_else_eval on_shunt_eval
        send_reply send_unlimited on_status_eval m(2) goto_def marshall_replies_def
        send_def [symmetric])
  with m show ?thesis by blast
qed

lemma marshall_null:
  assumes "sh_marshall S (shunt_state w) = (Ret (valid, None), s)"
  shows "client_marshall S w = (Raise TypeError, w\<lparr>shunt_state := s\<rparr>)"
  using assms
  by (simp add: client_marshall_def shunt_marshall_def bind_eval try_else_eval on_shunt_eval
      runtime_to_error_def)

section \<open>error and abort\<close>

lemma error_clears:
  assumes "shm_holds (test_running w) p" and "wleft w = None" and "c \<noteq> 421" and "errCodes c \<noteq> None"
  shows "\<exists>m. shm_holds m 0 \<and> client_error (Err c msg) w =
    (Ret (Some (''RESET'', One)), w\<lparr>wfile := wfile w @ [reply c [msg]], test_running := m\<rparr>)"
proof -
  obtain m where m: "shm_holds m 0" "not_running (test_running w) = (Ret (), m)"
    using not_running_holds [OF assms(1)] by blast
  have "client_error (Err c msg) w =
    (Ret (Some (''RESET'', One)), w\<lparr>wfile := wfile w @ [reply c [msg]], test_running := m\<rparr>)"
    using assms by (simp add: client_error_def bind_eval on_status_eval m(2) send_reply goto_def)
  with m show ?thesis by blast
qed

lemma error_busy:
  "wleft w = None \<Longrightarrow> client_error (Err 421 msg) w =
    (Ret (Some (''RESET'', One)), w\<lparr>wfile := wfile w @ [reply 421 [msg]]\<rparr>)"
  by (simp add: client_error_def bind_eval send_reply goto_def)

lemma abort_idle:
  "shm_holds (test_running w) 0 \<Longrightarrow> client_abort w = (Ret (Some (''RESET'', One)), w)"
  by (simp add: client_abort_def bind_eval on_status_eval is_running_holds goto_def)

lemma abort_kill_start:
  assumes "shm_holds (test_running w) p" and "0 < p"
  shows "client_abort w =
    try_else (os_kill (int p) SIGINT)
      (except_ProcessLookupError (bind (on_status not_running) (\<lambda>_. ret None)))
      (\<lambda>_. try_else (os_kill (int p) SIGKILL)
             (except_ProcessLookupError (goto ''RESET'')) (\<lambda>_. goto ''RESET'')) w"
  using assms
  by (simp add: client_abort_def bind_eval on_status_eval is_running_holds
      running_pid_holds)

lemma abort_other:
  assumes "shm_holds (test_running w) p" and "0 < p" and "own_pid w \<noteq> int p"
    and "kill_env w (int p) SIGINT = Delivered" and "kill_env w (int p) SIGKILL = Delivered"
  shows "client_abort w =
    (Ret (Some (''RESET'', One)),
     w\<lparr>signals := signals w @ [(int p, SIGINT), (int p, SIGKILL)]\<rparr>)"
  using assms
  by (simp add: abort_kill_start try_else_eval os_kill_def goto_def)

lemma abort_stale:
  assumes "shm_holds (test_running w) p" and "0 < p" and "kill_env w (int p) SIGINT = NoSuchProcess"
  shows "\<exists>m. shm_holds m 0 \<and> client_abort w = (Ret None, w\<lparr>test_running := m\<rparr>)"
proof -
  obtain m where m: "shm_holds m 0" "not_running (test_running w) = (Ret (), m)"
    using not_running_holds [OF assms(1)] by blast
  have "client_abort w = (Ret None, w\<lparr>test_running := m\<rparr>)"
    using assms by (simp add: abort_kill_start try_else_eval os_kill_def bind_eval on_status_eval m(2))
  with m show ?thesis by blast
qed

lemma abort_self:
  assumes "shm_holds (test_running w) p" and "0 < p" and "own_pid w = int p"
    and "kill_env w (int p) SIGINT = Delivered"
  shows "client_abort w =
    (Raise KeyboardInterrupt, w\<lparr>signals := signals w @ [(int p, SIGINT)]\<rparr>)"
  using assms by (simp add: abort_kill_start try_else_eval os_kill_def)

section \<open>Whole connections\<close>

lemma greet_ok: "wleft w = None \<Longrightarrow> greet w = (Ret (), w\<lparr>wfile := wfile w @ [reply 100 []]\<rparr>)"
  by (simp add: greet_def try_else_eval send_reply)

lemma handle_start:
  assumes "wleft w = None"
  shows "handle C T w = map_option handle_exception
    (run_loop (daemon_machine (if opt_target w then T else C) (opt_target w)) (\<lambda>_. client_listen) One
       (w\<lparr>wfile := wfile w @ [reply 100 []]\<rparr>))"
  using assms by (simp add: handle_def greet_ok Let_def run_machine_def daemon_machine_simps)

lemma loop_next:
  assumes "h c w = (Ret (Some (s, c')), w')" and "handlers (daemon_machine S t) s = Some h'"
    and "upper s = s" and "s \<noteq> ''RESET''"
  shows "run_loop (daemon_machine S t) h c w = run_loop (daemon_machine S t) h' c' w'"
  using assms by (intro run_loop_step(2)) (auto simp: daemon_machine_simps)

lemma loop_reset:
  "h c w = (Ret (Some (''RESET'', c')), w') \<Longrightarrow>
     run_loop (daemon_machine S t) h c w = Some (Ret (), w')"
  by (rule run_loop_step(1)) (auto simp: daemon_machine_simps)

end
