(* ===== verification/Connections.thy ===== *)
theory Connections
  imports Daemon_Session
begin

text \<open>
  Whole control connections: \<open>handle\<close> run on the lines a peer sends. The expected outcome of
  the controller's four commands is the function \<open>client_session_spec\<close> of what the test module
  answers; the other lemmas of this theory are the single-command connections (busy, quit,
  abort, end of input) and the lines that end a handler process.
\<close>

section \<open>The lines of a client session\<close>

definition session_lines :: "str \<Rightarrow> str \<Rightarrow> int \<Rightarrow> str \<Rightarrow> bytes list" where
  "session_lines t h p a =
     [''HELLO'' @ nl, load_message t @ nl, setup_message h p a @ nl, ''START'' @ nl]"

text \<open>
  What a session gives after \<^verbatim>\<open>START\<close>, after \<^verbatim>\<open>SETUP\<close> and after \<^verbatim>\<open>LOAD\<close>, from what the test
  module answers: the replies, the number of the four lines that are read, and the state of the
  module. \<open>None\<close> is a module that does something other than return or raise \<^verbatim>\<open>RuntimeError\<close>, or
  that marshalls no data.
\<close>

definition run_spec :: "'s shunt \<Rightarrow> 's \<Rightarrow> (bytes list \<times> nat \<times> 's) option" where
  "run_spec S s =
     (case sh_start S s of
        (Raise (RuntimeError m), s') \<Rightarrow> Some ([reply 451 [strip m]], 4, s')
      | (Ret _, s') \<Rightarrow>
          (case sh_marshall S s' of
             (Ret (v, Some d), s'') \<Rightarrow> Some (marshall_replies v d, 4, s'')
           | _ \<Rightarrow> None)
      | _ \<Rightarrow> None)"

definition setup_spec ::
  "'s shunt \<Rightarrow> str \<Rightarrow> int \<Rightarrow> str \<Rightarrow> 's \<Rightarrow> (bytes list \<times> nat \<times> 's) option" where
  "setup_spec S h p a s =
     (case sh_setup3 S h p a s of
        (Raise (RuntimeError m), s') \<Rightarrow> Some ([reply 200 [], reply 451 [strip m]], 3, s')
      | (Ret _, s') \<Rightarrow>
          map_option (\<lambda>(out, n, s''). ([reply 200 [], reply 200 []] @ out, n, s'')) (run_spec S s')
      | _ \<Rightarrow> None)"

definition client_session_spec ::
  "'s shunt \<Rightarrow> str \<Rightarrow> str \<Rightarrow> int \<Rightarrow> str \<Rightarrow> 's \<Rightarrow> (bytes list \<times> nat \<times> 's) option" where
  "client_session_spec S t h p a s =
     (case sh_load S t s of
        (Raise (RuntimeError m), s') \<Rightarrow> Some ([reply 451 [strip m]], 2, s')
      | (Ret _, s') \<Rightarrow> setup_spec S h p a s'
      | _ \<Rightarrow> None)"

section \<open>Runs of the machine from each state\<close>

text \<open>\<open>M w\<close> ends normally in \<open>w'\<close> with the status cleared.\<close>

definition ends_clear :: "'s daemon \<Rightarrow> (unit res \<times> 's daemon) option \<Rightarrow> bool" where
  "ends_clear w r \<longleftrightarrow> (\<exists>m. shm_holds m 0 \<and> r = Some (Ret (), w\<lparr>test_running := m\<rparr>))"

lemma ends_clear_eq:
  "ends_clear w r \<Longrightarrow> (\<And>m. w\<lparr>test_running := m\<rparr> = w'\<lparr>test_running := m\<rparr>) \<Longrightarrow> r = r' \<Longrightarrow>
     ends_clear w' r'"
  by (simp add: ends_clear_def)

lemma loop_error:
  assumes "shm_holds (test_running w) p" and "wleft w = None" and "c \<noteq> 421" and "errCodes c \<noteq> None"
  shows "ends_clear (w\<lparr>wfile := wfile w @ [reply c [msg]]\<rparr>)
    (run_loop (daemon_machine S t) client_error (Err c msg) w)"
proof -
  obtain m where m: "shm_holds m 0" "client_error (Err c msg) w =
      (Ret (Some (''RESET'', One)), w\<lparr>wfile := wfile w @ [reply c [msg]], test_running := m\<rparr>)"
    using error_clears [OF assms] by blast
  show ?thesis
    unfolding ends_clear_def
    using m(1) loop_reset [of client_error "Err c msg" w, OF m(2)] by auto
qed

lemma loop_to_error:
  assumes "h c w = (Ret (Some (''ERROR'', Err 451 msg)), w')"
    and "shm_holds (test_running w') p" and "wleft w' = None"
  shows "ends_clear (w'\<lparr>wfile := wfile w' @ [reply 451 [msg]]\<rparr>) (run_loop (daemon_machine S t) h c w)"
proof -
  have "run_loop (daemon_machine S t) h c w = run_loop (daemon_machine S t) client_error (Err 451 msg) w'"
    using assms(1) by (rule loop_next) (simp_all add: daemon_machine_simps)
  then show ?thesis
    using loop_error [OF assms(2,3)] by simp
qed

lemma loop_marshall:
  assumes "wleft w = None" and "shm_holds (test_running w) q"
    and "sh_marshall S (shunt_state w) = (Ret (v, Some d), s)"
  shows "ends_clear (w\<lparr>wfile := wfile w @ marshall_replies v d, shunt_state := s\<rparr>)
    (run_loop (daemon_machine S t) (\<lambda>_. client_marshall S) One w)"
proof -
  obtain m where m: "shm_holds m 0" "client_marshall S w =
    (Ret (Some (''RESET'', One)),
     w\<lparr>wfile := wfile w @ marshall_replies v d, shunt_state := s, test_running := m\<rparr>)"
    using marshall_ok [OF assms] by blast
  show ?thesis
    unfolding ends_clear_def
    using m(1) loop_reset [of "\<lambda>_. client_marshall S" One w, OF m(2)] by auto
qed

lemma run_spec_cases:
  assumes "run_spec S s = Some (out, n, s'')"
  obtains m where "sh_start S s = (Raise (RuntimeError m), s'')" "out = [reply 451 [strip m]]" "n = 4"
  | s' v d where "sh_start S s = (Ret (), s')" "sh_marshall S s' = (Ret (v, Some d), s'')"
      "out = marshall_replies v d" "n = 4"
  using assms by (auto simp: run_spec_def split: prod.splits res.splits exn.splits option.splits)

lemma setup_spec_cases:
  assumes "setup_spec S h p a s = Some (out, n, s'')"
  obtains m where "sh_setup3 S h p a s = (Raise (RuntimeError m), s'')"
      "out = [reply 200 [], reply 451 [strip m]]" "n = 3"
  | s' out' where "sh_setup3 S h p a s = (Ret (), s')" "run_spec S s' = Some (out', n, s'')"
      "out = [reply 200 [], reply 200 []] @ out'"
  using assms by (auto simp: setup_spec_def split: prod.splits res.splits exn.splits)

lemma session_spec_cases:
  assumes "client_session_spec S t h p a s = Some (out, n, s'')"
  obtains m where "sh_load S t s = (Raise (RuntimeError m), s'')" "out = [reply 451 [strip m]]" "n = 2"
  | s' where "sh_load S t s = (Ret (), s')" "setup_spec S h p a s' = Some (out, n, s'')"
  using assms by (auto simp: client_session_spec_def split: prod.splits res.splits exn.splits)

lemma loop_run:
  assumes w: "rfile w = (''START'' @ nl) # ls" "wleft w = None" "shm_holds (test_running w) q"
    and spec: "run_spec S (shunt_state w) = Some (out, n, s)"
  shows "n = 4 \<and> ends_clear (w\<lparr>rfile := ls, wfile := wfile w @ out, shunt_state := s\<rparr>)
    (run_loop (daemon_machine S False) (\<lambda>_. client_run S) One w)"
  using spec
proof (cases rule: run_spec_cases)
  case (1 m)
  let ?w = "w\<lparr>rfile := ls, shunt_state := s\<rparr>"
  have "client_run S w = (Ret (Some (''ERROR'', Err 451 (strip m))), ?w)"
    using w 1 by (intro run_fail)
  with w 1 show ?thesis
    by (auto intro!: ends_clear_eq [OF loop_to_error [of "\<lambda>_. client_run S" One w "strip m" ?w q]])
next
  case (2 s' v d)
  let ?w = "w\<lparr>rfile := ls, shunt_state := s'\<rparr>"
  have "client_run S w = (Ret (Some (''MARSHALL'', One)), ?w)"
    using w 2 by (intro run_ok)
  then have "run_loop (daemon_machine S False) (\<lambda>_. client_run S) One w =
      run_loop (daemon_machine S False) (\<lambda>_. client_marshall S) One ?w"
    using loop_next [of "\<lambda>_. client_run S" One w "''MARSHALL''" One ?w]
    by (simp add: daemon_machine_simps)
  with w 2 show ?thesis
    by (auto intro!: ends_clear_eq [OF loop_marshall [of ?w q S v d s False]])
qed

text \<open>A module that refuses \<^verbatim>\<open>LOAD\<close> or \<^verbatim>\<open>SETUP\<close>, whatever lines follow.\<close>

lemma loop_load_fails:
  assumes "rfile w = (load_message t @ nl) # ls" and "wleft w = None" and "shm_holds (test_running w) q"
    and "plugin_name t" and "sh_load S t (shunt_state w) = (Raise (RuntimeError m), s)"
  shows "ends_clear (w\<lparr>rfile := ls, wfile := wfile w @ [reply 451 [strip m]], shunt_state := s\<rparr>)
    (run_loop (daemon_machine S b) (\<lambda>_. client_setup S) One w)"
proof -
  let ?v = "w\<lparr>rfile := ls, shunt_state := s\<rparr>"
  have "client_setup S w = (Ret (Some (''ERROR'', Err 451 (strip m))), ?v)"
    using assms by (intro setup_load_fail)
  with assms show ?thesis
    by (auto intro!: ends_clear_eq [OF loop_to_error [of "\<lambda>_. client_setup S" One w "strip m" ?v q]])
qed

lemma loop_setup_fails:
  assumes "rfile w = (setup_message h p a @ nl) # ls" and "wleft w = None" and "shm_holds (test_running w) q"
    and "\<not> opt_target w" and "target_text h" and "args_text a"
    and "sh_setup3 S h p a (shunt_state w) = (Raise (RuntimeError m), s)"
    and "client_setup S w0 = setup_loop S v w"
  shows "ends_clear (w\<lparr>rfile := ls, wfile := wfile w @ [reply 200 [], reply 451 [strip m]], shunt_state := s\<rparr>)
    (run_loop (daemon_machine S b) (\<lambda>_. client_setup S) One w0)"
proof -
  let ?v = "w\<lparr>rfile := ls, wfile := wfile w @ [reply 200 []], shunt_state := s\<rparr>"
  have "client_setup S w0 = (Ret (Some (''ERROR'', Err 451 (strip m))), ?v)"
    unfolding assms(8) using assms(1,2,4-7) by (rule setup_loop_fail)
  with assms show ?thesis
    by (auto intro!: ends_clear_eq [OF loop_to_error [of "\<lambda>_. client_setup S" One w0 "strip m" ?v q]])
qed

lemma loop_setup_command:
  assumes w: "rfile w = (setup_message h p a @ nl) # (''START'' @ nl) # ls"
      "wleft w = None" "shm_holds (test_running w) q" "\<not> opt_target w"
    and texts: "target_text h" "args_text a"
    and spec: "setup_spec S h p a (shunt_state w) = Some (out, n, s)"
    and eq: "client_setup S w0 = setup_loop S v w"
  shows "n \<in> {3, 4} \<and> ends_clear
    (w\<lparr>rfile := drop (n - 2) (rfile w), wfile := wfile w @ out, shunt_state := s\<rparr>)
    (run_loop (daemon_machine S False) (\<lambda>_. client_setup S) One w0)"
  using spec
proof (cases rule: setup_spec_cases)
  case (1 m)
  with w show ?thesis
    using loop_setup_fails [OF w texts 1(1) eq, of False] by simp
next
  case (2 s' out')
  let ?v = "w\<lparr>rfile := (''START'' @ nl) # ls, wfile := wfile w @ [reply 200 [], reply 200 []],
               shunt_state := s'\<rparr>"
  have "client_setup S w0 = (Ret (Some (''RUN'', One)), ?v)"
    unfolding eq using w texts 2 by (intro setup_loop_ok)
  then have "run_loop (daemon_machine S False) (\<lambda>_. client_setup S) One w0 =
      run_loop (daemon_machine S False) (\<lambda>_. client_run S) One ?v"
    using loop_next [of "\<lambda>_. client_setup S" One w0 "''RUN''" One ?v]
    by (simp add: daemon_machine_simps)
  moreover have "n = 4 \<and> ends_clear (?v\<lparr>rfile := ls, wfile := wfile ?v @ out', shunt_state := s\<rparr>)
      (run_loop (daemon_machine S False) (\<lambda>_. client_run S) One ?v)"
    using w 2 by (intro loop_run [where q = q]) simp_all
  ultimately show ?thesis
    using w 2 by (auto elim!: ends_clear_eq)
qed

lemma loop_setup:
  assumes w: "rfile w = (load_message t @ nl) # (setup_message h p a @ nl) # (''START'' @ nl) # ls"
      "wleft w = None" "shm_holds (test_running w) q" "\<not> opt_target w"
    and texts: "plugin_name t" "target_text h" "args_text a"
    and spec: "client_session_spec S t h p a (shunt_state w) = Some (out, n, s)"
  shows "n \<in> {2, 3, 4} \<and> ends_clear
    (w\<lparr>rfile := drop (n - 1) (rfile w), wfile := wfile w @ out, shunt_state := s\<rparr>)
    (run_loop (daemon_machine S False) (\<lambda>_. client_setup S) One w)"
  using spec
proof (cases rule: session_spec_cases)
  case (1 m)
  with w show ?thesis
    using loop_load_fails [OF w(1-3) texts(1) 1(1), of False] by simp
next
  case (2 s')
  let ?v = "w\<lparr>rfile := drop 1 (rfile w), shunt_state := s'\<rparr>"
  have "client_setup S w = setup_loop S no_vars ?v"
    using w texts 2 by (intro setup_load_ok) simp_all
  then have "n \<in> {3, 4} \<and> ends_clear
      (?v\<lparr>rfile := drop (n - 2) (rfile ?v), wfile := wfile ?v @ out, shunt_state := s\<rparr>)
      (run_loop (daemon_machine S False) (\<lambda>_. client_setup S) One w)"
    using w texts 2 by (intro loop_setup_command [where q = q]) simp_all
  then show ?thesis
    by (auto elim!: ends_clear_eq simp: eval_nat_numeral)
qed

section \<open>From the greeting\<close>

lemma handle_ends_clear:
  assumes "wleft w = None"
    and "ends_clear w' (run_loop (daemon_machine (if opt_target w then T else C) (opt_target w))
           (\<lambda>_. client_listen) One (w\<lparr>wfile := wfile w @ [reply 100 []]\<rparr>))"
  shows "ends_clear w' (handle C T w)"
  using assms by (auto simp: handle_start ends_clear_def)

lemma session_from_listen:
  assumes w: "wleft w = None" "\<not> opt_target w" "shm_holds (test_running w) 0"
      "own_pid w = int q" "q < 10 ^ 19" "rfile w = session_lines t h p a @ rest"
    and texts: "plugin_name t" "target_text h" "args_text a"
    and spec: "client_session_spec C t h p a (shunt_state w) = Some (out, n, s)"
  shows "n \<in> {2, 3, 4} \<and> ends_clear
    (w\<lparr>rfile := drop n (rfile w),
       wfile := wfile w @ [reply 100 [], reply 200 [''Ready to go'']] @ out, shunt_state := s\<rparr>)
    (handle C T w)"
proof -
  let ?w = "w\<lparr>wfile := wfile w @ [reply 100 []]\<rparr>"
  obtain m where m: "shm_holds m q" "client_listen ?w = (Ret (Some (''SETUP'', One)),
      ?w\<lparr>rfile := tl (rfile w), wfile := wfile ?w @ [reply 200 [''Ready to go'']], test_running := m\<rparr>)"
    using listen_hello [of ?w "tl (rfile w)" q] w by (auto simp: session_lines_def)
  let ?v = "?w\<lparr>rfile := tl (rfile w), wfile := wfile ?w @ [reply 200 [''Ready to go'']], test_running := m\<rparr>"
  have "run_loop (daemon_machine C False) (\<lambda>_. client_listen) One ?w =
      run_loop (daemon_machine C False) (\<lambda>_. client_setup C) One ?v"
    using m(2) loop_next [of "\<lambda>_. client_listen" One ?w "''SETUP''" One ?v]
    by (simp add: daemon_machine_simps)
  moreover have "n \<in> {2, 3, 4} \<and> ends_clear
      (?v\<lparr>rfile := drop (n - 1) (rfile ?v), wfile := wfile ?v @ out, shunt_state := s\<rparr>)
      (run_loop (daemon_machine C False) (\<lambda>_. client_setup C) One ?v)"
    using w m(1) texts spec
    by (intro loop_setup [where q = q and t = t and h = h and p = p and a = a])
      (simp_all add: session_lines_def)
  ultimately have "n \<in> {2, 3, 4}" and loop: "ends_clear
      (?v\<lparr>rfile := drop (n - 1) (rfile ?v), wfile := wfile ?v @ out, shunt_state := s\<rparr>)
      (run_loop (daemon_machine C False) (\<lambda>_. client_listen) One ?w)"
    by simp_all
  moreover have "drop (n - 1) (tl (rfile w)) = drop n (rfile w)"
    using \<open>n \<in> {2, 3, 4}\<close> by (cases n) (auto simp: drop_Suc)
  ultimately have "ends_clear
    (w\<lparr>rfile := drop n (rfile w),
       wfile := wfile w @ [reply 100 [], reply 200 [''Ready to go'']] @ out, shunt_state := s\<rparr>)
      (run_loop (daemon_machine C False) (\<lambda>_. client_listen) One ?w)"
    by (intro ends_clear_eq [OF loop]) simp_all
  then show ?thesis
    using \<open>n \<in> {2, 3, 4}\<close> w(1,2) by (simp add: handle_ends_clear)
qed

lemma handle_one_line:
  assumes "wleft w = None"
    and "client_listen (w\<lparr>wfile := wfile w @ [reply 100 []]\<rparr>) = (Ret (Some (s, c)), v)"
    and "s \<noteq> ''RESET''" and "upper s = s"
    and "handlers (daemon_machine (if opt_target w then T else C) (opt_target w)) s = Some k"
  shows "handle C T w = map_option handle_exception
    (run_loop (daemon_machine (if opt_target w then T else C) (opt_target w)) k c v)"
  using assms by (simp add: handle_start loop_next [of "\<lambda>_. client_listen" One])

text \<open>The refusal of a second session, and the abort of a test in another process.\<close>

lemma handle_busy:
  assumes "wleft w = None" and "rfile w = (''HELLO'' @ nl) # ls"
    and "shm_holds (test_running w) p" and "0 < p"
  shows "handle C T w = Some (Ret (),
    w\<lparr>rfile := ls, wfile := wfile w @ [reply 100 [], reply 421 [''Already Running'']]\<rparr>)"
  using assms listen_busy [of "w\<lparr>wfile := wfile w @ [reply 100 []]\<rparr>" ls p]
  by (simp add: handle_one_line daemon_machine_simps error_busy loop_reset)

lemma handle_abort_other:
  assumes "wleft w = None" and "rfile w = (''ABORT'' @ nl) # ls"
    and "shm_holds (test_running w) p" and "0 < p" and "own_pid w \<noteq> int p"
    and "kill_env w (int p) SIGINT = Delivered" and "kill_env w (int p) SIGKILL = Delivered"
  shows "handle C T w = Some (Ret (), w\<lparr>wfile := wfile w @ [reply 100 []], rfile := ls,
    signals := signals w @ [(int p, SIGINT), (int p, SIGKILL)]\<rparr>)"
proof -
  let ?w = "w\<lparr>wfile := wfile w @ [reply 100 []], rfile := ls\<rparr>"
  have "client_abort ?w = (Ret (Some (''RESET'', One)),
      ?w\<lparr>signals := signals ?w @ [(int p, SIGINT), (int p, SIGKILL)]\<rparr>)"
    using assms by (intro abort_other) simp_all
  then show ?thesis
    using assms listen_abort [of "w\<lparr>wfile := wfile w @ [reply 100 []]\<rparr>" ls]
    by (simp add: handle_one_line daemon_machine_simps loop_reset)
qed

text \<open>The state of a connection that \<^verbatim>\<open>HELLO\<close> has admitted.\<close>

definition admitted :: "'s daemon \<Rightarrow> bytes list \<Rightarrow> shm \<Rightarrow> 's daemon" where
  "admitted w ls m = w\<lparr>rfile := ls,
     wfile := wfile w @ [reply 100 [], reply 200 [''Ready to go'']], test_running := m\<rparr>"

lemma admitted_simps [simp]:
  "rfile (admitted w ls m) = ls" "wleft (admitted w ls m) = wleft w"
  "test_running (admitted w ls m) = m" "own_pid (admitted w ls m) = own_pid w"
  "kill_env (admitted w ls m) = kill_env w" "shunt_state (admitted w ls m) = shunt_state w"
  "opt_target (admitted w ls m) = opt_target w" "signals (admitted w ls m) = signals w"
  "wfile (admitted w ls m) = wfile w @ [reply 100 [], reply 200 [''Ready to go'']]"
  by (simp_all add: admitted_def)

lemma handle_hello:
  assumes "wleft w = None" and "shm_holds (test_running w) 0"
    and "own_pid w = int q" and "q < 10 ^ 19" and "rfile w = (''HELLO'' @ nl) # ls"
  obtains m where "shm_holds m q"
    and "handle C T w = map_option handle_exception
      (run_loop (daemon_machine (if opt_target w then T else C) (opt_target w))
        (\<lambda>_. client_setup (if opt_target w then T else C)) One (admitted w ls m))"
proof -
  let ?w = "w\<lparr>wfile := wfile w @ [reply 100 []]\<rparr>"
  obtain m where m: "shm_holds m q" "client_listen ?w = (Ret (Some (''SETUP'', One)),
      ?w\<lparr>rfile := ls, wfile := wfile ?w @ [reply 200 [''Ready to go'']], test_running := m\<rparr>)"
    using listen_hello [of ?w ls q] assms by auto
  then have "client_listen ?w = (Ret (Some (''SETUP'', One)), admitted w ls m)"
    by (simp add: admitted_def)
  with m(1) assms(1) show ?thesis
    by (intro that [of m]) (simp_all add: handle_one_line daemon_machine_simps)
qed

text \<open>
  A session that ends before \<^verbatim>\<open>START\<close>: the module cannot load the test or set it up, or the controller
  quits in place of \<^verbatim>\<open>SETUP\<close>.
\<close>

lemma handle_admits:
  assumes "wleft w = None" and "\<not> opt_target w" and "shm_holds (test_running w) 0"
    and "own_pid w = int q" and "q < 10 ^ 19" and "rfile w = (''HELLO'' @ nl) # ls"
  obtains m where "shm_holds m q" and "handle C T w = map_option handle_exception
      (run_loop (daemon_machine C False) (\<lambda>_. client_setup C) One (admitted w ls m))"
  using handle_hello [OF assms(1,3-6), of C T] assms(2) by (auto simp only: if_False)

lemma handle_load_fails:
  assumes "wleft w = None" and "\<not> opt_target w" and "shm_holds (test_running w) 0"
    and "own_pid w = int q" and "q < 10 ^ 19" and "rfile w = (''HELLO'' @ nl) # (load_message t @ nl) # ls"
    and "plugin_name t" and "sh_load C t (shunt_state w) = (Raise (RuntimeError m), s)"
  shows "ends_clear (w\<lparr>rfile := ls, wfile := wfile w @ [reply 100 [], reply 200 [''Ready to go''],
    reply 451 [strip m]], shunt_state := s\<rparr>) (handle C T w)"
proof -
  obtain u where u: "shm_holds u q" "handle C T w = map_option handle_exception
      (run_loop (daemon_machine C False) (\<lambda>_. client_setup C) One (admitted w ((load_message t @ nl) # ls) u))"
    by (rule handle_admits [OF assms(1-6)])
  let ?v = "admitted w ((load_message t @ nl) # ls) u"
  have "ends_clear (?v\<lparr>rfile := ls, wfile := wfile ?v @ [reply 451 [strip m]], shunt_state := s\<rparr>)
      (run_loop (daemon_machine C False) (\<lambda>_. client_setup C) One ?v)"
    using assms u(1) by (intro loop_load_fails) simp_all
  with u(2) show ?thesis
    by (auto simp: ends_clear_def admitted_def)
qed

lemma handle_setup_fails:
  assumes "wleft w = None" and "\<not> opt_target w" and "shm_holds (test_running w) 0"
    and "own_pid w = int q" and "q < 10 ^ 19"
    and "rfile w = (''HELLO'' @ nl) # (load_message t @ nl) # (setup_message h p a @ nl) # ls"
    and "plugin_name t" and "target_text h" and "args_text a"
    and "sh_load C t (shunt_state w) = (Ret (), s)" and "sh_setup3 C h p a s = (Raise (RuntimeError m), s')"
  shows "ends_clear (w\<lparr>rfile := ls, wfile := wfile w @ [reply 100 [], reply 200 [''Ready to go''],
    reply 200 [], reply 451 [strip m]], shunt_state := s'\<rparr>) (handle C T w)"
proof -
  let ?ls = "(setup_message h p a @ nl) # ls"
  obtain u where u: "shm_holds u q" "handle C T w = map_option handle_exception
      (run_loop (daemon_machine C False) (\<lambda>_. client_setup C) One (admitted w ((load_message t @ nl) # ?ls) u))"
    by (rule handle_admits [OF assms(1-6)])
  let ?v = "admitted w ((load_message t @ nl) # ?ls) u"
  let ?w = "?v\<lparr>rfile := ?ls, shunt_state := s\<rparr>"
  have "client_setup C ?v = setup_loop C no_vars ?w"
    using assms by (intro setup_load_ok) simp_all
  then have "ends_clear (?w\<lparr>rfile := ls, wfile := wfile ?w @ [reply 200 [], reply 451 [strip m]], shunt_state := s'\<rparr>)
      (run_loop (daemon_machine C False) (\<lambda>_. client_setup C) One ?v)"
    using assms u(1) by (intro loop_setup_fails) simp_all
  with u(2) show ?thesis
    by (auto simp: ends_clear_def admitted_def)
qed

lemma setup_loop_quit:
  assumes "rfile w = (''QUIT'' @ nl) # ls" and "wleft w = None"
  shows "setup_loop S v w = (Ret (Some (''ERROR'', Err 222 ''Come back soon!'')),
    w\<lparr>rfile := ls, wfile := wfile w @ [reply 200 []]\<rparr>)"
  using assms common_opts_command [of "w\<lparr>wfile := wfile w @ [reply 200 []]\<rparr>" "''QUIT''" ls]
  by (subst setup_loop.simps) (simp add: bind_eval send_reply go_error_def)

lemma handle_setup_quits:
  assumes "wleft w = None" and "\<not> opt_target w" and "shm_holds (test_running w) 0"
    and "own_pid w = int q" and "q < 10 ^ 19"
    and "rfile w = (''HELLO'' @ nl) # (load_message t @ nl) # (''QUIT'' @ nl) # ls"
    and "plugin_name t" and "sh_load C t (shunt_state w) = (Ret (), s)"
  shows "ends_clear (w\<lparr>rfile := ls, wfile := wfile w @ [reply 100 [], reply 200 [''Ready to go''],
    reply 200 [], reply 222 [''Come back soon!'']], shunt_state := s\<rparr>) (handle C T w)"
proof -
  let ?ls = "(''QUIT'' @ nl) # ls"
  obtain u where u: "shm_holds u q" "handle C T w = map_option handle_exception
      (run_loop (daemon_machine C False) (\<lambda>_. client_setup C) One (admitted w ((load_message t @ nl) # ?ls) u))"
    by (rule handle_admits [OF assms(1-6)])
  let ?v = "admitted w ((load_message t @ nl) # ?ls) u"
  let ?w = "?v\<lparr>rfile := ?ls, shunt_state := s\<rparr>"
  let ?w' = "?w\<lparr>rfile := ls, wfile := wfile ?w @ [reply 200 []]\<rparr>"
  have "client_setup C ?v = (Ret (Some (''ERROR'', Err 222 ''Come back soon!'')), ?w')"
    using assms setup_load_ok [of ?v t ?ls C s] setup_loop_quit [of ?w ls C no_vars] by simp
  then have "run_loop (daemon_machine C False) (\<lambda>_. client_setup C) One ?v =
      run_loop (daemon_machine C False) client_error (Err 222 ''Come back soon!'') ?w'"
    by (rule loop_next) (simp_all add: daemon_machine_simps)
  moreover have "ends_clear (?w'\<lparr>wfile := wfile ?w' @ [reply 222 [''Come back soon!'']]\<rparr>)
      (run_loop (daemon_machine C False) client_error (Err 222 ''Come back soon!'') ?w')"
    using assms(1) u(1) by (intro loop_error [where p = q]) simp_all
  ultimately show ?thesis
    using u(2) by (auto simp: ends_clear_def admitted_def)
qed

text \<open>A \<^verbatim>\<open>SETUP\<close> line whose target holds the field separator.\<close>

lemma split2_two: "\<not> no_sep a s \<Longrightarrow> \<exists>p p' ps. split2 a s = p # p' # ps"
  unfolding no_sep_def
  by (metis neq_Nil_conv split2_nonempty split2_whole)

lemma parse_sep_in_target:
  assumes "line_text h" and "CHR ''|'' \<notin> set h" and "\<not> no_sep (CHR '':'') h" and "args_text a"
  shows "parse_setup_args (split2 (CHR ''|'') (setup_arglist h p a)) v = Inl ValueError"
proof -
  obtain x y ps where "split2 (CHR '':'') h = x # y # ps"
    using split2_two [OF assms(3)] by blast
  then have "split2 (CHR '':'') (target_field h) = ''target'' # x # y # ps"
    using split2_first [of "CHR '':''" "''target''" h] by (simp add: target_field_def)
  moreover have "CHR ''|'' \<notin> set (target_field h)" "CHR ''|'' \<notin> set (port_field p)"
    using assms(2) repr_int_no by (auto simp: field_defs)
  ultimately show ?thesis
    by (simp add: setup_arglist_def split2_first)
qed

lemma setup_loop_sep:
  assumes "rfile w = (setup_message h p a @ nl) # ls" and "wleft w = None"
    and "line_text h" and "CHR ''|'' \<notin> set h" and "\<not> no_sep (CHR '':'') h" and "args_text a"
  shows "setup_loop S v w = (Raise ValueError, w\<lparr>rfile := ls, wfile := wfile w @ [reply 200 []]\<rparr>)"
proof -
  let ?w = "w\<lparr>wfile := wfile w @ [reply 200 []]\<rparr>"
  have "parse_common_opts ?w = (Ret (setup_message h p a), ?w\<lparr>rfile := ls\<rparr>)"
    using assms by (intro common_opts_command command_setup) simp_all
  moreover have "setup_message h p a \<noteq> ''ABORT''" "setup_message h p a \<noteq> ''QUIT''"
    by (simp_all add: setup_message_def)
  ultimately show ?thesis
    using assms
    by (subst setup_loop.simps)
      (simp add: bind_eval send_reply match_setup_message parse_sep_in_target lift_sum_def)
qed

text \<open>The abort when the marked process is gone.\<close>

lemma handle_abort_stale:
  assumes "wleft w = None" and "rfile w = (''ABORT'' @ nl) # ls"
    and "shm_holds (test_running w) p" and "0 < p" and "kill_env w (int p) SIGINT = NoSuchProcess"
  shows "\<exists>m. shm_holds m 0 \<and> handle C T w = Some (Raise (SystemExit 0),
    w\<lparr>rfile := ls, wfile := wfile w @ [reply 100 []], test_running := m\<rparr>)"
proof -
  let ?v = "w\<lparr>wfile := wfile w @ [reply 100 []], rfile := ls\<rparr>"
  obtain m where m: "shm_holds m 0" "client_abort ?v = (Ret None, ?v\<lparr>test_running := m\<rparr>)"
    using abort_stale [of ?v p] assms by auto
  then have "run_loop (daemon_machine S t) (\<lambda>val. client_abort) One ?v =
      Some (Raise TypeError, ?v\<lparr>test_running := m\<rparr>)" for S :: "'a shunt" and t
    by (intro run_loop_step(4))
  then show ?thesis
    using m assms listen_abort [of "w\<lparr>wfile := wfile w @ [reply 100 []]\<rparr>" ls]
    by (auto simp: handle_one_line daemon_machine_simps)
qed

end
