(* ===== verification/Samples.thy ===== *)
theory Samples
  imports Connections
begin

text \<open>
  Concrete inputs: a plugin, the extension module with that plugin in its directory, and the
  world of a handler process of the daemon. The witnesses of the properties evaluate the model
  on them.
\<close>

definition sample_plugin :: "unit plugin" where
  "sample_plugin =
     \<lparr>pl_magic = ''IPBENCH_PLUGIN'', pl_name = ''latency'', default_port = 7,
      pl_setup_client = \<lambda>_ _ _ s. (0, s), pl_setup_target = \<lambda>_ s. (0, s),
      pl_setup_controller = \<lambda>_ s. (0, s), pl_start = \<lambda>s. (0, 10, s),
      pl_start_until = \<lambda>s. (Some 10, s), pl_start_on = \<lambda>s. (0, None, s), pl_stop = \<lambda>s. (0, 25, s),
      pl_marshall = \<lambda>_ s. (0, Some ''12,34'', s), pl_unmarshall = \<lambda>d s. (0, Some d, s),
      pl_output = \<lambda>_ s. (0, s)\<rparr>"

definition sample_module :: "unit cmod" where
  "sample_module =
     \<lparr>scandir_result = Some [(''latency.so'', Header sample_plugin)], ipbench_plugin = None,
      plugin_state = (), nclients = 0, client_data = [], target_data = None, run_secs = 0,
      timer_start = 0, errmsg = [], sigusr1_set = False,
      sigusr1_at = None\<rparr>"

abbreviation loaded_module :: "unit cmod" where
  "loaded_module \<equiv> sample_module\<lparr>ipbench_plugin := Some sample_plugin\<rparr>"

text \<open>A memory that holds a given pid, as the class leaves it.\<close>

definition shm_of :: "nat \<Rightarrow> shm" where
  "shm_of p = \<lparr>mm_buf = show_nat p @ nl @ replicate (19 - length (show_nat p)) (CHR 0x00), mm_pos = 0\<rparr>"

lemma shm_of_holds: "p < 10 ^ 19 \<Longrightarrow> shm_holds (shm_of p) p"
  using length_show_nat [of p 18] unfolding shm_of_def by (intro shm_holdsI) simp

definition sample_world :: "bool \<Rightarrow> nat \<Rightarrow> bytes list \<Rightarrow> unit cmod daemon" where
  "sample_world target p ls =
     \<lparr>opt_target = target, rfile = ls, rreset = False, wfile = [], wleft = None, test_running = shm_of p,
      own_pid = 42, kill_env = (\<lambda>q sig. if q = 99 then NoSuchProcess else Delivered),
      signals = [], forks = [InParent 43, InChild 44], shunt_state = sample_module\<rparr>"

lemma sample_world_simps [simp]:
  "opt_target (sample_world t p ls) = t" "rfile (sample_world t p ls) = ls" "\<not> rreset (sample_world t p ls)"
  "wfile (sample_world t p ls) = []" "wleft (sample_world t p ls) = None"
  "test_running (sample_world t p ls) = shm_of p" "own_pid (sample_world t p ls) = 42"
  "kill_env (sample_world t p ls) q sig = (if q = 99 then NoSuchProcess else Delivered)"
  "signals (sample_world t p ls) = []" "shunt_state (sample_world t p ls) = sample_module"
  "forks (sample_world t p ls) = [InParent 43, InChild 44]"
  by (simp_all add: sample_world_def)

lemma sample_texts:
  "plugin_name ''latency''" "target_text ''10.0.0.1''" "args_text ''size=64''" "args_text []"
  by code_simp+

lemma sample_load:
  "load_plugin ''latency'' sample_module = (Ret (), loaded_module)"
  by (simp add: load_plugin_def sample_module_def so_suffix_def MAX_PLUGINS_def sample_plugin_def)

lemmas sample_module_calls = with_plugin_def setup_client_def c_int_def start_def stop_def marshall_def
  sample_plugin_def sample_module_def

text \<open>The calls of the client module with the plugin loaded.\<close>

lemma sample_calls:
  "c_int p \<Longrightarrow> setup_client h p a loaded_module = (Ret (), loaded_module)"
  "start loaded_module = (Ret (), loaded_module\<lparr>timer_start := 10\<rparr>)"
  "marshall (loaded_module\<lparr>timer_start := 10\<rparr>) =
     (Ret (0, Some ''12,34''), loaded_module\<lparr>timer_start := 10\<rparr>)"
  by (simp_all add: sample_module_calls)

lemma client_calls [simp]:
  "sh_load ipbench_client = load_plugin" "sh_setup3 ipbench_client = setup_client"
  "sh_start ipbench_client = start" "sh_marshall ipbench_client = marshall"
  by (simp_all add: ipbench_client_def)

lemma sample_session:
  "client_session_spec ipbench_client ''latency'' ''10.0.0.1'' 7 ''size=64'' sample_module =
     Some ([reply 200 [], reply 200 []] @ marshall_replies 0 ''12,34'', 4,
           loaded_module\<lparr>timer_start := 10\<rparr>)"
  by (simp add: client_session_spec_def setup_spec_def run_spec_def sample_load sample_calls c_int_def)

end
