(* ===== verification/Daemon_Raises.thy ===== *)
theory Daemon_Raises
  imports Daemon_Facts
begin

text \<open>
  The exceptions that the handlers raise when the module keeps \<open>shunt_contract\<close>: none of them
  is \<^verbatim>\<open>SystemExit\<close>, so a handler process exits in \<^verbatim>\<open>handle\<close> and nowhere else.
\<close>

definition no_exit :: "'a res \<times> 'w \<Rightarrow> bool" where
  "no_exit r \<longleftrightarrow> (\<forall>n. fst r \<noteq> Raise (SystemExit n))"

lemma no_exit_simps [simp]:
  "no_exit (Ret x, w)" "no_exit (Wait, w)" "no_exit (Halt, w)"
  "no_exit (Raise e, w) \<longleftrightarrow> (\<forall>n. e \<noteq> SystemExit n)"
  by (auto simp: no_exit_def)

lemma no_exit_bind:
  "no_exit (m w) \<Longrightarrow> (\<And>x w'. m w = (Ret x, w') \<Longrightarrow> no_exit (f x w')) \<Longrightarrow> no_exit (bind m f w)"
  by (auto simp: bind_split [where P = no_exit])

lemma no_exit_try:
  "no_exit (m w) \<Longrightarrow> (\<And>x w'. m w = (Ret x, w') \<Longrightarrow> no_exit (f x w')) \<Longrightarrow>
   (\<And>e k w'. h e = Some k \<Longrightarrow> no_exit (k w')) \<Longrightarrow> no_exit (try_else m h f w)"
  by (auto simp: try_else_split [where P = no_exit])

section \<open>The primitives\<close>

lemma no_exit_prims [simp]:
  "no_exit (goto s w)" "no_exit (go_error c m w)" "no_exit (os_exit v)"
  "no_exit (write_bytes b w)" "no_exit (readline w)"
  "no_exit (os_kill p sig w)" "no_exit (os_fork w)" "no_exit (need x w)"
  by (auto simp: goto_def go_error_def os_exit_def write_bytes_def readline_def os_kill_def
      os_fork_def need_def Let_def
      split: option.splits nat.splits list.splits kill_result.splits signal.splits fork_result.splits)

lemma no_exit_sends [simp]: "no_exit (send s w)" "no_exit (send_status c msg w)"
  by (auto simp: send_status_def send_def str_status_def split: sum.splits option.splits)

lemma no_exit_parse: "parse_setup_args l v = Inl e \<Longrightarrow> e = ValueError"
  by (induction l v rule: parse_setup_args.induct) (auto split: list.splits option.splits if_splits)

lemma no_exit_args [simp]: "no_exit (lift_sum (parse_setup_args l v) w)"
  by (auto simp: lift_sum_def dest!: no_exit_parse split: sum.splits)

lemma no_exit_shm [simp]:
  "no_exit (read_pid m)" "no_exit (clear_pid m)" "no_exit (write_pid p m)"
  by (auto simp: read_pid_def clear_pid_def write_pid_def mmap_readline_def mmap_seek_def
      mmap_set_head_def mmap_write_def Let_def intro!: no_exit_bind split: option.splits)

lemma no_exit_status [simp]:
  "no_exit (on_status is_running w)" "no_exit (on_status running_pid w)"
  "no_exit (on_status not_running w)" "no_exit (on_status (running p) w)"
proof -
  have zoomed: "no_exit (m (test_running w)) \<Longrightarrow> no_exit (on_status m w)" for m :: "(shm, 'b) io"
    by (auto simp: on_status_eval no_exit_def split: prod.splits)
  show "no_exit (on_status is_running w)" "no_exit (on_status running_pid w)"
    "no_exit (on_status not_running w)" "no_exit (on_status (running p) w)"
    by (auto intro!: zoomed no_exit_bind simp: is_running_def running_pid_def not_running_def running_def)
qed

lemma no_exit_opts [simp]: "no_exit (parse_common_opts w)"
proof (induction w rule: parse_common_opts.induct)
  case (1 w)
  have "no_exit (common_step raw w')" if "readline w = (Ret raw, w')" for raw w'
    using 1 [OF that refl refl]
    by (auto simp: common_step_def Let_def help_reply_def status_reply_def intro!: no_exit_bind)
  then show ?case
    unfolding parse_common_opts_unfold by (intro no_exit_bind) auto
qed

lemma no_exit_runtime: "runtime_to_error e = Some k \<Longrightarrow> no_exit (k w)"
  by (cases e) (auto simp: runtime_to_error_def)

lemma no_exit_kill:
  "except_RuntimeError (\<lambda>d. bind (os_kill p s) (\<lambda>_. go_error c (f d))) e = Some k \<Longrightarrow> no_exit (k w)"
  by (cases e) (auto intro!: no_exit_bind)

lemma no_exit_lookup:
  "except_ProcessLookupError m e = Some k \<Longrightarrow> (\<And>w. no_exit (m w)) \<Longrightarrow> no_exit (k w)"
  by (cases e) auto

section \<open>The handlers, with a module that keeps its contract\<close>

lemma no_exit_shunt: "no_exit (m (shunt_state w)) \<Longrightarrow> no_exit (on_shunt m w)"
  by (auto simp: on_shunt_eval no_exit_def split: prod.splits)

context shunt_contract
begin

lemma shunt_no_exit:
  "no_exit (on_shunt (sh_load S n) w)" "no_exit (on_shunt (call_setup S t h p a) w)"
  "no_exit (on_shunt (sh_start S) w)" "no_exit (on_shunt (sh_marshall S) w)"
proof -
  show "no_exit (on_shunt (sh_load S n) w)" "no_exit (on_shunt (sh_start S) w)"
    using load_only [of n] start_only
    by (force simp: only_runtime_def no_exit_def intro!: no_exit_shunt)+
  show "no_exit (on_shunt (call_setup S t h p a) w)"
    using setup_only [of t h p a]
    by (force simp: no_exit_def intro!: no_exit_shunt)
  show "no_exit (on_shunt (sh_marshall S) w)"
    using marshall_never by (intro no_exit_shunt) (simp add: no_exit_def)
qed

lemma setup_no_exit: "no_exit (shunt_setup S v w)"
  by (auto simp: shunt_setup_def intro!: no_exit_bind shunt_no_exit)

lemma listen_no_exit: "no_exit (client_listen w)"
proof (induction "length (rfile w)" arbitrary: w rule: less_induct)
  case less
  show ?case
    by (subst client_listen.simps)
      (auto intro!: no_exit_bind less dest!: reads split: option.splits)
qed

lemma setup_loop_no_exit: "no_exit (setup_loop S v w)"
proof (induction "length (rfile w)" arbitrary: w v rule: less_induct)
  case less
  show ?case
    by (subst setup_loop.simps)
      (auto intro!: no_exit_bind no_exit_try setup_no_exit less.hyps elim!: no_exit_runtime
        dest!: reads split: option.splits)
qed

lemma setup_command_no_exit: "no_exit (client_setup S w)"
proof (induction "length (rfile w)" arbitrary: w rule: less_induct)
  case less
  show ?case
    by (subst client_setup.simps)
      (auto intro!: no_exit_bind no_exit_try shunt_no_exit setup_loop_no_exit less.hyps
        elim!: no_exit_runtime dest!: reads split: option.splits)
qed

lemma run_no_exit: "no_exit (client_run S w)"
proof (induction "length (rfile w)" arbitrary: w rule: less_induct)
  case less
  show ?case
    by (subst client_run.simps)
      (auto intro!: no_exit_bind no_exit_try shunt_no_exit less elim!: no_exit_runtime
        dest!: reads split: option.splits)
qed

lemma child_no_exit: "no_exit (target_child ppid l w)"
  by (auto simp: target_child_def intro!: no_exit_bind split: option.splits)

lemma target_run_no_exit: "no_exit (target_run S w)"
proof (induction "length (rfile w)" arbitrary: w rule: less_induct)
  case less
  have loop: "no_exit (target_run S w')" if "length (rfile w') < length (rfile w)" for w'
    using that by (rule less)
  show ?case
    by (subst target_run.simps)
      (auto intro!: no_exit_bind no_exit_try shunt_no_exit child_no_exit loop split: option.splits
        elim!: no_exit_kill; force dest!: reads child_reads)
qed

lemma marshall_no_exit: "no_exit (client_marshall S w)"
  by (auto simp: client_marshall_def shunt_marshall_def intro!: no_exit_bind no_exit_try shunt_no_exit
      elim!: no_exit_runtime split: option.splits)

end

lemma error_no_exit: "no_exit (client_error c w)"
  by (auto simp: client_error_def intro!: no_exit_bind split: cargo.splits)

lemma abort_no_exit: "no_exit (client_abort w)"
  by (auto simp: client_abort_def intro!: no_exit_bind no_exit_try elim!: no_exit_lookup)

context shunt_contract
begin

lemma handler_no_exit:
  assumes "handlers (daemon_machine S t) n = Some h"
  shows "no_exit (h c w)"
  using assms
  by (elim daemon_handler_cases)
    (auto simp: client_reset_def listen_no_exit setup_command_no_exit run_no_exit target_run_no_exit
      marshall_no_exit error_no_exit abort_no_exit)

lemma run_no_exit_machine:
  assumes "run_machine (daemon_machine S t) One w = Some (Raise e, w')"
  shows "e \<noteq> SystemExit n"
proof -
  have "run_loop (daemon_machine S t) (\<lambda>_. client_listen) One w = Some (Raise e, w')"
    using assms by (simp add: run_machine_def daemon_machine_simps)
  then show ?thesis
  proof (rule daemon_machine_ok.loop_raises [OF daemon_machine_simps(7)])
    fix m h c v
    assume "handlers (daemon_machine S t) m = Some h" and "fst (h c v) = Raise e"
    then show ?thesis
      using handler_no_exit [of t m h c v] by (auto simp: no_exit_def)
  qed simp
qed

end

section \<open>What leaves a connection\<close>

lemma greet_never: "fst (greet w) \<noteq> Wait" "fst (greet w) \<noteq> Halt" "fst (greet w) \<noteq> Raise e"
  by (auto simp: greet_def try_else_eval send_status_def send_def write_bytes_def str_status_def
      split: option.splits nat.splits)

lemma handle_raises:
  assumes "handle ipbench_client ipbench_target w = Some (Raise e, w')"
  shows "e = SystemExit 0 \<or> e = KeyboardInterrupt"
proof -
  obtain v where v: "greet w = (Ret (), v)"
    using assms greet_never [of w] by (cases "greet w"; cases "fst (greet w)") (auto simp: handle_def)
  let ?S = "if opt_target v then ipbench_target else ipbench_client"
  obtain e0 where e0: "run_machine (daemon_machine ?S (opt_target v)) One v = Some (Raise e0, w')"
      "e = (if is_Exception e0 then SystemExit 0 else e0)"
    using assms by (auto simp: handle_def v Let_def elim!: handle_exception.elims)
  have "e0 \<noteq> SystemExit n" for n
    using e0(1) client_module.run_no_exit_machine [of _ v e0 w' n]
      target_module.run_no_exit_machine [of _ v e0 w' n]
    by (cases "opt_target v") auto
  with e0(2) show ?thesis
    by (cases e0) auto
qed

end
