(* ===== verification/Machine_Path.thy ===== *)
theory Machine_Path
  imports Daemon_Facts
begin

text \<open>
  A run of the class \<^verbatim>\<open>StateMachine\<close> as a path of configurations: the state, its cargo and the world.
  The loop of \<^verbatim>\<open>run\<close> follows the path, and on the daemon's machine every path is well typed: a state is
  declared, and its cargo is what its handler takes.
\<close>

section \<open>Paths\<close>

inductive run_step :: "('w, 'c) machine \<Rightarrow> str \<times> 'c \<times> 'w \<Rightarrow> str \<times> 'c \<times> 'w \<Rightarrow> bool" for m where
  goes: "handlers m n = Some h \<Longrightarrow> h c w = (Ret (Some (s, c')), w') \<Longrightarrow> upper s \<notin> set (end_states m) \<Longrightarrow>
    run_step m (n, c, w) (upper s, c', w')"

inductive_cases goesE: "run_step m (n, c, w) (n', c', w')"

inductive_simps run_step_iff: "run_step m (n, c, w) k"

lemma run_step_loop:
  assumes "run_step m (n, c, w) (n', c', w')" and "handlers m n = Some h" and "handlers m n' = Some h'"
  shows "run_loop m h c w = run_loop m h' c' w'"
  using assms by (auto elim!: goesE simp: run_loop_step)

section \<open>The daemon's machine\<close>

definition fits :: "str \<Rightarrow> cargo \<Rightarrow> bool" where
  "fits n c \<longleftrightarrow> (if n = ''ERROR'' then error_cargo c else c = One)"

definition typed_at :: "('s daemon, cargo) machine \<Rightarrow> str \<Rightarrow> cargo \<Rightarrow> bool" where
  "typed_at m n c \<longleftrightarrow> handlers m n \<noteq> None \<and> n \<notin> set (end_states m) \<and> fits n c"

lemma state_goes_typed:
  "state_goes n s c \<Longrightarrow> upper s \<notin> set (end_states (daemon_machine S t)) \<Longrightarrow>
     typed_at (daemon_machine S t) (upper s) c \<and> state_rank (upper s) < state_rank n"
  by (auto simp: typed_at_def fits_def state_goes_def listen_to_def then_to_def quits_def daemon_machine_simps state_rank_def
      split: if_splits)

lemma daemon_step_typed:
  assumes "run_step (daemon_machine S t) (n, c, w) (n', c', w')"
  shows "typed_at (daemon_machine S t) n' c' \<and> state_rank n' < state_rank n"
proof -
  obtain h s where h: "handlers (daemon_machine S t) n = Some h" "h c w = (Ret (Some (s, c')), w')"
      "upper s \<notin> set (end_states (daemon_machine S t))" "n' = upper s"
    using assms by (auto elim: goesE)
  have "state_goes n s c'"
    using daemon_next [OF h(1), of c w] h(2) by (simp add: next_in_def)
  with h(3,4) show ?thesis
    using state_goes_typed by blast
qed

lemma start_typed: "typed_at (daemon_machine S t) ''LISTEN'' One"
  by (simp add: typed_at_def fits_def daemon_machine_simps)

lemma path_typed:
  "(run_step (daemon_machine S t) ^^ k) (''LISTEN'', One, w) (n, c, v) \<Longrightarrow>
     typed_at (daemon_machine S t) n c \<and> state_rank n + k \<le> 5 \<and>
     (\<exists>h. handlers (daemon_machine S t) n = Some h \<and>
       run_machine (daemon_machine S t) One w = run_loop (daemon_machine S t) h c v)"
proof (induction k arbitrary: n c v)
  case 0
  then show ?case
    by (auto simp: start_typed state_rank_def run_machine_def daemon_machine_simps)
next
  case (Suc k)
  then obtain n0 c0 v0 where p: "(run_step (daemon_machine S t) ^^ k) (''LISTEN'', One, w) (n0, c0, v0)"
      "run_step (daemon_machine S t) (n0, c0, v0) (n, c, v)"
    by (auto elim: relpowp_Suc_E)
  obtain h0 where h0: "handlers (daemon_machine S t) n0 = Some h0" "state_rank n0 + k \<le> 5"
      "run_machine (daemon_machine S t) One w = run_loop (daemon_machine S t) h0 c0 v0"
    using Suc.IH [OF p(1)] by blast
  have s: "typed_at (daemon_machine S t) n c" "state_rank n < state_rank n0"
    using daemon_step_typed [OF p(2)] by simp_all
  then obtain h where "handlers (daemon_machine S t) n = Some h"
    by (auto simp: typed_at_def)
  with s h0 run_step_loop [OF p(2) h0(1)] show ?case
    by simp
qed

lemma rank_pos: "typed_at (daemon_machine S t) n c \<Longrightarrow> 0 < state_rank n"
  by (auto simp: typed_at_def daemon_machine_simps state_rank_def elim!: daemon_handler_cases)

end
