(* ===== verification/Progress.thy ===== *)
theory Progress
  imports Daemon_Facts
begin

text \<open>
  A run of a handler looks at a finite part of its connection. \<open>forward w m\<close> says of a
  computation \<open>m\<close> started in \<open>w\<close> that it is a step of one and the same run on every longer
  part: if it ends, it does so whatever the peer sends next, which it leaves unread; and if it
  waits, it has read all there is. Every handler is \<open>forward\<close>, with a test module whose calls
  return.
\<close>

definition and_then :: "'s daemon \<Rightarrow> bytes list \<Rightarrow> 's daemon" where
  "and_then w ls = w\<lparr>rfile := rfile w @ ls\<rparr>"

lemma and_then_fields [simp]:
  "opt_target (and_then w ls) = opt_target w" "rfile (and_then w ls) = rfile w @ ls"
  "rreset (and_then w ls) = rreset w" "wfile (and_then w ls) = wfile w" "wleft (and_then w ls) = wleft w"
  "test_running (and_then w ls) = test_running w" "own_pid (and_then w ls) = own_pid w"
  "kill_env (and_then w ls) = kill_env w" "signals (and_then w ls) = signals w"
  "forks (and_then w ls) = forks w" "shunt_state (and_then w ls) = shunt_state w"
  by (simp_all add: and_then_def)

lemma and_then_updates [simp]:
  "(and_then w ls)\<lparr>wfile := o'\<rparr> = and_then (w\<lparr>wfile := o'\<rparr>) ls"
  "(and_then w ls)\<lparr>wleft := k\<rparr> = and_then (w\<lparr>wleft := k\<rparr>) ls"
  "(and_then w ls)\<lparr>test_running := m\<rparr> = and_then (w\<lparr>test_running := m\<rparr>) ls"
  "(and_then w ls)\<lparr>own_pid := q\<rparr> = and_then (w\<lparr>own_pid := q\<rparr>) ls"
  "(and_then w ls)\<lparr>signals := sg\<rparr> = and_then (w\<lparr>signals := sg\<rparr>) ls"
  "(and_then w ls)\<lparr>forks := fs\<rparr> = and_then (w\<lparr>forks := fs\<rparr>) ls"
  "(and_then w ls)\<lparr>shunt_state := s\<rparr> = and_then (w\<lparr>shunt_state := s\<rparr>) ls"
  "(and_then w ls)\<lparr>rfile := l @ ls\<rparr> = and_then (w\<lparr>rfile := l\<rparr>) ls"
  by (simp_all add: and_then_def)

definition forward :: "'s daemon \<Rightarrow> ('s daemon, 'a) io \<Rightarrow> bool" where
  "forward w m \<longleftrightarrow> (\<forall>r w'. m w = (r, w') \<longrightarrow> rreset w' = rreset w \<and>
     (if r = Wait then rfile w' = [] \<and> \<not> rreset w
      else rreset w \<or> (\<forall>ls. m (and_then w ls) = (r, and_then w' ls))))"

lemma forwardI:
  "(\<And>r w'. m w = (r, w') \<Longrightarrow> r \<noteq> Wait \<and> rreset w' = rreset w \<and>
      (\<forall>ls. m (and_then w ls) = (r, and_then w' ls))) \<Longrightarrow> forward w m"
  by (auto simp: forward_def)

lemma forward_bind:
  assumes "forward w m" and "\<And>x w'. m w = (Ret x, w') \<Longrightarrow> forward w' (f x)"
  shows "forward w (bind m f)"
proof (cases "m w")
  case (Pair r w1)
  show ?thesis
  proof (cases r)
    case (Ret x)
    with Pair assms(1) assms(2) [of x w1] show ?thesis
      by (auto simp: forward_def bind_eval)
  qed (use Pair assms(1) in \<open>auto simp: forward_def bind_eval\<close>)
qed

lemma forward_try:
  assumes "forward w m" and "\<And>e k w'. m w = (Raise e, w') \<Longrightarrow> h e = Some k \<Longrightarrow> forward w' k"
    and "\<And>x w'. m w = (Ret x, w') \<Longrightarrow> forward w' (f x)"
  shows "forward w (try_else m h f)"
proof (cases "m w")
  case (Pair r w1)
  show ?thesis
  proof (cases r)
    case (Ret x)
    with Pair assms(1) assms(3) [of x w1] show ?thesis
      by (auto simp: forward_def try_else_eval)
  next
    case (Raise e)
    with Pair assms(1) assms(2) [of e w1] show ?thesis
      by (cases "h e") (auto simp: forward_def try_else_eval)
  qed (use Pair assms(1) in \<open>auto simp: forward_def try_else_eval\<close>)
qed

text \<open>A branch of the code whose condition is known before it reads.\<close>

lemma forward_if:
  "(c \<Longrightarrow> forward w m) \<Longrightarrow> (\<not> c \<Longrightarrow> forward w m') \<Longrightarrow> forward w (\<lambda>w. if c then m w else m' w)"
  "(c \<Longrightarrow> forward w m) \<Longrightarrow> (\<not> c \<Longrightarrow> forward w m') \<Longrightarrow> forward w (if c then m else m')"
  by (cases c; simp)+

lemma forward_case:
  "(y = None \<Longrightarrow> forward w m) \<Longrightarrow> (\<And>x. y = Some x \<Longrightarrow> forward w (f x)) \<Longrightarrow>
     forward w (\<lambda>w. case y of None \<Rightarrow> m w | Some x \<Rightarrow> f x w)"
  "(y = None \<Longrightarrow> forward w m) \<Longrightarrow> (\<And>x. y = Some x \<Longrightarrow> forward w (f x)) \<Longrightarrow>
     forward w (case y of None \<Rightarrow> m | Some x \<Rightarrow> f x)"
  "(\<And>a b. p = (a, b) \<Longrightarrow> forward w (g a b)) \<Longrightarrow> forward w (\<lambda>w. case p of (a, b) \<Rightarrow> g a b w)"
  "(\<And>a b. p = (a, b) \<Longrightarrow> forward w (g a b)) \<Longrightarrow> forward w (case p of (a, b) \<Rightarrow> g a b)"
  by (cases y; simp; fail | cases p; simp)+

section \<open>The primitives\<close>

lemma forward_pure:
  "forward w (ret x)" "forward w (raise e)" "forward w (asks own_pid)" "forward w (asks opt_target)"
  "forward w (goto s)" "forward w (go_error c msg)" "forward w os_exit" "forward w (need y)"
  by (auto simp: forward_def goto_def go_error_def os_exit_def need_def split: option.splits)

lemma forward_prims:
  "forward w readline" "forward w (write_bytes b)" "forward w (os_kill p sig)" "forward w os_fork"
proof -
  show "forward w readline"
    by (auto simp: forward_def readline_def split: list.splits)
  show "forward w (write_bytes b)"
    by (auto simp: forward_def write_bytes_def split: option.splits nat.splits)
  show "forward w (os_kill p sig)"
    by (auto simp: forward_def os_kill_def Let_def split: kill_result.splits signal.splits)
  show "forward w os_fork"
    by (auto simp: forward_def os_fork_def split: list.splits fork_result.splits)
qed

text \<open>A call that does not touch the connection has to return.\<close>

definition never_waits :: "('w, 'a) io \<Rightarrow> bool" where
  "never_waits m \<longleftrightarrow> (\<forall>s. fst (m s) \<noteq> Wait)"

lemma never_waitsD: "never_waits m \<Longrightarrow> m s \<noteq> (Wait, s')"
  by (auto simp: never_waits_def) (metis fst_conv)

lemma never_waits_bind: "never_waits m \<Longrightarrow> (\<And>x. never_waits (f x)) \<Longrightarrow> never_waits (bind m f)"
  by (auto simp: never_waits_def bind_eval split: prod.splits res.splits) (metis fst_conv)

lemma forward_calls:
  "never_waits m \<Longrightarrow> forward w (on_status m)" "never_waits m' \<Longrightarrow> forward w (on_shunt m')"
  by (auto simp: forward_def on_status_eval on_shunt_eval never_waitsD split: prod.splits)

lemma status_never_waits:
  "never_waits is_running" "never_waits running_pid" "never_waits not_running" "never_waits (running p)"
proof -
  have "never_waits read_pid" "never_waits clear_pid" "never_waits (write_pid p)" for p
    by (auto simp: never_waits_def read_pid_def clear_pid_def write_pid_def mmap_readline_def mmap_seek_def
        mmap_set_head_def mmap_write_def bind_eval Let_def split: option.splits prod.splits res.splits)
  then show "never_waits is_running" "never_waits running_pid" "never_waits not_running" "never_waits (running p)"
    by (auto simp: is_running_def running_pid_def not_running_def running_def intro!: never_waits_bind)
      (auto simp: never_waits_def)
qed

lemma forward_sends: "forward w (send s)" "forward w (send_status c msg)" "forward w (lift_sum x)"
  by (auto simp: send_def send_status_def lift_sum_def forward_prims forward_pure split: sum.splits)

lemmas forward_rules = forward_bind forward_try forward_if forward_case forward_pure forward_prims
  forward_sends forward_calls status_never_waits

section \<open>The handlers\<close>

lemma forward_replies: "forward w help_reply" "forward w status_reply"
  unfolding help_reply_def status_reply_def by (intro forward_rules)+

lemma forward_opts: "forward w parse_common_opts"
proof (induction w rule: parse_common_opts.induct)
  case (1 w)
  have "forward w' (common_step raw)" if "readline w = (Ret raw, w')" for raw w'
    using 1 [OF that refl refl]
    unfolding common_step_def [abs_def] Let_def
    by (intro forward_rules forward_replies) auto
  then show ?case
    unfolding parse_common_opts_unfold [abs_def] by (intro forward_rules)
qed

lemma forward_runtime:
  "runtime_to_error e = Some k \<Longrightarrow> forward w k"
  "except_RuntimeError (\<lambda>d. bind (os_kill p sg) (\<lambda>_. go_error c (f d))) e = Some k' \<Longrightarrow> forward w k'"
  by (cases e; auto simp: runtime_to_error_def intro!: forward_rules)+

lemma forward_lookup: "except_ProcessLookupError m e = Some k \<Longrightarrow> (\<And>w. forward w m) \<Longrightarrow> forward w k"
  by (cases e) auto

lemmas handler_rules = forward_rules forward_opts

lemma forward_listen: "forward w client_listen"
proof (induction "length (rfile w)" arbitrary: w rule: less_induct)
  case less
  show ?case
    by (subst client_listen.simps [abs_def]) (intro handler_rules less; force dest!: reads)
qed

lemma forward_error: "forward w (client_error c)"
  unfolding client_error_def by (cases c) (auto intro!: handler_rules)

lemma forward_abort: "forward w client_abort"
  unfolding client_abort_def by (intro handler_rules; erule forward_lookup; intro handler_rules)

lemma forward_reset: "forward w client_reset"
  unfolding client_reset_def by (rule forward_pure)

text \<open>The same for the outcome of a whole run.\<close>

definition settled :: "('s daemon \<Rightarrow> (unit res \<times> 's daemon) option) \<Rightarrow> 's daemon \<Rightarrow> unit res \<Rightarrow> 's daemon \<Rightarrow> bool" where
  "settled f w r w' \<longleftrightarrow>
     (if r = Wait then rfile w' = [] \<and> \<not> rreset w
      else rreset w \<or> (\<forall>ls. f (and_then w ls) = Some (r, and_then w' ls)))"

text \<open>With a module whose calls return.\<close>

locale prompt_module =
  fixes S :: "'s shunt"
  assumes prompt: "never_waits (sh_load S n)" "never_waits (call_setup S t h p a)"
    "never_waits (sh_start S)" "never_waits (sh_marshall S)"
begin

lemmas module_rules = handler_rules prompt

lemma forward_setup_loop: "forward w (setup_loop S v)"
proof (induction "length (rfile w)" arbitrary: w v rule: less_induct)
  case less
  have "forward u (shunt_setup S x)" for u x
    unfolding shunt_setup_def by (intro module_rules)
  with less show ?case
    by (subst setup_loop.simps [abs_def])
      (intro module_rules less; (erule forward_runtime | force dest!: reads))
qed

lemma forward_setup: "forward w (client_setup S)"
proof (induction "length (rfile w)" arbitrary: w rule: less_induct)
  case less
  show ?case
    by (subst client_setup.simps [abs_def])
      (intro module_rules less forward_setup_loop; (erule forward_runtime | force dest!: reads))
qed

lemma forward_run: "forward w (client_run S)"
proof (induction "length (rfile w)" arbitrary: w rule: less_induct)
  case less
  show ?case
    by (subst client_run.simps [abs_def])
      (intro module_rules less; (erule forward_runtime | force dest!: reads))
qed

lemma forward_target_run: "forward w (target_run S)"
proof (induction "length (rfile w)" arbitrary: w rule: less_induct)
  case less
  have child: "forward u (target_child p l)" for u p l
    unfolding target_child_def by (intro module_rules)
  show ?case
    by (subst target_run.simps [abs_def])
      (intro module_rules less child; (erule forward_runtime | force dest!: reads child_reads))
qed

lemma forward_marshall: "forward w (client_marshall S)"
  unfolding client_marshall_def shunt_marshall_def
  by (intro module_rules; (erule forward_runtime)?)

lemma forward_handler: "handlers (daemon_machine S target) n = Some h \<Longrightarrow> forward w (h c)"
  by (erule daemon_handler_cases)
    (simp_all add: forward_listen forward_setup forward_run forward_target_run forward_marshall
      forward_error forward_abort forward_reset)

lemma loop_settled:
  assumes "handlers (daemon_machine S t) n = Some h"
    and "run_loop (daemon_machine S t) h c w = Some (r, w')"
  shows "settled (run_loop (daemon_machine S t) h c) w r w'"
  using assms
proof (induction "state_rank n" arbitrary: n h c w rule: less_induct)
  case less
  let ?M = "daemon_machine S t"
  obtain x w1 where hw: "h c w = (x, w1)"
    by (cases "h c w")
  have f: "rreset w1 = rreset w" "x = Wait \<Longrightarrow> rfile w1 = [] \<and> \<not> rreset w"
    "x \<noteq> Wait \<Longrightarrow> rreset w \<or> (\<forall>ls. h c (and_then w ls) = (x, and_then w1 ls))"
    using forward_handler [OF less.prems(1), of w c] hw by (auto simp: forward_def split: if_splits)
  show ?case
  proof (cases "\<exists>s c'. x = Ret (Some (s, c')) \<and> upper s \<notin> set (end_states ?M)")
    case True
    then obtain s c' where x: "x = Ret (Some (s, c'))" "upper s \<notin> set (end_states ?M)"
      by blast
    obtain h' where h': "handlers ?M (upper s) = Some h'" "state_rank (upper s) < state_rank n"
      using daemon_machine_ok.declared [OF less.prems(1) hw [unfolded x(1)]] x(2) by blast
    have "run_loop ?M h' c' w1 = Some (r, w')"
      using less.prems(2) hw x h' by (simp add: run_loop_step(2))
    then have "settled (run_loop ?M h' c') w1 r w'"
      using less.hyps h' by blast
    with f x hw h' show ?thesis
      by (auto simp: settled_def run_loop_step(2))
  next
    case False
    consider s c' where "x = Ret (Some (s, c'))" "upper s \<in> set (end_states ?M)" | "x = Ret None"
      | e where "x = Raise e" | "x = Wait" | "x = Halt"
      using False by (cases x) (auto, metis not_None_eq surj_pair)
    then have "w' = w1 \<and> (r = Wait \<longleftrightarrow> x = Wait) \<and>
        (\<forall>u v. h c u = (x, v) \<longrightarrow> run_loop ?M h c u = Some (r, v))"
      by cases (use less.prems(2) hw in \<open>auto simp: run_loop_step(1,4-7)\<close>)
    with f show ?thesis
      by (auto simp: settled_def)
  qed
qed

end

text \<open>The calls of the two modules built from \<^verbatim>\<open>ipbench.c\<close> return, whatever the plugin.\<close>

lemma plugin_calls_return:
  "never_waits (load_plugin n)" "never_waits (setup_client h p a)" "never_waits (setup_target a)"
  "never_waits start" "never_waits marshall" "never_waits sigusr1_handler"
  by (auto simp: never_waits_def load_plugin_def setup_client_def setup_target_def start_def marshall_def
      sigusr1_handler_def shunt_only Let_def split: option.splits prod.splits res.splits)

lemma start_target_returns: "never_waits start_target"
  unfolding never_waits_def
proof
  fix w :: "'a cmod"
  note calls = plugin_calls_return(4,6) [THEN never_waitsD] plugin_calls_return(4,6) [unfolded never_waits_def]
  have "fst (start_interrupted w) \<noteq> Wait"
    by (auto simp: start_interrupted_def calls shunt_only bind_eval Let_def
        split: option.splits prod.splits res.splits)
  moreover have "fst (bind sigusr1_handler (\<lambda>_. start) w) \<noteq> Wait"
    "fst (try_else start (\<lambda>e. Some (bind sigusr1_handler (\<lambda>_. raise e))) (\<lambda>_. sigusr1_handler) w) \<noteq> Wait"
    by (auto simp: bind_eval try_else_eval calls split: prod.splits res.splits)
  ultimately show "fst (start_target w) \<noteq> Wait"
    by (auto simp: start_target_def calls split: option.splits arrival.splits)
qed

interpretation client_prompt: prompt_module ipbench_client
  by unfold_locales
    (auto simp: ipbench_client_def call_setup_def plugin_calls_return start_target_returns never_waits_def [of "raise e" for e])

interpretation target_prompt: prompt_module ipbench_target
  by unfold_locales
    (auto simp: ipbench_target_def call_setup_def plugin_calls_return start_target_returns never_waits_def [of "raise e" for e])


section \<open>A whole connection\<close>

lemma handler_returns: "\<exists>r w'. handle C T w = Some (r, w')"
proof (cases "greet w")
  case (Pair g v)
  have "\<exists>x. run_machine (daemon_machine S t) One v = Some x" for S :: "'a shunt" and t
    by (rule daemon_machine_ok.run_returns)
  then obtain x where
    "run_machine (daemon_machine (if opt_target v then T else C) (opt_target v)) One v = Some x"
    by blast
  with Pair show ?thesis
    by (cases g; cases "handle_exception x") (simp_all add: handle_def Let_def)
qed

lemma greet_forward: "forward w greet"
  unfolding greet_def by (intro forward_rules) (auto intro: forward_pure split: if_splits)

lemma machine_settled:
  assumes "run_machine (daemon_machine (if t then ipbench_target else ipbench_client) t) One w = Some (r, w')"
  shows "settled (run_machine (daemon_machine (if t then ipbench_target else ipbench_client) t) One) w r w'"
proof -
  have "settled (run_loop (daemon_machine (if t then ipbench_target else ipbench_client) t) (\<lambda>_. client_listen) One) w r w'"
    using assms
    using client_prompt.loop_settled [OF daemon_machine_simps(7)]
      target_prompt.loop_settled [OF daemon_machine_simps(7)]
    by (cases t) (simp_all add: run_machine_def daemon_machine_simps)
  then show ?thesis
    by (simp add: settled_def run_machine_def daemon_machine_simps)
qed

lemma handle_settled:
  assumes "handle ipbench_client ipbench_target w = Some (r, w')"
  shows "settled (handle ipbench_client ipbench_target) w r w'"
proof -
  obtain g v where g: "greet w = (g, v)"
    by (cases "greet w")
  have f: "rreset v = rreset w" "g = Wait \<Longrightarrow> rfile v = [] \<and> \<not> rreset w"
    "g \<noteq> Wait \<Longrightarrow> rreset w \<or> (\<forall>ls. greet (and_then w ls) = (g, and_then v ls))"
    using greet_forward [of w] g by (auto simp: forward_def split: if_splits)
  show ?thesis
  proof (cases "g = Ret ()")
    case False
    with assms f g show ?thesis
      by (cases g) (auto simp: settled_def handle_def)
  next
    case True
    obtain x v' where x: "run_machine (daemon_machine (if opt_target v then ipbench_target else ipbench_client)
        (opt_target v)) One v = Some (x, v')" "handle_exception (x, v') = (r, w')"
      using assms g True by (auto simp: handle_def Let_def)
    with machine_settled [OF x(1)] f True g show ?thesis
      by (cases x) (auto simp: settled_def handle_def Let_def)
  qed
qed

end
