(* ===== verification/Daemon_Properties.thy ===== *)
theory Daemon_Properties
  imports Samples Daemon_Raises Machine_Path Progress
begin

text \<open>
  What is proved of the daemon, \<^verbatim>\<open>ipbenchd.py\<close>: whole connections first, then its parts.
\<close>

section \<open>Every connection\<close>

text \<open>C5: Between two reads the code of a connection always comes to an end. Whatever finite sequence of
  lines the peer has sent, whatever the kernel and the plugin answer, the handler process either has
  ended, by a return, an exception or its death, and then it does so and leaves the rest unread
  whatever the peer sends next; or it has read all of the sequence and reads again. So only input
  without end keeps it going: an end of the stream is such input, as C38 shows.\<close>
theorem handle_returns:
  "\<exists>r w'. handle ipbench_client ipbench_target w = Some (r, w') \<and>
    (r = Wait \<longrightarrow> rfile w' = [] \<and> \<not> rreset w) \<and>
    (r \<noteq> Wait \<and> \<not> rreset w \<longrightarrow> (\<forall>ls. handle ipbench_client ipbench_target (w\<lparr>rfile := rfile w @ ls\<rparr>) =
      Some (r, w'\<lparr>rfile := rfile w' @ ls\<rparr>)))"
proof -
  obtain r w' where r: "handle ipbench_client ipbench_target w = Some (r, w')"
    using handler_returns by blast
  with handle_settled [OF r] show ?thesis
    by (auto simp: settled_def and_then_def split: if_splits)
qed

theorem handle_returns_witness:
  "\<exists>w'. handle ipbench_client ipbench_target (sample_world False 7 [''HELLO'' @ nl]) = Some (Ret (), w') \<and>
    (\<forall>ls. handle ipbench_client ipbench_target (sample_world False 7 ((''HELLO'' @ nl) # ls)) =
      Some (Ret (), w'\<lparr>rfile := rfile w' @ ls\<rparr>))"
proof -
  let ?w = "sample_world False 7 [''HELLO'' @ nl]"
  have more_lines: "?w\<lparr>rfile := rfile ?w @ ls\<rparr> = sample_world False 7 ((''HELLO'' @ nl) # ls)" for ls
    by (simp add: sample_world_def)
  have "\<exists>w'. handle ipbench_client ipbench_target ?w = Some (Ret (), w')"
    using handle_busy [of ?w "[]" 7] shm_of_holds [of 7] by simp
  with handle_returns [of ?w, unfolded more_lines] show ?thesis
    by fastforce
qed

text \<open>C6: Every state that a connection comes to is declared in its machine, with a cargo that its
  handler takes: an error with one of the codes 222, 421 and 451 in \<^verbatim>\<open>ERROR\<close>, and the constant cargo in
  all others. It comes to at most five states, and the rest of the run is that of the handler of the
  state it is in.\<close>
theorem connection_is_typed:
  assumes "(run_step (daemon_machine S t) ^^ k) (''LISTEN'', One, w) (n, c, v)"
  shows "k \<le> 4 \<and> fits n c \<and> n \<notin> set (end_states (daemon_machine S t)) \<and>
    (\<exists>h. handlers (daemon_machine S t) n = Some h \<and>
      run_machine (daemon_machine S t) One w = run_loop (daemon_machine S t) h c v)"
  using path_typed [OF assms] rank_pos [of S t n c] by (auto simp: typed_at_def)

theorem connection_is_typed_witness:
  "\<exists>c v. (run_step (daemon_machine ipbench_client False) ^^ 1) (''LISTEN'', One, sample_world False 0 [''QUIT'' @ nl])
      (''ERROR'', c, v) \<and> fits ''ERROR'' c"
proof -
  let ?w = "sample_world False 0 [''QUIT'' @ nl]"
  have "client_listen ?w = (Ret (Some (''ERROR'', Err 222 ''Come back soon!'')), ?w\<lparr>rfile := []\<rparr>)"
    by (subst client_listen.simps) (simp add: bind_eval common_opts_command go_error_def)
  then have "run_step (daemon_machine ipbench_client False) (''LISTEN'', One, ?w)
      (''ERROR'', Err 222 ''Come back soon!'', ?w\<lparr>rfile := []\<rparr>)"
    by (simp add: run_step_iff daemon_machine_simps)
  then have p: "(run_step (daemon_machine ipbench_client False) ^^ 1) (''LISTEN'', One, ?w)
      (''ERROR'', Err 222 ''Come back soon!'', ?w\<lparr>rfile := []\<rparr>)"
    by (simp only: relpowp_1)
  from p connection_is_typed [OF p] show ?thesis
    by blast
qed

text \<open>C11: With the two extension modules built from \<^verbatim>\<open>ipbench.c\<close>, whatever the plugin does, the only
  exceptions that leave a connection are the \<^verbatim>\<open>sys.exit(0)\<close> of its own \<^verbatim>\<open>except Exception\<close> clause and
  the \<^verbatim>\<open>KeyboardInterrupt\<close> of a process that is interrupted.\<close>
theorem handle_exceptions:
  assumes "handle ipbench_client ipbench_target w = Some (Raise e, w')"
  shows "e = SystemExit 0 \<or> e = KeyboardInterrupt"
  using assms by (rule handle_raises)

theorem handle_exceptions_witness:
  "\<exists>e w'. handle ipbench_client ipbench_target (sample_world False 99 [''ABORT'' @ nl]) = Some (Raise e, w') \<and>
    (e = SystemExit 0 \<or> e = KeyboardInterrupt)"
proof -
  let ?w = "sample_world False 99 [''ABORT'' @ nl]"
  obtain e w' where h: "handle ipbench_client ipbench_target ?w = Some (Raise e, w')"
    using handle_abort_stale [of ?w "[]" 99 ipbench_client ipbench_target] shm_of_holds [of 99] by auto
  from handle_exceptions [OF h] h show ?thesis
    by blast
qed

section \<open>The sessions of the controller\<close>

text \<open>C4: The four commands of the controller on an idle daemon. For every plugin name, target host,
  port and arguments that the protocol can carry, and for whatever the test module does short of
  an uncaught exception, the connection returns, the replies are exactly those of the session
  specification, so many lines are read, the module ends in the specified state, and the status
  is cleared, on the successful path and on each of the three failing ones.\<close>
theorem client_session:
  assumes "wleft w = None" and "\<not> opt_target w" and "shm_holds (test_running w) 0"
    and "own_pid w = int q" and "q < 10 ^ 19" and "rfile w = session_lines t h p a @ rest"
    and "plugin_name t" and "target_text h" and "args_text a"
    and "client_session_spec C t h p a (shunt_state w) = Some (out, n, s)"
  shows "\<exists>m. shm_holds m 0 \<and> handle C T w = Some (Ret (),
    w\<lparr>rfile := drop n (rfile w),
      wfile := wfile w @ [reply 100 [], reply 200 [''Ready to go'']] @ out,
      shunt_state := s, test_running := m\<rparr>)"
  using session_from_listen [OF assms(1-10), of T] by (simp add: ends_clear_def)

theorem client_session_witness:
  "\<exists>m. shm_holds m 0 \<and>
    handle ipbench_client ipbench_target
      (sample_world False 0 (session_lines ''latency'' ''10.0.0.1'' 7 ''size=64'' @ [''QUIT'' @ nl])) =
    Some (Ret (), (sample_world False 0 [''QUIT'' @ nl])\<lparr>
      wfile := [reply 100 [], reply 200 [''Ready to go''], reply 200 [], reply 200 []] @
        marshall_replies 0 ''12,34'',
      shunt_state := loaded_module\<lparr>timer_start := 10\<rparr>, test_running := m\<rparr>)"
  using client_session [of "sample_world False 0 (session_lines ''latency'' ''10.0.0.1'' 7 ''size=64'' @ [''QUIT'' @ nl])"
      42 "''latency''" "''10.0.0.1''" 7 "''size=64''" "[''QUIT'' @ nl]" ipbench_client]
    sample_session sample_texts shm_of_holds [of 0]
  by (simp add: session_lines_def) (simp add: sample_world_def)

text \<open>C25: \<^verbatim>\<open>QUIT\<close> as the first command of any connection clears the status, also when it marks
  the running test of another process.\<close>
theorem quit_clears_status:
  assumes "wleft w = None" and "rfile w = (''QUIT'' @ nl) # ls" and "shm_holds (test_running w) p"
  shows "\<exists>m. shm_holds m 0 \<and> handle C T w = Some (Ret (),
    w\<lparr>rfile := ls, wfile := wfile w @ [reply 100 [], reply 222 [''Come back soon!'']],
      test_running := m\<rparr>)"
proof -
  let ?v = "w\<lparr>wfile := wfile w @ [reply 100 []], rfile := ls\<rparr>"
  obtain m where "shm_holds m 0" "client_error (Err 222 ''Come back soon!'') ?v =
      (Ret (Some (''RESET'', One)),
       ?v\<lparr>wfile := wfile ?v @ [reply 222 [''Come back soon!'']], test_running := m\<rparr>)"
    using error_clears [of ?v p 222] assms by auto
  then show ?thesis
    using assms listen_quit [of "w\<lparr>wfile := wfile w @ [reply 100 []]\<rparr>" ls]
    by (auto simp: handle_one_line daemon_machine_simps loop_reset)
qed

theorem quit_clears_status_witness:
  "\<exists>m. shm_holds m 0 \<and>
    handle ipbench_client ipbench_target (sample_world False 7 [''QUIT'' @ nl]) = Some (Ret (),
      (sample_world False 7 [])\<lparr>wfile := [reply 100 [], reply 222 [''Come back soon!'']],
        test_running := m\<rparr>)"
  using quit_clears_status [of "sample_world False 7 [''QUIT'' @ nl]" "[]" 7] shm_of_holds [of 7]
  by (simp add: sample_world_def)

text \<open>C24: \<^verbatim>\<open>ABORT\<close> on a daemon whose test runs in another process kills that process and leaves its
  pid in the status, so the next connection is refused: an abort does not free the daemon.\<close>
theorem abort_leaves_status:
  assumes "wleft w = None" and "rfile w = (''ABORT'' @ nl) # ls"
    and "shm_holds (test_running w) p" and "0 < p" and "own_pid w \<noteq> int p"
    and "kill_env w (int p) SIGINT = Delivered" and "kill_env w (int p) SIGKILL = Delivered"
    and "handle C T w = Some (r, w')"
    and "wleft v = None" and "rfile v = (''HELLO'' @ nl) # ls'" and "test_running v = test_running w'"
  shows "r = Ret () \<and> signals w' = signals w @ [(int p, SIGINT), (int p, SIGKILL)] \<and>
    handle C T v = Some (Ret (),
      v\<lparr>rfile := ls', wfile := wfile v @ [reply 100 [], reply 421 [''Already Running'']]\<rparr>)"
proof -
  have "(r, w') = (Ret (), w\<lparr>wfile := wfile w @ [reply 100 []], rfile := ls,
      signals := signals w @ [(int p, SIGINT), (int p, SIGKILL)]\<rparr>)"
    using handle_abort_other [OF assms(1-7)] assms(8) by simp
  then have "signals w' = signals w @ [(int p, SIGINT), (int p, SIGKILL)]" "r = Ret ()"
    "shm_holds (test_running v) p"
    using assms(3,11) by simp_all
  then show ?thesis
    using handle_busy [OF assms(9,10) _ assms(4)] by simp
qed

theorem abort_leaves_status_witness:
  "handle ipbench_client ipbench_target (sample_world False 7 [''ABORT'' @ nl]) = Some (Ret (),
      (sample_world False 7 [])\<lparr>wfile := [reply 100 []], signals := [(7, SIGINT), (7, SIGKILL)]\<rparr>) \<and>
   handle ipbench_client ipbench_target (sample_world False 7 [''HELLO'' @ nl]) = Some (Ret (),
    (sample_world False 7 [])\<lparr>wfile := [reply 100 [], reply 421 [''Already Running'']]\<rparr>)"
proof -
  let ?w = "sample_world False 7 [''ABORT'' @ nl]" and ?c = "ipbench_client :: unit cmod shunt"
  let ?r = "(sample_world False 7 [])\<lparr>wfile := [reply 100 []], signals := [(7, SIGINT), (7, SIGKILL)]\<rparr>"
  have m: "shm_holds (shm_of 7) 7"
    using shm_of_holds [of 7] by simp
  then have h: "handle ?c ipbench_target ?w = Some (Ret (), ?r)"
    using handle_abort_other [of ?w "[]" 7 ?c ipbench_target] by (simp add: sample_world_def)
  then show ?thesis
    using abort_leaves_status [of ?w "[]" 7 ?c ipbench_target "Ret ()" ?r
        "sample_world False 7 [''HELLO'' @ nl]" "[]"] m
    by (simp add: sample_world_def)
qed

text \<open>C26: \<^verbatim>\<open>ABORT\<close> when the marked process is gone clears the status, but the handler returns no
  state: the machine fails with a \<^verbatim>\<open>TypeError\<close> and the process exits without a reply.\<close>
theorem abort_of_stale_pid:
  assumes "wleft w = None" and "rfile w = (''ABORT'' @ nl) # ls"
    and "shm_holds (test_running w) p" and "0 < p" and "kill_env w (int p) SIGINT = NoSuchProcess"
  shows "\<exists>m. shm_holds m 0 \<and> handle C T w = Some (Raise (SystemExit 0),
    w\<lparr>rfile := ls, wfile := wfile w @ [reply 100 []], test_running := m\<rparr>)"
  using assms by (rule handle_abort_stale)

theorem abort_of_stale_pid_witness:
  "\<exists>m. shm_holds m 0 \<and>
    handle ipbench_client ipbench_target (sample_world False 99 [''ABORT'' @ nl]) =
      Some (Raise (SystemExit 0), (sample_world False 99 [])\<lparr>wfile := [reply 100 []], test_running := m\<rparr>)"
  using abort_of_stale_pid [of "sample_world False 99 [''ABORT'' @ nl]" "[]" 99] shm_of_holds [of 99]
  by (simp add: sample_world_def)

text \<open>C27: \<^verbatim>\<open>ABORT\<close> on the connection whose own process is marked interrupts that very process: the
  \<^verbatim>\<open>KeyboardInterrupt\<close> leaves the handler before the kill, and its pid stays in the status.\<close>
theorem abort_of_own_session:
  assumes "wleft w = None" and "shm_holds (test_running w) 0" and "own_pid w = int q"
    and "0 < q" and "q < 10 ^ 19" and "rfile w = (''HELLO'' @ nl) # (''ABORT'' @ nl) # ls"
    and "kill_env w (int q) SIGINT = Delivered"
  shows "\<exists>m. shm_holds m q \<and> handle C T w = Some (Raise KeyboardInterrupt,
    (admitted w ls m)\<lparr>signals := signals w @ [(int q, SIGINT)]\<rparr>)"
proof -
  let ?S = "if opt_target w then T else C" and ?M = "daemon_machine (if opt_target w then T else C) (opt_target w)"
  obtain m where m: "shm_holds m q" "handle C T w = map_option handle_exception
      (run_loop ?M (\<lambda>_. client_setup ?S) One (admitted w ((''ABORT'' @ nl) # ls) m))"
    by (rule handle_hello [where C = C and T = T, OF assms(1-3,5,6)])
  have "client_setup ?S (admitted w ((''ABORT'' @ nl) # ls) m) =
      (Ret (Some (''ABORT'', One)), admitted w ls m)"
    using common_opts_command [of "admitted w ((''ABORT'' @ nl) # ls) m" "''ABORT''" ls]
    by (subst client_setup.simps) (simp add: bind_eval goto_def admitted_def)
  moreover have "client_abort (admitted w ls m) = (Raise KeyboardInterrupt,
      (admitted w ls m)\<lparr>signals := signals w @ [(int q, SIGINT)]\<rparr>)"
    using abort_self [of "admitted w ls m" q] assms m(1) by simp
  ultimately have "run_loop ?M (\<lambda>_. client_setup ?S) One (admitted w ((''ABORT'' @ nl) # ls) m) =
      Some (Raise KeyboardInterrupt, (admitted w ls m)\<lparr>signals := signals w @ [(int q, SIGINT)]\<rparr>)"
    using run_loop_step(5) [of "\<lambda>_. client_abort" One "admitted w ls m"]
    by (simp add: loop_next [of "\<lambda>_. client_setup ?S" One] daemon_machine_simps)
  with m show ?thesis by auto
qed

theorem abort_of_own_session_witness:
  "\<exists>m. shm_holds m 42 \<and> handle ipbench_client ipbench_target
      (sample_world False 0 [''HELLO'' @ nl, ''ABORT'' @ nl]) = Some (Raise KeyboardInterrupt,
        (admitted (sample_world False 0 [''HELLO'' @ nl, ''ABORT'' @ nl]) [] m)
          \<lparr>signals := [(42, SIGINT)]\<rparr>)"
  using abort_of_own_session [of "sample_world False 0 [''HELLO'' @ nl, ''ABORT'' @ nl]" 42 "[]"]
    shm_of_holds [of 0] by simp

text \<open>C38: At the end of its peer's input a connection does not end: however often \<^verbatim>\<open>readline\<close> gives
  the empty line of a closed connection, the handler answers each with 500 and reads again. Only
  a reset of the connection ends it, by the exception of the read.\<close>
theorem eof_is_answered:
  assumes "wleft w = None" and "rfile w = replicate n []"
  shows "handle C T w = Some (if rreset w then Raise (SystemExit 0) else Wait,
    w\<lparr>rfile := [], wfile := wfile w @ reply 100 [] # replicate n (reply 500 [])\<rparr>)"
  using assms listen_eof [of "w\<lparr>wfile := wfile w @ [reply 100 []]\<rparr>" n]
  by (cases "rreset w") (simp_all add: handle_start run_loop_step(5,6))

theorem eof_is_answered_witness:
  "handle ipbench_client ipbench_target (sample_world False 0 [[], [], []]) = Some (Wait,
    (sample_world False 0 [])\<lparr>wfile := [reply 100 [], reply 500 [], reply 500 [], reply 500 []]\<rparr>)"
  using eof_is_answered [of "sample_world False 0 [[], [], []]" 3]
  by (simp add: numeral_3_eq_3 sample_world_def)

text \<open>C28: A target with the field separator in it (an IPv6 address such as \<^verbatim>\<open>fe80::1\<close>) does not survive
  \<^verbatim>\<open>SETUP\<close>: splitting the field fails with a \<^verbatim>\<open>ValueError\<close>, the process exits with no reply to the
  command and leaves the daemon marked as running.\<close>
theorem separator_in_target:
  assumes "wleft w = None" and "shm_holds (test_running w) 0" and "own_pid w = int q"
    and "q < 10 ^ 19" and "rfile w = session_lines t h p a @ rest" and "plugin_name t"
    and "line_text h" and "CHR ''|'' \<notin> set h" and "\<not> no_sep (CHR '':'') h" and "args_text a"
    and "\<not> opt_target w" and "sh_load C t (shunt_state w) = (Ret (), s)"
  shows "\<exists>m. shm_holds m q \<and> handle C T w = Some (Raise (SystemExit 0),
    (admitted w (drop 3 (rfile w)) m)\<lparr>
      wfile := wfile w @ [reply 100 [], reply 200 [''Ready to go''], reply 200 []],
      shunt_state := s\<rparr>)"
proof -
  let ?ls = "tl (rfile w)" and ?M = "daemon_machine C False"
  obtain m where m: "shm_holds m q" "handle C T w = map_option handle_exception
      (run_loop ?M (\<lambda>_. client_setup C) One (admitted w ?ls m))"
    by (rule handle_hello [where C = C and T = T and ls = ?ls, OF assms(1-4)])
      (simp_all add: assms(5,11) session_lines_def)
  let ?v = "(admitted w ?ls m)\<lparr>rfile := tl ?ls, shunt_state := s\<rparr>"
  have "client_setup C (admitted w ?ls m) = setup_loop C no_vars ?v"
    using assms by (intro setup_load_ok) (simp_all add: session_lines_def)
  also have "\<dots> = (Raise ValueError, ?v\<lparr>rfile := tl (tl ?ls), wfile := wfile ?v @ [reply 200 []]\<rparr>)"
    using assms by (intro setup_loop_sep) (simp_all add: session_lines_def)
  finally have "run_loop ?M (\<lambda>_. client_setup C) One (admitted w ?ls m) =
      Some (Raise ValueError, ?v\<lparr>rfile := tl (tl ?ls), wfile := wfile ?v @ [reply 200 []]\<rparr>)"
    by (rule run_loop_step(5))
  moreover have "tl (tl ?ls) = drop 3 (rfile w)"
    by (simp add: drop_Suc numeral_3_eq_3)
  ultimately show ?thesis
    using m by (auto simp: admitted_def)
qed

theorem separator_in_target_witness:
  "\<exists>m. shm_holds m 42 \<and> handle ipbench_client ipbench_target
      (sample_world False 0 (session_lines ''latency'' ''fe80::1'' 7 [])) =
    Some (Raise (SystemExit 0),
      (admitted (sample_world False 0 (session_lines ''latency'' ''fe80::1'' 7 [])) [''START'' @ nl] m)
        \<lparr>wfile := [reply 100 [], reply 200 [''Ready to go''], reply 200 []], shunt_state := loaded_module\<rparr>)"
proof -
  have "line_text ''fe80::1''" "\<not> no_sep (CHR '':'') ''fe80::1''"
    by code_simp+
  then show ?thesis
    using separator_in_target [of "sample_world False 0 (session_lines ''latency'' ''fe80::1'' 7 [])" 42
        "''latency''" "''fe80::1''" 7 "[]" "[]" ipbench_client loaded_module ipbench_target]
      sample_texts shm_of_holds [of 0] sample_load
    by (simp add: session_lines_def numeral_3_eq_3)
qed

text \<open>C39: The second command of \<^verbatim>\<open>setup\<close> need not be \<^verbatim>\<open>SETUP\<close>: any other word with well-formed fields
  is answered with 200 and leads to \<^verbatim>\<open>RUN\<close> with the test module not set up.\<close>
theorem any_word_sets_up:
  assumes "wleft w = None" and "rfile w = (c @ '' '' @ r @ nl) # ls"
    and "command (c @ '' '' @ r)" and "match_setup (c @ '' '' @ r) = Some (c, r)" and "c \<noteq> ''SETUP''"
    and "parse_setup_args (split2 (CHR ''|'') r) v = Inr v'"
  shows "setup_loop S v w = (Ret (Some (''RUN'', One)),
    w\<lparr>rfile := ls, wfile := wfile w @ [reply 200 [], reply 200 []]\<rparr>)"
proof -
  let ?w = "w\<lparr>wfile := wfile w @ [reply 200 []]\<rparr>"
  have o: "parse_common_opts ?w = (Ret (c @ '' '' @ r), ?w\<lparr>rfile := ls\<rparr>)"
    using common_opts_command [of ?w "c @ '' '' @ r" ls] assms by simp
  have "x \<noteq> ''ABORT''" "x \<noteq> ''QUIT''" if "CHR '' '' \<in> set x" for x :: str
    using that by auto
  from this [of "c @ '' '' @ r"] show ?thesis
    using assms o
    by (subst setup_loop.simps)
      (simp add: bind_eval try_else_eval send_reply lift_sum_def goto_def)
qed

theorem any_word_sets_up_witness:
  "setup_loop ipbench_client no_vars (sample_world False 42 [''NOOP port::1'' @ nl]) =
    (Ret (Some (''RUN'', One)),
     (sample_world False 42 [])\<lparr>wfile := [reply 200 [], reply 200 []]\<rparr>)"
proof -
  have "command (''NOOP'' @ '' '' @ ''port::1'')"
    "match_setup (''NOOP'' @ '' '' @ ''port::1'') = Some (''NOOP'', ''port::1'')"
    "parse_setup_args (split2 (CHR ''|'') ''port::1'') no_vars = Inr (no_vars\<lparr>test_port := Some 1\<rparr>)"
    by code_simp+
  then show ?thesis
    using any_word_sets_up [of "sample_world False 42 [''NOOP port::1'' @ nl]" "''NOOP''" "''port::1''"]
    by (simp add: sample_world_def)
qed

text \<open>C37: When the module marshalls no data, the unpacking of its result fails: the connection exits
  after the test has run, with no reply, and leaves the daemon marked as running.\<close>
theorem null_data_keeps_status:
  assumes "rfile w = (''START'' @ nl) # ls" and "shm_holds (test_running w) q"
    and "sh_start S (shunt_state w) = (Ret (), s)" and "sh_marshall S s = (Ret (v, None), s')"
  shows "run_loop (daemon_machine S False) (\<lambda>_. client_run S) One w =
      Some (Raise TypeError, w\<lparr>rfile := ls, shunt_state := s'\<rparr>) \<and>
    shm_holds (test_running (w\<lparr>rfile := ls, shunt_state := s'\<rparr>)) q"
proof -
  let ?w = "w\<lparr>rfile := ls, shunt_state := s\<rparr>"
  have "client_run S w = (Ret (Some (''MARSHALL'', One)), ?w)"
    using assms by (intro run_ok)
  moreover have "client_marshall S ?w = (Raise TypeError, ?w\<lparr>shunt_state := s'\<rparr>)"
    using assms by (intro marshall_null) simp
  ultimately show ?thesis
    using assms(2) loop_next [of "\<lambda>_. client_run S" One w "''MARSHALL''" One ?w]
      run_loop_step(5) [of "\<lambda>_. client_marshall S" One ?w]
    by (simp add: daemon_machine_simps)
qed

text \<open>A plugin that has nothing to marshall.\<close>

definition quiet_module :: "unit cmod" where
  "quiet_module = sample_module\<lparr>ipbench_plugin :=
     Some (sample_plugin\<lparr>pl_marshall := \<lambda>_ s. (0, None, s)\<rparr>)\<rparr>"

theorem null_data_keeps_status_witness:
  "\<exists>w'. run_loop (daemon_machine ipbench_client False) (\<lambda>_. client_run ipbench_client) One
      ((sample_world False 42 [''START'' @ nl])\<lparr>shunt_state := quiet_module\<rparr>) = Some (Raise TypeError, w') \<and>
    shm_holds (test_running w') 42"
  using null_data_keeps_status [of "(sample_world False 42 [''START'' @ nl])\<lparr>shunt_state := quiet_module\<rparr>"
      "[]" 42 ipbench_client "quiet_module\<lparr>timer_start := 10\<rparr>" 0 "quiet_module\<lparr>timer_start := 10\<rparr>"]
    shm_of_holds [of 42]
  by (simp add: quiet_module_def sample_module_calls)

end
