(* ===== verification/Target_Session.thy ===== *)
theory Target_Session
  imports Connections
begin

text \<open>
  A connection to a target daemon up to \<^verbatim>\<open>START\<close>, and the two processes of \<^verbatim>\<open>IpbenchTarget.run\<close> after
  its fork: each is a run of the model in which \<^verbatim>\<open>os.fork\<close> has returned on its side.
\<close>

section \<open>START and the fork\<close>

lemma target_start:
  assumes "rfile w = (''START'' @ nl) # ls" and "own_pid w = ppid"
  shows "target_run S w =
    bind os_fork (\<lambda>pid w.
      if pid > 0 then
        try_else (on_shunt (sh_start S))
          (except_RuntimeError (\<lambda>detail. bind (os_kill pid SIGKILL) (\<lambda>_. go_error 451 (strip detail))))
          (\<lambda>_. goto ''MARSHALL'') w
      else bind (bind parse_common_opts (target_child ppid)) (\<lambda>r w.
             case r of None \<Rightarrow> target_run S w | Some next \<Rightarrow> ret next w) w) (w\<lparr>rfile := ls\<rparr>)"
proof -
  have "parse_common_opts w = (Ret ''START'', w\<lparr>rfile := ls\<rparr>)"
    using assms(1) by (intro common_opts_command) simp_all
  then show ?thesis
    using assms(2) by (subst target_run.simps) (simp add: bind_results cong: if_cong)
qed

text \<open>The two sides of the fork.\<close>

lemma run_parent:
  assumes "rfile w = (''START'' @ nl) # ls" and "forks w = InParent c # fs" and "0 < c"
    and "sh_start S (shunt_state w) = (Ret (), s)"
  shows "target_run S w = (Ret (Some (''MARSHALL'', One)), w\<lparr>rfile := ls, forks := fs, shunt_state := s\<rparr>)"
  using assms
  by (simp add: target_start [OF assms(1) refl] bind_eval os_fork_def try_else_eval on_shunt_eval goto_def)

lemma run_parent_fails:
  assumes "rfile w = (''START'' @ nl) # ls" and "forks w = InParent c # fs" and "0 < c"
    and "c \<noteq> own_pid w" and "kill_env w c SIGKILL = Delivered"
    and "sh_start S (shunt_state w) = (Raise (RuntimeError m), s)"
  shows "target_run S w = (Ret (Some (''ERROR'', Err 451 (strip m))),
    w\<lparr>rfile := ls, forks := fs, shunt_state := s, signals := signals w @ [(c, SIGKILL)]\<rparr>)"
  using assms
  by (simp add: target_start [OF assms(1) refl] bind_eval os_fork_def try_else_eval on_shunt_eval
      os_kill_def go_error_def)

lemma run_child_stops:
  assumes "rfile w = (''START'' @ nl) # (''STOP'' @ nl) # ls" and "forks w = InChild c # fs"
    and "c \<noteq> own_pid w" and "kill_env w (own_pid w) SIGUSR1 = Delivered"
  shows "target_run S w = (Halt, w\<lparr>rfile := ls, forks := fs, own_pid := c,
    signals := signals w @ [(own_pid w, SIGUSR1)]\<rparr>)"
  using assms
  by (simp add: target_start [OF assms(1) refl] bind_eval os_fork_def common_opts_command
      target_child_def os_kill_def os_exit_def)

lemma run_child_quits:
  assumes "rfile w = (''START'' @ nl) # (''QUIT'' @ nl) # ls" and "forks w = InChild c # fs"
  shows "target_run S w = (Ret (Some (''ERROR'', Err 222 ''Come back soon!'')),
    w\<lparr>rfile := ls, forks := fs, own_pid := c\<rparr>)"
  using assms
  by (simp add: target_start [OF assms(1) refl] bind_eval os_fork_def common_opts_command
      target_child_def go_error_def)

section \<open>The connection up to START\<close>

text \<open>The commands of the controller before \<^verbatim>\<open>STOP\<close>, on a target whose module loads and is set up.\<close>

definition target_lines :: "str \<Rightarrow> str \<Rightarrow> bytes list" where
  "target_lines t a =
     [''HELLO'' @ nl, load_message t @ nl, target_setup_message a @ nl, ''START'' @ nl]"

definition idle_target :: "'s shunt \<Rightarrow> str \<Rightarrow> str \<Rightarrow> nat \<Rightarrow> 's \<Rightarrow> bytes list \<Rightarrow> 's daemon \<Rightarrow> bool" where
  "idle_target T t a q s rest w \<longleftrightarrow> wleft w = None \<and> opt_target w \<and> shm_holds (test_running w) 0 \<and>
     own_pid w = int q \<and> q < 10 ^ 19 \<and> rfile w = target_lines t a @ rest \<and> plugin_name t \<and> args_text a \<and>
     (\<exists>s1. sh_load T t (shunt_state w) = (Ret (), s1) \<and> sh_setup1 T a s1 = (Ret (), s))"

text \<open>The state in which such a connection comes to \<^verbatim>\<open>run\<close>.\<close>

definition target_ready :: "'s daemon \<Rightarrow> bytes list \<Rightarrow> 's \<Rightarrow> shm \<Rightarrow> 's daemon" where
  "target_ready w rest s m = w\<lparr>rfile := (''START'' @ nl) # rest, wfile := wfile w @
     [reply 100 [], reply 200 [''Ready to go''], reply 200 [], reply 200 []], shunt_state := s, test_running := m\<rparr>"

lemma target_ready_simps [simp]:
  "rfile (target_ready w rest s m) = (''START'' @ nl) # rest" "wleft (target_ready w rest s m) = wleft w"
  "forks (target_ready w rest s m) = forks w" "own_pid (target_ready w rest s m) = own_pid w"
  "kill_env (target_ready w rest s m) = kill_env w" "signals (target_ready w rest s m) = signals w"
  "shunt_state (target_ready w rest s m) = s" "test_running (target_ready w rest s m) = m"
  "wfile (target_ready w rest s m) = wfile w @
     [reply 100 [], reply 200 [''Ready to go''], reply 200 [], reply 200 []]"
  by (simp_all add: target_ready_def)

lemma setup_loop_target:
  assumes "rfile w = (target_setup_message a @ nl) # ls" and "wleft w = None" and "opt_target w"
    and "args_text a" and "sh_setup1 T a (shunt_state w) = (Ret (), s)"
  shows "setup_loop T v w = (Ret (Some (''RUN'', One)),
    w\<lparr>rfile := ls, wfile := wfile w @ [reply 200 [], reply 200 []], shunt_state := s\<rparr>)"
proof -
  let ?w = "w\<lparr>wfile := wfile w @ [reply 200 []]\<rparr>"
  have "parse_common_opts ?w = (Ret (target_setup_message a), ?w\<lparr>rfile := ls\<rparr>)"
    using assms by (intro common_opts_command command_target_setup) simp_all
  moreover have "target_setup_message a \<noteq> ''ABORT''" "target_setup_message a \<noteq> ''QUIT''"
    by (simp_all add: target_setup_message_def)
  ultimately show ?thesis
    using assms
    by (subst setup_loop.simps)
      (simp add: bind_eval try_else_eval send_reply match_target_setup_message parse_target_setup_message
        lift_sum_def shunt_setup_def need_def call_setup_def on_shunt_eval goto_def)
qed

lemma target_comes_to_run:
  assumes "idle_target T t a q s rest w"
  obtains m where "shm_holds m q" and "handle C T w = map_option handle_exception
    (run_loop (daemon_machine T True) (\<lambda>_. target_run T) One (target_ready w rest s m))"
proof -
  obtain s1 where w: "wleft w = None" "opt_target w" "shm_holds (test_running w) 0" "own_pid w = int q"
      "q < 10 ^ 19" "rfile w = target_lines t a @ rest" "plugin_name t" "args_text a"
      "sh_load T t (shunt_state w) = (Ret (), s1)" "sh_setup1 T a s1 = (Ret (), s)"
    using assms by (auto simp: idle_target_def)
  let ?ls = "(load_message t @ nl) # (target_setup_message a @ nl) # (''START'' @ nl) # rest"
  obtain m where m: "shm_holds m q" "handle C T w = map_option handle_exception
      (run_loop (daemon_machine T True) (\<lambda>_. client_setup T) One (admitted w ?ls m))"
    by (rule handle_hello [where C = C and T = T and ls = ?ls, OF w(1,3,4,5)])
      (simp_all add: w(2,6) target_lines_def)
  let ?v = "(admitted w ?ls m)\<lparr>rfile := tl ?ls, shunt_state := s1\<rparr>"
  have "client_setup T (admitted w ?ls m) = setup_loop T no_vars ?v"
    using w by (intro setup_load_ok) simp_all
  also have "\<dots> = (Ret (Some (''RUN'', One)), ?v\<lparr>rfile := tl (tl ?ls),
      wfile := wfile ?v @ [reply 200 [], reply 200 []], shunt_state := s\<rparr>)"
    using w by (intro setup_loop_target) simp_all
  also have "?v\<lparr>rfile := tl (tl ?ls), wfile := wfile ?v @ [reply 200 [], reply 200 []], shunt_state := s\<rparr> =
      target_ready w rest s m"
    by (simp add: admitted_def target_ready_def)
  finally have "run_loop (daemon_machine T True) (\<lambda>_. client_setup T) One (admitted w ?ls m) =
      run_loop (daemon_machine T True) (\<lambda>_. target_run T) One (target_ready w rest s m)"
    by (rule loop_next) (simp_all add: daemon_machine_simps)
  with m show ?thesis
    by (intro that [of m]) simp_all
qed

section \<open>Whole connections\<close>

text \<open>The process that runs the test, whether the test succeeds or fails to start.\<close>

lemma parent_session:
  assumes "idle_target T t a q s rest w" and "forks w = InParent c # fs" and "0 < c"
    and "sh_start T s = (Ret (), s')" and "sh_marshall T s' = (Ret (v, Some d), s'')"
  shows "\<exists>m. shm_holds m 0 \<and> handle C T w = Some (Ret (), (target_ready w rest s'' m)\<lparr>rfile := rest,
    wfile := wfile w @ [reply 100 [], reply 200 [''Ready to go''], reply 200 [], reply 200 []] @
      marshall_replies v d, forks := fs\<rparr>)"
proof -
  obtain m where m: "shm_holds m q" "handle C T w = map_option handle_exception
      (run_loop (daemon_machine T True) (\<lambda>_. target_run T) One (target_ready w rest s m))"
    by (rule target_comes_to_run [OF assms(1)])
  let ?w = "target_ready w rest s m"
  let ?v = "?w\<lparr>rfile := rest, forks := fs, shunt_state := s'\<rparr>"
  have n: "wleft w = None"
    using assms(1) by (simp add: idle_target_def)
  have "target_run T ?w = (Ret (Some (''MARSHALL'', One)), ?v)"
    using assms(2-4) by (intro run_parent) simp_all
  then have "run_loop (daemon_machine T True) (\<lambda>_. target_run T) One ?w =
      run_loop (daemon_machine T True) (\<lambda>_. client_marshall T) One ?v"
    by (rule loop_next) (simp_all add: daemon_machine_simps)
  moreover have "ends_clear (?v\<lparr>wfile := wfile ?v @ marshall_replies v d, shunt_state := s''\<rparr>)
      (run_loop (daemon_machine T True) (\<lambda>_. client_marshall T) One ?v)"
    using assms(5) m(1) n by (intro loop_marshall [where q = q]) simp_all
  ultimately show ?thesis
    using m(2) by (auto simp: ends_clear_def target_ready_def)
qed

lemma parent_fails_session:
  assumes "idle_target T t a q s rest w" and "forks w = InParent c # fs" and "0 < c"
    and "c \<noteq> own_pid w" and "kill_env w c SIGKILL = Delivered" and "sh_start T s = (Raise (RuntimeError e), s')"
  shows "\<exists>m. shm_holds m 0 \<and> handle C T w = Some (Ret (), (target_ready w rest s' m)\<lparr>rfile := rest,
    wfile := wfile w @ [reply 100 [], reply 200 [''Ready to go''], reply 200 [], reply 200 [],
      reply 451 [strip e]], forks := fs, signals := signals w @ [(c, SIGKILL)]\<rparr>)"
proof -
  obtain m where m: "shm_holds m q" "handle C T w = map_option handle_exception
      (run_loop (daemon_machine T True) (\<lambda>_. target_run T) One (target_ready w rest s m))"
    by (rule target_comes_to_run [OF assms(1)])
  let ?w = "target_ready w rest s m"
  let ?v = "?w\<lparr>rfile := rest, forks := fs, shunt_state := s', signals := signals w @ [(c, SIGKILL)]\<rparr>"
  have "wleft w = None"
    using assms(1) by (simp add: idle_target_def)
  moreover have "target_run T ?w = (Ret (Some (''ERROR'', Err 451 (strip e))), ?v)"
    using run_parent_fails [of ?w rest c fs T e s'] assms(2-6) by simp
  ultimately have "ends_clear (?v\<lparr>wfile := wfile ?v @ [reply 451 [strip e]]\<rparr>)
      (run_loop (daemon_machine T True) (\<lambda>_. target_run T) One ?w)"
    using m(1) by (intro loop_to_error [where p = q]) simp_all
  then show ?thesis
    using m(2) by (auto simp: ends_clear_def target_ready_def)
qed

text \<open>The process that listens meanwhile.\<close>

lemma child_stops_session:
  assumes "idle_target T t a q s ((''STOP'' @ nl) # ls) w" and "forks w = InChild c # fs"
    and "c \<noteq> own_pid w" and "kill_env w (own_pid w) SIGUSR1 = Delivered"
  shows "\<exists>m. shm_holds m q \<and> handle C T w = Some (Halt, (target_ready w ls s m)\<lparr>rfile := ls,
    forks := fs, own_pid := c, signals := signals w @ [(own_pid w, SIGUSR1)]\<rparr>)"
proof -
  obtain m where m: "shm_holds m q" "handle C T w = map_option handle_exception
      (run_loop (daemon_machine T True) (\<lambda>_. target_run T) One (target_ready w ((''STOP'' @ nl) # ls) s m))"
    by (rule target_comes_to_run [OF assms(1)])
  have "target_run T (target_ready w ((''STOP'' @ nl) # ls) s m) = (Halt, (target_ready w ls s m)\<lparr>rfile := ls,
      forks := fs, own_pid := c, signals := signals w @ [(own_pid w, SIGUSR1)]\<rparr>)"
    using run_child_stops [of "target_ready w ((''STOP'' @ nl) # ls) s m" ls c fs T] assms(2-4)
    by simp (simp add: target_ready_def)
  then have "run_loop (daemon_machine T True) (\<lambda>_. target_run T) One (target_ready w ((''STOP'' @ nl) # ls) s m) =
      Some (Halt, (target_ready w ls s m)\<lparr>rfile := ls, forks := fs, own_pid := c,
        signals := signals w @ [(own_pid w, SIGUSR1)]\<rparr>)"
    by (rule run_loop_step)
  with m show ?thesis
    by auto
qed

lemma child_quits_session:
  assumes "idle_target T t a q s ((''QUIT'' @ nl) # ls) w" and "forks w = InChild c # fs"
  shows "\<exists>m. shm_holds m 0 \<and> handle C T w = Some (Ret (), (target_ready w ls s m)\<lparr>rfile := ls,
    wfile := wfile w @ [reply 100 [], reply 200 [''Ready to go''], reply 200 [], reply 200 [],
      reply 222 [''Come back soon!'']], forks := fs, own_pid := c\<rparr>)"
proof -
  obtain m where m: "shm_holds m q" "handle C T w = map_option handle_exception
      (run_loop (daemon_machine T True) (\<lambda>_. target_run T) One (target_ready w ((''QUIT'' @ nl) # ls) s m))"
    by (rule target_comes_to_run [OF assms(1)])
  let ?w = "target_ready w ((''QUIT'' @ nl) # ls) s m"
  let ?v = "?w\<lparr>rfile := ls, forks := fs, own_pid := c\<rparr>"
  have "wleft w = None"
    using assms(1) by (simp add: idle_target_def)
  moreover have "target_run T ?w = (Ret (Some (''ERROR'', Err 222 ''Come back soon!'')), ?v)"
    using run_child_quits [of ?w ls c fs T] assms(2) by simp
  then have "run_loop (daemon_machine T True) (\<lambda>_. target_run T) One ?w =
      run_loop (daemon_machine T True) client_error (Err 222 ''Come back soon!'') ?v"
    by (rule loop_next) (simp_all add: daemon_machine_simps)
  moreover have "errCodes 222 \<noteq> None"
    by code_simp
  ultimately have "ends_clear (?v\<lparr>wfile := wfile ?v @ [reply 222 [''Come back soon!'']]\<rparr>)
      (run_loop (daemon_machine T True) (\<lambda>_. target_run T) One ?w)"
    using loop_error [of ?v q 222 "''Come back soon!''" T True] m(1) by simp
  then show ?thesis
    using m(2) by (auto simp: ends_clear_def target_ready_def)
qed

end
