(* ===== verification/Target_Properties.thy ===== *)
theory Target_Properties
  imports Target_Session Samples
begin

text \<open>What is proved of the daemon in target mode: whole connections, in both processes of the fork.\<close>

section \<open>The two processes of a connection\<close>

text \<open>C32: A whole connection of the controller to an idle target, in the process that runs the test:
  the four commands are answered, the test runs, and its result is written with its flag and length;
  the status is cleared. If the test fails to start, the child that listens for \<^verbatim>\<open>STOP\<close> is killed, the
  failure is reported with 451, and the status is cleared too.\<close>
theorem target_parent:
  assumes "idle_target T t a q s rest w" and "forks w = InParent c # fs" and "0 < c"
    and "c \<noteq> own_pid w" and "kill_env w c SIGKILL = Delivered"
  shows "(sh_start T s = (Ret (), s') \<and> sh_marshall T s' = (Ret (v, Some d), s'') \<longrightarrow>
      (\<exists>m. shm_holds m 0 \<and> handle C T w = Some (Ret (), (target_ready w rest s'' m)\<lparr>rfile := rest,
        wfile := wfile w @ [reply 100 [], reply 200 [''Ready to go''], reply 200 [], reply 200 []] @
          marshall_replies v d, forks := fs\<rparr>))) \<and>
    (sh_start T s = (Raise (RuntimeError e), s') \<longrightarrow>
      (\<exists>m. shm_holds m 0 \<and> handle C T w = Some (Ret (), (target_ready w rest s' m)\<lparr>rfile := rest,
        wfile := wfile w @ [reply 100 [], reply 200 [''Ready to go''], reply 200 [], reply 200 [],
          reply 451 [strip e]], forks := fs, signals := signals w @ [(c, SIGKILL)]\<rparr>)))"
  using parent_session [OF assms(1-3)] parent_fails_session [OF assms] by blast

text \<open>A target whose module has the sample plugin in its directory.\<close>

definition sample_target :: "bytes list \<Rightarrow> fork_result list \<Rightarrow> unit cmod daemon" where
  "sample_target rest fs = (sample_world True 0 (target_lines ''latency'' [] @ rest))\<lparr>forks := fs\<rparr>"

definition ready_module :: "unit cmod" where
  "ready_module = loaded_module\<lparr>sigusr1_set := True\<rparr>"

lemma sample_target_idle: "idle_target ipbench_target ''latency'' [] 42 ready_module rest (sample_target rest fs)"
  using shm_of_holds [of 0] sample_texts sample_load
  by (simp add: idle_target_def sample_target_def ipbench_target_def setup_target_def with_plugin_def
      ready_module_def) (simp add: sample_plugin_def sample_module_def)

lemma sample_target_calls:
  "sh_start ipbench_target ready_module = (Ret (), ready_module\<lparr>timer_start := 10\<rparr>)"
  "sh_marshall ipbench_target (ready_module\<lparr>timer_start := 10\<rparr>) =
    (Ret (0, Some ''12,34''), ready_module\<lparr>timer_start := 10\<rparr>)"
  by (simp_all add: ipbench_target_def start_target_def ready_module_def sample_module_calls)

theorem target_parent_witness:
  "\<exists>m. shm_holds m 0 \<and> handle ipbench_client ipbench_target (sample_target [] [InParent 43]) =
    Some (Ret (), (target_ready (sample_target [] [InParent 43]) [] (ready_module\<lparr>timer_start := 10\<rparr>) m)\<lparr>rfile := [],
      wfile := [reply 100 [], reply 200 [''Ready to go''], reply 200 [], reply 200 []] @ marshall_replies 0 ''12,34'',
      forks := []\<rparr>)"
  using target_parent [OF sample_target_idle, of "[]" "[InParent 43]" 43 "[]" "ready_module\<lparr>timer_start := 10\<rparr>"
      0 "''12,34''" "ready_module\<lparr>timer_start := 10\<rparr>" ipbench_client] sample_target_calls
  by (simp add: sample_target_def)

text \<open>C33: The same connection in the child process of \<^verbatim>\<open>START\<close>: on \<^verbatim>\<open>STOP\<close> it signals the process that
  runs the test with \<^verbatim>\<open>SIGUSR1\<close> and is gone at once, without a reply of its own and with the status
  still marked for the test.\<close>
theorem target_child_stops:
  assumes "idle_target T t a q s ((''STOP'' @ nl) # ls) w" and "forks w = InChild c # fs"
    and "c \<noteq> own_pid w" and "kill_env w (own_pid w) SIGUSR1 = Delivered"
  shows "\<exists>m. shm_holds m q \<and> handle C T w = Some (Halt, (target_ready w ls s m)\<lparr>rfile := ls,
    forks := fs, own_pid := c, signals := signals w @ [(own_pid w, SIGUSR1)]\<rparr>)"
  using assms by (rule child_stops_session)

theorem target_child_stops_witness:
  "\<exists>m. shm_holds m 42 \<and> handle ipbench_client ipbench_target (sample_target [''STOP'' @ nl] [InChild 44]) =
    Some (Halt, (target_ready (sample_target [''STOP'' @ nl] [InChild 44]) [] ready_module m)\<lparr>rfile := [],
      forks := [], own_pid := 44, signals := [(42, SIGUSR1)]\<rparr>)"
  using target_child_stops [OF sample_target_idle, of "[]" "[InChild 44]" 44 "[]" ipbench_client]
  by (simp add: sample_target_def)

text \<open>C34: If the controller closes such a connection without \<^verbatim>\<open>STOP\<close>, as it does after a failed run, the
  child answers \<^verbatim>\<open>QUIT\<close> with 222 and clears the status, and signals nobody: the test runs on in the
  other process while the daemon reports itself free.\<close>
theorem quit_leaves_test_running:
  assumes "idle_target T t a q s ((''QUIT'' @ nl) # ls) w" and "forks w = InChild c # fs"
  shows "\<exists>w'. handle C T w = Some (Ret (), w') \<and> shm_holds (test_running w') 0 \<and> signals w' = signals w \<and>
    wfile w' = wfile w @ [reply 100 [], reply 200 [''Ready to go''], reply 200 [], reply 200 [],
      reply 222 [''Come back soon!'']]"
  using child_quits_session [OF assms, of C] by (auto simp: target_ready_def)

theorem quit_leaves_test_running_witness:
  "\<exists>w'. handle ipbench_client ipbench_target (sample_target [''QUIT'' @ nl] [InChild 44]) = Some (Ret (), w') \<and>
    shm_holds (test_running w') 0 \<and> signals w' = []"
  using quit_leaves_test_running [OF sample_target_idle, of "[]" "[InChild 44]" 44 "[]" ipbench_client]
  by (auto simp: sample_target_def)

text \<open>Any other word makes the child leave \<^verbatim>\<open>run\<close> as if the test were over: it goes on to marshall
  the results itself while the parent still runs the test, and the parent gets no signal.\<close>
lemma target_child_marshalls:
  assumes "rfile w = (''START'' @ nl) # (c @ nl) # ls" and "forks w = InChild q # fs"
    and "command c" and "match_word c = Some k" and "k \<noteq> ''STOP''" and "c \<noteq> ''ABORT''" and "c \<noteq> ''QUIT''"
  shows "target_run S w =
    (Ret (Some (''MARSHALL'', One)), w\<lparr>rfile := ls, forks := fs, own_pid := q\<rparr>)"
  using assms
  by (simp add: target_start [OF assms(1) refl] bind_eval os_fork_def common_opts_command
      target_child_def goto_def)

end
