(* ===== verification/Part_Properties.thy ===== *)
theory Part_Properties
  imports Samples
begin

text \<open>
  What is proved of the parts both programs share: the memory that holds the running pid, the
  reply lines, the commands of the controller, and the loading of plugins.
\<close>

text \<open>C16: From the constructor on, whatever sequence of \<^verbatim>\<open>running\<close> and \<^verbatim>\<open>not_running\<close> calls is made,
  with pids of up to 19 digits, a read gives the pid of the last call (0 after \<^verbatim>\<open>not_running\<close>): the
  rest of a longer line that a shorter one has overwritten is never read back.\<close>
theorem status_reads_last:
  assumes "marks_below (10 ^ 19) ops"
  shows "\<exists>m. TestStatus = (Ret (), m) \<and>
    fst (bind (run_ops running not_running ops) (\<lambda>_. running_pid) m) = Ret (int (last_pid 0 ops))"
proof -
  obtain m where m: "TestStatus = (Ret (), m)" "shm_holds m 0"
    using TestStatus_holds by blast
  have "running = write_pid" "not_running = clear_pid" "running_pid = read_pid"
    by (simp_all add: running_def [abs_def] not_running_def running_pid_def)
  with status_cell.read_last [OF m(2) assms] show ?thesis
    by (intro exI [of _ m] conjI m(1)) simp
qed

theorem status_reads_last_witness:
  "\<exists>m. TestStatus = (Ret (), m) \<and>
    fst (bind (run_ops running not_running [Mark 31415, Mark 7, Clear, Mark 64]) (\<lambda>_. running_pid) m) =
      Ret 64"
  using status_reads_last [of "[Mark 31415, Mark 7, Clear, Mark 64]"]
  by (simp add: marks_below_def)

text \<open>C17: The bound of the mapping: a pid of up to 19 digits is marked and read back, with the mapping
  at its size; a longer one raises a \<^verbatim>\<open>ValueError\<close> and leaves every byte as it was.\<close>
theorem pid_bound:
  assumes "shm_holds m p"
  shows "(q < 10 ^ 19 \<longrightarrow> (\<exists>m'. running (int q) m = (Ret (), m') \<and> running_pid m' = (Ret (int q), m') \<and>
      length (mm_buf m') = 20)) \<and>
    (10 ^ 19 \<le> q \<longrightarrow> running (int q) m = (Raise ValueError, m))"
proof (intro conjI impI)
  assume "q < 10 ^ 19"
  then obtain m' where "running (int q) m = (Ret (), m')" "shm_holds m' q"
    using running_holds [OF assms] by blast
  then show "\<exists>m'. running (int q) m = (Ret (), m') \<and> running_pid m' = (Ret (int q), m') \<and> length (mm_buf m') = 20"
    using running_pid_holds by (intro exI [of _ m']) (simp add: shm_holds_def)
qed (rule running_too_long [OF assms])

theorem pid_bound_witness:
  "\<exists>m'. running 9999999999999999999 (shm_of 7) = (Ret (), m') \<and>
    running_pid m' = (Ret 9999999999999999999, m') \<and>
    running 10000000000000000000 (shm_of 7) = (Raise ValueError, shm_of 7)"
  using pid_bound [OF shm_of_holds [of 7], of 9999999999999999999] pid_bound [OF shm_of_holds [of 7], of 10000000000000000000]
  by fastforce

text \<open>C15: The controller reads every reply of the daemon back: the code, its standard text and, for
  any ASCII message, the message up to its first closing parenthesis.\<close>
theorem replies_are_read_back:
  assumes "str_status c msg = Inr s" and "ascii (join_sp msg)"
  shows "\<exists>t. errCodes c = Some t \<and> parse_return_code_text s =
    Inr \<lparr>rc_code = c, rc_str = t,
         rc_msg = strip (takeWhile (\<lambda>x. x \<noteq> CHR '')'') (join_sp msg))\<rparr>"
  using assms by (rule parse_reply)

theorem replies_are_read_back_witness:
  "parse_return_code_text (''451 LOCAL PROCESSING ERROR (Client setup failed: udp(4))'' @ nl) =
    Inr \<lparr>rc_code = 451, rc_str = ''LOCAL PROCESSING ERROR'', rc_msg = ''Client setup failed: udp(4''\<rparr>"
proof -
  have "str_status 451 [''Client setup failed: udp(4)''] =
      Inr (''451 LOCAL PROCESSING ERROR (Client setup failed: udp(4))'' @ nl)"
    "strip (before_paren (join_sp [''Client setup failed: udp(4)''])) = ''Client setup failed: udp(4''"
    "ascii (join_sp [''Client setup failed: udp(4)''])"
    by code_simp+
  then show ?thesis
    using replies_are_read_back [of 451 "[''Client setup failed: udp(4)'']"] by fastforce
qed

text \<open>C14: The fields of \<^verbatim>\<open>SETUP\<close> survive the trip: the line that the controller builds from a target, a
  port and arguments matches the daemon's expression, and splitting and parsing its fields gives
  back exactly these three values, for every port and whatever earlier fields were set.\<close>
theorem setup_fields_round_trip:
  assumes "target_text h" and "args_text a"
  shows "\<exists>l. match_setup (setup_message h p a) = Some (''SETUP'', l) \<and>
    parse_setup_args (split2 (CHR ''|'') l) v =
      Inr \<lparr>test_target = Some h, test_port = Some p, test_args = Some a\<rparr>"
  using assms by (simp add: match_setup_message parse_setup_message)

theorem setup_fields_round_trip_witness:
  "\<exists>l. match_setup (setup_message ''10.0.0.1'' (- 5) ''size=64'') = Some (''SETUP'', l) \<and>
    parse_setup_args (split2 (CHR ''|'') l) no_vars =
      Inr \<lparr>test_target = Some ''10.0.0.1'', test_port = Some (- 5), test_args = Some ''size=64''\<rparr>"
  using setup_fields_round_trip [of "''10.0.0.1''" "''size=64''"] sample_texts by simp

text \<open>C35: When \<^verbatim>\<open>load_plugin\<close> returns, a plugin is loaded, and it is a well-formed one of the requested
  name out of the \<^verbatim>\<open>.so\<close> files of the directory or the one that was loaded before the call.\<close>
theorem load_plugin_loads:
  assumes "load_plugin n w = (Ret (), w')"
  shows "\<exists>p. ipbench_plugin w' = Some p \<and>
    (ipbench_plugin w = Some p \<or>
     (pl_name p = n \<and> pl_magic p = ''IPBENCH_PLUGIN'' \<and>
      (\<exists>ds d. scandir_result w = Some ds \<and> (d, Header p) \<in> set ds \<and> so_suffix d)))"
proof -
  have "\<exists>d. (d, Header p) \<in> set ds \<and> so_suffix d"
    if "find_plugin n (rev (filter (so_suffix \<circ> fst) ds)) = Some p" for p ds
    using find_plugin_matches [OF that] by auto
  then show ?thesis
    using assms
    by (auto simp: load_plugin_def Let_def shunt_only split: option.splits if_splits
        dest!: find_plugin_matches)
qed

theorem load_plugin_loads_witness:
  "\<exists>p. ipbench_plugin loaded_module = Some p \<and>
    (ipbench_plugin sample_module = Some p \<or>
     (pl_name p = ''latency'' \<and> pl_magic p = ''IPBENCH_PLUGIN'' \<and>
      (\<exists>ds d. scandir_result sample_module = Some ds \<and> (d, Header p) \<in> set ds \<and> so_suffix d)))"
  by (rule load_plugin_loads) (rule sample_load)

text \<open>The second case does happen: a plugin that is not in the directory does not fail to load
  when another one has been loaded before, and every later call goes to that other plugin.\<close>
lemma missing_plugin_keeps_old:
  assumes "ipbench_plugin w = Some p" and "scandir_result w = Some ds"
    and "length (filter (so_suffix \<circ> fst) ds) \<le> MAX_PLUGINS"
    and "\<And>d q. (d, Header q) \<in> set ds \<Longrightarrow> pl_name q \<noteq> n"
  shows "load_plugin n w = (Ret (), w)"
proof -
  have "find_plugin n (rev (filter (so_suffix \<circ> fst) ds)) = None"
    using assms(4) find_plugin_matches [of n "rev (filter (so_suffix \<circ> fst) ds)"]
    by (metis (no_types, lifting) filter_is_subset not_None_eq set_rev subsetD)
  then show ?thesis
    using assms(1-3) by (simp add: load_plugin_def)
qed

lemma missing_plugin_keeps_old_witness:
  "load_plugin ''nonesuch'' loaded_module = (Ret (), loaded_module)"
  using missing_plugin_keeps_old [of loaded_module sample_plugin "[(''latency.so'', Header sample_plugin)]"
      "''nonesuch''"]
  by (simp add: sample_module_def so_suffix_def MAX_PLUGINS_def) (simp add: sample_plugin_def)

end
