(* ===== verification/Sockets.thy ===== *)
theory Sockets
  imports Status_Codes
begin

text \<open>
  The stream sockets of the controller, \<^verbatim>\<open>ipbench.py\<close>, and the part of its code that only reads
  and writes one of them: the reply to a command and the result of a test.

  \<^item> \<open>inbox\<close> is what the peer has sent, in the pieces in which the network delivers it: a
    \<^verbatim>\<open>recv(n)\<close> takes up to \<open>n\<close> bytes of the first piece. An empty piece is a read at the end of a
    stream whose peer has closed it (the environment gives one for every further read it
    schedules); with no piece left the read waits, or fails if the peer has reset the connection
    (\<open>lost\<close>).
  \<^item> \<open>sent\<close> lists what was written, one entry per \<^verbatim>\<open>send\<close> (commands are short and are sent
    whole); \<open>send_left = Some n\<close> means that the peer resets the connection after \<open>n\<close> more.
\<close>

record sock =
  inbox :: "bytes list"
  lost :: bool
  sent :: "bytes list"
  send_left :: "nat option"
  closed :: bool

definition recv :: "int \<Rightarrow> (sock, bytes) io" where
  "recv n s =
     (if closed s then (Raise OSError, s)
      else if n < 0 then (Raise ValueError, s)
      else if n = 0 then (Ret [], s)
      else (case inbox s of
          [] \<Rightarrow> (if lost s then Raise ConnectionResetError else Wait, s)
        | b # bs \<Rightarrow>
            let r = drop (nat n) b
            in (Ret (take (nat n) b), s\<lparr>inbox := (if r = [] then bs else r # bs)\<rparr>)))"

definition sock_send :: "bytes \<Rightarrow> (sock, unit) io" where
  "sock_send b s =
     (if closed s then (Raise OSError, s)
      else (case send_left s of
          None \<Rightarrow> (Ret (), s\<lparr>sent := sent s @ [b]\<rparr>)
        | Some 0 \<Rightarrow> (Raise BrokenPipeError, s)
        | Some (Suc k) \<Rightarrow> (Ret (), s\<lparr>sent := sent s @ [b], send_left := Some k\<rparr>)))"

definition sock_close :: "(sock, unit) io" where
  "sock_close s = (Ret (), s\<lparr>closed := True\<rparr>)"

section \<open>Replies and commands\<close>

definition decode_utf8 :: "bytes \<Rightarrow> ('w, str) io" where
  "decode_utf8 b = (if utf8_valid b then ret b else raise UnicodeDecodeError)"

definition parse_return_code :: "(sock, return_code) io" where
  "parse_return_code =
     bind (recv 1024) (\<lambda>b.
     bind (decode_utf8 b) (\<lambda>data.
     lift_sum (parse_return_code_text data)))"

definition send_command :: "str \<Rightarrow> (sock, unit) io" where
  "send_command cmd = sock_send (cmd @ nl)"

section \<open>The result of a test\<close>

definition match_content_length :: "str \<Rightarrow> str option" where
  \<comment> \<open>\<^verbatim>\<open>re.match(r"Content-length: (\d+)", s)\<close>, group 1\<close>
  "match_content_length s =
     (let k = ''Content-length: ''; d = takeWhile is_digit (drop (length k) s)
      in if take (length k) s = k \<and> d \<noteq> [] then Some d else None)"

text \<open>The bytes still to come and the reads that give nothing: what bounds the loop.\<close>

definition pending :: "sock \<Rightarrow> nat" where
  "pending s = sum_list (map (\<lambda>b. length b + 1) (inbox s))"

lemma recv_pending:
  assumes "recv n s = (Ret b, s')" and "n \<noteq> 0"
  shows "pending s' < pending s"
proof -
  obtain x bs where i: "inbox s = x # bs" and n: "0 < n" and "\<not> closed s"
    using assms by (auto simp: recv_def split: if_splits list.splits)
  then have s': "s' = s\<lparr>inbox := (if drop (nat n) x = [] then bs else drop (nat n) x # bs)\<rparr>"
    using assms by (simp add: recv_def Let_def)
  show ?thesis
  proof (cases "drop (nat n) x = []")
    case True
    then show ?thesis by (simp add: s' i pending_def)
  next
    case False
    then have "length (drop (nat n) x) < length x"
      using n by simp
    with False show ?thesis by (simp add: s' i pending_def)
  qed
qed

text \<open>\<^verbatim>\<open>while (len(client_data) != content_length)\<close>\<close>

function recv_rest :: "int \<Rightarrow> bytes \<Rightarrow> (sock, bytes) io" where
  "recv_rest content_length client_data s =
     (if int (length client_data) = content_length then (Ret client_data, s)
      else bind (recv (content_length - int (length client_data))) (\<lambda>newdata s.
        recv_rest content_length (client_data @ newdata) s) s)"
  by pat_completeness auto
termination
  by (relation "measure (\<lambda>(n, d, s). pending s)") (auto dest: recv_pending)

declare recv_rest.simps [simp del]

text \<open>
  \<^verbatim>\<open>IpbenchTestClient.unmarshall\<close> up to the call of the module. The positions that \<^verbatim>\<open>find\<close> gives
  count the characters of the decoded text and are used on the bytes.
\<close>

definition status_line :: "bytes \<Rightarrow> (sock, bool \<times> bytes) io" where
  "status_line buffer =
     (let statusline = utf8_ignore buffer; newln = str_find statusline newline in
      bind (lift_sum (parse_return_code_text (str_slice statusline 0 newln))) (\<lambda>status.
      if rc_code status = 220 then ret (True, py_from buffer (newln + 1))
      else if rc_code status = 221 then ret (False, py_from buffer (newln + 1))
      else raise (IpBenchError (''Test failed  : '' @ rc_msg status))))"

definition content_line :: "bytes \<Rightarrow> (sock, int \<times> bytes) io" where
  "content_line initial_content =
     (let clenline = ascii_ignore initial_content; newln = str_find clenline newline in
      case match_content_length (str_slice clenline 0 newln) of
        None \<Rightarrow> raise AttributeError
      | Some digits \<Rightarrow>
          (case py_int digits of
             None \<Rightarrow> raise ValueError
           | Some n \<Rightarrow> ret (n, py_from initial_content (newln + 1))))"

definition read_result :: "(sock, bool \<times> bytes) io" where
  "read_result =
     bind (recv 128) (\<lambda>buffer.
     bind (status_line buffer) (\<lambda>(valid, buffer).
     bind (recv 128) (\<lambda>more.
     bind (content_line (buffer @ more)) (\<lambda>(content_length, client_data).
     bind (recv_rest content_length client_data) (\<lambda>client_data.
     ret (valid, client_data))))))"

end
