(* ===== verification/Tester.thy ===== *)
theory Tester
  imports Sockets Shunt
begin

text \<open>
  The classes \<^verbatim>\<open>IpbenchTestClient\<close> and \<^verbatim>\<open>IpbenchTestTarget\<close> of \<^verbatim>\<open>ipbench.py\<close>, by which the controller
  drives one remote daemon. The objects live in a store (\<open>objs\<close>, addressed by position), so an
  update that a method made before it raised is still there when the connections are closed.
  A socket is a position in \<open>socks\<close>; \<open>net\<close> gives the outcomes of the successive \<^verbatim>\<open>connect\<close>
  calls, with the pieces that peer will send. The two extension modules are fields of the
  world; \<open>stdout\<close> is what is printed. A \<open>connect\<close> call finds that the host has no address, that it
  cannot be reached, or a peer.
\<close>

datatype connection = No_Host | Unreachable | Peer sock

record tester =
  is_target :: bool
  hostname :: str
  t_port :: int
  t_test_target :: "str option"
  t_test_port :: "int option"
  t_test_args :: "str option"
  t_client_id :: nat
  test_name :: str
  t_socket :: "nat option"

record client_dict =
  c_hostname :: str
  c_port :: int
  c_test_port :: int
  c_test_args :: str
  c_test_target :: "str option"
  c_testobj :: "nat option"

record target_dict =
  g_hostname :: "str option"
  g_port :: int
  g_test_args :: str
  g_test :: str
  g_testobj :: "nat option"

record 'p controller =
  opt_reset :: bool
  net :: "connection list"
  dialled :: "(str \<times> int) list"
  socks :: "sock list"
  objs :: "tester list"
  client_mod :: "'p cmod"
  target_mod :: "'p cmod"
  clients :: "client_dict list"
  targets :: "target_dict list"
  stdout :: "str list"

section \<open>Objects and sockets\<close>

definition obj :: "nat \<Rightarrow> ('p controller, tester) io" where
  "obj r w = (Ret (objs w ! r), w)"

definition set_obj :: "nat \<Rightarrow> (tester \<Rightarrow> tester) \<Rightarrow> ('p controller, unit) io" where
  "set_obj r f w = (Ret (), w\<lparr>objs := (objs w)[r := f (objs w ! r)]\<rparr>)"

definition new_obj :: "tester \<Rightarrow> ('p controller, nat) io" where
  "new_obj t w = (Ret (length (objs w)), w\<lparr>objs := objs w @ [t]\<rparr>)"

definition on_sock :: "nat \<Rightarrow> (sock, 'a) io \<Rightarrow> ('p controller, 'a) io" where
  \<comment> \<open>a method of \<^verbatim>\<open>self.socket\<close>, which is \<^verbatim>\<open>None\<close> or missing before \<^verbatim>\<open>connect\<close>\<close>
  "on_sock r m w =
     (case t_socket (objs w ! r) of
        None \<Rightarrow> (Raise AttributeError, w)
      | Some k \<Rightarrow> (case m (socks w ! k) of (x, s) \<Rightarrow> (x, w\<lparr>socks := (socks w)[k := s]\<rparr>)))"

text \<open>
  A new socket, bound to \<^verbatim>\<open>self.socket\<close> and then connected. A port that does not fit a C \<open>int\<close> is an
  \<^verbatim>\<open>OverflowError\<close> before the host is looked up, one that does not fit 16 bits after it.
\<close>

definition dial :: "nat \<Rightarrow> ('p controller, unit) io" where
  "dial r w =
     (let t = objs w ! r; k = length (socks w);
          fresh = \<lparr>inbox = [], lost = False, sent = [], send_left = None, closed = False\<rparr>;
          w1 = w\<lparr>socks := socks w @ [fresh], objs := (objs w)[r := t\<lparr>t_socket := Some k\<rparr>]\<rparr>;
          w2 = w1\<lparr>dialled := dialled w @ [(hostname t, t_port t)], net := tl (net w)\<rparr>
      in if \<not> c_int (t_port t) then (Raise OverflowError, w1)
         else (case net w of
             [] \<Rightarrow> (Wait, w1)
           | No_Host # _ \<Rightarrow> (Raise OSError, w2)
           | c # _ \<Rightarrow>
               if t_port t < 0 \<or> 65535 < t_port t then (Raise OverflowError, w2)
               else (case c of Peer s \<Rightarrow> (Ret (), w2\<lparr>socks := (socks w1)[k := s]\<rparr>)
                     | _ \<Rightarrow> (Raise OSError, w2))))"

definition print_line :: "str \<Rightarrow> ('p controller, unit) io" where
  "print_line s w = (Ret (), w\<lparr>stdout := stdout w @ [s]\<rparr>)"

definition on_client_mod :: "('p cmod, 'a) io \<Rightarrow> ('p controller, 'a) io" where
  "on_client_mod = zoom client_mod (\<lambda>s w. w\<lparr>client_mod := s\<rparr>)"

definition on_target_mod :: "('p cmod, 'a) io \<Rightarrow> ('p controller, 'a) io" where
  "on_target_mod = zoom target_mod (\<lambda>s w. w\<lparr>target_mod := s\<rparr>)"

section \<open>IpbenchTestClient and IpbenchTestTarget\<close>

definition IpbenchTestClient ::
  "str \<Rightarrow> int \<Rightarrow> str option \<Rightarrow> int \<Rightarrow> nat \<Rightarrow> str \<Rightarrow> str \<Rightarrow> ('p controller, nat) io" where
  "IpbenchTestClient host port test_target test_port client_id name args =
     new_obj \<lparr>is_target = False, hostname = host, t_port = port, t_test_target = test_target,
       t_test_port = Some test_port, t_test_args = Some args, t_client_id = client_id,
       test_name = name, t_socket = None\<rparr>"

definition IpbenchTestTarget :: "str \<Rightarrow> int \<Rightarrow> str \<Rightarrow> str \<Rightarrow> ('p controller, nat) io" where
  "IpbenchTestTarget host port name args =
     new_obj \<lparr>is_target = True, hostname = host, t_port = port, t_test_target = None,
       t_test_port = None, t_test_args = Some args, t_client_id = 0,
       test_name = name, t_socket = None\<rparr>"

definition ipbench_fail :: "str \<Rightarrow> ('w, 'a) io" where
  "ipbench_fail value = raise (IpBenchError value)"

text \<open>\<^verbatim>\<open>sys.exit(1)\<close> after a refused first connection; the second one of \<^verbatim>\<open>--reset\<close> is not guarded.\<close>

definition connect :: "nat \<Rightarrow> ('p controller, unit) io" where
  "connect r =
     bind (obj r) (\<lambda>self.
     bind (try_else (dial r) (\<lambda>e. if is_OSError e then Some (raise (SystemExit 1)) else None) ret) (\<lambda>_.
     bind (on_sock r parse_return_code) (\<lambda>status.
     bind (if rc_code status \<noteq> 100 then ipbench_fail ''Invalid Version Flag'' else ret ()) (\<lambda>_.
     bind (\<lambda>w. (Ret (opt_reset w), w)) (\<lambda>reset.
     bind (if reset then
             bind (on_sock r (send_command ''ABORT'')) (\<lambda>_.
             bind (dial r) (\<lambda>_.
             bind (on_sock r parse_return_code) (\<lambda>status.
             if rc_code status \<noteq> 100 then ipbench_fail ''Invalid Version Flag'' else ret ())))
           else ret ()) (\<lambda>_.
     bind (on_sock r (send_command ''HELLO'')) (\<lambda>_.
     bind (on_sock r parse_return_code) (\<lambda>status.
     bind (if rc_code status \<noteq> 200
           then ipbench_fail (''HELLO to '' @ hostname self @ '' failed ('' @
                  repr_int (rc_code status) @ '' '' @ rc_str status @ '')'')
           else ret ()) (\<lambda>_.
     bind (on_sock r (send_command (load_message (test_name self)))) (\<lambda>_.
     bind (on_sock r parse_return_code) (\<lambda>status.
     if rc_code status = 421
     then ipbench_fail (''LOAD to '' @ hostname self @ '' failed ('' @ rc_msg status @ '')'')
     else if rc_code status \<noteq> 200 then ipbench_fail ''LOAD Failed''
     else ret ())))))))))))"

definition setup_self :: "nat \<Rightarrow> ('p controller, unit) io" where
  \<comment> \<open>\<^verbatim>\<open>IpbenchTestClient.setup\<close>\<close>
  "setup_self r =
     bind (set_obj r (\<lambda>t. if t_test_port t = None then t\<lparr>t_test_port := Some 0\<rparr> else t)) (\<lambda>_.
     bind (obj r) (\<lambda>self.
     bind (case t_test_target self of
             None \<Rightarrow> ipbench_fail ''Must specify --test-target'' | Some h \<Rightarrow> ret h) (\<lambda>h.
     bind (set_obj r (\<lambda>t. if t_test_args t = None then t\<lparr>t_test_args := Some []\<rparr> else t)) (\<lambda>_.
     bind (obj r) (\<lambda>self.
     bind (on_sock r (send_command
        (setup_message h (the (t_test_port self)) (the (t_test_args self))))) (\<lambda>_.
     bind (on_sock r parse_return_code) (\<lambda>status.
     if rc_code status \<noteq> 200
     then ipbench_fail (''SETUP to '' @ hostname self @ ''failed ('' @
            repr_int (rc_code status) @ '' '' @ rc_str status @ '')'')
     else ret ())))))))"

definition setup_target_self :: "nat \<Rightarrow> ('p controller, unit) io" where
  \<comment> \<open>\<^verbatim>\<open>IpbenchTestTarget.setup\<close>\<close>
  "setup_target_self r =
     bind (obj r) (\<lambda>self.
     bind (case t_test_args self of None \<Rightarrow> raise TypeError | Some a \<Rightarrow> ret a) (\<lambda>a.
     bind (on_sock r (send_command (target_setup_message a))) (\<lambda>_.
     bind (on_sock r parse_return_code) (\<lambda>status.
     if rc_code status \<noteq> 200
     then ipbench_fail (''SETUP Failed ('' @ repr_int (rc_code status) @ '' '' @ rc_str status @ '')'')
     else ret ()))))"

definition tester_setup :: "nat \<Rightarrow> ('p controller, unit) io" where
  \<comment> \<open>the method that the class of the object gives\<close>
  "tester_setup r =
     bind (obj r) (\<lambda>self. if is_target self then setup_target_self r else setup_self r)"

definition tester_start :: "nat \<Rightarrow> ('p controller, unit) io" where
  "tester_start r = on_sock r (send_command ''START'')"

definition tester_stop :: "nat \<Rightarrow> ('p controller, unit) io" where
  "tester_stop r = on_sock r (send_command ''STOP'')"

definition call_test_unmarshall :: "nat \<Rightarrow> bytes \<Rightarrow> bool \<Rightarrow> ('p controller, unit) io" where
  "call_test_unmarshall r data valid =
     bind (obj r) (\<lambda>self.
     if is_target self
     then bind (on_target_mod (unmarshall_target data valid)) (\<lambda>_. ret ())
     else bind (on_client_mod (unmarshall_client (t_client_id self) data valid)) (\<lambda>_. ret ()))"

definition tester_unmarshall :: "nat \<Rightarrow> ('p controller, unit) io" where
  "tester_unmarshall r =
     bind (on_sock r read_result) (\<lambda>(valid, data). call_test_unmarshall r data valid)"

definition tester_close :: "nat \<Rightarrow> ('p controller, unit) io" where
  "tester_close r =
     bind (on_sock r (send_command ''QUIT'')) (\<lambda>_. on_sock r sock_close)"

end
