(* ===== verification/Config.thy ===== *)
theory Config
  imports Tester
begin

text \<open>
  The first half of \<^verbatim>\<open>main\<close> of \<^verbatim>\<open>ipbench.py\<close>: from the command line and the configuration
  file to the lists of clients and targets. \<open>options\<close> is the result of \<^verbatim>\<open>argparse\<close>; the
  configuration file is a parameter, given by the answers of the XML library to the queries
  the code makes (\<open>doc\<close>): the \<^verbatim>\<open>test\<close> elements, the \<^verbatim>\<open>client\<close> elements of the first of them, the
  \<^verbatim>\<open>target_test\<close> elements, and for a name the \<^verbatim>\<open>target\<close> elements below the \<^verbatim>\<open>target_test\<close>
  elements of that name. An element is the list of its attributes.
\<close>

record options =
  o_clients :: "str list"
  o_port :: int
  o_test :: "str option"
  o_test_args :: str
  o_test_target :: "str option"
  o_test_port :: int
  o_target_test_hostname :: "str option"
  o_target_test_port :: int
  o_target_test :: "str option"
  o_target_test_args :: str
  o_controller_args :: "str option"
  o_target_controller_args :: "str option"

definition default_options :: options where
  \<comment> \<open>the defaults of the \<^verbatim>\<open>ArgumentParser\<close>, apart from \<^verbatim>\<open>--debug\<close>, \<^verbatim>\<open>--reset\<close> and \<^verbatim>\<open>--config\<close>\<close>
  "default_options =
     \<lparr>o_clients = [], o_port = 8036, o_test = None, o_test_args = [], o_test_target = None,
      o_test_port = 0, o_target_test_hostname = None, o_target_test_port = 8037,
      o_target_test = None, o_target_test_args = [], o_controller_args = None,
      o_target_controller_args = None\<rparr>"

type_synonym elem = "(str \<times> str) list"

record doc =
  d_tests :: "elem list"
  d_clients :: "elem list"
  d_target_tests :: "elem list"
  d_targets :: "str \<Rightarrow> elem list"

definition attr :: "elem \<Rightarrow> str \<Rightarrow> str option" where
  "attr e k = map_of e k"

definition attr_or :: "elem \<Rightarrow> str \<Rightarrow> str \<Rightarrow> str" where
  \<comment> \<open>\<^verbatim>\<open>e.get(k, d)\<close>\<close>
  "attr_or e k d = (case attr e k of None \<Rightarrow> d | Some s \<Rightarrow> s)"

definition attr_int :: "elem \<Rightarrow> str \<Rightarrow> int \<Rightarrow> ('w, int) io" where
  \<comment> \<open>\<^verbatim>\<open>int(e.get(k, d))\<close>\<close>
  "attr_int e k d =
     (case attr e k of
        None \<Rightarrow> ret d
      | Some s \<Rightarrow> (case py_int s of None \<Rightarrow> raise ValueError | Some n \<Rightarrow> ret n))"

definition py_str :: "str option \<Rightarrow> str" where
  \<comment> \<open>\<^verbatim>\<open>str(x)\<close> of a string or \<^verbatim>\<open>None\<close>\<close>
  "py_str x = (case x of None \<Rightarrow> ''None'' | Some s \<Rightarrow> s)"

lemma py_str_simps [simp]: "py_str (Some s) = s" "py_str None = ''None''"
  by (simp_all add: py_str_def)

definition error_exit :: "str \<Rightarrow> ('p controller, 'a) io" where
  "error_exit error_msg = bind (print_line error_msg) (\<lambda>_. raise (SystemExit 1))"

section \<open>The configuration file\<close>

definition config_test :: "elem \<Rightarrow> options \<Rightarrow> ('p controller, options) io" where
  \<comment> \<open>the loop body over \<^verbatim>\<open>tests\<close>\<close>
  "config_test test opts =
     bind (attr_int test ''port'' 0) (\<lambda>port.
     ret (opts\<lparr>o_test := Some (py_str (attr test ''name'')),
               o_test_args := attr_or test ''args'' [],
               o_test_port := port,
               o_test_target := Some (py_str (attr test ''target'')),
               o_controller_args := Some (py_str (attr test ''controller_args''))\<rparr>))"

fun config_tests :: "elem list \<Rightarrow> options \<Rightarrow> ('p controller, options) io" where
  "config_tests [] opts = ret opts"
| "config_tests (t # ts) opts = bind (config_test t opts) (config_tests ts)"

definition config_client :: "options \<Rightarrow> elem \<Rightarrow> ('p controller, client_dict) io" where
  \<comment> \<open>the loop body over the \<^verbatim>\<open>client\<close> elements\<close>
  "config_client opts c =
     bind (attr_int c ''port'' (o_port opts)) (\<lambda>port.
     bind (attr_int c ''test_port'' (o_test_port opts)) (\<lambda>test_port.
     case attr c ''hostname'' of
       None \<Rightarrow> error_exit ''Please specifiy a hostname for the client!''
     | Some h \<Rightarrow> ret \<lparr>c_hostname = h, c_port = port, c_test_port = test_port,
         c_test_args = attr_or c ''test_args'' (o_test_args opts),
         c_test_target = Some (attr_or c ''test_target'' (py_str (o_test_target opts))),
         c_testobj = None\<rparr>))"

fun config_clients :: "options \<Rightarrow> elem list \<Rightarrow> ('p controller, client_dict list) io" where
  "config_clients opts [] = ret []"
| "config_clients opts (c # cs) =
     bind (config_client opts c) (\<lambda>d. bind (config_clients opts cs) (\<lambda>ds. ret (d # ds)))"

text \<open>
  The loop over the attributes of a target runs the same assignments once per attribute, and
  not at all for an element without attributes.
\<close>

fun config_target :: "options \<Rightarrow> elem \<Rightarrow> (str \<times> str) list \<Rightarrow> target_dict \<Rightarrow>
    ('p controller, target_dict) io" where
  "config_target opts t [] new = ret new"
| "config_target opts t (arg # args) new =
     bind (attr_int t ''port'' (o_target_test_port opts)) (\<lambda>port.
     let host = (case attr t ''hostname'' of None \<Rightarrow> o_target_test_hostname opts | Some h \<Rightarrow> Some h);
         new' = new\<lparr>g_hostname := host, g_port := port,
                    g_test_args := attr_or t ''test_args'' (o_target_test_args opts)\<rparr>
     in if host = None then error_exit ''Please specify a hostname for the target!''
        else config_target opts t args new')"

fun config_targets :: "options \<Rightarrow> str \<Rightarrow> elem list \<Rightarrow> ('p controller, target_dict list) io" where
  "config_targets opts name [] = ret []"
| "config_targets opts name (t # ts) =
     bind (config_target opts t t
       \<lparr>g_hostname = o_target_test_hostname opts, g_port = o_target_test_port opts,
        g_test_args = o_target_test_args opts, g_test = name, g_testobj = None\<rparr>) (\<lambda>d.
     bind (config_targets opts name ts) (\<lambda>ds. ret (d # ds)))"

fun config_target_tests ::
  "doc \<Rightarrow> elem list \<Rightarrow> options \<Rightarrow> ('p controller, options \<times> target_dict list) io" where
  "config_target_tests d [] opts = ret (opts, [])"
| "config_target_tests d (t # ts) opts =
     (let opts' = opts\<lparr>o_target_test_args := attr_or t ''args'' [],
                       o_target_controller_args := Some (py_str (attr t ''controller_args''))\<rparr>
      in case attr t ''name'' of
           None \<Rightarrow> error_exit ''Please specify a name for the <target_test>!''
         | Some name \<Rightarrow>
             bind (if d_targets d name = []
                   then error_exit ''Please specify some targets in the <target_test> section!''
                   else ret ()) (\<lambda>_.
             bind (config_targets opts' name (d_targets d name)) (\<lambda>ds.
             bind (config_target_tests d ts opts') (\<lambda>(opts'', ds').
             ret (opts'', ds @ ds')))))"

definition read_config ::
  "doc \<Rightarrow> options \<Rightarrow> ('p controller, options \<times> client_dict list \<times> target_dict list) io" where
  "read_config d opts =
     bind (if length (d_tests d) > 1
           then error_exit ''Error in config: please only have one <test> section'' else ret ()) (\<lambda>_.
     bind (config_tests (d_tests d) opts) (\<lambda>opts.
     bind (if o_test opts = None
           then error_exit ''Error in config: please specify a test with either --test or in <test>''
           else ret ()) (\<lambda>_.
     bind (if d_tests d = [] then raise IndexError else ret ()) (\<lambda>_.
     bind (config_clients opts (d_clients d)) (\<lambda>cs.
     bind (config_target_tests d (d_target_tests d) opts) (\<lambda>(opts, ts).
     ret (opts, cs, ts)))))))"

section \<open>The command line\<close>

definition cli_clients :: "options \<Rightarrow> ('p controller, client_dict list) io" where
  "cli_clients opts =
     (if o_clients opts = [] then ret []
      else if o_test opts = None then error_exit ''Please specify a test with --test!''
      else ret (map (\<lambda>client. \<lparr>c_hostname = client, c_port = o_port opts,
             c_test_port = o_test_port opts, c_test_args = o_test_args opts,
             c_test_target = o_test_target opts, c_testobj = None\<rparr>) (o_clients opts)))"

definition cli_target :: "options \<Rightarrow> ('p controller, target_dict list) io" where
  "cli_target opts =
     (case o_target_test opts of
        None \<Rightarrow> ret []
      | Some name \<Rightarrow>
          if name = [] then ret []
          else (case o_target_test_hostname opts of
              None \<Rightarrow> error_exit
                ''Please specify a target test hostname with --target-test-hostname!''
            | Some h \<Rightarrow> ret [\<lparr>g_hostname = Some h, g_port = o_target_test_port opts,
                g_test_args = o_target_test_args opts, g_test = name, g_testobj = None\<rparr>]))"

text \<open>The lists with which the main part of \<^verbatim>\<open>main\<close> starts.\<close>

definition configure ::
  "doc option \<Rightarrow> options \<Rightarrow> ('p controller, options \<times> client_dict list \<times> target_dict list) io" where
  "configure config opts =
     bind (case config of None \<Rightarrow> ret (opts, [], []) | Some d \<Rightarrow> read_config d opts) (\<lambda>(opts, cs, ts).
     bind (cli_clients opts) (\<lambda>cs'.
     bind (cli_target opts) (\<lambda>ts'.
     bind (if o_test opts = None then error_exit ''Please specify a test'' else ret ()) (\<lambda>_.
     bind (if cs @ cs' = [] then error_exit ''Please specify some clients'' else ret ()) (\<lambda>_.
     ret (opts, cs @ cs', ts @ ts'))))))"

end
