(* ===== verification/Controller.thy ===== *)
theory Controller
  imports Config
begin

text \<open>
  The second half of \<^verbatim>\<open>main\<close> of \<^verbatim>\<open>ipbench.py\<close>: setting up the targets and clients, starting them,
  collecting the results as the sockets become readable, the output, and the closing of every
  connection. The dictionaries of the lists \<^verbatim>\<open>clients\<close> and \<^verbatim>\<open>targets\<close> are entries of the world,
  updated in place. \<open>polls\<close> are the answers of \<^verbatim>\<open>select\<close>, one pair per round: the objects that are
  readable among those waited for, and among the targets.
\<close>

section \<open>Setting up\<close>

definition setup_target_entry :: "options \<Rightarrow> nat \<Rightarrow> ('p controller, unit) io" where
  \<comment> \<open>the loop body of \<^verbatim>\<open>for target in targets\<close>\<close>
  "setup_target_entry opts i w =
     (let target = targets w ! i in
      bind (case g_hostname target of None \<Rightarrow> raise TypeError | Some h \<Rightarrow> ret h) (\<lambda>h.
      bind (on_target_mod (load_plugin (g_test target))) (\<lambda>_.
      bind (on_target_mod (setup_controller_target (o_target_controller_args opts))) (\<lambda>_.
      bind (IpbenchTestTarget h (g_port target) (g_test target) (g_test_args target)) (\<lambda>r.
      bind (\<lambda>w. (Ret (), w\<lparr>targets := (targets w)[i := target\<lparr>g_testobj := Some r\<rparr>]\<rparr>)) (\<lambda>_.
      bind (connect r) (\<lambda>_.
      tester_setup r)))))) w)"

definition setup_client_entry :: "options \<Rightarrow> nat \<Rightarrow> ('p controller, unit) io" where
  \<comment> \<open>the loop body of \<^verbatim>\<open>for client in clients\<close>; the entry's position is \<^verbatim>\<open>client_id\<close>\<close>
  "setup_client_entry opts i w =
     (let client = clients w ! i in
      bind (if c_test_port client = 0 then on_client_mod get_default_port
            else ret (c_test_port client)) (\<lambda>port.
      bind (IpbenchTestClient (c_hostname client) (c_port client) (c_test_target client) port i
              (py_str (o_test opts)) (c_test_args client)) (\<lambda>r.
      bind (\<lambda>w. (Ret (), w\<lparr>clients := (clients w)
              [i := client\<lparr>c_test_port := port, c_testobj := Some r\<rparr>]\<rparr>)) (\<lambda>_.
      bind (connect r) (\<lambda>_.
      tester_setup r)))) w)"

section \<open>Running\<close>

definition testobj :: "nat option \<Rightarrow> ('w, nat) io" where
  \<comment> \<open>\<^verbatim>\<open>d["testobj"]\<close>\<close>
  "testobj x = (case x of None \<Rightarrow> raise KeyError | Some r \<Rightarrow> ret r)"

fun testobjs :: "nat option list \<Rightarrow> ('w, nat list) io" where
  "testobjs [] = ret []"
| "testobjs (x # xs) = bind (testobj x) (\<lambda>r. bind (testobjs xs) (\<lambda>rs. ret (r # rs)))"

definition client_objs :: "('p controller, nat option list) io" where
  "client_objs w = (Ret (map c_testobj (clients w)), w)"

definition target_objs :: "('p controller, nat option list) io" where
  "target_objs w = (Ret (map g_testobj (targets w)), w)"

fun remove_all :: "nat list \<Rightarrow> nat list \<Rightarrow> nat list" where
  "remove_all [] ws = ws"
| "remove_all (r # rs) ws = remove_all rs (remove1 r ws)"

text \<open>\<^verbatim>\<open>fileno()\<close> of the class: that of its socket, which is -1 once the socket is closed.\<close>

definition fileno :: "nat \<Rightarrow> ('p controller, int) io" where
  "fileno r w =
     (case t_socket (objs w ! r) of
        None \<Rightarrow> (Raise AttributeError, w)
      | Some k \<Rightarrow> (Ret (if closed (socks w ! k) then -1 else int k), w))"

text \<open>
  \<^verbatim>\<open>select.select(rs, [], [], 0.2)\<close>: every object is asked for its file number, a negative one is a
  \<^verbatim>\<open>ValueError\<close>, and those that the environment has found readable are returned in the order of
  \<open>rs\<close>.
\<close>

definition select :: "nat list \<Rightarrow> nat list \<Rightarrow> ('p controller, nat list) io" where
  "select rs readable =
     bind (for_each rs (\<lambda>r. bind (fileno r) (\<lambda>fd. if fd < 0 then raise ValueError else ret ()))) (\<lambda>_.
     ret (filter (\<lambda>r. r \<in> set readable) rs))"

fun poll_loop ::
  "(nat list \<times> nat list) list \<Rightarrow> nat list \<Rightarrow> nat list \<Rightarrow> ('p controller, unit) io" where
  "poll_loop polls wait_to_read wait_for_error =
     (if wait_to_read = [] then ret ()
      else (case polls of
          [] \<Rightarrow> (\<lambda>w. (Wait, w))
        | (readable, failed) # polls' \<Rightarrow>
            bind (select wait_to_read readable) (\<lambda>to_read.
            bind (for_each to_read tester_unmarshall) (\<lambda>_.
            bind (select wait_for_error failed) (\<lambda>failing.
            if failing \<noteq> [] then ipbench_fail ''Target returned an error!''
            else poll_loop polls' (remove_all to_read wait_to_read) wait_for_error)))))"

declare poll_loop.simps [simp del]

definition run_tests ::
  "options \<Rightarrow> (nat list \<times> nat list) list \<Rightarrow> ('p controller, unit) io" where
  \<comment> \<open>the body of the \<^verbatim>\<open>try\<close>\<close>
  "run_tests opts polls =
     bind (\<lambda>w. (Ret (length (targets w), length (clients w)), w)) (\<lambda>(nt, nc).
     bind (for_each [0..<nt] (setup_target_entry opts)) (\<lambda>_.
     bind (for_each [0..<nc] (setup_client_entry opts)) (\<lambda>_.
     bind (bind target_objs testobjs) (\<lambda>ts.
     bind (for_each ts tester_start) (\<lambda>_.
     bind (bind client_objs testobjs) (\<lambda>cs.
     bind (for_each cs tester_start) (\<lambda>_.
     bind (poll_loop polls cs ts) (\<lambda>_.
     bind (for_each ts (\<lambda>t. bind (tester_stop t) (\<lambda>_. tester_unmarshall t))) (\<lambda>_.
     bind (on_client_mod output_client) (\<lambda>_.
     for_each ts (\<lambda>_. bind (on_target_mod output_target) (\<lambda>_. ret ()))))))))))))"

fun except_IpBenchError :: "exn \<Rightarrow> ('p controller, unit) io option" where
  "except_IpBenchError (IpBenchError value) = Some (print_line (''Ipbench failed : '' @ value))"
| "except_IpBenchError e = None"

definition close_all :: "('p controller, unit) io" where
  "close_all =
     bind client_objs (\<lambda>cs.
     bind target_objs (\<lambda>ts.
     for_each (cs @ ts) (\<lambda>x. bind (testobj x) tester_close)))"

definition main ::
  "doc option \<Rightarrow> options \<Rightarrow> (nat list \<times> nat list) list \<Rightarrow> ('p controller, unit) io" where
  "main config opts polls =
     bind (configure config opts) (\<lambda>(opts, cs, ts).
     bind (\<lambda>w. (Ret (), w\<lparr>clients := cs, targets := ts\<rparr>)) (\<lambda>_.
     bind (on_client_mod (load_plugin (py_str (o_test opts)))) (\<lambda>_.
     bind (on_client_mod (setup_controller_client (int (length cs)) (o_controller_args opts))) (\<lambda>_.
     bind (try_else (run_tests opts polls) except_IpBenchError ret) (\<lambda>_.
     close_all)))))"

end
