(* ===== verification/Receive.thy ===== *)
theory Receive
  imports Sockets
begin

text \<open>
  The receive loop of the controller against the contract of a stream: whatever pieces the
  bytes arrive in, the loop takes exactly the bytes it wants. \<open>stream_reader\<close> is that contract,
  interpreted on the sockets of \<open>Sockets\<close>; the rest of the theory reads the two header lines
  of a result.
\<close>

section \<open>The interface\<close>

locale stream_reader =
  fixes rcv :: "int \<Rightarrow> ('s, bytes) io"
    and upto :: "int \<Rightarrow> bytes \<Rightarrow> ('s, bytes) io"
    and left :: "'s \<Rightarrow> bytes"
    and live :: "'s \<Rightarrow> bool"
  assumes rcv_some: "live s \<Longrightarrow> 0 < n \<Longrightarrow> left s \<noteq> [] \<Longrightarrow>
      \<exists>b s'. rcv n s = (Ret b, s') \<and> b \<noteq> [] \<and> int (length b) \<le> n \<and> left s = b @ left s' \<and> live s'"
    and upto_eq: "upto n d s =
      (if int (length d) = n then (Ret d, s)
       else bind (rcv (n - int (length d))) (\<lambda>b s. upto n (d @ b) s) s)"
begin

lemma upto_done: "int (length d) = n \<Longrightarrow> upto n d s = (Ret d, s)"
  by (simp add: upto_eq)

lemma upto_takes:
  assumes "live s" and "k \<le> length (left s)" and "n = int (length d + k)"
  shows "\<exists>s'. upto n d s = (Ret (d @ take k (left s)), s') \<and> left s' = drop k (left s) \<and> live s'"
  using assms
proof (induction k arbitrary: d s rule: less_induct)
  case (less k)
  show ?case
  proof (cases "k = 0")
    case True
    with less.prems show ?thesis by (simp add: upto_done)
  next
    case False
    then have "left s \<noteq> []" "0 < n - int (length d)"
      using less.prems by auto
    with rcv_some [OF less.prems(1)] obtain b s1
      where b: "rcv (n - int (length d)) s = (Ret b, s1)" "b \<noteq> []"
        "int (length b) \<le> n - int (length d)" "left s = b @ left s1" "live s1"
      by blast
    have step: "upto n d s = upto n (d @ b) s1"
      using False less.prems b by (subst upto_eq) (simp add: bind_results)
    have "k - length b < k"
      using b(2) False by (cases b) auto
    moreover have "n = int (length (d @ b) + (k - length b))"
      using b less.prems by simp
    moreover have "k - length b \<le> length (left s1)"
      using b(4) less.prems by simp
    ultimately obtain s' where s': "upto n (d @ b) s1 = (Ret ((d @ b) @ take (k - length b) (left s1)), s')"
        "left s' = drop (k - length b) (left s1)" "live s'"
      using less.IH [of "k - length b" s1 "d @ b"] b(5) by blast
    have "length b \<le> k"
      using b(3) less.prems(3) by simp
    with s' step b(4) show ?thesis by simp
  qed
qed

end

text \<open>A socket whose peer has not closed its side yet.\<close>

definition flowing :: "sock \<Rightarrow> bool" where
  "flowing s \<longleftrightarrow> \<not> closed s \<and> [] \<notin> set (inbox s)"

lemma recv_some:
  assumes "flowing s" and "0 < n" and "concat (inbox s) \<noteq> []"
  shows "\<exists>b s'. recv n s = (Ret b, s') \<and> b \<noteq> [] \<and> int (length b) \<le> n \<and>
    concat (inbox s) = b @ concat (inbox s') \<and> flowing s'"
proof -
  obtain x bs where i: "inbox s = x # bs" "x \<noteq> []"
    using assms by (cases "inbox s") (auto simp: flowing_def)
  with assms have "flowing (s\<lparr>inbox := (if drop (nat n) x = [] then bs else drop (nat n) x # bs)\<rparr>)"
    by (auto simp: flowing_def)
  with i assms show ?thesis
    by (auto simp: recv_def flowing_def Let_def)
qed

interpretation sock_reader: stream_reader recv recv_rest "\<lambda>s. concat (inbox s)" flowing
proof unfold_locales
  fix n d s
  show "recv_rest n d s =
      (if int (length d) = n then (Ret d, s)
       else bind (recv (n - int (length d))) (\<lambda>b s. recv_rest n (d @ b) s) s)"
    by (subst recv_rest.simps) simp
qed (rule recv_some)

section \<open>The end of the stream\<close>

lemma recv_eof: "\<not> closed s \<Longrightarrow> inbox s = [] # bs \<Longrightarrow> 0 < n \<Longrightarrow> recv n s = (Ret [], s\<lparr>inbox := bs\<rparr>)"
  by (simp add: recv_def)

lemma recv_rest_eof:
  "\<not> closed s \<Longrightarrow> inbox s = replicate k [] \<Longrightarrow> int (length d) < n \<Longrightarrow>
     recv_rest n d s = (if lost s then Raise ConnectionResetError else Wait, s\<lparr>inbox := []\<rparr>)"
proof (induction k arbitrary: s)
  case 0
  then show ?case
    by (subst recv_rest.simps) (simp add: bind_eval recv_def)
next
  case (Suc k)
  then have "recv_rest n d s = recv_rest n d (s\<lparr>inbox := replicate k []\<rparr>)"
    by (subst recv_rest.simps) (simp add: bind_eval recv_eof)
  with Suc show ?case by simp
qed

section \<open>The header lines\<close>

lemma utf8_ignore_ascii_prefix: "ascii p \<Longrightarrow> utf8_ignore (p @ b) = p @ utf8_ignore b"
proof (induction p)
  case (Cons c p)
  then show ?case
    by (subst utf8_ignore.simps) simp
qed simp

lemma ascii_ignore_prefix: "ascii p \<Longrightarrow> ascii_ignore (p @ b) = p @ ascii_ignore b"
  by (simp add: ascii_ignore_def ascii_def)

lemma ascii_ignore_ascii: "ascii (ascii_ignore b)"
  by (simp add: ascii_ignore_def ascii_def)

text \<open>What is left of the bytes starts with the first byte of a character.\<close>

lemma utf8_seq_head: "utf8_seq (a # b) \<noteq> 0 \<Longrightarrow> \<not> is_cont a"
  by (auto simp: is_cont_def split: if_splits)

lemma utf8_ignore_head: "utf8_ignore b = [] \<or> \<not> is_cont (hd (utf8_ignore b))"
proof (induction b rule: utf8_ignore.induct)
  case (1 b)
  show ?case
  proof (cases "b = [] \<or> utf8_seq b = 0")
    case True
    with 1 show ?thesis by (subst (1 2) utf8_ignore.simps) auto
  next
    case False
    then obtain a c where ac: "b = a # c" "utf8_seq b \<noteq> 0"
      by (cases b) auto
    then obtain n where n: "utf8_seq b = Suc n"
      by (cases "utf8_seq b") auto
    have "utf8_ignore b = a # take n c @ utf8_ignore (drop n c)"
      using ac(1) n by (subst utf8_ignore.simps) (simp del: utf8_seq.simps)
    moreover have "\<not> is_cont a"
      using utf8_seq_head ac by blast
    ultimately show ?thesis by simp
  qed
qed

lemma cps_hd: "cps s = p # ps \<Longrightarrow> p \<noteq> [] \<and> hd p = hd s"
  by (induction s arbitrary: p ps) (auto split: list.splits if_splits)

lemma cps_ascii_prefix:
  assumes "ascii p" and "b = [] \<or> \<not> is_cont (hd b)"
  shows "cps (p @ b) = map (\<lambda>c. [c]) p @ cps b"
  using assms(1)
proof (induction p)
  case Nil
  then show ?case by simp
next
  case (Cons c p)
  have "\<not> is_cont (hd q)" if "cps (p @ b) = q # qs" for q qs
    using cps_hd [OF that] that Cons.prems assms(2)
    by (cases p) (auto simp: is_cont_def)
  with Cons show ?case
    by (auto split: list.splits)
qed

lemma str_slice_prefix:
  assumes "ascii p" and "b = [] \<or> \<not> is_cont (hd b)"
  shows "str_slice (p @ b) 0 (int (length p)) = p"
  using assms by (simp add: str_slice_def cps_ascii_prefix py_slice_prefix)

lemma newline_head: "\<not> is_cont (hd (nl @ b))"
  by (simp add: nl_def newline_def is_cont_def)

lemma status_line_ok:
  assumes "ascii st" and "newline \<notin> set st"
    and "parse_return_code_text st = Inr \<lparr>rc_code = (if valid then 220 else 221), rc_str = t, rc_msg = m\<rparr>"
  shows "status_line (st @ nl @ rest) s = (Ret (valid, rest), s)"
proof -
  have u: "utf8_ignore (st @ nl @ rest) = st @ nl @ utf8_ignore rest"
    using assms(1) utf8_ignore_ascii_prefix [of "st @ nl" rest] by simp
  moreover have "str_find (st @ nl @ utf8_ignore rest) newline = int (length st)"
    using assms(1,2) str_find_append [of st newline] by (simp add: nl_def)
  moreover have "py_from (st @ nl @ rest) (int (length st) + 1) = rest"
    using py_from_append [of "int (length st) + 1" "st @ nl" rest] by (simp add: nl_def)
  ultimately show ?thesis
    using assms(1,3) str_slice_prefix [OF assms(1), of "nl @ utf8_ignore rest"] newline_head
    by (simp add: status_line_def Let_def lift_sum_def)
qed

lemma status_line_fails:
  assumes "ascii st" and "newline \<notin> set st"
    and "parse_return_code_text st = Inr c" and "rc_code c \<notin> {220, 221}"
  shows "status_line (st @ nl @ rest) s = (Raise (IpBenchError (''Test failed  : '' @ rc_msg c)), s)"
proof -
  have u: "utf8_ignore (st @ nl @ rest) = st @ nl @ utf8_ignore rest"
    using assms(1) utf8_ignore_ascii_prefix [of "st @ nl" rest] by simp
  moreover have "str_find (st @ nl @ utf8_ignore rest) newline = int (length st)"
    using assms(1,2) str_find_append [of st newline] by (simp add: nl_def)
  ultimately show ?thesis
    using assms(1,3,4) str_slice_prefix [OF assms(1), of "nl @ utf8_ignore rest"] newline_head
    by (simp add: status_line_def Let_def lift_sum_def)
qed

definition content_header :: "nat \<Rightarrow> str" where
  "content_header n = ''Content-length: '' @ show_nat n"

lemma newline_not_digit_nat: "newline \<notin> set (show_nat n)"
  using show_nat_digits [of newline n] by (auto simp: is_digit_def newline_def)

lemma content_line_ok:
  "content_line (content_header n @ nl @ rest) s = (Ret (int n, rest), s)"
proof -
  let ?h = "content_header n"
  have a: "ascii ?h"
    by (simp add: content_header_def show_nat_ascii)
  have nn: "newline \<notin> set ?h"
    using newline_not_digit_nat [of n] by (auto simp: content_header_def newline_def)
  have "ascii_ignore (?h @ nl @ rest) = ?h @ nl @ ascii_ignore rest"
    using a ascii_ignore_prefix [of "?h @ nl" rest] by simp
  moreover have "str_find (?h @ nl @ ascii_ignore rest) newline = int (length ?h)"
    using a nn str_find_append [of ?h newline] by (simp add: nl_def)
  moreover have "str_slice (?h @ nl @ ascii_ignore rest) 0 (int (length ?h)) = ?h"
    using a by (simp add: str_slice_ascii ascii_ignore_ascii py_slice_prefix)
  moreover have tw: "takeWhile is_digit (show_nat n) = show_nat n"
    by (simp add: takeWhile_eq_all_conv show_nat_digits)
  have "match_content_length ?h = Some (show_nat n)"
    by (simp add: match_content_length_def content_header_def Let_def tw)
  moreover have "py_from (?h @ nl @ rest) (int (length ?h) + 1) = rest"
    using py_from_append [of "int (length ?h) + 1" "?h @ nl" rest] by (simp add: nl_def)
  ultimately show ?thesis
    using py_int_show_nat [of "[]" n] by (simp add: content_line_def Let_def)
qed

section \<open>The whole result\<close>

lemma append_prefix: "xs @ ys = us @ vs \<Longrightarrow> length us \<le> length xs \<Longrightarrow> \<exists>r. xs = us @ r \<and> r @ ys = vs"
  by (metis append_eq_append_conv_if append_take_drop_id)

lemma read_result_pieces:
  assumes "ascii st" and "newline \<notin> set st"
    and "parse_return_code_text st = Inr \<lparr>rc_code = (if valid then 220 else 221), rc_str = t, rc_msg = m\<rparr>"
    and "recv 128 s = (Ret b1, s1)" and "recv 128 s1 = (Ret b2, s2)" and "flowing s2"
    and "b1 @ b2 @ concat (inbox s2) = st @ nl @ content_header (length data) @ nl @ data"
    and "length (st @ nl) \<le> length b1"
    and "length (st @ nl @ content_header (length data) @ nl) \<le> length (b1 @ b2)"
  shows "\<exists>s'. read_result s = (Ret (valid, data), s') \<and> inbox s' = []"
proof -
  obtain r1 where r1: "b1 = (st @ nl) @ r1"
      "r1 @ b2 @ concat (inbox s2) = content_header (length data) @ nl @ data"
    using append_prefix [of b1 _ "st @ nl" "content_header (length data) @ nl @ data"] assms(7,8)
    by (metis append.assoc)
  have l: "length (content_header (length data) @ nl) \<le> length (r1 @ b2)"
    using assms(9) r1(1) by simp
  obtain d1 where d1: "r1 @ b2 = (content_header (length data) @ nl) @ d1"
      "d1 @ concat (inbox s2) = data"
    using append_prefix [OF _ l, of "concat (inbox s2)" data] r1(2) by (metis append.assoc)
  obtain s' where s': "recv_rest (int (length data)) d1 s2 = (Ret data, s')" "concat (inbox s') = []" "flowing s'"
    using sock_reader.upto_takes [OF assms(6), of "length (concat (inbox s2))" "int (length data)" d1] d1(2)
    by auto
  have "read_result s = (Ret (valid, data), s')"
    using assms(4,5) r1(1) d1(1) s'(1) status_line_ok [OF assms(1-3)] content_line_ok
    by (simp add: read_result_def bind_results)
  moreover have "inbox s' = []"
    using s'(2,3) by (cases "inbox s'") (auto simp: flowing_def)
  ultimately show ?thesis by blast
qed

section \<open>A result that comes in other pieces\<close>

text \<open>All of it in the first read: there is nothing left for the second one.\<close>

lemma read_result_coalesced:
  assumes "ascii st" and "newline \<notin> set st"
    and "parse_return_code_text st = Inr \<lparr>rc_code = (if valid then 220 else 221), rc_str = t, rc_msg = m\<rparr>"
    and "recv 128 s = (Ret (st @ nl @ rest), s1)" and "\<not> closed s1" and "inbox s1 = []" and "\<not> lost s1"
  shows "read_result s = (Wait, s1)"
  using assms(4-7) status_line_ok [OF assms(1-3), of rest s1]
  by (simp add: read_result_def bind_eval) (simp add: recv_def)

text \<open>Only a part of the status line: \<^verbatim>\<open>find\<close> gives -1, which \<open>status_line\<close> uses as a position.\<close>

lemma py_int_letter: "py_int (CHR ''C'' # s) = None"
proof -
  have c: "\<not> is_cspace (CHR ''C'')"
    by code_simp
  have "dropWhile is_cspace (rev s @ [CHR ''C'']) = dropWhile is_cspace (rev s) @ [CHR ''C'']"
    using c by (cases "\<forall>x \<in> set s. is_cspace x") (auto simp: dropWhile_append dropWhile_eq_Nil_conv)
  then have "cstrip (CHR ''C'' # s) = CHR ''C'' # rev (dropWhile is_cspace (rev s))"
    using c by (simp add: cstrip_def)
  then show ?thesis
    by (simp add: py_int_def is_digit_def)
qed

lemma status_code_prefix:
  assumes "ascii st" and "st = p @ q" and "3 \<le> length p" and "parse_return_code_text st = Inr c"
  shows "\<exists>c'. parse_return_code_text p = Inr c' \<and> rc_code c' = rc_code c"
proof -
  have "ascii p" "str_slice p 0 3 = str_slice st 0 3"
    using assms(1-3) by (auto simp: str_slice_ascii py_slice_def py_idx_def)
  with assms(4) show ?thesis
    by (auto simp: parse_return_code_text_def Let_def split: option.splits if_splits)
qed


lemma cut_status_line:
  assumes "ascii st" and "st = p @ q" and "4 \<le> length p" and "newline \<notin> set st"
    and "parse_return_code_text st = Inr c" and "rc_code c = (if valid then 220 else 221)"
  shows "status_line p s = (Ret (valid, p), s)"
proof -
  have a: "ascii p" "newline \<notin> set p" "length p \<noteq> 0"
    using assms by auto
  have "p = butlast p @ [last p]"
    using a(3) by simp
  with assms(2) have "st = butlast p @ last p # q"
    by (metis append.assoc append_Cons append_Nil)
  moreover have "3 \<le> length (butlast p)"
    using assms(3) by simp
  ultimately obtain c' where c': "parse_return_code_text (butlast p) = Inr c'" "rc_code c' = rc_code c"
    using status_code_prefix [OF assms(1) _ _ assms(5)] by blast
  have "nat (int (length p) - 1) = length p - 1"
    by arith
  then have "str_slice p 0 (- 1) = butlast p"
    using a by (simp add: str_slice_ascii py_slice_def py_idx_def butlast_conv_take)
  moreover have "str_find p newline = - 1" "py_from p 0 = p" "utf8_ignore p = p"
    using a by (simp_all add: str_find_def py_from_def py_idx_def ascii_utf8_ignore)
  ultimately show ?thesis
    using c' assms(6) by (simp add: status_line_def Let_def lift_sum_def)
qed

lemma no_header: "x = [] \<or> hd x \<noteq> CHR ''C'' \<Longrightarrow> match_content_length x = None"
  by (cases x) (simp_all add: match_content_length_def)

lemma cut_content_line:
  assumes "ascii p" and "newline \<notin> set p" and "p \<noteq> []" and "hd p \<noteq> CHR ''C''"
  shows "content_line (p @ b) s = (Raise AttributeError, s)"
proof -
  let ?l = "p @ ascii_ignore b"
  have a: "ascii ?l"
    using assms(1) ascii_ignore_ascii by simp
  obtain k where k: "str_slice ?l 0 (str_find ?l newline) = take k ?l"
    using a by (auto simp: str_slice_ascii py_slice_def py_idx_def)
  have "match_content_length (take k ?l) = None"
    using assms(3,4) by (intro no_header) (cases p; cases k; simp)
  then show ?thesis
    using assms(1) k by (simp add: content_line_def Let_def ascii_ignore_prefix del: take_append)
qed

lemma read_result_cut:
  assumes "ascii st" and "newline \<notin> set st"
    and "parse_return_code_text st = Inr \<lparr>rc_code = (if valid then 220 else 221), rc_str = t, rc_msg = m\<rparr>"
    and "recv 128 s = (Ret b1, s1)" and "recv 128 s1 = (Ret b2, s2)" and "st = b1 @ q" and "4 \<le> length b1"
  shows "read_result s = (Raise AttributeError, s2)"
proof -
  have "hd b1 \<noteq> CHR ''C''"
  proof
    assume "hd b1 = CHR ''C''"
    then obtain r where "st = CHR ''C'' # r"
      using assms(6,7) by (cases b1) auto
    moreover from this assms(1) have "str_slice st 0 3 = CHR ''C'' # take 2 r"
      by (simp add: str_slice_ascii py_slice_def py_idx_def take_Cons' min_def) (simp add: numeral_2_eq_2)?
    ultimately have "py_int (str_slice st 0 3) = None"
      by (simp add: py_int_letter)
    with assms(3) show False
      by (simp add: parse_return_code_text_def)
  qed
  moreover have "ascii b1" "newline \<notin> set b1" "b1 \<noteq> []"
    using assms(1,2,6,7) by auto
  ultimately show ?thesis
    using assms(4,5) cut_status_line [OF assms(1,6,7,2,3), of valid s1] cut_content_line [of b1 b2 s2]
    by (simp add: read_result_def bind_eval)
qed

section \<open>What reading keeps\<close>

text \<open>A relation that \<^verbatim>\<open>recv\<close> respects is respected by everything that only reads.\<close>

locale reading = world_order R for R :: "sock \<Rightarrow> sock \<Rightarrow> bool" +
  assumes recv_R: "step_inv R (recv n)"
begin

lemma lift_R: "step_inv R (lift_sum r)"
  by (auto simp: lift_sum_def inv_raise inv_ret split: sum.splits)

lemma decode_R: "step_inv R (decode_utf8 b)"
  by (auto simp: decode_utf8_def inv_raise inv_ret)

lemma recv_rest_R: "step_inv R (recv_rest n d)"
proof -
  have "R s (snd (recv_rest n d s))" for s
  proof (induction n d s rule: recv_rest.induct)
    case (1 n d s)
    have "R s (snd (bind (recv (n - int (length d))) (\<lambda>b s. recv_rest n (d @ b) s) s))"
      if "int (length d) \<noteq> n"
      using 1 that recv_R by (intro at_bind) (auto simp: step_inv_def)
    then show ?case
      by (subst recv_rest.simps) (simp add: r_refl)
  qed
  then show ?thesis by (simp add: step_inv_def)
qed

lemma parse_reply_R: "step_inv R parse_return_code"
  unfolding parse_return_code_def by (intro inv_bind recv_R decode_R lift_R)

lemma header_R: "step_inv R (status_line b)" "step_inv R (content_line b)"
  by (auto simp: status_line_def content_line_def Let_def inv_raise inv_ret lift_R
      intro!: inv_bind split: option.splits)

lemma read_result_R: "step_inv R read_result"
  unfolding read_result_def by (intro inv_bind inv_prod inv_ret recv_R header_R recv_rest_R)

end

text \<open>Nothing is sent, and the socket is not closed.\<close>

definition sock_reads :: "sock \<Rightarrow> sock \<Rightarrow> bool" where
  "sock_reads s s' \<longleftrightarrow> lost s' = lost s \<and> sent s' = sent s \<and> send_left s' = send_left s \<and> closed s' = closed s"

interpretation quiet: reading sock_reads
  by unfold_locales
    (auto simp: sock_reads_def step_inv_def recv_def Let_def split: list.splits)

text \<open>What has been sent stays, and a closed socket stays closed.\<close>

definition sock_le :: "sock \<Rightarrow> sock \<Rightarrow> bool" where
  "sock_le s s' \<longleftrightarrow> (\<exists>out. sent s' = sent s @ out) \<and> (closed s \<longrightarrow> closed s')"

lemma sock_le_trans: "sock_le s s' \<Longrightarrow> sock_le s' s'' \<Longrightarrow> sock_le s s''"
  unfolding sock_le_def by (metis append.assoc)

lemma sock_le_inbox [simp]: "sock_le s s" "sock_le s (s\<lparr>inbox := i\<rparr>)"
  by (simp_all add: sock_le_def)

interpretation sock_order: reading sock_le
  by unfold_locales (auto intro: sock_le_trans simp: step_inv_def recv_def Let_def split: list.splits)

end
