(* ===== verification/Tester_Facts.thy ===== *)
theory Tester_Facts
  imports Tester Receive
begin

text \<open>
  One remote daemon as the controller talks to it. The methods of a connected object are
  programs on its socket alone (\<open>on_sock\<close>), so the exchange of commands and replies is
  computed there.
\<close>

section \<open>Methods as programs on the socket\<close>

definition wired :: "'p controller \<Rightarrow> nat \<Rightarrow> nat \<Rightarrow> bool" where
  "wired w r k \<longleftrightarrow> r < length (objs w) \<and> t_socket (objs w ! r) = Some k \<and> k < length (socks w)"

lemma on_sock_wired:
  "wired w r k \<Longrightarrow> on_sock r m w =
     (case m (socks w ! k) of (x, s) \<Rightarrow> (x, w\<lparr>socks := (socks w)[k := s]\<rparr>))"
  by (simp add: on_sock_def wired_def)

lemma wired_socks [simp]: "wired (w\<lparr>socks := (socks w)[k := s]\<rparr>) r j = wired w r j"
  by (simp add: wired_def)

lemma on_sock_bind:
  "wired w r k \<Longrightarrow> bind (on_sock r m) (\<lambda>x. on_sock r (f x)) w = on_sock r (bind m f) w"
  by (cases "m (socks w ! k)"; cases "fst (m (socks w ! k))")
    (simp_all add: bind_def on_sock_wired, auto simp: wired_def on_sock_def split: prod.splits)

lemma on_sock_ret: "wired w r k \<Longrightarrow> on_sock r (ret x) w = (Ret x, w)"
  by (simp add: on_sock_wired)

lemma on_sock_raise: "wired w r k \<Longrightarrow> on_sock r (raise e) w = (Raise e, w)"
  by (simp add: on_sock_wired)

section \<open>One reply\<close>

definition reads_as :: "bytes \<Rightarrow> return_code \<Rightarrow> bool" where
  "reads_as b c \<longleftrightarrow> b \<noteq> [] \<and> length b \<le> 1024 \<and> utf8_valid b \<and> parse_return_code_text b = Inr c"

lemma reply_read:
  "\<not> closed s \<Longrightarrow> inbox s = b # bs \<Longrightarrow> reads_as b c \<Longrightarrow>
     parse_return_code s = (Ret c, s\<lparr>inbox := bs\<rparr>)"
  by (simp add: parse_return_code_def bind_eval recv_def decode_utf8_def reads_as_def lift_sum_def)

lemma command_sent:
  "\<not> closed s \<Longrightarrow> send_left s = None \<Longrightarrow>
     send_command cmd s = (Ret (), s\<lparr>sent := sent s @ [cmd @ nl]\<rparr>)"
  by (simp add: send_command_def sock_send_def)

section \<open>connect\<close>

definition hello_failed :: "str \<Rightarrow> return_code \<Rightarrow> str" where
  "hello_failed host status = ''HELLO to '' @ host @ '' failed ('' @
     repr_int (rc_code status) @ '' '' @ rc_str status @ '')''"

definition load_failed :: "str \<Rightarrow> return_code \<Rightarrow> str" where
  "load_failed host status =
     (if rc_code status = 421 then ''LOAD to '' @ host @ '' failed ('' @ rc_msg status @ '')''
      else ''LOAD Failed'')"

definition setup_failed :: "str \<Rightarrow> return_code \<Rightarrow> str" where
  "setup_failed host status = ''SETUP to '' @ host @ ''failed ('' @
     repr_int (rc_code status) @ '' '' @ rc_str status @ '')''"

text \<open>The world after a successful \<^verbatim>\<open>dial\<close>, with the socket in the state \<open>s\<close>.\<close>

definition dialled_to :: "'p controller \<Rightarrow> nat \<Rightarrow> sock \<Rightarrow> 'p controller" where
  "dialled_to w r s =
     w\<lparr>socks := socks w @ [s],
       objs := (objs w)[r := (objs w ! r)\<lparr>t_socket := Some (length (socks w))\<rparr>],
       dialled := dialled w @ [(hostname (objs w ! r), t_port (objs w ! r))], net := tl (net w)\<rparr>"

definition port_ok :: "int \<Rightarrow> bool" where
  "port_ok p \<longleftrightarrow> 0 \<le> p \<and> p \<le> 65535"

lemma dial_ok:
  "net w = Peer s # ns \<Longrightarrow> port_ok (t_port (objs w ! r)) \<Longrightarrow> dial r w = (Ret (), dialled_to w r s)"
  by (simp add: dial_def dialled_to_def port_ok_def c_int_def Let_def)

lemma dialled_wired:
  "r < length (objs w) \<Longrightarrow> wired (dialled_to w r s) r (length (socks w))"
  by (simp add: wired_def dialled_to_def)

lemma dialled_simps [simp]:
  "opt_reset (dialled_to w r s) = opt_reset w" "net (dialled_to w r s) = tl (net w)"
  "socks (dialled_to w r s) = socks w @ [s]"
  "clients (dialled_to w r s) = clients w" "targets (dialled_to w r s) = targets w"
  "client_mod (dialled_to w r s) = client_mod w" "target_mod (dialled_to w r s) = target_mod w"
  "r < length (objs w) \<Longrightarrow> objs (dialled_to w r s) ! r =
     (objs w ! r)\<lparr>t_socket := Some (length (socks w))\<rparr>"
  "length (objs (dialled_to w r s)) = length (objs w)"
  by (simp_all add: dialled_to_def)

lemma on_dialled:
  "r < length (objs w) \<Longrightarrow> m s = (x, s') \<Longrightarrow> on_sock r m (dialled_to w r s) = (x, dialled_to w r s')"
  by (simp add: on_sock_wired [OF dialled_wired]) (simp add: dialled_to_def)

text \<open>The two directions of a fresh connection.\<close>

definition usable :: "sock \<Rightarrow> bool" where
  "usable s \<longleftrightarrow> \<not> closed s \<and> send_left s = None"

lemma usable_simps [simp]:
  "usable (s\<lparr>inbox := i\<rparr>) = usable s" "usable (s\<lparr>sent := o'\<rparr>) = usable s"
  by (simp_all add: usable_def)

lemma on_dialled_reply:
  "r < length (objs w) \<Longrightarrow> usable s \<Longrightarrow> inbox s = b # bs \<Longrightarrow> reads_as b c \<Longrightarrow>
     on_sock r parse_return_code (dialled_to w r s) = (Ret c, dialled_to w r (s\<lparr>inbox := bs\<rparr>))"
  by (rule on_dialled) (simp_all add: reply_read usable_def)

lemma on_dialled_send:
  "r < length (objs w) \<Longrightarrow> usable s \<Longrightarrow>
     on_sock r (send_command cmd) (dialled_to w r s) =
       (Ret (), dialled_to w r (s\<lparr>sent := sent s @ [cmd @ nl]\<rparr>))"
  by (rule on_dialled) (simp_all add: command_sent usable_def)

lemmas on_dialled_simps = on_dialled_reply on_dialled_send

text \<open>What \<^verbatim>\<open>connect\<close> does on a first connection, by the replies of the peer.\<close>

definition connects :: "'p controller \<Rightarrow> nat \<Rightarrow> sock \<Rightarrow> bool" where
  "connects w r s \<longleftrightarrow> (\<exists>ns. net w = Peer s # ns) \<and> port_ok (t_port (objs w ! r)) \<and>
     \<not> opt_reset w \<and> r < length (objs w) \<and> usable s"

lemma connect_ok:
  assumes "connects w r s" and "inbox s = b0 # b1 # b2 # rest"
    and "reads_as b0 c0" "rc_code c0 = 100" and "reads_as b1 c1" "rc_code c1 = 200"
    and "reads_as b2 c2" "rc_code c2 = 200"
  shows "connect r w = (Ret (), dialled_to w r (s\<lparr>
    sent := sent s @ [''HELLO'' @ nl, load_message (test_name (objs w ! r)) @ nl], inbox := rest\<rparr>))"
  using assms
  by (auto simp: connects_def connect_def obj_def bind_eval try_else_eval dial_ok on_dialled_simps)

lemma connect_hello_fails:
  assumes "connects w r s" and "inbox s = b0 # b1 # rest"
    and "reads_as b0 c0" "rc_code c0 = 100" and "reads_as b1 c1" "rc_code c1 \<noteq> 200"
  shows "connect r w = (Raise (IpBenchError (hello_failed (hostname (objs w ! r)) c1)),
    dialled_to w r (s\<lparr>sent := sent s @ [''HELLO'' @ nl], inbox := rest\<rparr>))"
  using assms
  by (auto simp: connects_def connect_def obj_def bind_eval try_else_eval dial_ok on_dialled_simps
      ipbench_fail_def hello_failed_def)

lemma connect_load_fails:
  assumes "connects w r s" and "inbox s = b0 # b1 # b2 # rest"
    and "reads_as b0 c0" "rc_code c0 = 100" and "reads_as b1 c1" "rc_code c1 = 200"
    and "reads_as b2 c2" "rc_code c2 \<noteq> 200"
  shows "connect r w = (Raise (IpBenchError (load_failed (hostname (objs w ! r)) c2)),
    dialled_to w r (s\<lparr>
      sent := sent s @ [''HELLO'' @ nl, load_message (test_name (objs w ! r)) @ nl], inbox := rest\<rparr>))"
  using assms
  by (auto simp: connects_def connect_def obj_def bind_eval try_else_eval dial_ok on_dialled_simps
      ipbench_fail_def load_failed_def)

lemma connect_greeting_fails:
  assumes "connects w r s" and "inbox s = b0 # rest" and "reads_as b0 c0" and "rc_code c0 \<noteq> 100"
  shows "connect r w = (Raise (IpBenchError ''Invalid Version Flag''), dialled_to w r (s\<lparr>inbox := rest\<rparr>))"
  using assms
  by (auto simp: connects_def connect_def obj_def bind_eval try_else_eval dial_ok on_dialled_simps ipbench_fail_def)

text \<open>No connection: the program exits.\<close>

lemma connect_exits:
  assumes "net w = No_Host # ns \<or> net w = Unreachable # ns" and "port_ok (t_port (objs w ! r))"
  shows "fst (connect r w) = Raise (SystemExit 1)"
  using assms by (auto simp: connect_def obj_def bind_eval try_else_eval dial_def Let_def port_ok_def c_int_def)

section \<open>setup, start, unmarshall and close\<close>

lemma on_wired:
  "wired w r k \<Longrightarrow> m (socks w ! k) = (x, s) \<Longrightarrow>
     on_sock r m w = (x, w\<lparr>socks := (socks w)[k := s]\<rparr>)"
  by (simp add: on_sock_wired)

text \<open>A client object as \<^verbatim>\<open>main\<close> makes it: port and arguments are set.\<close>

definition client_obj :: "tester \<Rightarrow> str option \<Rightarrow> int \<Rightarrow> str \<Rightarrow> bool" where
  "client_obj t h p a \<longleftrightarrow> \<not> is_target t \<and> t_test_target t = h \<and> t_test_port t = Some p \<and> t_test_args t = Some a"

lemma set_obj_same: "f (objs w ! r) = objs w ! r \<Longrightarrow> set_obj r f w = (Ret (), w)"
  by (simp add: set_obj_def)

lemma setup_start:
  assumes "client_obj (objs w ! r) (Some h) p a"
  shows "tester_setup r w =
    bind (on_sock r (send_command (setup_message h p a))) (\<lambda>_.
    bind (on_sock r parse_return_code) (\<lambda>status.
    if rc_code status \<noteq> 200
    then ipbench_fail (''SETUP to '' @ hostname (objs w ! r) @ ''failed ('' @
           repr_int (rc_code status) @ '' '' @ rc_str status @ '')'')
    else ret ())) w"
  using assms
  by (simp add: tester_setup_def setup_self_def obj_def set_obj_same bind_eval client_obj_def)

lemma command_ok:
  assumes "wired w r k" and "usable (socks w ! k)"
  shows "on_sock r (send_command cmd) w = (Ret (), w\<lparr>socks := (socks w)[k := (socks w ! k)\<lparr>
    sent := sent (socks w ! k) @ [cmd @ nl]\<rparr>]\<rparr>)"
  using assms by (intro on_wired command_sent) (simp_all add: usable_def)

lemma command_and_reply:
  assumes "wired w r k" and "usable (socks w ! k)" and "inbox (socks w ! k) = b # rest" and "reads_as b c"
  shows "bind (on_sock r (send_command cmd)) (\<lambda>_. bind (on_sock r parse_return_code) f) w =
    f c (w\<lparr>socks := (socks w)[k := (socks w ! k)\<lparr>sent := sent (socks w ! k) @ [cmd @ nl], inbox := rest\<rparr>]\<rparr>)"
proof -
  let ?s = "(socks w ! k)\<lparr>sent := sent (socks w ! k) @ [cmd @ nl]\<rparr>"
  have "on_sock r parse_return_code (w\<lparr>socks := (socks w)[k := ?s]\<rparr>) =
      (Ret c, w\<lparr>socks := (socks w)[k := ?s\<lparr>inbox := rest\<rparr>]\<rparr>)"
    using assms by (subst on_wired [where k = k]) (simp_all add: reply_read usable_def wired_def)
  then show ?thesis
    by (simp add: bind_eval command_ok [OF assms(1,2)])
qed

lemma setup_ok:
  assumes "client_obj (objs w ! r) (Some h) p a" and "wired w r k" and "usable (socks w ! k)"
    and "inbox (socks w ! k) = b # rest" and "reads_as b c" and "rc_code c = 200"
  shows "tester_setup r w = (Ret (), w\<lparr>socks := (socks w)[k := (socks w ! k)\<lparr>
    sent := sent (socks w ! k) @ [setup_message h p a @ nl], inbox := rest\<rparr>]\<rparr>)"
  by (simp add: setup_start [OF assms(1)] command_and_reply [OF assms(2-5)] assms(6))

lemma setup_fails:
  assumes "client_obj (objs w ! r) (Some h) p a" and "wired w r k" and "usable (socks w ! k)"
    and "inbox (socks w ! k) = b # rest" and "reads_as b c" and "rc_code c \<noteq> 200"
  shows "tester_setup r w = (Raise (IpBenchError (setup_failed (hostname (objs w ! r)) c)),
    w\<lparr>socks := (socks w)[k := (socks w ! k)\<lparr>sent := sent (socks w ! k) @ [setup_message h p a @ nl], inbox := rest\<rparr>]\<rparr>)"
  by (simp add: setup_start [OF assms(1)] command_and_reply [OF assms(2-5)] assms(6) ipbench_fail_def setup_failed_def)

lemma target_setup_ok:
  assumes "is_target (objs w ! r)" and "t_test_args (objs w ! r) = Some a" and "wired w r k" and "usable (socks w ! k)"
    and "inbox (socks w ! k) = b # rest" and "reads_as b c" and "rc_code c = 200"
  shows "tester_setup r w = (Ret (), w\<lparr>socks := (socks w)[k := (socks w ! k)\<lparr>
    sent := sent (socks w ! k) @ [target_setup_message a @ nl], inbox := rest\<rparr>]\<rparr>)"
  using assms(1,2)
  by (simp add: tester_setup_def setup_target_self_def bind_eval [of "obj r"] obj_def
      command_and_reply [OF assms(3-6)] assms(7))

lemma setup_no_target:
  assumes "client_obj (objs w ! r) None p a"
  shows "tester_setup r w = (Raise (IpBenchError ''Must specify --test-target''), w)"
  using assms
  by (simp add: tester_setup_def setup_self_def obj_def set_obj_same bind_eval client_obj_def
      ipbench_fail_def)

lemma start_ok:
  assumes "wired w r k" and "usable (socks w ! k)"
  shows "tester_start r w = (Ret (), w\<lparr>socks := (socks w)[k := (socks w ! k)\<lparr>
    sent := sent (socks w ! k) @ [''START'' @ nl]\<rparr>]\<rparr>)"
  using assms by (simp add: tester_start_def command_ok)

lemma stop_ok:
  assumes "wired w r k" and "usable (socks w ! k)"
  shows "tester_stop r w = (Ret (), w\<lparr>socks := (socks w)[k := (socks w ! k)\<lparr>
    sent := sent (socks w ! k) @ [''STOP'' @ nl]\<rparr>]\<rparr>)"
  using assms by (simp add: tester_stop_def command_ok)

lemma close_ok:
  assumes "wired w r k" and "usable (socks w ! k)"
  shows "tester_close r w = (Ret (), w\<lparr>socks := (socks w)[k := (socks w ! k)\<lparr>
    sent := sent (socks w ! k) @ [''QUIT'' @ nl], closed := True\<rparr>]\<rparr>)"
proof -
  let ?s = "(socks w ! k)\<lparr>sent := sent (socks w ! k) @ [''QUIT'' @ nl]\<rparr>"
  have "k < length (socks w)"
    using assms(1) by (simp add: wired_def)
  moreover have "on_sock r (send_command ''QUIT'') w = (Ret (), w\<lparr>socks := (socks w)[k := ?s]\<rparr>)"
    using assms by (rule command_ok)
  moreover have "on_sock r sock_close (w\<lparr>socks := (socks w)[k := ?s]\<rparr>) =
      (Ret (), w\<lparr>socks := (socks w)[k := ?s\<lparr>closed := True\<rparr>]\<rparr>)"
    using assms calculation(1)
    by (subst on_wired [where k = k]) (simp_all add: sock_close_def)
  ultimately show ?thesis
    by (simp add: tester_close_def bind_eval)
qed

text \<open>With \<^verbatim>\<open>--reset\<close>: an \<^verbatim>\<open>ABORT\<close> on a first connection, \<^verbatim>\<open>HELLO\<close> on a second one.\<close>

lemma connect_reset_fails:
  assumes "net w = Peer s # Peer s' # ns" and "opt_reset w" and "port_ok (t_port (objs w ! r))"
    and "r < length (objs w)" and "usable s" and "usable s'"
    and "inbox s = b0 # rest" and "reads_as b0 c0" and "rc_code c0 = 100"
    and "inbox s' = b1 # b2 # rest'" and "reads_as b1 c1" and "rc_code c1 = 100" and "reads_as b2 c2"
    and "rc_code c2 \<noteq> 200"
  shows "connect r w = (Raise (IpBenchError (hello_failed (hostname (objs w ! r)) c2)),
    dialled_to (dialled_to w r (s\<lparr>inbox := rest, sent := sent s @ [''ABORT'' @ nl]\<rparr>)) r
      (s'\<lparr>sent := sent s' @ [''HELLO'' @ nl], inbox := rest'\<rparr>))"
proof -
  let ?s = "s\<lparr>inbox := rest, sent := sent s @ [''ABORT'' @ nl]\<rparr>"
  have "dial r (dialled_to w r ?s) = (Ret (), dialled_to (dialled_to w r ?s) r s')"
    using assms by (intro dial_ok [where ns = ns]) simp_all
  then show ?thesis
    using assms
    by (simp add: connect_def obj_def bind_eval try_else_eval dial_ok on_dialled_simps ipbench_fail_def
        hello_failed_def)
qed

end
