(* ===== verification/Controller_Facts.thy ===== *)
theory Controller_Facts
  imports Controller Tester_Facts "HOL-Library.Multiset"
begin

text \<open>
  What the steps of the controller may do to its world, for relations that its primitives
  respect (\<open>controller_order\<close>, interpreted on two of them), the order of the receive rounds, and
  the closing of the connections.
\<close>

section \<open>Effects on the world\<close>

lemma sock_prims_le: "step_inv sock_le (sock_send b)" "step_inv sock_le sock_close"
  by (auto simp: step_inv_def sock_send_def sock_close_def sock_le_def
      split: list.splits option.splits nat.splits)

lemma send_command_le: "step_inv sock_le (send_command cmd)"
  unfolding send_command_def by (rule sock_prims_le)

section \<open>The interface\<close>

locale controller_order = world_order R for R :: "'p controller \<Rightarrow> 'p controller \<Rightarrow> bool" +
  assumes sock_unit_R: "step_inv sock_le (m :: (sock, unit) io) \<Longrightarrow> step_inv R (on_sock r m)"
    and sock_code_R: "step_inv sock_le (m' :: (sock, return_code) io) \<Longrightarrow> step_inv R (on_sock r m')"
    and sock_data_R: "step_inv sock_le (m'' :: (sock, bool \<times> bytes) io) \<Longrightarrow> step_inv R (on_sock r m'')"
    and dial_R: "step_inv R (dial r)"
    and set_obj_R: "step_inv R (set_obj r f)"
    and new_obj_R: "step_inv R (new_obj t)"
    and target_unit_R: "step_inv R (on_target_mod (n :: ('p cmod, unit) io))"
    and target_int_R: "step_inv R (on_target_mod (n' :: ('p cmod, int) io))"
    and client_int_R: "step_inv R (on_client_mod (n'' :: ('p cmod, int) io))"
    and put_targets_R: "R w (w\<lparr>targets := ts\<rparr>)"
begin

lemma look_R: "step_inv R (obj r)" "step_inv R (\<lambda>w. (Ret (f w), w))" "step_inv R (ipbench_fail m)"
  by (simp_all add: step_inv_def obj_def ipbench_fail_def r_refl)

lemma reply_R: "step_inv R (on_sock r parse_return_code)"
  by (rule sock_code_R) (rule sock_order.parse_reply_R)

lemma command_R: "step_inv R (on_sock r (send_command cmd))"
  by (rule sock_unit_R) (rule send_command_le)

lemma result_R: "step_inv R (on_sock r read_result)"
  by (rule sock_data_R) (rule sock_order.read_result_R)

lemmas steps_R = inv_bind inv_if inv_option inv_prod inv_ret inv_raise inv_try_else look_R reply_R
  command_R result_R dial_R set_obj_R new_obj_R target_unit_R target_int_R client_int_R

lemma guarded_dial_R:
  "step_inv R (try_else (dial r) (\<lambda>e. if is_OSError e then Some (raise (SystemExit 1)) else None) ret)"
  by (rule inv_try_else) (auto intro: steps_R split: if_splits)

lemma connect_R: "step_inv R (connect r)"
  unfolding connect_def by (intro steps_R guarded_dial_R)

lemma setup_R: "step_inv R (tester_setup r)"
  unfolding tester_setup_def setup_self_def setup_target_self_def by (intro steps_R)

lemma start_R: "step_inv R (tester_start r)" "step_inv R (tester_stop r)"
  unfolding tester_start_def tester_stop_def by (intro steps_R)+

lemma unmarshall_R: "step_inv R (tester_unmarshall r)"
  unfolding tester_unmarshall_def call_test_unmarshall_def by (intro steps_R)

lemma put_target_R: "step_inv R (\<lambda>w. (Ret (), w\<lparr>targets := (targets w)[i := t]\<rparr>))"
  by (simp add: step_inv_def put_targets_R)

lemma setup_target_entry_R: "step_inv R (setup_target_entry opts i)"
proof -
  have "step_inv R (\<lambda>w. bind (case g_hostname t of None \<Rightarrow> raise TypeError | Some h \<Rightarrow> ret h) (\<lambda>h.
      bind (on_target_mod (load_plugin (g_test t))) (\<lambda>_.
      bind (on_target_mod (setup_controller_target (o_target_controller_args opts))) (\<lambda>_.
      bind (IpbenchTestTarget h (g_port t) (g_test t) (g_test_args t)) (\<lambda>r.
      bind (\<lambda>w. (Ret (), w\<lparr>targets := (targets w)[i := t\<lparr>g_testobj := Some r\<rparr>]\<rparr>)) (\<lambda>_.
      bind (connect r) (\<lambda>_. tester_setup r)))))) w)" for t
    unfolding IpbenchTestTarget_def by (intro steps_R put_target_R connect_R setup_R)
  then show ?thesis
    by (simp add: step_inv_def setup_target_entry_def Let_def)
qed

lemma each_R: "(\<And>x. step_inv R (f x)) \<Longrightarrow> step_inv R (for_each xs f)"
  by (induction xs) (auto intro!: inv_bind inv_ret simp del: ret_apply)

lemma select_R: "step_inv R (select rs readable)"
proof -
  have "step_inv R (fileno r)" for r
    by (auto simp: step_inv_def fileno_def r_refl split: option.splits)
  then show ?thesis
    unfolding select_def by (intro inv_bind inv_if inv_ret inv_raise each_R)
qed

lemma poll_R: "step_inv R (poll_loop polls ws es)"
proof (induction polls arbitrary: ws)
  case Nil
  then show ?case
    by (simp add: poll_loop.simps [abs_def] step_inv_def r_refl)
next
  case (Cons p polls)
  then show ?case
    by (subst poll_loop.simps)
      (auto simp: Let_def split: prod.splits intro!: inv_bind inv_ret each_R unmarshall_R look_R select_R
        simp del: ret_apply)
qed

end

interpretation keep_clients: controller_order "\<lambda>w w'. clients w' = clients w"
  by unfold_locales
    (auto simp: step_inv_def on_sock_def dial_def set_obj_def new_obj_def on_target_mod_def
      on_client_mod_def zoom_def Let_def split: option.splits prod.splits list.splits connection.splits)

text \<open>What has been sent, dialled and printed stays; a closed socket stays closed.\<close>

definition controller_le :: "'p controller \<Rightarrow> 'p controller \<Rightarrow> bool" where
  "controller_le w w' \<longleftrightarrow>
     length (socks w) \<le> length (socks w') \<and>
     (\<forall>k < length (socks w). sock_le (socks w ! k) (socks w' ! k)) \<and>
     (\<exists>d. dialled w' = dialled w @ d) \<and> (\<exists>out. stdout w' = stdout w @ out)"

lemma controller_le_trans: "controller_le w w' \<Longrightarrow> controller_le w' w'' \<Longrightarrow> controller_le w w''"
proof -
  assume le: "controller_le w w'" "controller_le w' w''"
  have "sock_le (socks w ! k) (socks w'' ! k)" if "k < length (socks w)" for k
    using le that sock_order.r_trans [of "socks w ! k" "socks w' ! k"]
    by (auto simp: controller_le_def)
  with le show ?thesis
    by (auto simp: controller_le_def)
qed

lemma controller_le_same:
  "socks w' = socks w \<Longrightarrow> dialled w' = dialled w \<Longrightarrow> stdout w' = stdout w \<Longrightarrow> controller_le w w'"
  by (simp add: controller_le_def sock_order.r_refl)

lemma controller_le_sock:
  "sock_le (socks w ! k) s \<Longrightarrow> controller_le w (w\<lparr>socks := (socks w)[k := s]\<rparr>)"
  by (cases "k < length (socks w)") (auto simp: controller_le_def nth_list_update sock_order.r_refl)

lemma on_sock_le: "step_inv sock_le m \<Longrightarrow> step_inv controller_le (on_sock r m)"
  by (auto simp: step_inv_def on_sock_def controller_le_same split: option.splits prod.splits)
    (metis controller_le_sock snd_conv)

lemma dial_le: "step_inv controller_le (dial r)"
  by (auto simp: step_inv_def dial_def Let_def controller_le_def sock_order.r_refl nth_append
      split: list.splits connection.splits)

lemma on_mod_le: "step_inv controller_le (on_client_mod m)" "step_inv controller_le (on_target_mod m')"
  by (auto simp: step_inv_def on_client_mod_def on_target_mod_def zoom_def intro: controller_le_same
      split: prod.splits)

lemma on_objs_le: "step_inv controller_le (set_obj r f)" "step_inv controller_le (new_obj t)"
  by (auto simp: step_inv_def set_obj_def new_obj_def intro: controller_le_same)

interpretation controller_grows: controller_order controller_le
proof unfold_locales
  show "controller_le w w" for w :: "'p controller"
    by (simp add: controller_le_same)
  show "controller_le w (w\<lparr>targets := ts\<rparr>)" for w :: "'p controller" and ts
    by (simp add: controller_le_same)
qed (fact controller_le_trans on_sock_le dial_le on_mod_le on_objs_le)+

section \<open>The receive rounds\<close>

lemma remove_all_mset: "mset (remove_all rs ws) = mset ws - mset rs"
  by (induction rs arbitrary: ws) auto

lemma poll_done [simp]: "poll_loop polls [] es = ret ()"
  by (subst poll_loop.simps) (rule if_P, rule refl)

lemma poll_waits: "ws \<noteq> [] \<Longrightarrow> poll_loop [] ws es w = (Wait, w)"
  by (subst poll_loop.simps) simp

lemma poll_round:
  "ws \<noteq> [] \<Longrightarrow> poll_loop ((readable, failed) # polls) ws es =
     bind (select ws readable) (\<lambda>to_read.
     bind (for_each to_read tester_unmarshall) (\<lambda>_.
     bind (select es failed) (\<lambda>failing.
       if failing \<noteq> [] then ipbench_fail ''Target returned an error!''
       else poll_loop polls (remove_all to_read ws) es)))"
  by (subst poll_loop.simps) simp

text \<open>An object that has its connection, still open, can be waited for.\<close>

definition selectable :: "'p controller \<Rightarrow> nat \<Rightarrow> bool" where
  "selectable w r \<longleftrightarrow> (\<exists>k. t_socket (objs w ! r) = Some k \<and> \<not> closed (socks w ! k))"

lemma select_ok:
  "\<forall>r \<in> set rs. selectable w r \<Longrightarrow> select rs readable w = (Ret (filter (\<lambda>r. r \<in> set readable) rs), w)"
proof -
  assume all: "\<forall>r \<in> set rs. selectable w r"
  have "for_each rs (\<lambda>r. bind (fileno r) (\<lambda>fd. if fd < 0 then raise ValueError else ret ())) w = (Ret (), w)"
    using all by (induction rs) (auto simp: bind_eval fileno_def selectable_def)
  then show ?thesis
    by (simp add: select_def bind_eval)
qed

lemma select_RetE:
  assumes "select rs readable w = (Ret xs, w')"
  obtains "xs = filter (\<lambda>r. r \<in> set readable) rs" and "w' = w" and "\<forall>r \<in> set rs. selectable w r"
proof -
  have each: "for_each rs (\<lambda>r. bind (fileno r) (\<lambda>fd. if fd < 0 then raise ValueError else ret ())) w = (Ret (), w') \<Longrightarrow>
      w' = w \<and> (\<forall>r \<in> set rs. selectable w r)"
    by (induction rs) (auto simp: bind_eval fileno_def selectable_def split: option.splits if_splits)
  from assms obtain w1 where "for_each rs (\<lambda>r. bind (fileno r) (\<lambda>fd. if fd < 0 then raise ValueError else ret ())) w = (Ret (), w1)"
      "xs = filter (\<lambda>r. r \<in> set readable) rs" "w' = w1"
    unfolding select_def by (elim bind_RetE) simp
  with each that show thesis by blast
qed

lemma select_missing:
  "t_socket (objs w ! r) = None \<Longrightarrow> select (r # rs) readable w = (Raise AttributeError, w)"
  by (simp add: select_def bind_eval fileno_def)

lemma select_closed:
  "t_socket (objs w ! r) = Some k \<Longrightarrow> closed (socks w ! k) \<Longrightarrow>
     select (r # rs) readable w = (Raise ValueError, w)"
  by (simp add: select_def bind_eval fileno_def)

lemma poll_order:
  "poll_loop polls ws es w = (Ret (), w') \<Longrightarrow>
     \<exists>order. mset order = mset ws \<and> for_each order tester_unmarshall w = (Ret (), w')"
proof (induction polls arbitrary: ws w)
  case Nil
  then show ?case
    by (cases "ws = []") (auto simp: poll_waits)
next
  case (Cons p polls)
  obtain readable failed where p: "p = (readable, failed)"
    by (cases p)
  show ?case
  proof (cases "ws = []")
    case True
    with Cons.prems show ?thesis
      by simp
  next
    case False
    let ?rs = "filter (\<lambda>r. r \<in> set readable) ws"
    obtain u w1 where w1: "for_each ?rs tester_unmarshall w = (Ret u, w1)"
        "poll_loop polls (remove_all ?rs ws) es w1 = (Ret (), w')"
      using Cons.prems unfolding p poll_round [OF False]
      by (auto simp: ipbench_fail_def elim!: bind_RetE select_RetE split: if_split_asm)
    from Cons.IH [OF w1(2)] obtain order where
      o: "mset order = mset (remove_all ?rs ws)" "for_each order tester_unmarshall w1 = (Ret (), w')"
      by blast
    have "mset (?rs @ order) = mset ws"
      using o(1) by (simp add: remove_all_mset)
    moreover have "for_each (?rs @ order) tester_unmarshall w = (Ret (), w')"
      unfolding for_each_append bind_eval w1(1) by (simp add: o(2))
    ultimately show ?thesis by blast
  qed
qed

section \<open>Closing\<close>

lemma close_all_eq:
  "close_all w =
     for_each (map c_testobj (clients w) @ map g_testobj (targets w)) (\<lambda>x. bind (testobj x) tester_close) w"
  by (simp only: close_all_def bind_eval [of client_objs] bind_eval [of target_objs]
      client_objs_def target_objs_def prod.case res.case)

lemma testobj_apply [simp]: "testobj None w = (Raise KeyError, w)" "testobj (Some r) w = (Ret r, w)"
  by (simp_all add: testobj_def)

lemma close_all_missing:
  assumes "clients w = c # cs" and "c_testobj c = None"
  shows "close_all w = (Raise KeyError, w)"
  unfolding close_all_eq assms list.map append_Cons for_each.simps
  by (simp add: bind_eval)

lemma close_each:
  assumes "list_all2 (wired w) rs ks" and "distinct ks" and "\<forall>k \<in> set ks. usable (socks w ! k)"
  shows "\<exists>w'. for_each (map Some rs) (\<lambda>x. bind (testobj x) tester_close) w = (Ret (), w') \<and>
    (\<forall>k. socks w' ! k = (if k \<in> set ks
        then (socks w ! k)\<lparr>sent := sent (socks w ! k) @ [''QUIT'' @ nl], closed := True\<rparr>
        else socks w ! k)) \<and> w' = w\<lparr>socks := socks w'\<rparr>"
  using assms
proof (induction rs arbitrary: ks w)
  case Nil
  then show ?case by simp
next
  case (Cons r rs)
  then obtain k ks' where k: "ks = k # ks'" "wired w r k" "list_all2 (wired w) rs ks'"
    by (auto simp: list_all2_Cons1)
  let ?s = "(socks w ! k)\<lparr>sent := sent (socks w ! k) @ [''QUIT'' @ nl], closed := True\<rparr>"
  let ?w = "w\<lparr>socks := (socks w)[k := ?s]\<rparr>"
  have c: "tester_close r w = (Ret (), ?w)"
    using k Cons.prems by (intro close_ok) simp_all
  have "k < length (socks w)"
    using k by (simp add: wired_def)
  have "wired ?w = wired w"
    by (simp add: fun_eq_iff)
  then have "list_all2 (wired ?w) rs ks'"
    using k(3) by simp
  moreover have "\<forall>j \<in> set ks'. usable (socks ?w ! j)"
    using Cons.prems k(1) by auto (metis nth_list_update_neq)
  moreover have "distinct ks'"
    using Cons.prems k(1) by simp
  ultimately obtain w' where
    w': "for_each (map Some rs) (\<lambda>x. bind (testobj x) tester_close) ?w = (Ret (), w')"
    "\<forall>j. socks w' ! j = (if j \<in> set ks'
        then (socks ?w ! j)\<lparr>sent := sent (socks ?w ! j) @ [''QUIT'' @ nl], closed := True\<rparr>
        else socks ?w ! j)" "w' = ?w\<lparr>socks := socks w'\<rparr>"
    using Cons.IH [of ?w ks'] by blast
  have each: "for_each (map Some (r # rs)) (\<lambda>x. bind (testobj x) tester_close) w = (Ret (), w')"
    using w'(1) by (simp add: bind_eval c)
  have "?w\<lparr>socks := socks w'\<rparr> = w\<lparr>socks := socks w'\<rparr>"
    by simp
  with w'(3) have same: "w' = w\<lparr>socks := socks w'\<rparr>"
    by (rule trans)
  have "\<forall>j. socks w' ! j = (if j \<in> set ks
      then (socks w ! j)\<lparr>sent := sent (socks w ! j) @ [''QUIT'' @ nl], closed := True\<rparr> else socks w ! j)"
    using w'(2) Cons.prems(2) k(1) \<open>k < length (socks w)\<close> by (auto simp: nth_list_update)
  with each same show ?case
    by blast
qed

section \<open>The configuration\<close>

text \<open>The lists that \<^verbatim>\<open>main\<close> starts with have no \<^verbatim>\<open>testobj\<close> yet.\<close>

definition fresh_client :: "client_dict \<Rightarrow> bool" where
  "fresh_client c \<longleftrightarrow> c_testobj c = None"

definition fresh_target :: "target_dict \<Rightarrow> bool" where
  "fresh_target t \<longleftrightarrow> g_testobj t = None"

lemma error_exit_not: "error_exit m w = (Ret x, w') \<Longrightarrow> P"
  by (simp add: error_exit_def bind_eval print_line_def)

lemmas config_elims = bind_RetE error_exit_not

lemma config_client_fresh: "config_client opts c w = (Ret d, w') \<Longrightarrow> fresh_client d"
  by (auto simp: config_client_def fresh_client_def elim!: config_elims split: option.splits)

lemma config_clients_fresh: "config_clients opts cs w = (Ret ds, w') \<Longrightarrow> list_all fresh_client ds"
proof (induction cs arbitrary: w ds)
  case (Cons c cs)
  from Cons.prems obtain d ds' w1 where "config_client opts c w = (Ret d, w1)"
    "config_clients opts cs w1 = (Ret ds', w')" "ds = d # ds'"
    by (auto elim!: config_elims)
  then show ?case
    using config_client_fresh [of opts c w d w1] Cons.IH [of w1 ds'] by simp
qed simp

lemma config_target_fresh:
  "config_target opts t args new w = (Ret d, w') \<Longrightarrow> fresh_target new \<Longrightarrow> fresh_target d"
proof (induction args arbitrary: new w)
  case (Cons a args)
  have keep: "fresh_target (new\<lparr>g_hostname := h, g_port := p, g_test_args := s\<rparr>)" for h p s
    using Cons.prems(2) by (simp add: fresh_target_def)
  from Cons.prems(1) show ?case
    by (auto simp: Let_def elim!: config_elims dest: Cons.IH [OF _ keep] split: if_splits)
qed simp

lemma config_targets_fresh: "config_targets opts n ts w = (Ret ds, w') \<Longrightarrow> list_all fresh_target ds"
proof (induction ts arbitrary: w ds)
  case (Cons t ts)
  from Cons.prems obtain d ds' w1 where
    d: "config_target opts t t \<lparr>g_hostname = o_target_test_hostname opts, g_port = o_target_test_port opts,
          g_test_args = o_target_test_args opts, g_test = n, g_testobj = None\<rparr> w = (Ret d, w1)"
    and "config_targets opts n ts w1 = (Ret ds', w')" "ds = d # ds'"
    by (auto elim!: config_elims)
  moreover have "fresh_target d"
    using config_target_fresh [OF d] by (simp add: fresh_target_def)
  ultimately show ?case
    using Cons.IH by simp
qed simp

lemma config_target_tests_fresh:
  "config_target_tests d ts opts w = (Ret (o', ds), w') \<Longrightarrow>
     list_all fresh_target ds \<and> o_test o' = o_test opts"
proof (induction ts arbitrary: opts w o' ds)
  case (Cons t ts)
  from Cons.prems show ?case
    by (auto simp: Let_def elim!: config_elims dest!: Cons.IH config_targets_fresh
        split: option.splits if_splits)
qed simp

lemma guard_passed: "(if b then error_exit m else ret ()) w = (Ret x, w') \<Longrightarrow> \<not> b \<and> w' = w"
  by (auto elim: error_exit_not split: if_splits)

lemma read_config_fresh:
  "read_config d opts w = (Ret (o', cs, ts), w') \<Longrightarrow>
     list_all fresh_client cs \<and> list_all fresh_target ts \<and> o_test o' \<noteq> None"
  unfolding read_config_def
  by (auto elim!: bind_RetE error_exit_not dest!: config_clients_fresh config_target_tests_fresh
      split: if_splits)

lemma cli_fresh:
  "cli_clients opts w = (Ret cs, w') \<Longrightarrow> list_all fresh_client cs"
  "cli_target opts w = (Ret ts, w') \<Longrightarrow> list_all fresh_target ts"
  by (auto simp: cli_clients_def cli_target_def fresh_client_def fresh_target_def list_all_iff
      elim: error_exit_not split: if_splits option.splits)

lemma configure_fresh:
  "configure config opts w = (Ret (o', cs, ts), w') \<Longrightarrow>
     cs \<noteq> [] \<and> o_test o' \<noteq> None \<and> list_all fresh_client cs \<and> list_all fresh_target ts"
  unfolding configure_def
  by (cases config)
    (auto elim!: bind_RetE error_exit_not dest!: cli_fresh read_config_fresh split: if_splits)

text \<open>Each client of the file: its own attributes, and the options where it has none.\<close>

definition int_attr_is :: "elem \<Rightarrow> str \<Rightarrow> int \<Rightarrow> int \<Rightarrow> bool" where
  "int_attr_is e k d n \<longleftrightarrow> (case attr e k of None \<Rightarrow> n = d | Some s \<Rightarrow> py_int s = Some n)"

definition client_from :: "options \<Rightarrow> elem \<Rightarrow> client_dict \<Rightarrow> bool" where
  "client_from opts e c \<longleftrightarrow>
     attr e ''hostname'' = Some (c_hostname c) \<and>
     int_attr_is e ''port'' (o_port opts) (c_port c) \<and>
     int_attr_is e ''test_port'' (o_test_port opts) (c_test_port c) \<and>
     c_test_args c = attr_or e ''test_args'' (o_test_args opts) \<and>
     c_test_target c = Some (attr_or e ''test_target'' (py_str (o_test_target opts))) \<and>
     c_testobj c = None"

lemma attr_int_is: "attr_int e k d w = (Ret n, w') \<Longrightarrow> int_attr_is e k d n \<and> w' = w"
  by (auto simp: attr_int_def int_attr_is_def split: option.splits)

lemma config_client_from: "config_client opts e w = (Ret c, w') \<Longrightarrow> client_from opts e c"
  by (auto simp: config_client_def client_from_def elim!: config_elims dest!: attr_int_is split: option.splits)

lemma config_clients_from:
  "config_clients opts es w = (Ret cs, w') \<Longrightarrow> list_all2 (client_from opts) es cs"
proof (induction es arbitrary: w cs)
  case (Cons e es)
  from Cons.prems obtain c cs' w1 where "config_client opts e w = (Ret c, w1)"
    "config_clients opts es w1 = (Ret cs', w')" "cs = c # cs'"
    by (auto elim!: config_elims)
  then show ?case
    using config_client_from [of opts e w c w1] Cons.IH [of w1 cs'] by simp
qed simp

text \<open>The options after the one \<^verbatim>\<open>test\<close> element.\<close>

definition options_from :: "elem \<Rightarrow> options \<Rightarrow> options \<Rightarrow> bool" where
  "options_from t opts o' \<longleftrightarrow> (\<exists>n. int_attr_is t ''port'' 0 n \<and>
     o' = opts\<lparr>o_test := Some (py_str (attr t ''name'')), o_test_args := attr_or t ''args'' [],
       o_test_port := n, o_test_target := Some (py_str (attr t ''target'')),
       o_controller_args := Some (py_str (attr t ''controller_args''))\<rparr>)"

lemma config_test_options: "config_test t opts w = (Ret o', w') \<Longrightarrow> options_from t opts o' \<and> w' = w"
  by (auto simp: config_test_def options_from_def elim!: bind_RetE dest!: attr_int_is)

lemma read_config_one:
  assumes "d_tests d = [t]" and "read_config d opts w = (Ret (o', cs, ts), w')"
  shows "\<exists>o1. options_from t opts o1 \<and> list_all2 (client_from o1) (d_clients d) cs \<and> o_test o' = o_test o1"
  using assms unfolding read_config_def
  by (auto elim!: bind_RetE error_exit_not dest!: config_clients_from config_target_tests_fresh
      config_test_options split: if_splits)

text \<open>The options after the \<^verbatim>\<open>target_test\<close> elements are those of the last of them.\<close>

lemma config_target_tests_last:
  "config_target_tests d ts opts w = (Ret (o', ds), w') \<Longrightarrow> ts \<noteq> [] \<Longrightarrow>
     o_target_controller_args o' = Some (py_str (attr (last ts) ''controller_args'')) \<and>
     o_target_test_args o' = attr_or (last ts) ''args'' []"
proof (induction ts arbitrary: opts w o' ds)
  case (Cons t ts)
  then show ?case
    by (cases "ts = []") (auto simp: Let_def elim!: config_elims dest!: Cons.IH split: option.splits if_splits)
qed simp

section \<open>The command line without a file\<close>

definition target_named :: "options \<Rightarrow> bool" where
  "target_named opts \<longleftrightarrow> o_target_test opts \<noteq> None \<and> o_target_test opts \<noteq> Some []"

definition cli_complete :: "options \<Rightarrow> bool" where
  "cli_complete opts \<longleftrightarrow> o_test opts \<noteq> None \<and> o_clients opts \<noteq> [] \<and>
     (target_named opts \<longrightarrow> o_target_test_hostname opts \<noteq> None)"

definition cli_entry :: "options \<Rightarrow> str \<Rightarrow> client_dict" where
  "cli_entry opts h = \<lparr>c_hostname = h, c_port = o_port opts, c_test_port = o_test_port opts,
     c_test_args = o_test_args opts, c_test_target = o_test_target opts, c_testobj = None\<rparr>"

definition cli_target_entries :: "options \<Rightarrow> target_dict list" where
  "cli_target_entries opts =
     (if target_named opts
      then [\<lparr>g_hostname = o_target_test_hostname opts, g_port = o_target_test_port opts,
             g_test_args = o_target_test_args opts, g_test = the (o_target_test opts), g_testobj = None\<rparr>]
      else [])"

lemma error_exit_eval: "error_exit msg w = (Raise (SystemExit 1), w\<lparr>stdout := stdout w @ [msg]\<rparr>)"
  by (simp add: error_exit_def bind_eval print_line_def)

lemma cli_clients_eval:
  "o_test opts \<noteq> None \<Longrightarrow> cli_clients opts w = (Ret (map (cli_entry opts) (o_clients opts)), w)"
  by (auto simp: cli_clients_def cli_entry_def)

lemma cli_target_eval:
  "target_named opts \<longrightarrow> o_target_test_hostname opts \<noteq> None \<Longrightarrow>
     cli_target opts w = (Ret (cli_target_entries opts), w)"
  by (auto simp: cli_target_def cli_target_entries_def target_named_def split: option.splits)

lemma configure_cli:
  "o_test opts \<noteq> None \<and> o_clients opts \<noteq> [] \<and> (target_named opts \<longrightarrow> o_target_test_hostname opts \<noteq> None) \<Longrightarrow>
     configure None opts w = (Ret (opts, map (cli_entry opts) (o_clients opts), cli_target_entries opts), w)"
  by (auto simp: configure_def bind_eval cli_clients_eval cli_target_eval)

lemma configure_cli_refused:
  assumes "\<not> cli_complete opts"
  shows "\<exists>msg. configure None opts w = (Raise (SystemExit 1), w\<lparr>stdout := stdout w @ [msg]\<rparr>)"
proof (cases "o_test opts = None \<and> o_clients opts \<noteq> []")
  case True
  then have "configure None opts w =
      (Raise (SystemExit 1), w\<lparr>stdout := stdout w @ [''Please specify a test with --test!'']\<rparr>)"
    by (simp add: configure_def bind_eval cli_clients_def error_exit_eval)
  then show ?thesis
    by (rule exI)
next
  case False
  then have cl: "cli_clients opts w = (Ret (map (cli_entry opts) (o_clients opts)), w)"
    by (cases "o_test opts") (auto simp: cli_clients_def cli_entry_def)
  show ?thesis
  proof (cases "target_named opts \<and> o_target_test_hostname opts = None")
    case True
    then show ?thesis
      by (auto simp: configure_def bind_eval cl cli_target_def target_named_def error_exit_eval)
  next
    case ok: False
    then have "cli_target opts w = (Ret (cli_target_entries opts), w)"
      by (intro cli_target_eval) simp
    then show ?thesis
      using assms False ok by (auto simp: configure_def bind_eval cl error_exit_eval cli_complete_def)
  qed
qed

end
