(* ===== verification/Controller_Samples.thy ===== *)
theory Controller_Samples
  imports Controller_Facts Samples
begin

text \<open>Concrete controllers and peers, for the witnesses of the controller's properties.\<close>

definition peer_sending :: "bytes list \<Rightarrow> sock" where
  "peer_sending ls = \<lparr>inbox = ls, lost = False, sent = [], send_left = None, closed = False\<rparr>"

lemma peer_simps [simp]:
  "inbox (peer_sending ls) = ls" "sent (peer_sending ls) = []" "usable (peer_sending ls)"
  "send_left (peer_sending ls) = None" "\<not> lost (peer_sending ls)" "\<not> closed (peer_sending ls)"
  by (simp_all add: peer_sending_def usable_def)

definition sample_tester :: tester where
  "sample_tester =
     \<lparr>is_target = False, hostname = ''node1'', t_port = 8036, t_test_target = Some ''10.0.0.1'',
      t_test_port = Some 7, t_test_args = Some ''size=64'', t_client_id = 0, test_name = ''latency'',
      t_socket = None\<rparr>"

lemma sample_tester_simps [simp]:
  "hostname sample_tester = ''node1''" "t_port sample_tester = 8036" "test_name sample_tester = ''latency''"
  "t_socket sample_tester = None"
  by (simp_all add: sample_tester_def)

lemma sample_client_obj: "client_obj sample_tester (Some ''10.0.0.1'') 7 ''size=64''"
  by (simp add: client_obj_def sample_tester_def)

text \<open>One client object, not connected yet, and the peers that will answer.\<close>

definition sample_controller :: "connection list \<Rightarrow> unit controller" where
  "sample_controller peers =
     \<lparr>opt_reset = False, net = peers, dialled = [], socks = [], objs = [sample_tester],
      client_mod = loaded_module\<lparr>nclients := 1, client_data := [None]\<rparr>, target_mod = sample_module,
      clients = [], targets = [], stdout = []\<rparr>"

lemma sample_controller_simps [simp]:
  "\<not> opt_reset (sample_controller peers)" "net (sample_controller peers) = peers"
  "socks (sample_controller peers) = []" "objs (sample_controller peers) = [sample_tester]"
  "target_mod (sample_controller peers) = sample_module"
  "client_mod (sample_controller peers) = loaded_module\<lparr>nclients := 1, client_data := [None]\<rparr>"
  "clients (sample_controller peers) = []" "targets (sample_controller peers) = []"
  "stdout (sample_controller peers) = []" "dialled (sample_controller peers) = []"
  by (simp_all add: sample_controller_def)

lemma sample_connects: "connects (sample_controller (Peer (peer_sending ls) # ps)) 0 (peer_sending ls)"
  by (simp add: connects_def port_ok_def)

text \<open>The replies of the daemon, as the controller reads them.\<close>

definition plain_code :: "int \<Rightarrow> str \<Rightarrow> return_code" where
  "plain_code c t = \<lparr>rc_code = c, rc_str = t, rc_msg = []\<rparr>"

lemma plain_code_simps [simp]: "rc_code (plain_code c t) = c" "rc_str (plain_code c t) = t"
  "rc_msg (plain_code c t) = []"
  by (simp_all add: plain_code_def)

lemma daemon_replies:
  "reads_as (reply 100 []) (plain_code 100 ''IPBENCH V1.0'')"
  "reads_as (reply 200 []) (plain_code 200 ''OK'')"
  "reads_as (reply 200 [''Ready to go'']) \<lparr>rc_code = 200, rc_str = ''OK'', rc_msg = ''Ready to go''\<rparr>"
  "reads_as (reply 421 [''Already Running''])
     \<lparr>rc_code = 421, rc_str = ''SERVICE NOT AVAILABLE'', rc_msg = ''Already Running''\<rparr>"
  "reads_as (reply 500 []) (plain_code 500 ''SYNTAX ERROR'')"
  by code_simp+

section \<open>A configuration file\<close>

definition sample_doc :: doc where
  "sample_doc =
     \<lparr>d_tests = [[(''name'', ''latency''), (''args'', ''size=64'')]],
      d_clients = [[(''hostname'', ''node1'')], [(''hostname'', ''node2''), (''port'', ''9000'')]],
      d_target_tests = [[(''name'', ''cpu''), (''controller_args'', ''a'')],
                        [(''name'', ''mem''), (''controller_args'', ''b'')]],
      d_targets = (\<lambda>_. [[(''hostname'', ''box'')]])\<rparr>"

definition file_options :: options where
  "file_options = default_options\<lparr>o_test := Some ''latency'', o_test_args := ''size=64'',
     o_test_target := Some ''None'', o_controller_args := Some ''None'',
     o_target_controller_args := Some ''b''\<rparr>"

definition file_clients_list :: "client_dict list" where
  "file_clients_list =
     [\<lparr>c_hostname = ''node1'', c_port = 8036, c_test_port = 0, c_test_args = ''size=64'',
       c_test_target = Some ''None'', c_testobj = None\<rparr>,
      \<lparr>c_hostname = ''node2'', c_port = 9000, c_test_port = 0, c_test_args = ''size=64'',
       c_test_target = Some ''None'', c_testobj = None\<rparr>]"

definition file_targets_list :: "target_dict list" where
  "file_targets_list =
     [\<lparr>g_hostname = Some ''box'', g_port = 8037, g_test_args = [], g_test = ''cpu'', g_testobj = None\<rparr>,
      \<lparr>g_hostname = Some ''box'', g_port = 8037, g_test_args = [], g_test = ''mem'', g_testobj = None\<rparr>]"

lemmas config_eval = config_test_def config_client_def attr_int_def attr_def attr_or_def bind_eval Let_def

lemma sample_int: "py_int ''9000'' = Some 9000"
  by code_simp

lemma sample_tests:
  "config_tests (d_tests sample_doc) default_options w =
     (Ret (file_options\<lparr>o_target_controller_args := None\<rparr>), w)"
  by (simp add: config_eval sample_doc_def default_options_def file_options_def)

lemma sample_clients:
  "config_clients (file_options\<lparr>o_target_controller_args := None\<rparr>) (d_clients sample_doc) w =
     (Ret file_clients_list, w)"
  by (simp add: config_eval sample_doc_def default_options_def file_options_def file_clients_list_def
      sample_int)

lemma sample_target_tests:
  "config_target_tests sample_doc (d_target_tests sample_doc)
       (file_options\<lparr>o_target_controller_args := None\<rparr>) w = (Ret (file_options, file_targets_list), w)"
  by (simp add: config_eval sample_doc_def default_options_def file_options_def file_targets_list_def)

lemma sample_config:
  "read_config sample_doc default_options w = (Ret (file_options, file_clients_list, file_targets_list), w)"
proof -
  have "length (d_tests sample_doc) = 1" "d_tests sample_doc \<noteq> []"
    "o_test (file_options\<lparr>o_target_controller_args := None\<rparr>) \<noteq> None"
    by (simp_all add: sample_doc_def file_options_def)
  then show ?thesis
    by (auto simp: read_config_def bind_eval sample_tests sample_clients sample_target_tests)
qed

section \<open>A connected client\<close>

definition wired_controller :: "sock \<Rightarrow> unit controller" where
  "wired_controller s =
     (sample_controller [])\<lparr>socks := [s], objs := [sample_tester\<lparr>t_socket := Some 0\<rparr>]\<rparr>"

lemma wired_controller_simps [simp]:
  "socks (wired_controller s) = [s]" "objs (wired_controller s) = [sample_tester\<lparr>t_socket := Some 0\<rparr>]"
  "client_mod (wired_controller s) = loaded_module\<lparr>nclients := 1, client_data := [None]\<rparr>"
  "(wired_controller s)\<lparr>socks := [s']\<rparr> = wired_controller s'"
  by (simp_all add: wired_controller_def)

lemma wired_controller_wired: "wired (wired_controller s) 0 0"
  by (simp add: wired_def)

definition sample_entry :: "bytes \<Rightarrow> client_data" where
  "sample_entry d = \<lparr>cd_data = Some d, cd_size = length d, cd_valid = True\<rparr>"

lemma sample_unmarshall:
  assumes "read_result s = (Ret (True, d), s')"
  shows "tester_unmarshall 0 (wired_controller s) = (Ret (), (wired_controller s')\<lparr>client_mod :=
    loaded_module\<lparr>nclients := 1, client_data := [Some (sample_entry d)]\<rparr>\<rparr>)"
proof -
  have "on_sock 0 read_result (wired_controller s) = (Ret (True, d), wired_controller s')"
    using assms by (simp add: on_sock_wired [OF wired_controller_wired])
  moreover have "unmarshall_client 0 d True (loaded_module\<lparr>nclients := 1, client_data := [None]\<rparr>) =
      (Ret 0, loaded_module\<lparr>nclients := 1, client_data := [Some (sample_entry d)]\<rparr>)"
    by (simp add: unmarshall_client_def with_plugin_def sample_plugin_def sample_module_def sample_entry_def)
  moreover have "\<not> is_target (sample_tester\<lparr>t_socket := Some 0\<rparr>)" "t_client_id (sample_tester\<lparr>t_socket := Some 0\<rparr>) = 0"
    by (simp_all add: sample_tester_def)
  ultimately show ?thesis
    by (simp add: tester_unmarshall_def call_test_unmarshall_def bind_eval obj_def on_client_mod_def zoom_def)
qed

lemma sample_result:
  "read_result (peer_sending [''220 VALID DATA'' @ nl, ''Content-length: 5'' @ nl, ''12,34'']) =
     (Ret (True, ''12,34''), peer_sending [])"
proof -
  have st: "status_line (''220 VALID DATA'' @ nl @ []) s = (Ret (True, []), s)" for s
    by (rule status_line_ok [where t = "''VALID DATA''" and m = "[]"]) code_simp+
  have h: "content_header 5 = ''Content-length: 5''" "length (''220 VALID DATA'' @ nl) = 15"
    "length (''Content-length: 5'' @ nl) = 18"
    by code_simp+
  have cl: "content_line (''Content-length: 5'' @ nl @ []) s = (Ret (5, []), s)" for s
    using content_line_ok [of 5 "[]"] h(1) by simp
  have "recv_rest 5 [] (peer_sending [''12,34'']) = (Ret ''12,34'', peer_sending [])"
    by (subst recv_rest.simps, simp add: bind_eval recv_def, subst recv_rest.simps) (simp add: peer_sending_def)
  then show ?thesis
    using st cl h(2,3) by (simp add: read_result_def bind_eval recv_def peer_sending_def)
qed

section \<open>A target that refuses\<close>

definition busy_peer :: sock where
  "busy_peer = peer_sending [reply 100 [], reply 421 [''Already Running'']]"

definition busy_options :: options where
  "busy_options = default_options\<lparr>o_clients := [''node1''], o_test := Some ''latency'',
     o_test_target := Some ''10.0.0.1'', o_target_test := Some ''latency'',
     o_target_test_hostname := Some ''box''\<rparr>"

definition busy_client :: client_dict where
  "busy_client = \<lparr>c_hostname = ''node1'', c_port = 8036, c_test_port = 0, c_test_args = [],
     c_test_target = Some ''10.0.0.1'', c_testobj = None\<rparr>"

definition busy_target :: target_dict where
  "busy_target = \<lparr>g_hostname = Some ''box'', g_port = 8037, g_test_args = [], g_test = ''latency'',
     g_testobj = None\<rparr>"

lemma busy_configure:
  "configure None busy_options w = (Ret (busy_options, [busy_client], [busy_target]), w)"
  by (simp add: configure_def bind_eval cli_clients_def cli_target_def busy_options_def
      default_options_def busy_client_def busy_target_def)

definition busy_world :: "unit controller" where
  "busy_world = (sample_controller [Peer busy_peer])\<lparr>client_mod := loaded_module,
     target_mod := loaded_module, clients := [busy_client], targets := [busy_target]\<rparr>"

lemma busy_message:
  "hello_failed ''box'' \<lparr>rc_code = 421, rc_str = ''SERVICE NOT AVAILABLE'', rc_msg = ''Already Running''\<rparr> =
     ''HELLO to box failed (421 SERVICE NOT AVAILABLE)''"
  by code_simp

lemma busy_modules:
  "load_plugin ''latency'' loaded_module = (Ret (), loaded_module)"
  "setup_controller_target a loaded_module = (Ret (), loaded_module)"
  "setup_controller_client 1 a loaded_module = (Ret (), loaded_module\<lparr>nclients := 1, client_data := [None]\<rparr>)"
  by (simp_all add: load_plugin_def sample_module_def so_suffix_def MAX_PLUGINS_def
      setup_controller_target_def setup_controller_client_def with_plugin_def sample_plugin_def)

text \<open>The object of the target, and the world in which it connects.\<close>

definition busy_obj :: tester where
  "busy_obj = \<lparr>is_target = True, hostname = ''box'', t_port = 8037, t_test_target = None,
     t_test_port = None, t_test_args = Some [], t_client_id = 0, test_name = ''latency'', t_socket = None\<rparr>"

lemma busy_connect:
  assumes "net w = [Peer busy_peer]" and "\<not> opt_reset w" and "objs w = [sample_tester, busy_obj]"
  shows "connect 1 w = (Raise (IpBenchError ''HELLO to box failed (421 SERVICE NOT AVAILABLE)''),
    dialled_to w 1 (busy_peer\<lparr>sent := [''HELLO'' @ nl], inbox := []\<rparr>))"
proof -
  have "connects w 1 busy_peer"
    using assms by (simp add: connects_def port_ok_def busy_obj_def busy_peer_def)
  moreover have "objs w ! 1 = busy_obj"
    using assms by simp
  ultimately show ?thesis
    using connect_hello_fails [of w 1 busy_peer "reply 100 []" "reply 421 [''Already Running'']" "[]",
        OF _ _ daemon_replies(1) _ daemon_replies(4)] busy_message
    by (simp add: busy_peer_def) (simp add: busy_obj_def)
qed

lemma busy_entry:
  assumes "net w = [Peer busy_peer]" and "\<not> opt_reset w" and "objs w = [sample_tester]"
    and "targets w = [busy_target]" and "target_mod w = loaded_module"
  shows "\<exists>v. setup_target_entry busy_options 0 w =
    (Raise (IpBenchError ''HELLO to box failed (421 SERVICE NOT AVAILABLE)''), v) \<and>
    stdout v = stdout w \<and> sent (last (socks v)) = [''HELLO'' @ nl] \<and> \<not> closed (last (socks v))"
proof -
  let ?w = "w\<lparr>objs := [sample_tester, busy_obj], targets := [busy_target\<lparr>g_testobj := Some 1\<rparr>]\<rparr>"
  have t: "g_hostname busy_target = Some ''box''" "g_test busy_target = ''latency''"
    by (simp_all add: busy_target_def)
  have "w\<lparr>target_mod := loaded_module\<rparr> = w"
    using assms(5) by simp
  then have m: "on_target_mod (load_plugin ''latency'') w = (Ret (), w)"
    "on_target_mod (setup_controller_target (o_target_controller_args busy_options)) w = (Ret (), w)"
    using assms(5) by (simp_all add: on_target_mod_def zoom_def busy_modules)
  have o: "IpbenchTestTarget ''box'' (g_port busy_target) ''latency'' (g_test_args busy_target) w =
      (Ret 1, w\<lparr>objs := [sample_tester, busy_obj]\<rparr>)"
    using assms(3) by (simp add: IpbenchTestTarget_def new_obj_def busy_obj_def busy_target_def)
  have c: "connect 1 ?w = (Raise (IpBenchError ''HELLO to box failed (421 SERVICE NOT AVAILABLE)''),
      dialled_to ?w 1 (busy_peer\<lparr>sent := [''HELLO'' @ nl], inbox := []\<rparr>))"
    using assms by (intro busy_connect) simp_all
  have "setup_target_entry busy_options 0 w = bind (connect 1) (\<lambda>_. tester_setup 1) ?w"
    using assms(4) by (simp add: setup_target_entry_def Let_def bind_eval [of _ _ w] t m o bind_eval [of "\<lambda>w. _ w"])
  also have "\<dots> = (Raise (IpBenchError ''HELLO to box failed (421 SERVICE NOT AVAILABLE)''),
      dialled_to ?w 1 (busy_peer\<lparr>sent := [''HELLO'' @ nl], inbox := []\<rparr>))"
    unfolding bind_eval [of "connect 1"] c by simp
  finally show ?thesis
    by (simp add: dialled_to_def busy_peer_def)
qed

end
