(* ===== verification/Ununmarshall.thy ===== *)
theory Ununmarshall
  imports Py_Effects
begin

text \<open>
  The script \<^verbatim>\<open>src/helpers/scripts/ununmarshall.py\<close>, which turns the log of a controller into a
  table: it writes its own header, skips the first nine lines and drops the lines of debug
  output. A file is the list of its lines; \<open>files\<close> is the file system the script sees.
\<close>

definition starts_with :: "str \<Rightarrow> str \<Rightarrow> bool" where
  "starts_with p s \<longleftrightarrow> take (length p) s = p"

fun contains :: "str \<Rightarrow> str \<Rightarrow> bool" where
  \<comment> \<open>\<^verbatim>\<open>p in s\<close>\<close>
  "contains p [] \<longleftrightarrow> p = []"
| "contains p (c # s) \<longleftrightarrow> starts_with p (c # s) \<or> contains p s"

definition CLEAN_HEADER :: str where
  "CLEAN_HEADER = ''Requested_throughput,Achieved_throughput_sent,Achieved_throughput_received,'' @
     ''Sent_size_received,Min,Avg,Max,Std-dev,Median'' @ nl"

record script =
  files :: "str \<Rightarrow> str list option"
  printed :: "str list"

text \<open>The loop over the lines of the input, with the variable \<^verbatim>\<open>count\<close>.\<close>

fun clean_lines :: "nat \<Rightarrow> str list \<Rightarrow> str list" where
  "clean_lines count [] = []"
| "clean_lines count (line # r) =
     (if count < 10 then clean_lines (count + 1) r
      else if contains ''[unmarshall]'' line \<or> contains ''test'' line \<or> contains ''Test'' line
      then clean_lines count r
      else line # clean_lines count r)"

definition script_main :: "str list \<Rightarrow> (script, unit) io" where
  "script_main argv w =
     (case argv of
        [_, name] \<Rightarrow>
          (case files w name of
             None \<Rightarrow> (Raise OSError, w)
           | Some r \<Rightarrow> (Ret (), w\<lparr>files := (files w)(name @ ''-clean'' \<mapsto>
                                    CLEAN_HEADER # clean_lines 1 r)\<rparr>))
      | _ \<Rightarrow> (Raise (SystemExit 0), w\<lparr>printed := printed w @ [''Specify file'']\<rparr>))"

section \<open>What it keeps\<close>

text \<open>\<open>infix_of p s\<close>: the text \<open>p\<close> occurs in \<open>s\<close>.\<close>

definition infix_of :: "str \<Rightarrow> str \<Rightarrow> bool" where
  "infix_of p s \<longleftrightarrow> (\<exists>a b. s = a @ p @ b)"

lemma starts_with_iff: "starts_with p s \<longleftrightarrow> (\<exists>b. s = p @ b)"
  by (metis append_eq_conv_conj append_take_drop_id starts_with_def)

lemma contains_iff: "contains p s \<longleftrightarrow> infix_of p s"
proof (induction s)
  case Nil
  then show ?case by (simp add: infix_of_def)
next
  case (Cons c s)
  have "infix_of p (c # s) \<longleftrightarrow> (\<exists>b. c # s = p @ b) \<or> infix_of p s"
    by (auto simp: infix_of_def Cons_eq_append_conv)
  with Cons show ?case by (simp add: starts_with_iff)
qed

lemma clean_lines_filter:
  "clean_lines k ls = filter (\<lambda>l. \<not> infix_of ''[unmarshall]'' l \<and> \<not> infix_of ''test'' l \<and> \<not> infix_of ''Test'' l)
     (drop (10 - k) ls)"
proof (induction k ls rule: clean_lines.induct)
  case (2 k l r)
  have "10 - k = Suc (10 - (k + 1))" if "k < 10"
    using that by simp
  with 2 show ?case
    by (cases "k < 10") (simp_all add: contains_iff)
qed simp

end
