(* ===== verification/Controller_Properties.thy ===== *)
theory Controller_Properties
  imports Controller_Samples Ununmarshall
begin

text \<open>
  What is proved of the controller, \<^verbatim>\<open>ipbench.py\<close>: reading results, the exchange with one
  daemon, the configuration, and the run of \<^verbatim>\<open>main\<close> with its closing of the connections. The
  last section is the script \<^verbatim>\<open>ununmarshall.py\<close>.
\<close>

section \<open>Reading a result\<close>



text \<open>C29: When the daemon closes the connection before all announced bytes have come, the receive loop
  never ends: each of the empty reads at the end of the stream leaves its state as it is, so after
  any number of them it reads again.\<close>
theorem early_close_loops:
  assumes "ascii st" and "newline \<notin> set st"
    and "parse_return_code_text st = Inr \<lparr>rc_code = (if valid then 220 else 221), rc_str = t, rc_msg = m\<rparr>"
    and "recv 128 s = (Ret (st @ nl), s1)"
    and "recv 128 s1 = (Ret (content_header n @ nl @ d), s2)"
    and "\<not> closed s2" and "inbox s2 = replicate k []" and "length d < n"
  shows "read_result s = (if lost s2 then Raise ConnectionResetError else Wait, s2\<lparr>inbox := []\<rparr>)"
  using assms status_line_ok [OF assms(1-3), of "[]"] content_line_ok [of n d]
    recv_rest_eof [of s2 k d "int n"]
  by (simp add: read_result_def bind_eval)

theorem early_close_loops_witness:
  "read_result (peer_sending [''220 VALID DATA'' @ nl, ''Content-length: 6'' @ nl @ ''12'', [], [], []]) =
    (Wait, peer_sending [])"
proof -
  let ?s1 = "peer_sending [''Content-length: 6'' @ nl @ ''12'', [], [], []]"
  have "parse_return_code_text ''220 VALID DATA'' =
      Inr \<lparr>rc_code = 220, rc_str = ''VALID DATA'', rc_msg = []\<rparr>"
    "recv 128 (peer_sending [''220 VALID DATA'' @ nl, ''Content-length: 6'' @ nl @ ''12'', [], [], []]) =
       (Ret (''220 VALID DATA'' @ nl), ?s1)"
    "recv 128 ?s1 = (Ret (''Content-length: 6'' @ nl @ ''12''), peer_sending [[], [], []])"
    "ascii ''220 VALID DATA''" "newline \<notin> set ''220 VALID DATA''"
    "content_header 6 = ''Content-length: 6''"
    by code_simp+
  then show ?thesis
    using early_close_loops [of "''220 VALID DATA''" True "''VALID DATA''" "[]"
        "peer_sending [''220 VALID DATA'' @ nl, ''Content-length: 6'' @ nl @ ''12'', [], [], []]" ?s1 6 "''12''"
        "peer_sending [[], [], []]" 3]
    by (simp add: numeral_3_eq_3 peer_sending_def)
qed

text \<open>A second header line that is not a content length (or that the first two reads have cut
  short before its first digit) raises an \<^verbatim>\<open>AttributeError\<close>: the check that was to report it as an
  \<^verbatim>\<open>IpBenchError\<close> is never reached, so \<^verbatim>\<open>main\<close> does not catch it.\<close>
lemma bad_content_length:
  assumes "recv 128 s = (Ret b1, s1)" and "status_line b1 s1 = (Ret (valid, b), s1)"
    and "recv 128 s1 = (Ret b2, s2)"
    and "match_content_length (str_slice (ascii_ignore (b @ b2)) 0
           (str_find (ascii_ignore (b @ b2)) newline)) = None"
  shows "read_result s = (Raise AttributeError, s2)"
  using assms by (simp add: read_result_def bind_eval content_line_def Let_def)

text \<open>A status other than 220 and 221 is reported with its message as an \<^verbatim>\<open>IpBenchError\<close>.\<close>
lemma failed_test_reported:
  assumes "ascii st" and "newline \<notin> set st" and "parse_return_code_text st = Inr c"
    and "rc_code c \<noteq> 220" and "rc_code c \<noteq> 221" and "recv 128 s = (Ret (st @ nl @ rest), s1)"
  shows "read_result s = (Raise (IpBenchError (''Test failed  : '' @ rc_msg c)), s1)"
  using assms status_line_fails [of st c rest s1] by (simp add: read_result_def bind_eval)

text \<open>C13: \<^verbatim>\<open>connect\<close> without \<^verbatim>\<open>--reset\<close>, against a peer that sends three replies. It dials the object's host
  and port and checks the greeting: on any code but 100 it raises and sends nothing. On 200 for \<^verbatim>\<open>HELLO\<close>
  and 200 for \<^verbatim>\<open>LOAD\<close> it returns, having sent exactly these two commands; on any other code for \<^verbatim>\<open>HELLO\<close>
  it raises the error with the code and text of the reply and sends no \<^verbatim>\<open>LOAD\<close>; on any other code for
  \<^verbatim>\<open>LOAD\<close> it raises, with the message of the reply if that is 421.\<close>
theorem connect_exchange:
  assumes "connects w r s" and "inbox s = b0 # b1 # b2 # rest"
    and "reads_as b0 c0" and "reads_as b1 c1" and "reads_as b2 c2"
  shows "(rc_code c0 \<noteq> 100 \<longrightarrow>
      connect r w = (Raise (IpBenchError ''Invalid Version Flag''), dialled_to w r (s\<lparr>inbox := b1 # b2 # rest\<rparr>))) \<and>
    (rc_code c0 = 100 \<and> rc_code c1 = 200 \<and> rc_code c2 = 200 \<longrightarrow>
      connect r w = (Ret (), dialled_to w r (s\<lparr>
        sent := sent s @ [''HELLO'' @ nl, load_message (test_name (objs w ! r)) @ nl], inbox := rest\<rparr>))) \<and>
    (rc_code c0 = 100 \<and> rc_code c1 \<noteq> 200 \<longrightarrow>
      connect r w = (Raise (IpBenchError (hello_failed (hostname (objs w ! r)) c1)), dialled_to w r (s\<lparr>
        sent := sent s @ [''HELLO'' @ nl], inbox := b2 # rest\<rparr>))) \<and>
    (rc_code c0 = 100 \<and> rc_code c1 = 200 \<and> rc_code c2 \<noteq> 200 \<longrightarrow>
      connect r w = (Raise (IpBenchError (load_failed (hostname (objs w ! r)) c2)), dialled_to w r (s\<lparr>
        sent := sent s @ [''HELLO'' @ nl, load_message (test_name (objs w ! r)) @ nl], inbox := rest\<rparr>)))"
  using assms connect_greeting_fails [of w r s] connect_ok [of w r s] connect_hello_fails [of w r s]
    connect_load_fails [of w r s]
  by metis

theorem connect_exchange_witness:
  "let s = peer_sending [reply 100 [], reply 421 [''Already Running''], reply 500 []];
       w = sample_controller [Peer s] in
   connect 0 w = (Raise (IpBenchError ''HELLO to node1 failed (421 SERVICE NOT AVAILABLE)''),
     dialled_to w 0 (s\<lparr>sent := [''HELLO'' @ nl], inbox := [reply 500 []]\<rparr>))"
proof -
  let ?s = "peer_sending [reply 100 [], reply 421 [''Already Running''], reply 500 []]"
  let ?c = "\<lparr>rc_code = 421, rc_str = ''SERVICE NOT AVAILABLE'', rc_msg = ''Already Running''\<rparr>"
  have "hello_failed ''node1'' ?c = ''HELLO to node1 failed (421 SERVICE NOT AVAILABLE)''"
    by code_simp
  then show ?thesis
    using connect_exchange [OF sample_connects _ daemon_replies(1,4,5),
        of "[reply 100 [], reply 421 [''Already Running''], reply 500 []]" "[]" "[]"]
    by (simp add: Let_def)
qed

text \<open>C21: The clients of a configuration file with one \<^verbatim>\<open>test\<close> element, in its order: each has the
  host name of its element, and its port, test port, arguments and target are those of the element
  where it has them. Otherwise the port is the command line's, but the others are those of the
  \<^verbatim>\<open>test\<close> element alone: where that does not have them either, what the command line gives with
  \<^verbatim>\<open>--test-port\<close>, \<^verbatim>\<open>--test-args\<close> and \<^verbatim>\<open>--test-target\<close> is discarded, for 0, the empty text and the text \<^verbatim>\<open>None\<close>,
  although the documentation says that it is used.\<close>
theorem file_clients:
  assumes "d_tests d = [t]" and "read_config d opts w = (Ret (opts', cs, ts), w')"
  shows "list_all2 (\<lambda>e c.
      attr e ''hostname'' = Some (c_hostname c) \<and>
      int_attr_is e ''port'' (o_port opts) (c_port c) \<and>
      (\<exists>n. int_attr_is t ''port'' 0 n \<and> int_attr_is e ''test_port'' n (c_test_port c)) \<and>
      c_test_args c = attr_or e ''test_args'' (attr_or t ''args'' []) \<and>
      c_test_target c = Some (attr_or e ''test_target'' (py_str (attr t ''target''))))
    (d_clients d) cs"
proof -
  obtain o1 where "options_from t opts o1" "list_all2 (client_from o1) (d_clients d) cs"
    using read_config_one [OF assms] by blast
  then show ?thesis
    by (auto simp: options_from_def client_from_def elim!: list_all2_mono)
qed

theorem file_clients_witness:
  "\<exists>opts' cs ts. read_config sample_doc default_options (sample_controller []) = (Ret (opts', cs, ts), sample_controller []) \<and>
    list_all2 (\<lambda>e c.
      attr e ''hostname'' = Some (c_hostname c) \<and>
      int_attr_is e ''port'' (o_port default_options) (c_port c) \<and>
      (\<exists>n. int_attr_is (hd (d_tests sample_doc)) ''port'' 0 n \<and> int_attr_is e ''test_port'' n (c_test_port c)) \<and>
      c_test_args c = attr_or e ''test_args'' (attr_or (hd (d_tests sample_doc)) ''args'' []) \<and>
      c_test_target c = Some (attr_or e ''test_target'' (py_str (attr (hd (d_tests sample_doc)) ''target''))))
    (d_clients sample_doc) cs"
  using file_clients [OF _ sample_config] sample_config
  by (intro exI conjI) (assumption, simp add: sample_doc_def)

text \<open>C36: A configuration file never leaves a test target, a test name or the controller arguments
  unset: what it does not give becomes the text \<^verbatim>\<open>None\<close>. So the check of \<^verbatim>\<open>setup\<close> for a missing target
  and the check of \<^verbatim>\<open>main\<close> for a missing test cannot fail for its clients; the text is sent instead.\<close>
theorem file_leaves_nothing_unset:
  assumes "d_tests d = [t]" and "read_config d opts w = (Ret (opts', cs, ts), w')"
    and "attr t ''name'' = None" and "attr t ''target'' = None"
    and "\<forall>e \<in> set (d_clients d). attr e ''test_target'' = None"
  shows "o_test opts' = Some ''None'' \<and> (\<forall>c \<in> set cs. c_test_target c = Some ''None'')"
proof -
  obtain o1 where o1: "options_from t opts o1" "list_all2 (client_from o1) (d_clients d) cs"
      "o_test opts' = o_test o1"
    using read_config_one [OF assms(1,2)] by blast
  have "c_test_target c = Some ''None''" if "c \<in> set cs" for c
  proof -
    from that o1(2) obtain e where "e \<in> set (d_clients d)" "client_from o1 e c"
      by (metis in_set_conv_nth list_all2_conv_all_nth)
    with assms(4,5) o1(1) show ?thesis
      by (auto simp: client_from_def options_from_def attr_or_def)
  qed
  with o1 assms(3) show ?thesis
    by (auto simp: options_from_def)
qed

text \<open>A file with a nameless test and one client.\<close>

definition bare_doc :: doc where
  "bare_doc = \<lparr>d_tests = [[]], d_clients = [[(''hostname'', ''node1'')]], d_target_tests = [],
     d_targets = (\<lambda>_. [])\<rparr>"

theorem file_leaves_nothing_unset_witness:
  "\<exists>opts' cs w'. read_config bare_doc default_options (sample_controller []) = (Ret (opts', cs, []), w') \<and>
    length cs = 1 \<and> o_test opts' = Some ''None'' \<and> (\<forall>c \<in> set cs. c_test_target c = Some ''None'')"
proof -
  obtain opts' cs w' where
    r: "read_config bare_doc default_options (sample_controller []) = (Ret (opts', cs, []), w')" "length cs = 1"
    by (simp add: read_config_def config_eval bare_doc_def default_options_def)
  moreover have "d_tests bare_doc = [[]]" "attr [] ''name'' = None" "attr [] ''target'' = None"
    "\<forall>e \<in> set (d_clients bare_doc). attr e ''test_target'' = None"
    by (simp_all add: bare_doc_def attr_def)
  ultimately show ?thesis
    using file_leaves_nothing_unset [of bare_doc "[]" default_options] by blast
qed

text \<open>With several \<^verbatim>\<open>target_test\<close> elements only the controller arguments of the last one remain,
  and \<^verbatim>\<open>main\<close> hands them to the plugin of every target.\<close>
lemma last_target_test_wins:
  assumes "config_target_tests d ts opts w = (Ret (opts', ds), w')" and "ts \<noteq> []"
  shows "o_target_controller_args opts' = Some (py_str (attr (last ts) ''controller_args''))"
  using config_target_tests_last [OF assms] by simp

text \<open>C22: When the configuration succeeds there is at least one client and a test is named, and no
  client or target has a connection object yet.\<close>
theorem configuration_is_ready:
  assumes "configure config opts w = (Ret (opts', cs, ts), w')"
  shows "cs \<noteq> [] \<and> o_test opts' \<noteq> None \<and> (\<forall>c \<in> set cs. c_testobj c = None) \<and>
    (\<forall>t \<in> set ts. g_testobj t = None)"
  using configure_fresh [OF assms] by (auto simp: list_all_iff fresh_client_def fresh_target_def)

theorem configuration_is_ready_witness:
  "\<exists>opts' cs ts w'. configure (Some sample_doc) default_options (sample_controller []) = (Ret (opts', cs, ts), w') \<and>
    cs \<noteq> [] \<and> o_test opts' \<noteq> None \<and> (\<forall>c \<in> set cs. c_testobj c = None) \<and> (\<forall>t \<in> set ts. g_testobj t = None)"
proof -
  have "cli_clients file_options w = (Ret [], w)" "cli_target file_options w = (Ret [], w)"
    "o_test file_options \<noteq> None" "file_clients_list \<noteq> []" for w :: "unit controller"
    by (simp_all add: cli_clients_def cli_target_def file_options_def default_options_def file_clients_list_def)
  then obtain opts' cs ts w' where c:
    "configure (Some sample_doc) default_options (sample_controller []) = (Ret (opts', cs, ts), w')"
    by (auto simp: configure_def bind_eval sample_config)
  show ?thesis
    using configuration_is_ready [OF c] c by blast
qed

section \<open>The run\<close>

text \<open>C23: The command line is checked before anything is dialled. It is complete when it names a test,
  at least one client, and a host for a target test if there is one; then each named client becomes
  one entry with the common options, in their order, and the target test one more. Otherwise \<^verbatim>\<open>main\<close>
  prints one line and exits with status 1, and has done nothing else.\<close>
theorem command_line_checked:
  "(cli_complete opts \<longrightarrow> configure None opts w =
      (Ret (opts, map (cli_entry opts) (o_clients opts), cli_target_entries opts), w)) \<and>
   (\<not> cli_complete opts \<longrightarrow> (\<exists>msg. main None opts polls w =
      (Raise (SystemExit 1), w\<lparr>stdout := stdout w @ [msg]\<rparr>)))"
proof (cases "cli_complete opts")
  case True
  then show ?thesis
    by (simp add: cli_complete_def configure_cli)
next
  case False
  then obtain msg where "configure None opts w = (Raise (SystemExit 1), w\<lparr>stdout := stdout w @ [msg]\<rparr>)"
    using configure_cli_refused by blast
  then have "main None opts polls w = (Raise (SystemExit 1), w\<lparr>stdout := stdout w @ [msg]\<rparr>)"
    by (simp add: main_def bind_eval)
  with False show ?thesis
    by blast
qed

theorem command_line_checked_witness:
  "(\<exists>msg. main None default_options [] (sample_controller []) =
     (Raise (SystemExit 1), (sample_controller [])\<lparr>stdout := [msg]\<rparr>)) \<and>
   configure None (default_options\<lparr>o_test := Some ''latency'', o_clients := [''node1'']\<rparr>) (sample_controller []) =
     (Ret (default_options\<lparr>o_test := Some ''latency'', o_clients := [''node1'']\<rparr>,
       [\<lparr>c_hostname = ''node1'', c_port = 8036, c_test_port = 0, c_test_args = [], c_test_target = None,
         c_testobj = None\<rparr>], []), sample_controller [])"
  using command_line_checked [of default_options "sample_controller []" "[]"]
    command_line_checked [of "default_options\<lparr>o_test := Some ''latency'', o_clients := [''node1'']\<rparr>" "sample_controller []" "[]"]
  by (simp add: cli_complete_def target_named_def cli_entry_def cli_target_entries_def default_options_def)

text \<open>C19: When the receive rounds come to their end, every client that was waited for has been
  unmarshalled exactly once, in the order in which the rounds found them readable, and nothing
  else has happened to the world.\<close>
theorem rounds_read_each_once:
  assumes "poll_loop polls wait_to_read wait_for_error w = (Ret (), w')"
  shows "\<exists>order. mset order = mset wait_to_read \<and> for_each order tester_unmarshall w = (Ret (), w')"
  using assms by (rule poll_order)

theorem rounds_read_each_once_witness:
  "\<exists>order w'. mset order = mset [0] \<and> for_each order tester_unmarshall
      (wired_controller (peer_sending [''220 VALID DATA'' @ nl, ''Content-length: 5'' @ nl, ''12,34''])) =
      (Ret (), w')"
proof -
  let ?w = "wired_controller (peer_sending [''220 VALID DATA'' @ nl, ''Content-length: 5'' @ nl, ''12,34''])"
  obtain w' where w': "tester_unmarshall 0 ?w = (Ret (), w')"
    using sample_unmarshall [OF sample_result] by blast
  have "selectable ?w 0"
    by (simp add: selectable_def peer_sending_def)
  then have "poll_loop [([], []), ([0], [])] [0] [] ?w = (Ret (), w')"
    using w' by (simp add: poll_round bind_eval select_ok)
  then show ?thesis
    using rounds_read_each_once by blast
qed

text \<open>C20: When every client and target has its connection, the end of \<^verbatim>\<open>main\<close> sends \<^verbatim>\<open>QUIT\<close> on each of
  them and closes it, and touches no other socket and nothing else.\<close>
theorem every_connection_closed:
  assumes "map c_testobj (clients w) @ map g_testobj (targets w) = map Some rs"
    and "list_all2 (wired w) rs ks" and "distinct ks" and "\<forall>k \<in> set ks. usable (socks w ! k)"
  shows "\<exists>w'. close_all w = (Ret (), w') \<and>
    (\<forall>k. socks w' ! k = (if k \<in> set ks
        then (socks w ! k)\<lparr>sent := sent (socks w ! k) @ [''QUIT'' @ nl], closed := True\<rparr>
        else socks w ! k)) \<and> w' = w\<lparr>socks := socks w'\<rparr>"
  unfolding close_all_eq assms(1) using assms(2-4) by (rule close_each)

theorem every_connection_closed_witness:
  "\<exists>w'. close_all ((wired_controller (peer_sending []))\<lparr>clients :=
        [(hd file_clients_list)\<lparr>c_testobj := Some 0\<rparr>]\<rparr>) = (Ret (), w') \<and>
    socks w' ! 0 = (peer_sending [])\<lparr>sent := [''QUIT'' @ nl], closed := True\<rparr>"
proof -
  let ?w = "(wired_controller (peer_sending []))\<lparr>clients := [(hd file_clients_list)\<lparr>c_testobj := Some 0\<rparr>]\<rparr>"
  have "map c_testobj (clients ?w) @ map g_testobj (targets ?w) = map Some [0]"
    by (simp add: wired_controller_def)
  moreover have "list_all2 (wired ?w) [0] [0]" "distinct [0]" "\<forall>k \<in> set [0]. usable (socks ?w ! k)"
    by (simp_all add: wired_def)
  ultimately show ?thesis
    using every_connection_closed [of ?w "[0]" "[0]"] by fastforce
qed

text \<open>C30: If setting up a target fails, no connection is closed at all: the error is printed, and then
  the closing loop meets a client that has no connection object yet and ends \<^verbatim>\<open>main\<close> with a
  \<^verbatim>\<open>KeyError\<close>. The targets that are already set up get no \<^verbatim>\<open>QUIT\<close> and stay marked as running.\<close>
theorem target_failure_closes_nothing:
  assumes "configure config opts w = (Ret (opts', cs, ts), w1)"
    and "on_client_mod (load_plugin (py_str (o_test opts'))) (w1\<lparr>clients := cs, targets := ts\<rparr>) = (Ret (), w2)"
    and "on_client_mod (setup_controller_client (int (length cs)) (o_controller_args opts')) w2 = (Ret (), w3)"
    and "for_each [0..<length (targets w3)] (setup_target_entry opts') w3 = (Raise (IpBenchError m), w4)"
  shows "main config opts polls w =
    (Raise KeyError, w4\<lparr>stdout := stdout w4 @ [''Ipbench failed : '' @ m]\<rparr>)"
proof -
  obtain c cs' where cs: "cs = c # cs'" "c_testobj c = None"
    using configure_fresh [OF assms(1)] by (cases cs) (auto simp: fresh_client_def)
  have "clients w2 = cs"
    using assms(2) by (auto simp: on_client_mod_def zoom_def split: prod.splits)
  moreover have "clients w3 = clients w2"
    using assms(3) by (auto simp: on_client_mod_def zoom_def split: prod.splits)
  moreover have "clients w4 = clients w3"
  proof -
    have "step_inv (\<lambda>w w'. clients w' = clients w) (for_each [0..<length (targets w3)] (setup_target_entry opts'))"
      by (intro keep_clients.each_R keep_clients.setup_target_entry_R)
    then have "clients (snd (for_each [0..<length (targets w3)] (setup_target_entry opts') w3)) = clients w3"
      unfolding step_inv_def by (rule spec)
    then show ?thesis
      unfolding assms(4) by simp
  qed
  ultimately have "clients w4 = c # cs'"
    using cs(1) by simp
  then have "clients (w4\<lparr>stdout := stdout w4 @ [''Ipbench failed : '' @ m]\<rparr>) = c # cs'"
    by simp
  then have "close_all (w4\<lparr>stdout := stdout w4 @ [''Ipbench failed : '' @ m]\<rparr>) =
      (Raise KeyError, w4\<lparr>stdout := stdout w4 @ [''Ipbench failed : '' @ m]\<rparr>)"
    using cs(2) by (rule close_all_missing)
  moreover have "run_tests opts' polls w3 = (Raise (IpBenchError m), w4)"
    unfolding run_tests_def by (simp add: bind_eval assms(4))
  ultimately have "bind (try_else (run_tests opts' polls) except_IpBenchError ret) (\<lambda>_. close_all) w3 =
      (Raise KeyError, w4\<lparr>stdout := stdout w4 @ [''Ipbench failed : '' @ m]\<rparr>)"
    by (simp add: bind_eval try_else_eval print_line_def)
  then show ?thesis
    unfolding main_def by (simp add: bind_eval assms(1-3))
qed

theorem target_failure_closes_nothing_witness:
  "\<exists>v. main None busy_options [] busy_world = (Raise KeyError, v) \<and>
    stdout v = [''Ipbench failed : HELLO to box failed (421 SERVICE NOT AVAILABLE)''] \<and>
    sent (last (socks v)) = [''HELLO'' @ nl] \<and> \<not> closed (last (socks v))"
proof -
  let ?w3 = "busy_world\<lparr>client_mod := loaded_module\<lparr>nclients := 1, client_data := [None]\<rparr>\<rparr>"
  obtain v where v: "setup_target_entry busy_options 0 ?w3 =
      (Raise (IpBenchError ''HELLO to box failed (421 SERVICE NOT AVAILABLE)''), v)"
      "stdout v = []" "sent (last (socks v)) = [''HELLO'' @ nl]" "\<not> closed (last (socks v))"
    using busy_entry [of ?w3] by (auto simp: busy_world_def)
  have "for_each [0..<length (targets ?w3)] (setup_target_entry busy_options) ?w3 =
      (Raise (IpBenchError ''HELLO to box failed (421 SERVICE NOT AVAILABLE)''), v)"
    using v(1) by (simp add: busy_world_def bind_eval)
  moreover have "on_client_mod (load_plugin (py_str (o_test busy_options)))
      (busy_world\<lparr>clients := [busy_client], targets := [busy_target]\<rparr>) = (Ret (), busy_world)"
    by (simp add: on_client_mod_def zoom_def busy_world_def busy_options_def busy_modules)
  moreover have "on_client_mod (setup_controller_client (int (length [busy_client])) (o_controller_args busy_options))
      busy_world = (Ret (), ?w3)"
    by (simp add: on_client_mod_def zoom_def busy_world_def busy_modules)
  ultimately show ?thesis
    using target_failure_closes_nothing [OF busy_configure] v(2-4) by fastforce
qed

text \<open>C31: The results of two clients are both kept, each at its own number, but all targets share one
  place: after the results of two targets only those of the second remain, and every \<^verbatim>\<open>output\<close> of
  \<^verbatim>\<open>main\<close> for a target shows them.\<close>
theorem results_kept:
  assumes "ipbench_plugin w = Some p"
    and "i \<noteq> j" and "i < length (client_data w)" and "j < length (client_data w)"
    and "pl_unmarshall p d (plugin_state w) = (r, x, s)" and "r \<noteq> - 1"
    and "pl_unmarshall p d' s = (r', x', s')" and "r' \<noteq> - 1"
  shows "(\<exists>w'. bind (unmarshall_client i d v) (\<lambda>_. unmarshall_client j d' v') w = (Ret r', w') \<and>
      map_option cd_data (client_data w' ! i) = Some x \<and> map_option cd_data (client_data w' ! j) = Some x') \<and>
    (\<exists>w' e. bind (unmarshall_target d v) (\<lambda>_. unmarshall_target d' v') w = (Ret r', w') \<and>
      target_data w' = Some e \<and> cd_data e = x' \<and> cd_valid e = v' \<and>
      snd (output_target w') = w'\<lparr>plugin_state := snd (pl_output p [Some e] (plugin_state w'))\<rparr>)"
  using assms
  by (auto simp: bind_eval unmarshall_client_def unmarshall_target_def output_target_def with_plugin_def
      stale_error_def Let_def split: prod.splits)

theorem results_kept_witness:
  "let w = loaded_module\<lparr>client_data := [None, None]\<rparr> in
   (\<exists>w'. bind (unmarshall_client 0 ''a'' True) (\<lambda>_. unmarshall_client 1 ''b'' True) w = (Ret 0, w') \<and>
      map_option cd_data (client_data w' ! 0) = Some (Some ''a'') \<and>
      map_option cd_data (client_data w' ! 1) = Some (Some ''b'')) \<and>
   (\<exists>w' e. bind (unmarshall_target ''a'' True) (\<lambda>_. unmarshall_target ''b'' True) w = (Ret 0, w') \<and>
      target_data w' = Some e \<and> cd_data e = Some ''b'' \<and> cd_valid e = True \<and>
      snd (output_target w') = w'\<lparr>plugin_state := snd (pl_output sample_plugin [Some e] (plugin_state w'))\<rparr>)"
  unfolding Let_def
  by (rule results_kept [where s = "()" and s' = "()" and r = 0])
    (simp_all add: sample_module_def sample_plugin_def)

section \<open>The script\<close>

text \<open>C40: \<^verbatim>\<open>ununmarshall.py\<close> writes its header and then, in their order, exactly the lines after the
  ninth that contain none of the three words, to a file of its own; every other file is untouched.\<close>
theorem script_cleans:
  assumes "files w name = Some ls"
  shows "script_main [prog, name] w = (Ret (), w\<lparr>files := (files w)(name @ ''-clean'' \<mapsto>
    CLEAN_HEADER # filter (\<lambda>l. \<not> infix_of ''[unmarshall]'' l \<and> \<not> infix_of ''test'' l \<and> \<not> infix_of ''Test'' l)
      (drop 9 ls))\<rparr>)"
  using assms by (simp add: script_main_def clean_lines_filter)

text \<open>A log of eleven lines.\<close>

definition sample_log :: "str list" where
  "sample_log = replicate 9 (''debug'' @ nl) @ [''[unmarshall] got 3 new bytes'' @ nl, ''1,2,3'' @ nl]"

theorem script_cleans_witness:
  "script_main [''ununmarshall.py'', ''log''] \<lparr>files = [''log'' \<mapsto> sample_log], printed = []\<rparr> =
    (Ret (), \<lparr>files = [''log'' \<mapsto> sample_log, ''log-clean'' \<mapsto> [CLEAN_HEADER, ''1,2,3'' @ nl]], printed = []\<rparr>)"
proof -
  have "filter (\<lambda>l. \<not> infix_of ''[unmarshall]'' l \<and> \<not> infix_of ''test'' l \<and> \<not> infix_of ''Test'' l)
      (drop 9 sample_log) = [''1,2,3'' @ nl]"
    unfolding contains_iff [symmetric] by code_simp
  then show ?thesis
    using script_cleans [of "\<lparr>files = [''log'' \<mapsto> sample_log], printed = []\<rparr>" "''log''" sample_log "''ununmarshall.py''"]
    by simp
qed

end
