(* ===== verification/Server.thy ===== *)
theory Server
  imports Connections Daemon_Raises
begin

text \<open>
  The server of \<^verbatim>\<open>ipbenchd.py\<close>, which forks a handler process for every connection: its
  options, connections that follow one another, and handlers that interleave on the shared
  memory. In the second half a process is a phase of its \<^verbatim>\<open>listen\<close> and the steps are its
  accesses to the memory, made by the operations of \<open>Test_Status\<close>: \<^verbatim>\<open>HELLO\<close> reads the status
  in one step and marks it in a later one.
\<close>

section \<open>Options\<close>

record daemon_options =
  d_ip :: str
  d_port :: int
  d_target :: bool

definition default_daemon_options :: daemon_options where
  "default_daemon_options = \<lparr>d_ip = [], d_port = 8036, d_target = False\<rparr>"

definition listen_address :: "daemon_options \<Rightarrow> str \<times> int" where
  \<comment> \<open>the address \<^verbatim>\<open>main\<close> binds the server to\<close>
  "listen_address opts =
     (let opts = (if d_target opts then opts\<lparr>d_port := 8037\<rparr> else opts) in (d_ip opts, d_port opts))"

section \<open>The process of a connection\<close>

text \<open>
  \<^verbatim>\<open>IpbenchClientServer\<close> overrides the method that \<^verbatim>\<open>socketserver\<close> calls in its \<^verbatim>\<open>except Exception\<close>
  around a handler: a bare \<^verbatim>\<open>raise\<close> of the exception that is being handled, and nothing after it.
\<close>

definition handle_error :: "exn \<Rightarrow> ('w, unit) io" where
  "handle_error e = raise e"

definition finish_request :: "'s shunt \<Rightarrow> 's shunt \<Rightarrow> 's daemon \<Rightarrow> (unit res \<times> 's daemon) option" where
  "finish_request C T w = map_option (\<lambda>(r, w'). case r of
       Raise e \<Rightarrow> if is_Exception e then handle_error e w' else (r, w') | _ \<Rightarrow> (r, w')) (handle C T w)"

text \<open>
  Whatever the plugin does it is never called: the handler lets no \<^verbatim>\<open>Exception\<close> out. And if it were,
  the exception would leave the process as it came, where its docstring has it handled gracefully.
\<close>

lemma handle_error_not_called:
  assumes "handle ipbench_client ipbench_target w = Some (Raise e, w')"
  shows "\<not> is_Exception e"
  using handle_raises [OF assms] by auto

lemma finish_request_is_handle: "finish_request C T = handle C T"
proof (rule ext)
  fix w
  show "finish_request C T w = handle C T w"
    by (cases "handle C T w") (auto simp: finish_request_def handle_error_def split: res.splits)
qed

section \<open>Connections that follow one another\<close>

text \<open>Each connection is given by the world of its process, less the shared memory.\<close>

fun serve :: "'s shunt \<Rightarrow> 's shunt \<Rightarrow> 's daemon list \<Rightarrow> shm \<Rightarrow> shm" where
  "serve C T [] m = m"
| "serve C T (w # ws) m =
     (case handle C T (w\<lparr>test_running := m\<rparr>) of
        None \<Rightarrow> m
      | Some (r, w') \<Rightarrow> serve C T ws (test_running w'))"

definition pids_in :: "nat set \<Rightarrow> 's daemon \<Rightarrow> bool" where
  "pids_in Q w \<longleftrightarrow> (\<exists>q \<in> Q. q < 10 ^ 19 \<and> own_pid w = int q) \<and>
     (\<forall>c. InChild c \<in> set (forks w) \<longrightarrow> (\<exists>q \<in> Q. q < 10 ^ 19 \<and> c = int q))"

lemma pids_cell_inv:
  "pids_in Q w \<Longrightarrow> shm_holds m p \<Longrightarrow> p = 0 \<or> p \<in> Q \<Longrightarrow> cell_inv Q (w\<lparr>test_running := m\<rparr>)"
  by (auto simp: pids_in_def cell_inv_def)

lemma serve_holds:
  "shm_holds m p \<Longrightarrow> p = 0 \<or> p \<in> Q \<Longrightarrow> \<forall>w \<in> set ws. pids_in Q w \<Longrightarrow>
     \<exists>p'. shm_holds (serve C T ws m) p' \<and> (p' = 0 \<or> p' \<in> Q)"
proof (induction ws arbitrary: m p)
  case Nil
  then show ?case by auto
next
  case (Cons w ws)
  show ?case
  proof (cases "handle C T (w\<lparr>test_running := m\<rparr>)")
    case None
    with Cons.prems show ?thesis by auto
  next
    case (Some x)
    obtain r w' where x: "x = (r, w')" by (cases x)
    have "cell_inv Q (w\<lparr>test_running := m\<rparr>)"
      using Cons.prems by (auto intro: pids_cell_inv)
    then have "cell_inv Q w'"
      using cell_daemon.handle_R [of C T "w\<lparr>test_running := m\<rparr>" r w' Q] Some x by (simp add: keeps_cell_def)
    then obtain p' where "shm_holds (test_running w') p'" "p' = 0 \<or> p' \<in> Q"
      by (auto simp: cell_inv_def)
    with Cons.IH [of "test_running w'" p'] Cons.prems Some x show ?thesis
      by simp
  qed
qed

section \<open>Handlers that interleave\<close>

datatype phase = Listening | Greeted | Testing | Finished

text \<open>A process only moves forward through its phases.\<close>

fun phase_rank :: "phase \<Rightarrow> nat" where
  "phase_rank Listening = 0"
| "phase_rank Greeted = 1"
| "phase_rank Testing = 2"
| "phase_rank Finished = 3"

instantiation phase :: linorder
begin

definition less_eq_phase :: "phase \<Rightarrow> phase \<Rightarrow> bool" where
  "less_eq_phase a b \<longleftrightarrow> phase_rank a \<le> phase_rank b"

definition less_phase :: "phase \<Rightarrow> phase \<Rightarrow> bool" where
  "less_phase a b \<longleftrightarrow> phase_rank a < phase_rank b"

instance
proof
  fix a b :: phase
  show "a \<le> b \<Longrightarrow> b \<le> a \<Longrightarrow> a = b"
    by (cases a; cases b) (simp_all add: less_eq_phase_def)
qed (auto simp: less_eq_phase_def less_phase_def)

end

record server =
  shared :: shm
  phase :: "nat \<Rightarrow> phase"

definition move :: "server \<Rightarrow> nat \<Rightarrow> phase \<Rightarrow> shm \<Rightarrow> server" where
  "move s q ph m = s\<lparr>shared := m, phase := (phase s)(q := ph)\<rparr>"

definition start_server :: server where
  "start_server = \<lparr>shared = snd TestStatus, phase = (\<lambda>_. Listening)\<rparr>"

text \<open>
  The accesses to the memory that a process makes, one step each: \<^verbatim>\<open>listen\<close> checks the status and marks
  it, \<^verbatim>\<open>marshall\<close>, \<^verbatim>\<open>error\<close> and \<^verbatim>\<open>abort\<close> clear it. A process that is killed, or that leaves by an
  exception, ends without one. The last section shows that these are the accesses of the handlers.
\<close>

datatype event = Check bool | Mark | Clear | Leave

inductive act :: "nat \<Rightarrow> event \<Rightarrow> server \<Rightarrow> server \<Rightarrow> bool" where
  hello_free: "phase s q = Listening \<Longrightarrow> is_running (shared s) = (Ret False, m) \<Longrightarrow>
    act q (Check False) s (move s q Greeted m)"
| hello_busy: "phase s q = Listening \<Longrightarrow> is_running (shared s) = (Ret True, m) \<Longrightarrow>
    act q (Check True) s (move s q Finished m)"
| mark: "phase s q = Greeted \<Longrightarrow> 0 < q \<Longrightarrow> q < 10 ^ 19 \<Longrightarrow> running (int q) (shared s) = (Ret (), m) \<Longrightarrow>
    act q Mark s (move s q Testing m)"
| clear: "phase s q \<in> {Listening, Testing} \<Longrightarrow> not_running (shared s) = (Ret (), m) \<Longrightarrow>
    act q Clear s (move s q Finished m)"
| gone: "act q Leave s (move s q Finished (shared s))"

inductive_simps act_iff: "act q e s s'"

definition access :: "server \<Rightarrow> server \<Rightarrow> bool" where
  "access s s' \<longleftrightarrow> (\<exists>q e. act q e s s')"

lemma accessI: "act q e s s' \<Longrightarrow> access s s'"
  by (auto simp: access_def)

text \<open>The accesses of one process, in their order.\<close>

fun performs :: "nat \<Rightarrow> event list \<Rightarrow> server \<Rightarrow> server \<Rightarrow> bool" where
  "performs q [] s s' \<longleftrightarrow> s' = s"
| "performs q (e # es) s s' \<longleftrightarrow> (\<exists>s1. act q e s s1 \<and> performs q es s1 s')"

lemma performs_access: "performs q es s s' \<Longrightarrow> access\<^sup>*\<^sup>* s s'"
  by (induction es arbitrary: s) (auto intro: accessI converse_rtranclp_into_rtranclp)

lemma performs_append: "performs q (es @ es') s s' \<longleftrightarrow> (\<exists>s1. performs q es s s1 \<and> performs q es' s1 s')"
  by (induction es arbitrary: s) auto

declare performs.simps [simp del]

text \<open>
  The same with \<^verbatim>\<open>HELLO\<close> as one step, and without the \<^verbatim>\<open>QUIT\<close> before \<^verbatim>\<open>HELLO\<close>: what would be needed
  for the status to be a lock.
\<close>

inductive locked :: "server \<Rightarrow> server \<Rightarrow> bool" where
  lock: "act q (Check False) s s1 \<Longrightarrow> act q Mark s1 s2 \<Longrightarrow> locked s s2"
| refuse: "act q (Check True) s s' \<Longrightarrow> locked s s'"
| unlock: "phase s q = Testing \<Longrightarrow> act q Clear s s' \<Longrightarrow> locked s s'"
| leave: "act q Leave s s' \<Longrightarrow> locked s s'"

lemma move_simps [simp]:
  "shared (move s q ph m) = m" "phase (move s q ph m) = (phase s)(q := ph)"
  "move (move s q ph m) q ph' m' = move s q ph' m'"
  by (simp_all add: move_def)

text \<open>Every step leaves the pid of a process that has been admitted in the memory, or 0.\<close>

definition admitted_pid :: "server \<Rightarrow> bool" where
  "admitted_pid s \<longleftrightarrow> (\<exists>p. shm_holds (shared s) p \<and> (0 < p \<longrightarrow> phase s p \<in> {Testing, Finished}))"

lemma start_holds: "shm_holds (shared start_server) 0"
proof -
  obtain m where "TestStatus = (Ret (), m)" "shm_holds m 0"
    using TestStatus_holds by blast
  then show ?thesis
    unfolding start_server_def server.simps by (metis snd_conv)
qed

lemma admitted_move:
  "shm_holds m p \<Longrightarrow> (0 < p \<Longrightarrow> ((phase s)(q := ph)) p \<in> {Testing, Finished}) \<Longrightarrow> admitted_pid (move s q ph m)"
  unfolding admitted_pid_def by (intro exI [of _ p]) auto

lemma act_admitted: "act q e s s' \<Longrightarrow> admitted_pid s \<Longrightarrow> admitted_pid s'"
proof -
  assume act: "act q e s s'" and "admitted_pid s"
  then obtain p where p: "shm_holds (shared s) p" "0 < p \<longrightarrow> phase s p \<in> {Testing, Finished}"
    by (auto simp: admitted_pid_def)
  from act show ?thesis
  proof cases
    case (hello_free m)
    with is_running_holds [OF p(1)] p show ?thesis
      by (auto intro: admitted_move [of _ p])
  next
    case (hello_busy m)
    with is_running_holds [OF p(1)] p show ?thesis
      by (simp add: admitted_move [of _ p])
  next
    case (mark m)
    with running_holds [OF p(1), of q] show ?thesis
      by (auto intro: admitted_move [of _ q])
  next
    case (clear m)
    with not_running_holds [OF p(1)] show ?thesis
      by (auto intro: admitted_move [of _ 0])
  next
    case gone
    with p show ?thesis
      by (simp add: admitted_move [of _ p])
  qed
qed

lemma phase_rank_le [simp]: "phase_rank ph \<le> 3"
  by (cases ph) simp_all

lemma act_forward: "act q e s s' \<Longrightarrow> phase s r \<le> phase s' r"
  by (induction rule: act.induct) (auto simp: less_eq_phase_def)

lemma run_forward: "access\<^sup>*\<^sup>* s s' \<Longrightarrow> phase s q \<le> phase s' q"
  by (induction rule: rtranclp_induct) (auto simp: access_def dest: act_forward [of _ _ _ _ q])

lemma run_admitted: "access\<^sup>*\<^sup>* s s' \<Longrightarrow> admitted_pid s \<Longrightarrow> admitted_pid s'"
  by (induction rule: rtranclp_induct) (auto simp: access_def dest: act_admitted)

text \<open>
  However the accesses interleave, the memory is a well-formed line at every moment, a pid in it
  is that of a process that has been admitted, and no process goes back to an earlier phase.
\<close>

lemma interleaved_memory:
  assumes "access\<^sup>*\<^sup>* start_server s" and "access\<^sup>*\<^sup>* s s'"
  shows "(\<exists>p. shm_holds (shared s) p \<and> (0 < p \<longrightarrow> phase s p \<in> {Testing, Finished})) \<and>
    (\<forall>q. phase s q \<le> phase s' q)"
proof -
  have "admitted_pid start_server"
    using start_holds by (auto simp: admitted_pid_def)
  with run_admitted [OF assms(1)] run_forward [OF assms(2)] show ?thesis
    by (simp add: admitted_pid_def)
qed

section \<open>The handlers make these accesses\<close>

text \<open>Reading the common commands and refusing a line leave the memory as it is.\<close>

definition same_cell :: "'s daemon \<Rightarrow> 's daemon \<Rightarrow> bool" where
  "same_cell w w' \<longleftrightarrow>
     ((\<exists>p. shm_holds (test_running w) p) \<longrightarrow> test_running w' = test_running w) \<and> own_pid w' = own_pid w"

interpretation cell_order: world_order same_cell
  by unfold_locales (auto simp: same_cell_def)

lemma same_cell_reads:
  "step_inv same_cell (write_bytes b)" "step_inv same_cell readline"
  "step_inv same_cell (on_status is_running)" "step_inv same_cell (on_status running_pid)"
  "step_inv same_cell (asks f)" "step_inv same_cell (send_status c msg)" "step_inv same_cell (send t)"
  by (auto intro!: step_invI simp: same_cell_def write_bytes_def readline_def send_status_def
      send_def on_status_eval is_running_holds running_pid_holds
      split: option.splits nat.splits list.splits sum.splits prod.splits)

lemma common_opts_cell: "same_cell w (snd (parse_common_opts w))"
proof (induction w rule: parse_common_opts.induct)
  case (1 w)
  note steps = same_cell_reads [THEN cell_order.at_step]
  have h: "same_cell v (snd (help_reply v))" "same_cell v (snd (status_reply v))" for v :: "'a daemon"
    by (auto simp: help_reply_def status_reply_def
        intro!: cell_order.at_bind steps)
  have "same_cell w' (snd (common_step raw w'))" if "readline w = (Ret raw, w')" for raw w'
    using 1 [OF that refl refl] cell_order.r_refl
    by (auto simp: common_step_def Let_def intro!: cell_order.at_bind h)
  then show ?case
    unfolding parse_common_opts_unfold by (intro cell_order.at_bind steps)
qed

text \<open>What \<^verbatim>\<open>listen\<close> returns tells which accesses it has made.\<close>

definition listen_access :: "server \<Rightarrow> nat \<Rightarrow> str \<Rightarrow> cargo \<Rightarrow> shm \<Rightarrow> bool" where
  "listen_access s q st c m \<longleftrightarrow>
     (st = ''SETUP'' \<and> performs q [Check False, Mark] s (move s q Testing m)) \<or>
     (st = ''ERROR'' \<and> c = Err 421 ''Already Running'' \<and> performs q [Check True] s (move s q Finished m)) \<or>
     (st = ''ERROR'' \<and> c = Err 222 ''Come back soon!'' \<and> m = shared s) \<or>
     (st = ''ABORT'' \<and> m = shared s)"

lemma hello_accesses:
  assumes "phase s q = Listening" and "0 < q" and "q < 10 ^ 19"
    and "is_running (shared s) = (Ret False, m)" and "running (int q) m = (Ret (), m')"
  shows "performs q [Check False, Mark] s (move s q Testing m')"
proof -
  have "act q (Check False) s (move s q Greeted m)"
    using assms by (intro hello_free)
  moreover have "act q Mark (move s q Greeted m) (move (move s q Greeted m) q Testing m')"
    using assms by (intro mark) simp_all
  ultimately show ?thesis
    by (auto simp: performs.simps)
qed

lemma busy_access:
  "phase s q = Listening \<Longrightarrow> is_running (shared s) = (Ret True, m) \<Longrightarrow>
     performs q [Check True] s (move s q Finished m)"
  by (auto simp: performs.simps intro: hello_busy)

lemma listen_accesses:
  assumes "client_listen w = (Ret (Some (st, c)), w')" and "shm_holds (test_running w) p"
    and "own_pid w = int q" and "0 < q" and "q < 10 ^ 19"
    and "shared s = test_running w" and "phase s q = Listening"
  shows "listen_access s q st c (test_running w')"
  using assms
proof (induction "length (rfile w)" arbitrary: w rule: less_induct)
  case less
  obtain l w1 where l: "parse_common_opts w = (Ret l, w1)"
    using less.prems(1) by (subst (asm) client_listen.simps) (auto elim!: bind_RetE)
  have w1: "test_running w1 = test_running w" "own_pid w1 = own_pid w"
    using common_opts_cell [of w] less.prems(2) l by (auto simp: same_cell_def)
  have sends: "test_running v' = test_running w \<and> own_pid v' = own_pid w"
    if "send_status n msg w1 = (r, v')" for n msg r v'
    using same_cell_reads(6) [THEN cell_order.at_step, of w1 n msg] less.prems(2) w1 that
    by (auto simp: same_cell_def)
  have run: "is_running (test_running w) = (Ret (0 < p), test_running w)"
    using less.prems(2) by (rule is_running_holds)
  have again: "listen_access s q st c (test_running w')"
    if "send_status 500 [] w1 = (Ret (), v)" "client_listen v = (Ret (Some (st, c)), w')" for v
    using less.hyps [of v] that sends [OF that(1)] less.prems parse_common_opts_consumes [OF l]
      send_status_rfile [OF that(1)] by auto
  have "is_running (test_running w1) = (Ret (0 < p), test_running w1)"
    using less.prems(2) w1 by (simp add: is_running_holds)
  then have run1: "on_status is_running w1 = (Ret (0 < p), w1)"
    by (simp add: on_status_eval)
  have tail: "(Ret (Some (st, c)), w') =
     (if l = ''ABORT'' then goto ''ABORT'' w1
      else if l = ''QUIT'' then go_error 222 ''Come back soon!'' w1
      else (case match_nonspace l of
          None \<Rightarrow> bind (send_status 500 []) (\<lambda>_ w. client_listen w) w1
        | Some cmd \<Rightarrow>
            if cmd = ''HELLO'' then
              (if 0 < p then go_error 421 ''Already Running''
               else bind (send_status 200 [''Ready to go'']) (\<lambda>_.
                    bind (asks own_pid) (\<lambda>pid.
                    bind (on_status (running pid)) (\<lambda>_.
                    goto ''SETUP'')))) w1
            else bind (send_status 500 []) (\<lambda>_ w. client_listen w) w1))"
    unfolding less.prems(1) [symmetric] using l run1
    by (subst client_listen.simps)
      (simp add: bind_eval [of parse_common_opts] bind_eval [of "on_status is_running"]
        cong: if_cong option.case_cong)
  show ?case
  proof (cases "l \<notin> {''ABORT'', ''QUIT''} \<and> match_nonspace l = Some ''HELLO''")
    case False
    with tail w1 less.prems(6) show ?thesis
      by (auto simp: listen_access_def goto_def go_error_def split: if_splits option.splits
          elim!: bind_RetE [OF sym] dest!: again)
  next
    case True
    show ?thesis
    proof (cases "0 < p")
      case True
      with \<open>l \<notin> _ \<and> _\<close> tail w1 less.prems run show ?thesis
        by (auto simp: listen_access_def go_error_def busy_access)
    next
      case False
      with \<open>l \<notin> _ \<and> _\<close> tail have "bind (send_status 200 [''Ready to go'']) (\<lambda>_.
          bind (asks own_pid) (\<lambda>pid.
          bind (on_status (running pid)) (\<lambda>_.
          goto ''SETUP''))) w1 = (Ret (Some (st, c)), w')"
        by auto
      then obtain v v' where v: "send_status 200 [''Ready to go''] w1 = (Ret (), v)"
          "on_status (running (own_pid v)) v = (Ret (), v')" "goto ''SETUP'' v' = (Ret (Some (st, c)), w')"
        unfolding bind_asks by (elim bind_RetE) (auto elim!: bind_RetE)
      moreover have "running (int q) (test_running w) = (Ret (), test_running v')"
        using v(2) sends [OF v(1)] less.prems(3) w1 by (auto simp: on_status_eval split: prod.splits)
      ultimately show ?thesis
        using hello_accesses [of s q "test_running w" "test_running v'"] less.prems run False
        by (auto simp: listen_access_def goto_def)
    qed
  qed
qed

section \<open>The lock that a one-step HELLO would be\<close>

text \<open>The memory names the one process that may test.\<close>

definition lock_inv :: "server \<Rightarrow> bool" where
  "lock_inv s \<longleftrightarrow> (\<exists>p. shm_holds (shared s) p \<and>
     (\<forall>q. phase s q = Testing \<longrightarrow> 0 < p \<and> q = p) \<and> (\<forall>q. phase s q \<noteq> Greeted))"

lemma lock_invE:
  assumes "lock_inv s"
  obtains p where "shm_holds (shared s) p" "\<forall>q. phase s q = Testing \<longrightarrow> 0 < p \<and> q = p"
    "\<forall>q. phase s q \<noteq> Greeted"
  using assms by (auto simp: lock_inv_def)

lemma lock_inv_move:
  "shm_holds m p \<Longrightarrow> (\<And>r. ((phase s)(q := ph)) r = Testing \<Longrightarrow> 0 < p \<and> r = p) \<Longrightarrow>
    (\<And>r. ((phase s)(q := ph)) r \<noteq> Greeted) \<Longrightarrow> lock_inv (move s q ph m)"
  unfolding lock_inv_def move_simps by blast

lemma start_lock: "lock_inv start_server"
  using start_holds unfolding lock_inv_def by (intro exI [of _ 0]) (simp add: start_server_def)

lemma locked_keeps: "locked s s' \<Longrightarrow> lock_inv s \<Longrightarrow> lock_inv s'"
proof -
  assume l: "locked s s'" and "lock_inv s"
  obtain p where p: "shm_holds (shared s) p" "\<forall>q. phase s q = Testing \<longrightarrow> 0 < p \<and> q = p"
      "\<forall>q. phase s q \<noteq> Greeted"
    by (rule lock_invE [OF \<open>lock_inv s\<close>])
  from l show ?thesis
  proof cases
    case (lock q s1)
    then have "p = 0" "s1 = move s q Greeted (shared s)"
      using is_running_holds [OF p(1)] by (auto simp: act_iff)
    moreover obtain m where "0 < q" "q < 10 ^ 19" "running (int q) (shared s1) = (Ret (), m)" "s' = move s1 q Testing m"
      using lock(2) by (auto simp: act_iff)
    ultimately show ?thesis
      using p running_holds [OF p(1), of q] by (auto intro!: lock_inv_move [of _ q] split: if_splits)
  next
    case (refuse q)
    with p is_running_holds [OF p(1)] show ?thesis
      by (auto simp: act_iff intro!: lock_inv_move [of _ p] split: if_splits)
  next
    case (unlock q)
    have "phase s r \<noteq> Testing" if "r \<noteq> q" for r
      using p(2) unlock(1) that by metis
    with not_running_holds [OF p(1)] unlock(2) p(3) show ?thesis
      by (auto simp: act_iff intro!: lock_inv_move [of _ 0] split: if_splits)
  next
    case (leave q)
    with p show ?thesis
      by (auto simp: act_iff intro!: lock_inv_move [of _ p] split: if_splits)
  qed
qed

end
