(* ===== verification/Accesses.thy ===== *)
theory Accesses
  imports Server Machine_Path
begin

text \<open>
  The handlers make the accesses of the interleaving model: for each state of the daemon's
  machine, the accesses that its handler makes to the shared status, told from what it returns,
  and the phases of the process before and after. The handlers of a connection compose.
\<close>

section \<open>The handlers that leave the status alone\<close>

definition same_mem :: "'s daemon \<Rightarrow> 's daemon \<Rightarrow> bool" where
  "same_mem w w' \<longleftrightarrow> ((\<exists>p. shm_holds (test_running w) p) \<longrightarrow> test_running w' = test_running w)"

lemma same_memI: "(\<And>p. shm_holds (test_running w) p \<Longrightarrow> test_running w' = test_running w) \<Longrightarrow> same_mem w w'"
  by (auto simp: same_mem_def)

lemma same_mem_frame: "(\<And>w. test_running (snd (m w)) = test_running w) \<Longrightarrow> step_inv same_mem m"
  by (simp add: step_inv_def same_mem_def)

lemma same_mem_status:
  "(\<And>m p. shm_holds m p \<Longrightarrow> snd (f m) = m) \<Longrightarrow> step_inv same_mem (on_status f)"
  by (auto simp: step_inv_def on_status_eval same_mem_def split: prod.splits) (metis snd_conv)

interpretation mem_reads: daemon_reads same_mem
proof unfold_locales
  show "step_inv same_mem (write_bytes b)" "step_inv same_mem readline" "step_inv same_mem (os_kill p sig)"
    "step_inv same_mem os_fork" for b p sig
    by (rule same_mem_frame, simp add: write_bytes_def readline_def os_kill_def os_fork_def Let_def
        split: option.splits nat.splits list.splits kill_result.splits signal.splits fork_result.splits)+
  show "step_inv same_mem (on_shunt m)" for m :: "('a, unit) io"
    by (rule same_mem_frame) (simp add: on_shunt_eval split: prod.splits)
  show "step_inv same_mem (on_shunt m)" for m :: "('a, int \<times> bytes option) io"
    by (rule same_mem_frame) (simp add: on_shunt_eval split: prod.splits)
  show "step_inv same_mem (on_status is_running)" "step_inv same_mem (on_status running_pid)"
    by (rule same_mem_status, simp add: is_running_holds running_pid_holds)+
qed (auto simp: same_mem_def)

lemma same_memD: "same_mem w w' \<Longrightarrow> shm_holds (test_running w) p \<Longrightarrow> test_running w' = test_running w"
  by (auto simp: same_mem_def)

section \<open>The accesses of a handler, from what it returns\<close>

definition clears :: "str \<Rightarrow> cargo \<Rightarrow> (str \<times> cargo) option res \<Rightarrow> bool" where
  \<comment> \<open>\<^verbatim>\<open>marshall\<close> when it has sent the result, \<^verbatim>\<open>error\<close> but for the refusal of a busy daemon, and
    \<^verbatim>\<open>abort\<close> when the marked process is gone\<close>
  "clears n c r \<longleftrightarrow>
     (n = ''MARSHALL'' \<and> r = Ret (Some (''RESET'', One))) \<or>
     (n = ''ERROR'' \<and> (\<exists>e msg. c = Err e msg \<and> e \<noteq> 421)) \<or>
     (n = ''ABORT'' \<and> r = Ret None)"

text \<open>The accesses that the process has made when it comes to a state.\<close>

definition accesses_before :: "str \<Rightarrow> cargo \<Rightarrow> event list list" where
  "accesses_before n c =
     (if n = ''LISTEN'' then [[]]
      else if n = ''SETUP'' \<or> n = ''RUN'' \<or> n = ''MARSHALL'' then [[Check False, Mark]]
      else if n = ''ERROR'' \<and> (\<exists>msg. c = Err 421 msg) then [[Check True]]
      else [[], [Check False, Mark]])"

lemma performs_phase:
  "performs q [] s s' \<Longrightarrow> s' = s"
  "performs q [Check True] s s' \<Longrightarrow> phase s' q = Finished"
  "performs q [Check False, Mark] s s' \<Longrightarrow> phase s' q = Testing"
  by (auto simp: performs.simps act_iff)

lemma performs_holds:
  "performs q es s s' \<Longrightarrow> \<exists>p. shm_holds (shared s) p \<Longrightarrow> \<exists>p. shm_holds (shared s') p"
proof (induction es arbitrary: s)
  case (Cons e es)
  then obtain s1 p where s1: "act q e s s1" "performs q es s1 s'" "shm_holds (shared s) p"
    by (auto simp: performs.simps)
  have "\<exists>p. shm_holds (shared s1) p"
    using s1(1) is_running_holds [OF s1(3)] running_holds [OF s1(3), of q] not_running_holds [OF s1(3)] s1(3)
    by (auto simp: act_iff)
  with Cons.IH s1(2) show ?case by blast
qed (simp add: performs.simps)

text \<open>The outcome of a handler that clears the status in some of its branches.\<close>

definition kept_or_cleared ::
  "((str \<times> cargo) option res \<Rightarrow> bool) \<Rightarrow> 's daemon \<Rightarrow> (str \<times> cargo) option res \<times> 's daemon \<Rightarrow> bool" where
  "kept_or_cleared cl w x \<longleftrightarrow>
     (if cl (fst x) then not_running (test_running w) = (Ret (), test_running (snd x))
      else test_running (snd x) = test_running w)"

lemma frames:
  "send_status c msg w = (x, v) \<Longrightarrow> test_running v = test_running w"
  "send t w = (x, v) \<Longrightarrow> test_running v = test_running w"
  "write_bytes b w = (x, v) \<Longrightarrow> test_running v = test_running w"
  "on_shunt m w = (y, v) \<Longrightarrow> test_running v = test_running w"
  "os_kill p sig w = (x, v) \<Longrightarrow> test_running v = test_running w"
  by (auto simp: send_status_def send_def write_bytes_def on_shunt_eval os_kill_def Let_def
      split: sum.splits option.splits nat.splits prod.splits kill_result.splits signal.splits if_splits)

lemma runtime_keeps: "runtime_to_error e = Some k \<Longrightarrow>
    k v = (Ret (Some (''ERROR'', Err 451 (strip (case e of RuntimeError m \<Rightarrow> m)))), v)"
  by (cases e) (auto simp: runtime_to_error_def go_error_def)

lemma shunt_marshall_keeps: "shunt_marshall S w = (y, v) \<Longrightarrow> test_running v = test_running w"
  by (auto simp: shunt_marshall_def bind_eval dest!: frames split: prod.splits res.splits option.splits)

lemma kept_bind:
  assumes "\<And>x v. m w = (x, v) \<Longrightarrow> test_running v = test_running w"
    and "\<And>x v. m w = (Ret x, v) \<Longrightarrow> kept_or_cleared cl v (f x v)"
    and "\<And>e. \<not> cl (Raise e)" and "\<not> cl Wait" and "\<not> cl Halt"
  shows "kept_or_cleared cl w (bind m f w)"
proof (cases "m w")
  case (Pair y v)
  with assms(1) [OF Pair] assms(2-) show ?thesis
    by (cases y) (auto simp: kept_or_cleared_def bind_eval)
qed

lemma marshall_clears:
  assumes "shm_holds (test_running w) p"
  shows "kept_or_cleared (\<lambda>r. r = Ret (Some (''RESET'', One))) w (client_marshall S w)"
proof (cases "shunt_marshall S w")
  case (Pair y v)
  have v: "test_running v = test_running w"
    using Pair by (rule shunt_marshall_keeps)
  obtain m where m: "not_running (test_running w) = (Ret (), m)"
    using not_running_holds [OF assms] by blast
  let ?cl = "\<lambda>r. r = Ret (Some (''RESET'', One))"
  have clear: "kept_or_cleared ?cl u (bind (on_status not_running) (\<lambda>_. goto ''RESET'') u)"
    if "test_running u = test_running w" for u :: "'a daemon"
    using that m by (simp add: kept_or_cleared_def bind_eval on_status_eval goto_def)
  show ?thesis
  proof (cases y)
    case (Ret x)
    have "kept_or_cleared ?cl v (bind (if valid \<noteq> 0 then send_status 221 msg else send_status 220 msg) (\<lambda>_.
        bind (send t) (\<lambda>_. bind (write_bytes d) (\<lambda>_. bind (on_status not_running) (\<lambda>_. goto ''RESET'')))) v)"
      for valid :: int and msg t d
      by (intro kept_bind clear) (auto simp: v dest!: frames split: if_splits)
    then have "kept_or_cleared ?cl v (client_marshall S w)"
      using Ret Pair by (cases x) (simp add: client_marshall_def try_else_eval)
    then show ?thesis
      by (simp add: kept_or_cleared_def v split: if_splits)
  qed (use Pair v in \<open>auto simp: client_marshall_def kept_or_cleared_def try_else_eval runtime_keeps
      split: option.splits\<close>)
qed

lemma error_clears_status:
  assumes "shm_holds (test_running w) p"
  shows "kept_or_cleared (\<lambda>r. \<exists>e msg. c = Err e msg \<and> e \<noteq> 421) w (client_error c w)"
proof -
  obtain m where m: "not_running (test_running w) = (Ret (), m)"
    using not_running_holds [OF assms] by blast
  then show ?thesis
    by (auto simp: client_error_def kept_or_cleared_def bind_eval on_status_eval goto_def
        split: cargo.splits prod.splits res.splits dest!: frames)
qed

lemma abort_clears:
  assumes "shm_holds (test_running w) p"
  shows "kept_or_cleared (\<lambda>r. r = Ret None) w (client_abort w)"
proof (cases "p = 0")
  case True
  with assms show ?thesis
    by (simp add: abort_idle kept_or_cleared_def)
next
  case False
  obtain m where m: "not_running (test_running w) = (Ret (), m)"
    using not_running_holds [OF assms] by blast
  have lookup: "except_ProcessLookupError k e = Some k' \<Longrightarrow> e = ProcessLookupError \<and> k' = k" for k k' e
    by (cases e) auto
  from False assms m show ?thesis
    by (auto simp: abort_kill_start kept_or_cleared_def try_else_eval bind_eval on_status_eval goto_def
        split: prod.splits res.splits option.splits dest!: frames lookup)
qed


lemma handler_clears:
  assumes "handlers (daemon_machine S t) n = Some h" and "n \<noteq> ''LISTEN''" and "shm_holds (test_running w) p"
  shows "kept_or_cleared (clears n c) w (h c w)"
proof -
  have same: "kept_or_cleared cl w x" if "same_mem w (snd x)" "\<not> cl (fst x)" for cl x
    using that assms(3) by (auto simp: kept_or_cleared_def dest: same_memD)
  from assms(1) show ?thesis
  proof (rule daemon_handler_cases)
    assume "n = ''MARSHALL''" "h = (\<lambda>val. client_marshall S)"
    with marshall_clears [OF assms(3), of S] show ?thesis
      by (simp add: clears_def [abs_def])
  next
    assume "n = ''ERROR''" "h = client_error"
    with error_clears_status [OF assms(3), of c] show ?thesis
      by (simp add: clears_def [abs_def])
  next
    assume "n = ''ABORT''" "h = (\<lambda>val. client_abort)"
    with abort_clears [OF assms(3)] show ?thesis
      by (simp add: clears_def [abs_def])
  next
    assume "n = ''RUN''" "h = (\<lambda>val. if t then target_run S else client_run S)"
    then show ?thesis
      by (auto simp: clears_def intro!: same mem_reads.run_R mem_reads.target_run_R)
  qed (use assms(2) in \<open>auto simp: clears_def client_reset_def same_mem_def intro!: same mem_reads.setup_R\<close>)
qed

section \<open>A whole connection\<close>

text \<open>The accesses up to a state, and what the next handler adds.\<close>

definition follows :: "nat \<Rightarrow> server \<Rightarrow> str \<Rightarrow> cargo \<Rightarrow> 's daemon \<Rightarrow> server \<Rightarrow> bool" where
  "follows q s n c v s1 \<longleftrightarrow>
     (\<exists>es \<in> set (accesses_before n c). performs q es s s1) \<and> shared s1 = test_running v"

lemma follows_clears:
  assumes "follows q s n c v s1" and "\<exists>p. shm_holds (shared s) p" and "phase s q = Listening"
    and "handlers (daemon_machine S t) n = Some h" and "n \<noteq> ''LISTEN''" and "h c v = (r, w')"
  obtains s2 where "performs q (if clears n c r then [Clear] else []) s1 s2" "shared s2 = test_running w'"
    "\<not> clears n c r \<Longrightarrow> s2 = s1"
proof -
  obtain es p where es: "es \<in> set (accesses_before n c)" "performs q es s s1" "shared s1 = test_running v"
      "shm_holds (test_running v) p"
    using assms(1,2) performs_holds by (fastforce simp: follows_def)
  have k: "kept_or_cleared (clears n c) v (r, w')"
    using handler_clears [OF assms(4,5) es(4), of c] assms(6) by simp
  show thesis
  proof (cases "clears n c r")
    case True
    then have "es = [] \<or> es = [Check False, Mark]"
      using es(1) by (auto simp: accesses_before_def clears_def split: if_splits)
    then have "phase s1 q \<in> {Listening, Testing}"
      using es(2) assms(3) performs_phase(1,3) [of q s s1] by auto
    with k True es(3) have "act q Clear s1 (move s1 q Finished (test_running w'))"
      by (intro clear) (simp_all add: kept_or_cleared_def)
    with True that [of "move s1 q Finished (test_running w')"] show thesis
      by (simp add: performs.simps)
  next
    case False
    with k es(3) that [of s1] show thesis
      by (simp add: performs.simps kept_or_cleared_def)
  qed
qed


lemma accesses_before_next:
  assumes "state_goes n x c'" and "upper x \<noteq> ''RESET''" and "n \<noteq> ''LISTEN''"
  shows "set (accesses_before n c) \<subseteq> set (accesses_before (upper x) c') \<and>
    \<not> clears n c (Ret (Some (x, c')))"
  using assms
  by (auto simp: state_goes_def then_to_def quits_def accesses_before_def clears_def split: if_splits)

lemma listen_follows:
  assumes "client_listen w = (Ret (Some (x, c)), v)" and "shm_holds (test_running w) p"
    and "own_pid w = int q" and "0 < q" and "q < 10 ^ 19"
    and "shared s = test_running w" and "phase s q = Listening"
  shows "\<exists>s1. follows q s (upper x) c v s1"
proof -
  have l: "listen_access s q x c (test_running v)"
    using assms by (rule listen_accesses)
  have "follows q s (upper x) c v (move s q Testing (test_running v))"
    if "x = ''SETUP''" "performs q [Check False, Mark] s (move s q Testing (test_running v))"
    using that by (simp add: follows_def accesses_before_def)
  moreover have "follows q s (upper x) c v (move s q Finished (test_running v))"
    if "x = ''ERROR''" "c = Err 421 ''Already Running''" "performs q [Check True] s (move s q Finished (test_running v))"
    using that by (simp add: follows_def accesses_before_def)
  moreover have "follows q s (upper x) c v s"
    if "test_running v = shared s" "x = ''ABORT'' \<or> x = ''ERROR'' \<and> c = Err 222 ''Come back soon!''"
    using that by (auto simp: follows_def accesses_before_def performs.simps)
  ultimately show ?thesis
    using l unfolding listen_access_def by metis
qed

lemma path_follows:
  assumes "(run_step (daemon_machine S t) ^^ k) (''LISTEN'', One, w) (n, c, v)"
    and w: "shm_holds (test_running w) p" "own_pid w = int q" "0 < q" "q < 10 ^ 19"
      "shared s = test_running w" "phase s q = Listening"
  shows "\<exists>s1. follows q s n c v s1"
  using assms(1)
proof (induction k arbitrary: n c v)
  case 0
  with w(5) show ?case
    by (auto simp: follows_def accesses_before_def performs.simps)
next
  case (Suc k)
  then obtain n0 c0 v0 where path: "(run_step (daemon_machine S t) ^^ k) (''LISTEN'', One, w) (n0, c0, v0)"
      "run_step (daemon_machine S t) (n0, c0, v0) (n, c, v)"
    by (auto elim: relpowp_Suc_E)
  then obtain h x where h: "handlers (daemon_machine S t) n0 = Some h" "h c0 v0 = (Ret (Some (x, c)), v)"
      "upper x \<noteq> ''RESET''" "n = upper x"
    by (auto elim!: goesE simp: daemon_machine_simps)
  show ?case
  proof (cases "n0 = ''LISTEN''")
    case True
    then have "k = 0"
      using path_typed [OF path(1)] by (simp add: state_rank_def)
    with path(1) have "v0 = w"
      by simp
    with True h(1,2) have "client_listen w = (Ret (Some (x, c)), v)"
      by (auto simp: daemon_machine_simps)
    from listen_follows [OF this w] h(4) show ?thesis
      by simp
  next
    case False
    obtain s1 where s1: "follows q s n0 c0 v0 s1"
      using Suc.IH [OF path(1)] by blast
    have g: "state_goes n0 x c"
      using daemon_next [OF h(1), of c0 v0] h(2) by simp
    obtain s2 where "shared s2 = test_running v" "s2 = s1"
      using follows_clears [OF s1 _ w(6) h(1) False h(2)] w(1,5) accesses_before_next [OF g h(3) False] by metis
    with s1 h(4) accesses_before_next [OF g h(3) False, of c0] show ?thesis
      by (auto simp: follows_def)
  qed
qed

text \<open>The accesses of a connection, up to any state but \<^verbatim>\<open>LISTEN\<close> and through its handler.\<close>

lemma connection_accesses:
  assumes "(run_step (daemon_machine S t) ^^ k) (''LISTEN'', One, w) (n, c, v)" and "n \<noteq> ''LISTEN''"
    and "handlers (daemon_machine S t) n = Some h" and "h c v = (r, w')"
    and "shm_holds (test_running w) p" and "own_pid w = int q" and "0 < q" and "q < 10 ^ 19"
    and "shared s = test_running w" and "phase s q = Listening"
  shows "\<exists>es s1 s2. es \<in> set (accesses_before n c) \<and> performs q es s s1 \<and> shared s1 = test_running v \<and>
    performs q (if clears n c r then [Clear] else []) s1 s2 \<and> shared s2 = test_running w'"
proof -
  obtain s1 where s1: "follows q s n c v s1"
    using path_follows [OF assms(1,5-10)] by blast
  obtain s2 where "performs q (if clears n c r then [Clear] else []) s1 s2" "shared s2 = test_running w'"
    using follows_clears [OF s1 _ assms(10,3,2,4)] assms(5,9) by metis
  with s1 show ?thesis
    unfolding follows_def by blast
qed

end
