(* ===== verification/Server_Properties.thy ===== *)
theory Server_Properties
  imports Accesses Samples
begin

text \<open>
  Properties of the daemon over many connections: the shared memory after any sequence of them,
  what the accesses of a handler are in the model of interleaved handlers, and what follows
  from them for the rule that one test runs at a time.
\<close>

text \<open>C8: However many connections the daemon has served, one after the other, and whatever their
  peers and test modules did, the shared memory is a well-formed line with 0 or with the pid of one
  of the processes that have served them.\<close>
theorem serve_keeps_memory:
  assumes "\<forall>w \<in> set ws. pids_in Q w"
  shows "\<exists>p. shm_holds (serve C T ws (snd TestStatus)) p \<and> (p = 0 \<or> p \<in> Q)"
proof -
  have "shm_holds (snd TestStatus) 0"
    using start_holds by (simp add: start_server_def)
  then show ?thesis
    using serve_holds [of "snd TestStatus" 0 Q ws C T] assms by blast
qed

theorem serve_keeps_memory_witness:
  "\<exists>p. shm_holds (serve ipbench_client ipbench_target
      [sample_world False 0 [''HELLO'' @ nl], sample_world False 0 [''QUIT'' @ nl]] (snd TestStatus)) p \<and>
    (p = 0 \<or> p \<in> {42, 44})"
  by (rule serve_keeps_memory) (auto simp: pids_in_def)

text \<open>C7: The steps of the interleaving model are those of the code. When \<^verbatim>\<open>listen\<close> of a process that
  is in its first phase returns, it has made exactly the accesses of a run of the model: the check
  and the mark if it goes on to \<^verbatim>\<open>SETUP\<close>, the check alone if it refuses, and none if it leaves for
  \<^verbatim>\<open>ABORT\<close> or \<^verbatim>\<open>QUIT\<close>.\<close>
theorem listen_refines_access:
  assumes "client_listen w = (Ret (Some (st, c)), w')" and "shm_holds (test_running w) p"
    and "own_pid w = int q" and "0 < q" and "q < 10 ^ 19"
    and "shared s = test_running w" and "phase s q = Listening"
  shows "listen_access s q st c (test_running w')"
  using assms by (rule listen_accesses)

theorem listen_refines_access_witness:
  "\<exists>w' :: unit cmod daemon. client_listen (sample_world False 0 [''HELLO'' @ nl]) =
     (Ret (Some (''SETUP'', One)), w') \<and>
   listen_access \<lparr>shared = shm_of 0, phase = (\<lambda>_. Listening)\<rparr> 42 ''SETUP'' One (test_running w')"
proof -
  let ?w = "sample_world False 0 [''HELLO'' @ nl] :: unit cmod daemon"
  have w: "rfile ?w = [''HELLO'' @ nl]" "wleft ?w = None" "test_running ?w = shm_of 0" "own_pid ?w = int 42"
    by (simp_all add: sample_world_def)
  have m: "shm_holds (shm_of 0) 0"
    using shm_of_holds [of 0] by simp
  obtain w' where "client_listen ?w = (Ret (Some (''SETUP'', One)), w')"
    using listen_hello [of ?w "[]" 42] w m by auto
  then show ?thesis
    using listen_refines_access [of ?w "''SETUP''" One w' 0 42 "\<lparr>shared = shm_of 0, phase = (\<lambda>_. Listening)\<rparr>"]
      w m by auto
qed

text \<open>C9: All the other handlers refine the same model, in every state that a connection comes to. The
  accesses that its process has made by then are told by the state: the check and the mark in
  \<^verbatim>\<open>SETUP\<close>, \<^verbatim>\<open>RUN\<close> and \<^verbatim>\<open>MARSHALL\<close>, the check alone in the \<^verbatim>\<open>ERROR\<close> of a refusal, and these two or none in
  \<^verbatim>\<open>ABORT\<close> and any other \<^verbatim>\<open>ERROR\<close>. The handler then adds one clearing access, by \<^verbatim>\<open>marshall\<close> if it has
  sent the result, by \<^verbatim>\<open>error\<close> unless it refuses with 421, and by \<^verbatim>\<open>abort\<close> if the marked process is gone,
  and in every other case it leaves the memory as it is.\<close>
theorem handlers_refine_access:
  assumes "(run_step (daemon_machine S t) ^^ k) (''LISTEN'', One, w) (n, c, v)" and "n \<noteq> ''LISTEN''"
    and "handlers (daemon_machine S t) n = Some h" and "h c v = (r, w')"
    and "shm_holds (test_running w) p" and "own_pid w = int q" and "0 < q" and "q < 10 ^ 19"
    and "shared s = test_running w" and "phase s q = Listening"
  shows "\<exists>es s1 s2. es \<in> set (accesses_before n c) \<and> performs q es s s1 \<and> shared s1 = test_running v \<and>
    performs q (if clears n c r then [Clear] else []) s1 s2 \<and> shared s2 = test_running w'"
  using assms by (rule connection_accesses)

theorem handlers_refine_access_witness:
  "\<exists>s1. performs 42 [Check True] \<lparr>shared = shm_of 7, phase = (\<lambda>_. Listening)\<rparr> s1 \<and> shared s1 = shm_of 7"
proof -
  let ?w = "sample_world False 7 [''HELLO'' @ nl] :: unit cmod daemon" and ?s = "\<lparr>shared = shm_of 7, phase = (\<lambda>_. Listening)\<rparr>"
  let ?v = "?w\<lparr>rfile := []\<rparr>" and ?M = "daemon_machine ipbench_client False" and ?c = "Err 421 ''Already Running''"
  have m: "shm_holds (shm_of 7) 7"
    using shm_of_holds [of 7] by simp
  have "client_listen ?w = (Ret (Some (''ERROR'', ?c)), ?v)"
    using listen_busy [of ?w "[]" 7] m by simp
  then have "run_step ?M (''LISTEN'', One, ?w) (''ERROR'', ?c, ?v)"
    by (simp add: run_step_iff daemon_machine_simps)
  then have p: "(run_step ?M ^^ 1) (''LISTEN'', One, ?w) (''ERROR'', ?c, ?v)"
    by (simp only: relpowp_1)
  have e: "client_error ?c ?v = (Ret (Some (''RESET'', One)), ?v\<lparr>wfile := [reply 421 [''Already Running'']]\<rparr>)"
    by (simp add: error_busy)
  from handlers_refine_access [OF p _ daemon_machine_simps(3) e, of 7 42 ?s] m
  obtain es s1 where "es \<in> set (accesses_before ''ERROR'' ?c)" "performs 42 es ?s s1" "shared s1 = shm_of 7"
    by auto
  then show ?thesis
    by (auto simp: accesses_before_def)
qed

text \<open>C10: The status is no lock. From the start of the daemon, two connections that send \<^verbatim>\<open>HELLO\<close> can
  both be admitted and both run a test: each checks before the other has marked.\<close>
theorem two_testers:
  assumes "p \<noteq> q" and "0 < p" and "p < 10 ^ 19" and "0 < q" and "q < 10 ^ 19"
  shows "\<exists>s. access\<^sup>*\<^sup>* start_server s \<and> phase s p = Testing \<and> phase s q = Testing"
proof -
  let ?m = "shared start_server"
  let ?s1 = "move start_server p Greeted ?m"
  let ?s2 = "move ?s1 q Greeted ?m"
  have free: "is_running ?m = (Ret False, ?m)"
    using is_running_holds [OF start_holds] by simp
  obtain m where m: "running (int p) ?m = (Ret (), m)" "shm_holds m p"
    using running_holds [OF start_holds] assms by blast
  obtain m' where m': "running (int q) m = (Ret (), m')"
    using running_holds [OF m(2)] assms by blast
  let ?s3 = "move ?s2 p Testing m"
  have s1: "access\<^sup>*\<^sup>* start_server ?s1"
    using free by (intro r_into_rtranclp accessI [OF hello_free]) (simp_all add: start_server_def)
  have "access ?s1 ?s2"
    using free assms by (intro accessI [OF hello_free]) (simp_all add: start_server_def)
  with s1 have s2: "access\<^sup>*\<^sup>* start_server ?s2"
    by (rule rtranclp.rtrancl_into_rtrancl)
  have "access ?s2 ?s3"
    using assms m by (intro accessI [OF mark]) simp_all
  with s2 have s3: "access\<^sup>*\<^sup>* start_server ?s3"
    by (rule rtranclp.rtrancl_into_rtrancl)
  have "access ?s3 (move ?s3 q Testing m')"
    using assms m' by (intro accessI [OF mark]) simp_all
  with s3 have "access\<^sup>*\<^sup>* start_server (move ?s3 q Testing m')"
    by (rule rtranclp.rtrancl_into_rtrancl)
  with assms show ?thesis
    by (intro exI [of _ "move ?s3 q Testing m'"]) simp
qed

theorem two_testers_witness:
  "\<exists>s. access\<^sup>*\<^sup>* start_server s \<and> phase s 100 = Testing \<and> phase s 200 = Testing"
  using two_testers [of 100 200] by simp

text \<open>What it lacks: if the check and the mark of \<^verbatim>\<open>HELLO\<close> were one step, and \<^verbatim>\<open>QUIT\<close> cleared the
  status of an admitted connection only, then at most one process would test at any time.\<close>
lemma one_tester_if_locked:
  assumes "locked\<^sup>*\<^sup>* start_server s" and "phase s p = Testing" and "phase s q = Testing"
  shows "p = q"
proof -
  from assms(1) have "lock_inv s"
    by (induction rule: rtranclp_induct) (auto intro: start_lock locked_keeps)
  with assms(2,3) show ?thesis
    by (auto simp: lock_inv_def)
qed

text \<open>
  In target mode the port option has no effect: the daemon listens on 8037 whatever was asked for.
\<close>

lemma target_port_ignored:
  "d_target opts \<Longrightarrow> listen_address (opts\<lparr>d_port := p\<rparr>) = (d_ip opts, 8037)"
  by (simp add: listen_address_def)

end
