(* ===== verification/End_To_End.thy ===== *)
theory End_To_End
  imports Controller_Samples
begin

text \<open>
  The two programs against each other: what a client object of the controller reads when the
  bytes of its socket are the writes of a daemon's connection.
\<close>

section \<open>The conversation of a client object\<close>

text \<open>The calls that \<^verbatim>\<open>main\<close> makes on one client, in their order.\<close>

definition client_conversation :: "nat \<Rightarrow> ('p controller, unit) io" where
  "client_conversation r =
     bind (connect r) (\<lambda>_. bind (tester_setup r) (\<lambda>_. bind (tester_start r) (\<lambda>_. tester_unmarshall r)))"

text \<open>
  What the network can deliver of a list of writes: each that is not empty, as one piece; or, for
  the writes of a result, which follow one another without waiting for the controller, any
  pieces such that the first read holds the first line, and the first two reads hold both. Other
  pieces the controller cannot read.
\<close>

definition delivered :: "bytes list \<Rightarrow> bytes list" where
  "delivered = filter (\<lambda>b. b \<noteq> [])"

fun first_read :: "bytes list \<Rightarrow> bytes" where
  "first_read [] = []"
| "first_read (p # ps) = take 128 p"

fun after_read :: "bytes list \<Rightarrow> bytes list" where
  "after_read [] = []"
| "after_read (p # ps) = (if drop 128 p = [] then ps else drop 128 p # ps)"

fun lines_in_time :: "bytes list \<Rightarrow> bytes list \<Rightarrow> bool" where
  "lines_in_time [] ps = True"
| "lines_in_time [l] ps = (length l \<le> length (first_read ps))"
| "lines_in_time (l # l' # ls) ps = (after_read ps \<noteq> [] \<and> length l \<le> length (first_read ps) \<and>
     length (l @ l') \<le> length (first_read ps @ first_read (after_read ps)))"

definition in_pieces :: "bytes list \<Rightarrow> bytes list \<Rightarrow> bool" where
  "in_pieces out ps \<longleftrightarrow> [] \<notin> set ps \<and> concat ps = concat out \<and> lines_in_time out ps"

lemma recv_first: "\<not> closed s \<Longrightarrow> inbox s = ps \<Longrightarrow> ps \<noteq> [] \<Longrightarrow>
    recv 128 s = (Ret (first_read ps), s\<lparr>inbox := after_read ps\<rparr>)"
  by (cases ps) (simp_all add: recv_def Let_def)

lemma after_read_pieces:
  "[] \<notin> set ps \<Longrightarrow> [] \<notin> set (after_read ps)" "first_read ps @ concat (after_read ps) = concat ps"
  by (cases ps; simp)+

lemma fixed_replies [simp]:
  "reply 100 [] \<noteq> []" "reply 200 [] \<noteq> []" "reply 200 [''Ready to go''] \<noteq> []"
  by code_simp+

text \<open>The status line of a result, without its newline.\<close>

definition result_status :: "int \<Rightarrow> str" where
  "result_status v = (if v \<noteq> 0 then ''221 INVALID DATA (Data to follow)'' else ''220 VALID DATA (Data to follow)'')"

lemma result_reply: "reply (if v \<noteq> 0 then 221 else 220) [''Data to follow''] = result_status v @ nl"
proof -
  have "reply 221 [''Data to follow''] = ''221 INVALID DATA (Data to follow)'' @ nl"
    "reply 220 [''Data to follow''] = ''220 VALID DATA (Data to follow)'' @ nl"
    by code_simp+
  then show ?thesis by (simp add: result_status_def)
qed

lemma result_status_facts:
  "ascii (result_status v)" "newline \<notin> set (result_status v)" "length (result_status v @ nl) \<le> 128"
  "parse_return_code_text (result_status v) =
     Inr \<lparr>rc_code = (if v = 0 then 220 else 221), rc_str = (if v = 0 then ''VALID DATA'' else ''INVALID DATA''),
          rc_msg = ''Data to follow''\<rparr>"
proof -
  let ?i = "''221 INVALID DATA (Data to follow)''" and ?v = "''220 VALID DATA (Data to follow)''"
  have "ascii ?i" "ascii ?v" "newline \<notin> set ?i" "newline \<notin> set ?v"
    "length (?i @ nl) \<le> 128" "length (?v @ nl) \<le> 128"
    "parse_return_code_text ?i =
       Inr \<lparr>rc_code = 221, rc_str = ''INVALID DATA'', rc_msg = ''Data to follow''\<rparr>"
    "parse_return_code_text ?v =
       Inr \<lparr>rc_code = 220, rc_str = ''VALID DATA'', rc_msg = ''Data to follow''\<rparr>"
    by code_simp+
  then show "ascii (result_status v)" "newline \<notin> set (result_status v)"
    "length (result_status v @ nl) \<le> 128"
    "parse_return_code_text (result_status v) =
     Inr \<lparr>rc_code = (if v = 0 then 220 else 221), rc_str = (if v = 0 then ''VALID DATA'' else ''INVALID DATA''),
          rc_msg = ''Data to follow''\<rparr>"
    by (auto simp: result_status_def)
qed

lemma recv_whole: "\<not> closed s \<Longrightarrow> inbox s = b # bs \<Longrightarrow> length b \<le> 128 \<Longrightarrow> recv 128 s = (Ret b, s\<lparr>inbox := bs\<rparr>)"
  by (simp add: recv_def)

lemma content_header_length:
  assumes "n < 10 ^ 19"
  shows "length (content_header n @ nl) \<le> 128"
  using length_show_nat [of n 18] assms by (simp add: content_header_def nl_def)

text \<open>A result as its three writes, and the flag and data that are read from any pieces of it.\<close>

lemma marshall_writes:
  "marshall_replies v d = [result_status v @ nl, content_header (length d) @ nl, d]"
  by (simp add: marshall_replies_def result_reply [of v, simplified] content_header_def repr_int_def result_status_def
      result_reply [unfolded result_status_def, of v])

lemma result_of_daemon:
  assumes "\<not> closed s" and "in_pieces (marshall_replies v d) (inbox s)" and "length d < 10 ^ 19"
  shows "\<exists>s'. read_result s = (Ret (v = 0, d), s') \<and> inbox s' = []"
proof -
  let ?ps = "inbox s" and ?st = "result_status v"
  let ?s1 = "s\<lparr>inbox := after_read ?ps\<rparr>" and ?s2 = "s\<lparr>inbox := after_read (after_read ?ps)\<rparr>"
  have p: "[] \<notin> set ?ps" "concat ?ps = ?st @ nl @ content_header (length d) @ nl @ d" "after_read ?ps \<noteq> []"
      "length (?st @ nl) \<le> length (first_read ?ps)"
      "length (?st @ nl @ content_header (length d) @ nl) \<le> length (first_read ?ps @ first_read (after_read ?ps))"
    using assms(2) by (simp_all add: in_pieces_def marshall_writes)
  then have "?ps \<noteq> []"
    by auto
  then have b: "recv 128 s = (Ret (first_read ?ps), ?s1)" "recv 128 ?s1 = (Ret (first_read (after_read ?ps)), ?s2)"
    using assms(1) p(3) recv_first [of s ?ps] recv_first [of ?s1 "after_read ?ps"] by simp_all
  have "flowing ?s2"
    using assms(1) p(1) after_read_pieces(1) by (simp add: flowing_def)
  moreover have "first_read ?ps @ first_read (after_read ?ps) @ concat (inbox ?s2) =
      ?st @ nl @ content_header (length d) @ nl @ d"
    using p(2) after_read_pieces(2) by simp
  moreover have "parse_return_code_text ?st =
      Inr \<lparr>rc_code = (if v = 0 then 220 else 221), rc_str = (if v = 0 then ''VALID DATA'' else ''INVALID DATA''),
          rc_msg = ''Data to follow''\<rparr>"
    by (rule result_status_facts)
  ultimately show ?thesis
    using read_result_pieces [OF result_status_facts(1,2) _ b, where valid = "v = 0"] p(4,5) by simp
qed

text \<open>A single line comes in one piece.\<close>

lemma single_piece:
  assumes "in_pieces [b] ps"
  shows "ps = (if b = [] then [] else [b])"
proof (cases ps)
  case (Cons p ps')
  with assms have c: "p @ concat ps' = b" "length b \<le> length p" "p \<noteq> []" "[] \<notin> set ps'"
    by (auto simp: in_pieces_def)
  then have "concat ps' = []"
    by auto
  then have "ps' = []"
    using c(4) by (cases ps') auto
  with c Cons show ?thesis by auto
qed (use assms in \<open>simp add: in_pieces_def\<close>)

text \<open>One piece for each write is such a delivery.\<close>

lemma delivered_pieces:
  "in_pieces [] []" "l \<noteq> [] \<Longrightarrow> length l \<le> 128 \<Longrightarrow> in_pieces [l] (delivered [l])"
  "length d < 10 ^ 19 \<Longrightarrow> in_pieces (marshall_replies v d) (delivered (marshall_replies v d))"
proof -
  show "in_pieces [] []" "l \<noteq> [] \<Longrightarrow> length l \<le> 128 \<Longrightarrow> in_pieces [l] (delivered [l])"
    by (simp_all add: in_pieces_def delivered_def)
  assume "length d < 10 ^ 19"
  from content_header_length [OF this] result_status_facts(3) [of v]
  show "in_pieces (marshall_replies v d) (delivered (marshall_replies v d))"
    by (simp add: in_pieces_def marshall_writes delivered_def nl_def)
qed

section \<open>Both sides\<close>

text \<open>The call that the conversation ends with, once the result is there.\<close>

lemma unmarshall_of_daemon:
  assumes "wired w r k" and "in_pieces (marshall_replies v d) (inbox (socks w ! k))"
    and "usable (socks w ! k)" and "length d < 10 ^ 19"
  shows "\<exists>s'. tester_unmarshall r w = call_test_unmarshall r d (v = 0) (w\<lparr>socks := (socks w)[k := s']\<rparr>) \<and>
    inbox s' = [] \<and> sent s' = sent (socks w ! k) \<and> usable s'"
proof -
  obtain s' where s': "read_result (socks w ! k) = (Ret (v = 0, d), s')" "inbox s' = []"
    using result_of_daemon [of "socks w ! k" v d] assms by (auto simp: usable_def)
  have "sock_reads (socks w ! k) s'"
    using quiet.read_result_R s'(1) by (metis snd_conv step_inv_def)
  then show ?thesis
    using s' assms(1,3)
    by (intro exI [of _ s']) (simp add: tester_unmarshall_def bind_eval on_wired sock_reads_def usable_def)
qed

lemma conversation_of_daemon:
  assumes "connects w r s" and "sent s = []"
    and "client_obj (objs w ! r) (Some h) p a" and "test_name (objs w ! r) = t"
    and "inbox s = [reply 100 [], reply 200 [''Ready to go''], reply 200 [], reply 200 []] @ ps"
    and "in_pieces (marshall_replies v d) ps" and "length d < 10 ^ 19"
  shows "\<exists>s'. client_conversation r w = call_test_unmarshall r d (v = 0) (dialled_to w r s') \<and>
    inbox s' = [] \<and> sent s' = session_lines t h p a"
proof -
  let ?in = ps and ?k = "length (socks w)"
  let ?s1 = "s\<lparr>sent := sent s @ [''HELLO'' @ nl, load_message t @ nl], inbox := reply 200 [] # ?in\<rparr>"
  let ?s2 = "?s1\<lparr>sent := sent ?s1 @ [setup_message h p a @ nl], inbox := ?in\<rparr>"
  let ?s3 = "?s2\<lparr>sent := sent ?s2 @ [''START'' @ nl]\<rparr>"
  have r: "r < length (objs w)" and u: "usable s"
    using assms(1) by (auto simp: connects_def)
  have i: "inbox s = reply 100 [] # reply 200 [''Ready to go''] # reply 200 [] # reply 200 [] # ?in"
    using assms(5) by simp
  have upd: "(dialled_to w r x)\<lparr>socks := (socks w @ [x])[?k := y]\<rparr> = dialled_to w r y" for x y
    by (simp add: dialled_to_def)
  have wd: "wired (dialled_to w r x) r ?k" for x
    using r by (rule dialled_wired)
  have "connect r w = (Ret (), dialled_to w r ?s1)"
    using connect_ok [OF assms(1) i daemon_replies(1) _ daemon_replies(3) _ daemon_replies(2)] assms(4) by simp
  moreover have "tester_setup r (dialled_to w r ?s1) = (Ret (), dialled_to w r ?s2)"
    using setup_ok [of "dialled_to w r ?s1" r h p a ?k "reply 200 []" ?in, OF _ wd _ _ daemon_replies(2)]
      assms(3) r u upd [of ?s1]
    by (simp add: client_obj_def)
  moreover have "tester_start r (dialled_to w r ?s2) = (Ret (), dialled_to w r ?s3)"
    using start_ok [OF wd, of ?s2] u upd [of ?s2] by simp
  moreover obtain s' where "tester_unmarshall r (dialled_to w r ?s3) =
      call_test_unmarshall r d (v = 0) (dialled_to w r s')" "inbox s' = []" "sent s' = sent ?s3"
    using unmarshall_of_daemon [OF wd, of v d ?s3] u assms(6,7) upd [of ?s3] by auto
  ultimately show ?thesis
    using assms(2)
    by (intro exI [of _ s']) (simp add: client_conversation_def bind_eval session_lines_def)
qed

end
