(* ===== verification/Controller_Run.thy ===== *)
theory Controller_Run
  imports End_To_End
begin

text \<open>
  The clients of a run of \<^verbatim>\<open>main\<close>, any number of them, when every client's daemon does its part.
  A \<open>job\<close> is one client: its entry, its peer, what the peer says after the replies of the set-up
  (the data and flag of a result, or the message of a test that has failed). The worlds between the phases of \<^verbatim>\<open>main\<close> are written out (\<open>set_up\<close>, \<open>started\<close>), up to
  the receive rounds, whose order is free; from there on they are described (\<open>collected\<close>). All are
  relative to the world in which the first client is set up, where the targets already have
  their objects and sockets.
\<close>

section \<open>Jobs\<close>

record job =
  j_client :: client_dict
  j_peer :: sock
  j_replies :: "bytes list"
  j_fails :: "str option"
  j_flag :: int
  j_data :: bytes

definition job_port :: "'p plugin \<Rightarrow> job \<Rightarrow> int" where
  "job_port p j = (if c_test_port (j_client j) = 0 then default_port p else c_test_port (j_client j))"

definition job_target :: "job \<Rightarrow> str" where
  "job_target j = the (c_test_target (j_client j))"

text \<open>The lines the controller sends for a job, and the peer that answers them and delivers a result.\<close>

definition job_lines :: "'p plugin \<Rightarrow> str \<Rightarrow> job \<Rightarrow> bytes list" where
  "job_lines p t j = session_lines t (job_target j) (job_port p j) (c_test_args (j_client j))"

definition peer_says :: "sock \<Rightarrow> bytes list \<Rightarrow> bool" where
  "peer_says k out \<longleftrightarrow> usable k \<and> sent k = [] \<and>
     (\<exists>ps. inbox k = [reply 100 [], reply 200 [''Ready to go''], reply 200 [], reply 200 []] @ ps \<and> in_pieces out ps)"

text \<open>The pieces in which it delivers the result.\<close>

definition result_pieces :: "sock \<Rightarrow> bytes list" where
  "result_pieces k = drop 4 (inbox k)"

text \<open>A line that reports a failure, in one piece, with its message.\<close>

definition reports :: "bytes \<Rightarrow> str \<Rightarrow> bool" where
  "reports b m \<longleftrightarrow> (\<exists>st c. b = st @ nl \<and> ascii st \<and> newline \<notin> set st \<and> length b \<le> 128 \<and>
     parse_return_code_text st = Inr c \<and> rc_code c \<noteq> 220 \<and> rc_code c \<noteq> 221 \<and> rc_msg c = m)"

definition job_ends :: "job \<Rightarrow> bool" where
  "job_ends j \<longleftrightarrow> (case j_fails j of
       None \<Rightarrow> j_replies j = marshall_replies (j_flag j) (j_data j) \<and> length (j_data j) < 10 ^ 19
     | Some m \<Rightarrow> (\<exists>b. j_replies j = [b] \<and> reports b m))"

definition job_ok :: "'p plugin \<Rightarrow> job \<Rightarrow> bool" where
  "job_ok p j \<longleftrightarrow> c_test_target (j_client j) \<noteq> None \<and> port_ok (c_port (j_client j)) \<and>
     default_port p \<noteq> - 1 \<and> peer_says (j_peer j) (j_replies j) \<and> job_ends j"

section \<open>The worlds between the phases\<close>

definition job_obj :: "'p plugin \<Rightarrow> str \<Rightarrow> nat \<Rightarrow> job list \<Rightarrow> nat \<Rightarrow> tester" where
  \<comment> \<open>the object of client \<open>i\<close>, after \<open>q\<close> objects of targets\<close>
  "job_obj p t q js i = (let c = j_client (js ! i) in
     \<lparr>is_target = False, hostname = c_hostname c, t_port = c_port c, t_test_target = c_test_target c,
      t_test_port = Some (job_port p (js ! i)), t_test_args = Some (c_test_args c), t_client_id = i,
      test_name = t, t_socket = Some (q + i)\<rparr>)"

definition job_entry :: "'p plugin \<Rightarrow> nat \<Rightarrow> job list \<Rightarrow> nat \<Rightarrow> client_dict" where
  "job_entry p q js i = (j_client (js ! i))\<lparr>c_test_port := job_port p (js ! i), c_testobj := Some (q + i)\<rparr>"

definition set_up_sock :: "'p plugin \<Rightarrow> str \<Rightarrow> job list \<Rightarrow> nat \<Rightarrow> sock" where
  "set_up_sock p t js i = (j_peer (js ! i))\<lparr>sent := take 3 (job_lines p t (js ! i)),
     inbox := result_pieces (j_peer (js ! i))\<rparr>"

definition set_up :: "'p plugin \<Rightarrow> str \<Rightarrow> job list \<Rightarrow> nat \<Rightarrow> 'p controller \<Rightarrow> 'p controller" where
  "set_up p t js n w =
     w\<lparr>net := map (Peer \<circ> j_peer) (drop n js),
       dialled := dialled w @ map (\<lambda>j. (c_hostname (j_client j), c_port (j_client j))) (take n js),
       socks := socks w @ map (set_up_sock p t js) [0..<n],
       objs := objs w @ map (job_obj p t (length (objs w)) js) [0..<n],
       clients := map (\<lambda>i. if i < n then job_entry p (length (objs w)) js i else j_client (js ! i)) [0..<length js]\<rparr>"

definition start_sock :: "'p plugin \<Rightarrow> str \<Rightarrow> job list \<Rightarrow> nat \<Rightarrow> sock" where
  "start_sock p t js i = (set_up_sock p t js i)\<lparr>sent := job_lines p t (js ! i)\<rparr>"

definition started :: "'p plugin \<Rightarrow> str \<Rightarrow> job list \<Rightarrow> nat \<Rightarrow> 'p controller \<Rightarrow> 'p controller" where
  "started p t js n w = (set_up p t js (length js) w)\<lparr>socks := socks w @
     map (\<lambda>i. if i < n then start_sock p t js i else set_up_sock p t js i) [0..<length js]\<rparr>"

text \<open>The world in which \<^verbatim>\<open>main\<close> sets up the first client.\<close>

definition ready_for :: "'p plugin \<Rightarrow> job list \<Rightarrow> 'p controller \<Rightarrow> bool" where
  "ready_for p js w \<longleftrightarrow> ipbench_plugin (client_mod w) = Some p \<and> net w = map (Peer \<circ> j_peer) js \<and>
     length (socks w) = length (objs w) \<and> \<not> opt_reset w \<and> clients w = map j_client js \<and>
     length (client_data (client_mod w)) = length js"

lemma map_nth_fun: "map (\<lambda>i. f (xs ! i)) [0..<length xs] = map f xs"
  by (rule nth_equalityI) simp_all

lemma set_up_0: "ready_for p js w \<Longrightarrow> set_up p t js 0 w = w"
proof -
  assume "ready_for p js w"
  then have "map (Peer \<circ> j_peer) js = net w" "clients w = map j_client js"
    by (simp_all add: ready_for_def)
  then show ?thesis
    by (intro controller.equality) (simp_all add: set_up_def map_nth_fun)
qed

lemma for_each_upto:
  assumes "\<And>i. i < n \<Longrightarrow> f i (S i) = (Ret (), S (Suc i))"
  shows "k \<le> n \<Longrightarrow> for_each [0..<k] f (S 0) = (Ret (), S k)"
proof (induction k)
  case (Suc k)
  then show ?case
    using assms [of k] by (simp add: for_each_append bind_eval)
qed simp

lemma map_upt_update:
  "i < n \<Longrightarrow> (\<And>j. j < n \<Longrightarrow> j \<noteq> i \<Longrightarrow> f j = g j) \<Longrightarrow> (map f [0..<n])[i := g i] = map g [0..<n]"
  by (rule nth_equalityI) (auto simp: nth_list_update)

section \<open>Setting up the clients\<close>

lemma default_port_ok:
  assumes "ipbench_plugin (client_mod w) = Some p" and "default_port p \<noteq> - 1"
  shows "on_client_mod get_default_port w = (Ret (default_port p), w)"
  using assms by (simp add: on_client_mod_def zoom_def get_default_port_def with_plugin_def)

lemma set_up_simps [simp]:
  "client_mod (set_up p t js n w) = client_mod w" "opt_reset (set_up p t js n w) = opt_reset w"
  "targets (set_up p t js n w) = targets w"
  "target_mod (set_up p t js n w) = target_mod w"
  "stdout (set_up p t js n w) = stdout w"
  "objs (set_up p t js n w) = objs w @ map (job_obj p t (length (objs w)) js) [0..<n]"
  "socks (set_up p t js n w) = socks w @ map (set_up_sock p t js) [0..<n]"
  "net (set_up p t js n w) = map (Peer \<circ> j_peer) (drop n js)"
  by (simp_all add: set_up_def)

lemma set_up_client:
  "i < length js \<Longrightarrow> clients (set_up p t js i w) ! i = j_client (js ! i)"
  by (simp add: set_up_def)

text \<open>The object of a client before it is connected, and the world in which it connects.\<close>

definition fresh_obj :: "'p plugin \<Rightarrow> str \<Rightarrow> job list \<Rightarrow> nat \<Rightarrow> tester" where
  "fresh_obj p t js i = (job_obj p t 0 js i)\<lparr>t_socket := None\<rparr>"

definition entered :: "'p plugin \<Rightarrow> str \<Rightarrow> job list \<Rightarrow> nat \<Rightarrow> 'p controller \<Rightarrow> 'p controller" where
  "entered p t js i w = (let v = set_up p t js i w in
     v\<lparr>objs := objs v @ [fresh_obj p t js i], clients := (clients v)[i := job_entry p (length (objs w)) js i]\<rparr>)"

lemma fresh_obj_simps [simp]:
  "hostname (fresh_obj p t js i) = c_hostname (j_client (js ! i))"
  "t_port (fresh_obj p t js i) = c_port (j_client (js ! i))" "test_name (fresh_obj p t js i) = t"
  "(fresh_obj p t js i)\<lparr>t_socket := Some (q + i)\<rparr> = job_obj p t q js i"
  by (simp_all add: fresh_obj_def job_obj_def Let_def)

lemma entered_simps [simp]:
  "opt_reset (entered p t js i w) = opt_reset w" "net (entered p t js i w) = map (Peer \<circ> j_peer) (drop i js)"
  "socks (entered p t js i w) = socks w @ map (set_up_sock p t js) [0..<i]"
  "objs (entered p t js i w) = objs w @ map (job_obj p t (length (objs w)) js) [0..<i] @ [fresh_obj p t js i]"
  by (simp_all add: entered_def Let_def)

lemma entry_connects:
  assumes "ready_for p js w" and "i < length js" and "default_port p \<noteq> - 1" and "py_str (o_test opts) = t"
  shows "setup_client_entry opts i (set_up p t js i w) =
    bind (connect (length (objs w) + i)) (\<lambda>_. tester_setup (length (objs w) + i)) (entered p t js i w)"
proof -
  let ?q = "length (objs w)" and ?v = "set_up p t js i w" and ?c = "j_client (js ! i)"
  have port: "(if c_test_port ?c = 0 then on_client_mod get_default_port else ret (c_test_port ?c)) ?v =
      (Ret (job_port p (js ! i)), ?v)"
    using assms default_port_ok [of ?v p] by (simp add: job_port_def ready_for_def)
  have obj: "IpbenchTestClient (c_hostname ?c) (c_port ?c) (c_test_target ?c) (job_port p (js ! i)) i t
      (c_test_args ?c) ?v = (Ret (?q + i), ?v\<lparr>objs := objs ?v @ [fresh_obj p t js i]\<rparr>)"
    by (simp add: IpbenchTestClient_def new_obj_def fresh_obj_def job_obj_def Let_def)
  have "?c\<lparr>c_test_port := job_port p (js ! i), c_testobj := Some (?q + i)\<rparr> = job_entry p ?q js i"
    by (simp add: job_entry_def)
  then show ?thesis
    unfolding setup_client_entry_def Let_def set_up_client [OF assms(2)] assms(4)
      bind_eval [of "if _ then _ else _"] port prod.case res.case
      bind_eval [of "IpbenchTestClient _ _ _ _ _ _ _"] obj
    by (simp add: bind_eval [of "\<lambda>w. _ w"] entered_def Let_def)
qed

lemma peer_inbox:
  "peer_says k out \<Longrightarrow> inbox k = reply 100 [] # reply 200 [''Ready to go''] # reply 200 [] #
     reply 200 [] # result_pieces k"
  "peer_says k out \<Longrightarrow> in_pieces out (result_pieces k)"
  by (auto simp: peer_says_def result_pieces_def)

lemma job_says: "job_ok p j \<Longrightarrow> peer_says (j_peer j) (j_replies j)"
  by (simp add: job_ok_def)

lemma dialled_set_up:
  assumes "i < length js" and "length (socks w) = length (objs w)"
  defines "q \<equiv> length (objs w)"
  shows "(dialled_to (entered p t js i w) (q + i) s)\<lparr>socks := (socks w @
      map (set_up_sock p t js) [0..<i] @ [s])[q + i := set_up_sock p t js i]\<rparr> = set_up p t js (Suc i) w"
proof (rule controller.equality)
  let ?f = "\<lambda>n k. if k < n then job_entry p (length (objs w)) js k else j_client (js ! k)"
  have "(map (?f i) [0..<length js])[i := ?f (Suc i) i] = map (?f (Suc i)) [0..<length js]"
    using assms by (intro map_upt_update) simp_all
  then show "clients ((dialled_to (entered p t js i w) (q + i) s)\<lparr>socks := (socks w @
      map (set_up_sock p t js) [0..<i] @ [s])[q + i := set_up_sock p t js i]\<rparr>) = clients (set_up p t js (Suc i) w)"
    by (simp add: entered_def set_up_def Let_def q_def)
qed (use assms in \<open>simp_all add: dialled_to_def entered_def set_up_def Let_def list_update_append nth_append
    take_Suc_conv_app_nth Cons_nth_drop_Suc [OF assms(1), symmetric]\<close>)

lemma set_up_step:
  assumes "ready_for p js w" and "i < length js" and "job_ok p (js ! i)" and "py_str (o_test opts) = t"
  shows "setup_client_entry opts i (set_up p t js i w) = (Ret (), set_up p t js (Suc i) w)"
proof -
  let ?j = "js ! i" and ?v = "entered p t js i w" and ?r = "length (objs w) + i"
  let ?c = "j_client ?j" and ?k = "j_peer ?j" and ?in = "result_pieces (j_peer ?j)"
  let ?s1 = "?k\<lparr>sent := sent ?k @ [''HELLO'' @ nl, load_message t @ nl], inbox := reply 200 [] # ?in\<rparr>"
  have i: "drop i js = ?j # drop (Suc i) js"
    using assms(2) by (simp add: Cons_nth_drop_Suc)
  have default: "default_port p \<noteq> - 1"
    using assms(3) by (simp add: job_ok_def)
  have q: "length (socks w) = length (objs w)"
    using assms(1) by (simp add: ready_for_def)
  have o: "objs ?v ! ?r = fresh_obj p t js i"
    by (simp add: nth_append)
  have "connects ?v ?r ?k"
    using assms i o by (simp add: connects_def ready_for_def job_ok_def peer_says_def)
  then have c: "connect ?r ?v = (Ret (), dialled_to ?v ?r ?s1)"
    using connect_ok [where w = ?v and r = ?r, OF _ peer_inbox(1) [OF job_says [OF assms(3)]] daemon_replies(1) _ daemon_replies(3) _ daemon_replies(2)] o
    by simp
  have w: "wired (dialled_to ?v ?r ?s1) ?r ?r"
    using dialled_wired [of ?r ?v ?s1] q by simp
  have "tester_setup ?r (dialled_to ?v ?r ?s1) = (Ret (), (dialled_to ?v ?r ?s1)\<lparr>socks :=
      (socks (dialled_to ?v ?r ?s1))[?r := ?s1\<lparr>sent := sent ?s1 @ [setup_message (job_target ?j) (job_port p ?j)
        (c_test_args ?c) @ nl], inbox := ?in\<rparr>]\<rparr>)"
    using setup_ok [where w = "dialled_to ?v ?r ?s1", OF _ w _ _ daemon_replies(2), of "job_target ?j" "job_port p ?j" "c_test_args ?c" ?in]
      assms(3) o q
    by (simp add: client_obj_def fresh_obj_def job_obj_def job_ok_def peer_says_def job_target_def Let_def nth_append)
  then show ?thesis
    unfolding entry_connects [OF assms(1,2) default assms(4)] bind_eval c
    using dialled_set_up [OF assms(2) q, where p = p and t = t and s = ?s1] assms(3) q
    by (simp add: job_lines_def session_lines_def job_ok_def peer_says_def set_up_sock_def)
qed

lemma set_up_all:
  assumes "ready_for p js w" and "\<forall>j \<in> set js. job_ok p j" and "py_str (o_test opts) = t"
  shows "for_each [0..<length js] (setup_client_entry opts) w = (Ret (), set_up p t js (length js) w)"
  using for_each_upto [of "length js" "setup_client_entry opts" "\<lambda>i. set_up p t js i w"]
    set_up_step [OF assms(1) _ _ assms(3)] assms(2) set_up_0 [OF assms(1)]
  by simp

section \<open>Starting them\<close>

lemma started_simps [simp]:
  "objs (started p t js n w) = objs w @ map (job_obj p t (length (objs w)) js) [0..<length js]"
  "socks (started p t js n w) = socks w @
     map (\<lambda>i. if i < n then start_sock p t js i else set_up_sock p t js i) [0..<length js]"
  by (simp_all add: started_def)

lemma job_obj_socket [simp]: "t_socket (job_obj p t q js i) = Some (q + i)"
  by (simp add: job_obj_def Let_def)

lemma started_step:
  assumes "i < length js" and "job_ok p (js ! i)" and "length (socks w) = length (objs w)"
  shows "tester_start (length (objs w) + i) (started p t js i w) = (Ret (), started p t js (Suc i) w)"
proof -
  let ?v = "started p t js i w" and ?r = "length (objs w) + i"
  have "wired ?v ?r ?r" "usable (socks ?v ! ?r)"
    using assms by (simp_all add: wired_def nth_append set_up_sock_def job_ok_def peer_says_def)
  then have "tester_start ?r ?v = (Ret (), ?v\<lparr>socks := (socks ?v)[?r := (socks ?v ! ?r)\<lparr>
      sent := sent (socks ?v ! ?r) @ [''START'' @ nl]\<rparr>]\<rparr>)"
    by (rule start_ok)
  moreover have "(socks ?v ! ?r)\<lparr>sent := sent (socks ?v ! ?r) @ [''START'' @ nl]\<rparr> = start_sock p t js i"
    using assms(1,3) by (simp add: nth_append start_sock_def set_up_sock_def job_lines_def session_lines_def)
  moreover have "(socks ?v)[?r := start_sock p t js i] = socks (started p t js (Suc i) w)"
    using assms(1,3) map_upt_update [of i "length js" "\<lambda>k. if k < i then start_sock p t js k else set_up_sock p t js k"
        "\<lambda>k. if k < Suc i then start_sock p t js k else set_up_sock p t js k"]
    by (simp add: list_update_append)
  ultimately show ?thesis
    by (simp add: started_def)
qed

lemma start_all:
  assumes "\<forall>j \<in> set js. job_ok p j" and "length (socks w) = length (objs w)"
  shows "for_each [0..<length js] (\<lambda>i. tester_start (length (objs w) + i)) (set_up p t js (length js) w) = (Ret (), started p t js (length js) w)"
proof -
  have z: "started p t js 0 w = set_up p t js (length js) w"
    by (simp add: started_def)
  have "tester_start (length (objs w) + i) (started p t js i w) = (Ret (), started p t js (Suc i) w)" if "i < length js" for i
    using that assms by (intro started_step) simp_all
  from for_each_upto [of "length js" "\<lambda>i. tester_start (length (objs w) + i)" "\<lambda>i. started p t js i w", OF this order_refl] show ?thesis
    by (simp add: z)
qed

section \<open>Collecting the results\<close>

text \<open>What a plugin has made of delivered data.\<close>

definition entry_for :: "'p plugin \<Rightarrow> int \<Rightarrow> bytes \<Rightarrow> client_data option \<Rightarrow> bool" where
  "entry_for p flag d e \<longleftrightarrow> (\<exists>s r x s'. pl_unmarshall p d s = (r, x, s') \<and>
     e = Some \<lparr>cd_data = x, cd_size = (case x of None \<Rightarrow> 0 | Some b \<Rightarrow> length b), cd_valid = (flag = 0)\<rparr>)"

definition entry_of :: "'p plugin \<Rightarrow> job \<Rightarrow> client_data option \<Rightarrow> bool" where
  "entry_of p j = entry_for p (j_flag j) (j_data j)"

text \<open>The socket of a started job and its entry, before and after its result has been read.\<close>

definition job_state :: "'p plugin \<Rightarrow> str \<Rightarrow> job \<Rightarrow> bool \<Rightarrow> sock \<Rightarrow> client_data option \<Rightarrow> bool" where
  "job_state p t j read s e \<longleftrightarrow> usable s \<and> sent s = job_lines p t j \<and>
     (if read then inbox s = [] \<and> (j_fails j = None \<longrightarrow> entry_of p j e)
      else inbox s = result_pieces (j_peer j))"

text \<open>The results of the objects in \<open>R\<close> are there; the other jobs, the targets and all else are as before.\<close>

definition collected :: "'p plugin \<Rightarrow> str \<Rightarrow> job list \<Rightarrow> 'p controller \<Rightarrow> nat set \<Rightarrow> 'p controller \<Rightarrow> bool" where
  "collected p t js b R w \<longleftrightarrow>
     objs w = objs b @ map (job_obj p t (length (objs b)) js) [0..<length js] \<and>
     clients w = map (job_entry p (length (objs b)) js) [0..<length js] \<and>
     targets w = targets b \<and> target_mod w = target_mod b \<and> stdout w = stdout b \<and>
     ipbench_plugin (client_mod w) = Some p \<and> length (client_data (client_mod w)) = length js \<and>
     length (socks b) = length (objs b) \<and> length (socks w) = length (objs b) + length js \<and>
     (\<forall>k < length (objs b). socks w ! k = socks b ! k) \<and>
     (\<forall>i < length js. job_state p t (js ! i) (length (objs b) + i \<in> R) (socks w ! (length (objs b) + i))
        (client_data (client_mod w) ! i))"

lemma started_collected:
  assumes "ready_for p js w" and "\<forall>j \<in> set js. job_ok p j"
  shows "collected p t js w {} (started p t js (length js) w)"
  using assms
  by (auto simp: collected_def started_def set_up_def ready_for_def start_sock_def set_up_sock_def job_ok_def peer_says_def
      job_state_def nth_append)

definition never_fails :: "'p plugin \<Rightarrow> bool" where
  "never_fails p \<longleftrightarrow> (\<forall>d s. fst (pl_unmarshall p d s) \<noteq> - 1) \<and> (\<forall>cd s. fst (pl_output p cd s) \<noteq> - 1)"

lemma unmarshall_client_ok:
  assumes "ipbench_plugin m = Some p" and "never_fails p" and "k < length (client_data m)"
  shows "\<exists>r e s. unmarshall_client k d (v = 0) m =
      (Ret r, m\<lparr>plugin_state := s, client_data := (client_data m)[k := e]\<rparr>) \<and> entry_for p v d e"
proof -
  obtain r x s where u: "pl_unmarshall p d (plugin_state m) = (r, x, s)"
    by (metis prod_cases3)
  then have "r \<noteq> - 1"
    using assms(2) by (metis fst_conv never_fails_def)
  with u assms(1,3) have "unmarshall_client k d (v = 0) m = (Ret r, m\<lparr>plugin_state := s, client_data :=
      (client_data m)[k := Some \<lparr>cd_data = x, cd_size = (case x of None \<Rightarrow> 0 | Some b \<Rightarrow> length b), cd_valid = (v = 0)\<rparr>]\<rparr>)"
    by (simp add: unmarshall_client_def with_plugin_def)
  with u show ?thesis
    unfolding entry_for_def by blast
qed

lemma failure_read:
  assumes "\<not> closed s" and "in_pieces [b] (inbox s)" and "reports b m"
  shows "read_result s = (Raise (IpBenchError (''Test failed  : '' @ m)), s\<lparr>inbox := []\<rparr>)"
proof -
  obtain st c where b: "b = st @ nl" "ascii st" "newline \<notin> set st" "length b \<le> 128"
      "parse_return_code_text st = Inr c" "rc_code c \<noteq> 220" "rc_code c \<noteq> 221" "rc_msg c = m"
    using assms(3) by (auto simp: reports_def)
  have "inbox s = [b]"
    using single_piece [OF assms(2)] b(1) by (simp add: nl_def)
  then have "recv 128 s = (Ret (st @ nl @ []), s\<lparr>inbox := []\<rparr>)"
    using assms(1) b by (subst recv_whole) simp_all
  then show ?thesis
    using b status_line_fails [of st c "[]" "s\<lparr>inbox := []\<rparr>"] by (simp add: read_result_def bind_eval)
qed

text \<open>The reading of results that may report a failure: the first one ends it.\<close>

definition rounds_result :: "str option \<Rightarrow> unit res" where
  "rounds_result failure = (case failure of None \<Rightarrow> Ret () | Some m \<Rightarrow> Raise (IpBenchError m))"

lemma collect_fails:
  assumes "collected p t js b R w" and "i < length js" and "length (objs b) + i \<notin> R"
    and "job_ok p (js ! i)" and "j_fails (js ! i) = Some m"
  shows "\<exists>w'. tester_unmarshall (length (objs b) + i) w = (Raise (IpBenchError (''Test failed  : '' @ m)), w') \<and>
    collected p t js b (insert (length (objs b) + i) R) w'"
proof -
  let ?k = "length (objs b) + i"
  have w: "wired w ?k ?k" "usable (socks w ! ?k)" "?k < length (socks w)"
    using assms by (auto simp: collected_def job_state_def wired_def nth_append)
  obtain x where x: "in_pieces [x] (inbox (socks w ! ?k))" "reports x m"
    using assms peer_inbox(2) [OF job_says [OF assms(4)]]
    by (auto simp: collected_def job_state_def job_ok_def job_ends_def)
  have "read_result (socks w ! ?k) = (Raise (IpBenchError (''Test failed  : '' @ m)), (socks w ! ?k)\<lparr>inbox := []\<rparr>)"
    using w(2) by (intro failure_read [OF _ x]) (simp add: usable_def)
  then have "tester_unmarshall ?k w = (Raise (IpBenchError (''Test failed  : '' @ m)),
      w\<lparr>socks := (socks w)[?k := (socks w ! ?k)\<lparr>inbox := []\<rparr>]\<rparr>)"
    by (simp add: tester_unmarshall_def bind_eval on_wired [OF w(1)])
  moreover have "collected p t js b (insert ?k R) (w\<lparr>socks := (socks w)[?k := (socks w ! ?k)\<lparr>inbox := []\<rparr>]\<rparr>)"
    using assms(1,2,5) w by (auto simp: collected_def job_state_def nth_list_update)
  ultimately show ?thesis
    by blast
qed

lemma collect_step:
  assumes "collected p t js b R w" and "never_fails p" and "i < length js" and "length (objs b) + i \<notin> R"
    and "job_ok p (js ! i)" and "j_fails (js ! i) = None"
  shows "\<exists>w'. tester_unmarshall (length (objs b) + i) w = (Ret (), w') \<and>
    collected p t js b (insert (length (objs b) + i) R) w'"
proof -
  let ?j = "js ! i" and ?k = "length (objs b) + i"
  have w: "wired w ?k ?k" "usable (socks w ! ?k)" "?k < length (socks w)"
      "in_pieces (j_replies ?j) (inbox (socks w ! ?k))"
      "objs w ! ?k = job_obj p t (length (objs b)) js i" "ipbench_plugin (client_mod w) = Some p"
      "i < length (client_data (client_mod w))"
    using assms peer_inbox(2) [OF job_says [OF assms(5)]]
    by (auto simp: collected_def job_state_def wired_def nth_append)
  obtain s' where s': "tester_unmarshall ?k w =
      call_test_unmarshall ?k (j_data ?j) (j_flag ?j = 0) (w\<lparr>socks := (socks w)[?k := s']\<rparr>)"
      "inbox s' = []" "sent s' = sent (socks w ! ?k)" "usable s'"
    using unmarshall_of_daemon [OF w(1) _ w(2), of "j_flag ?j" "j_data ?j"] w(4) assms(5,6)
    by (auto simp: job_ok_def job_ends_def)
  obtain r e s where u: "unmarshall_client i (j_data ?j) (j_flag ?j = 0) (client_mod w) = (Ret r,
      (client_mod w)\<lparr>plugin_state := s, client_data := (client_data (client_mod w))[i := e]\<rparr>)"
      "entry_for p (j_flag ?j) (j_data ?j) e"
    using unmarshall_client_ok [OF w(6) assms(2) w(7)] by blast
  let ?w = "w\<lparr>socks := (socks w)[?k := s'], client_mod :=
    (client_mod w)\<lparr>plugin_state := s, client_data := (client_data (client_mod w))[i := e]\<rparr>\<rparr>"
  have "\<not> is_target (objs w ! ?k)" "t_client_id (objs w ! ?k) = i"
    unfolding w(5) by (simp_all add: job_obj_def Let_def)
  then have "tester_unmarshall ?k w = (Ret (), ?w)"
    unfolding s'(1) using u(1)
    by (simp add: call_test_unmarshall_def bind_eval obj_def on_client_mod_def zoom_def)
  moreover have "collected p t js b (insert ?k R) ?w"
    using assms(1,3) s'(2-4) w(2,3,7) u(2)
    by (auto simp: collected_def job_state_def entry_of_def nth_list_update)
  ultimately show ?thesis
    by blast
qed

fun first_failure :: "(nat \<Rightarrow> str option) \<Rightarrow> nat list \<Rightarrow> str option" where
  "first_failure fails [] = None"
| "first_failure fails (k # ks) =
     (case fails k of None \<Rightarrow> first_failure fails ks | Some m \<Rightarrow> Some (''Test failed  : '' @ m))"

text \<open>What the object \<open>k\<close> will report, when the objects of the clients start at \<open>q\<close>.\<close>

definition object_fails :: "nat \<Rightarrow> job list \<Rightarrow> nat \<Rightarrow> str option" where
  "object_fails q js k = j_fails (js ! (k - q))"

lemma collect_each:
  assumes "never_fails p" and "\<forall>j \<in> set js. job_ok p j"
  shows "collected p t js b R w \<Longrightarrow> distinct ks \<Longrightarrow> set ks \<inter> R = {} \<Longrightarrow>
    set ks \<subseteq> {length (objs b)..<length (objs b) + length js} \<Longrightarrow>
    first_failure (object_fails (length (objs b)) js) ks = failure \<Longrightarrow>
    \<exists>R' w'. for_each ks tester_unmarshall w = (rounds_result failure, w') \<and> collected p t js b R' w' \<and>
      (failure = None \<longrightarrow> R' = R \<union> set ks)"
proof (induction ks arbitrary: R w)
  case Nil
  then show ?case by (auto simp: rounds_result_def)
next
  case (Cons k ks)
  then obtain i where i: "k = length (objs b) + i" "i < length js"
    by (auto simp: le_iff_add)
  then have f: "object_fails (length (objs b)) js k = j_fails (js ! i)"
    by (simp add: object_fails_def)
  show ?case
  proof (cases "j_fails (js ! i)")
    case None
    with i Cons.prems(3) obtain w1 where
      w1: "tester_unmarshall k w = (Ret (), w1)" "collected p t js b (insert k R) w1"
      using collect_step [OF Cons.prems(1) assms(1) i(2)] assms(2) by auto
    moreover have "insert k R \<union> set ks = R \<union> set (k # ks)"
      by auto
    ultimately show ?thesis
      using Cons.IH [OF w1(2)] Cons.prems f None by (auto simp: bind_eval)
  next
    case (Some m)
    with i Cons.prems(3) obtain w1 where "tester_unmarshall k w = (Raise (IpBenchError (''Test failed  : '' @ m)), w1)"
        "collected p t js b (insert k R) w1"
      using collect_fails [OF Cons.prems(1) i(2)] assms(2) by auto
    with Cons.prems(5) f Some show ?thesis
      by (auto simp: bind_eval rounds_result_def)
  qed
qed

text \<open>
  How the receive rounds end, by the answers of \<^verbatim>\<open>select\<close> and the failures alone: \<open>Some None\<close> when every
  object waited for has been read, \<open>Some (Some m)\<close> when the error \<open>m\<close> comes before that, from a
  client or because a target has something to read, and \<open>None\<close> when the answers do not suffice.
\<close>

fun rounds_end ::
  "(nat \<Rightarrow> str option) \<Rightarrow> (nat list \<times> nat list) list \<Rightarrow> nat list \<Rightarrow> nat list \<Rightarrow> str option option" where
  "rounds_end fails [] ws ts = (if ws = [] then Some None else None)"
| "rounds_end fails ((readable, failed) # polls) ws ts =
     (if ws = [] then Some None
      else (case first_failure fails (filter (\<lambda>k. k \<in> set readable) ws) of
          Some m \<Rightarrow> Some (Some m)
        | None \<Rightarrow>
            if \<exists>k \<in> set ts. k \<in> set failed then Some (Some ''Target returned an error!'')
            else rounds_end fails polls (filter (\<lambda>k. k \<notin> set readable) ws) ts))"

lemma no_failure: "first_failure fails ks = None \<Longrightarrow> k \<in> set ks \<Longrightarrow> fails k = None"
  by (induction ks) (auto split: option.splits)

lemma rounds_end_reported:
  "rounds_end fails polls ws ts = Some None \<Longrightarrow> k \<in> set ws \<Longrightarrow> fails k = None"
proof (induction fails polls ws ts rule: rounds_end.induct)
  case (2 fails readable failed polls ws ts)
  then show ?case
    by (cases "k \<in> set readable") (auto dest: no_failure [of fails _ k] split: option.splits if_splits)
qed (simp split: if_splits)

lemma remove_all_filter: "distinct ws \<Longrightarrow> remove_all rs ws = filter (\<lambda>x. x \<notin> set rs) ws"
  by (induction rs arbitrary: ws) (auto simp: distinct_remove1_removeAll removeAll_filter_not_eq intro!: filter_cong)

text \<open>The targets that are there before the clients have their connections, open and in order.\<close>

definition targets_wired :: "'p controller \<Rightarrow> bool" where
  "targets_wired b \<longleftrightarrow>
     (\<forall>k < length (objs b). t_socket (objs b ! k) = Some k \<and> \<not> closed (socks b ! k))"

lemma collected_selectable:
  assumes "collected p t js b R w" and "targets_wired b" and "k < length (objs b) + length js"
  shows "selectable w k"
proof (cases "k < length (objs b)")
  case True
  with assms show ?thesis
    by (auto simp: collected_def targets_wired_def selectable_def nth_append)
next
  case False
  with assms(3) obtain i where "k = length (objs b) + i" "i < length js"
    by (auto simp: not_less le_iff_add)
  with assms(1) show ?thesis
    by (auto simp: collected_def selectable_def job_state_def usable_def nth_append)
qed

lemma poll_next:
  assumes "ws \<noteq> []" and "distinct ws" and "\<forall>r \<in> set ws. selectable w r"
    and "for_each (filter (\<lambda>k. k \<in> set readable) ws) tester_unmarshall w = (x, w1)"
    and "x = Ret () \<Longrightarrow> \<forall>r \<in> set ts. selectable w1 r"
  shows "poll_loop ((readable, failed) # polls) ws ts w =
    bind (\<lambda>w. (x, w1)) (\<lambda>_.
      if \<exists>k \<in> set ts. k \<in> set failed then ipbench_fail ''Target returned an error!''
      else poll_loop polls (filter (\<lambda>k. k \<notin> set readable) ws) ts) w"
proof -
  have "remove_all (filter (\<lambda>k. k \<in> set readable) ws) ws = filter (\<lambda>k. k \<notin> set readable) ws"
    using assms(2) by (auto simp: remove_all_filter intro!: filter_cong)
  moreover have "filter (\<lambda>k. k \<in> set failed) ts = [] \<longleftrightarrow> \<not> (\<exists>k \<in> set ts. k \<in> set failed)"
    by (auto simp: filter_empty_conv)
  ultimately show ?thesis
    using assms(5) by (cases x)
      (simp_all add: poll_round [OF assms(1)] bind_eval select_ok [OF assms(3)] assms(4) select_ok)
qed

lemma collect_rounds:
  assumes "never_fails p" and "\<forall>j \<in> set js. job_ok p j" and "targets_wired b"
  shows "rounds_end (object_fails (length (objs b)) js) polls ws ts = Some failure \<Longrightarrow> collected p t js b R w \<Longrightarrow>
    distinct ws \<Longrightarrow> set ws \<inter> R = {} \<Longrightarrow> set ws \<subseteq> {length (objs b)..<length (objs b) + length js} \<Longrightarrow>
    set ts \<subseteq> {..<length (objs b)} \<Longrightarrow>
    \<exists>R' w'. poll_loop polls ws ts w = (rounds_result failure, w') \<and> collected p t js b R' w' \<and>
      (failure = None \<longrightarrow> R' = R \<union> set ws)"
proof (induction "object_fails (length (objs b)) js" polls ws ts arbitrary: R w rule: rounds_end.induct)
  case (1 ws ts)
  then show ?case by (auto simp: rounds_result_def poll_loop.simps split: if_splits)
next
  case (2 readable failed polls ws ts)
  let ?fails = "object_fails (length (objs b)) js"
  show ?case
  proof (cases "ws = []")
    case True
    with 2(2,3) show ?thesis by (auto simp: rounds_result_def poll_loop.simps)
  next
    case False
    let ?now = "filter (\<lambda>k. k \<in> set readable) ws" and ?later = "filter (\<lambda>k. k \<notin> set readable) ws"
    have now_sets: "distinct ?now" "set ?now \<inter> R = {}"
        "set ?now \<subseteq> {length (objs b)..<length (objs b) + length js}"
      using 2(4-6) by auto
    obtain R1 w1 where w1: "for_each ?now tester_unmarshall w = (rounds_result (first_failure ?fails ?now), w1)"
        "collected p t js b R1 w1" "first_failure ?fails ?now = None \<longrightarrow> R1 = R \<union> set ?now"
      using collect_each [OF assms(1,2) 2(3) now_sets refl] by (elim exE conjE) rule
    have sel: "\<forall>r \<in> set ws. selectable w r" "\<forall>r \<in> set ts. selectable w1 r"
      using collected_selectable [OF 2(3) assms(3)] collected_selectable [OF w1(2) assms(3)] 2(6,7) by auto
    note next_round = poll_next [OF False 2(4) sel(1) w1(1) sel(2)]
    show ?thesis
    proof (cases "first_failure ?fails ?now")
      case (Some m)
      with w1 2(2) False show ?thesis
        by (auto simp: next_round bind_eval rounds_result_def)
    next
      case None
      have now: "poll_loop ((readable, failed) # polls) ws ts w =
          (if \<exists>k \<in> set ts. k \<in> set failed then ipbench_fail ''Target returned an error!''
           else poll_loop polls ?later ts) w1"
        using None by (simp add: next_round bind_eval rounds_result_def)
      show ?thesis
      proof (cases "\<exists>k \<in> set ts. k \<in> set failed")
        case True
        then show ?thesis
          using now w1(2) 2(2) False None by (auto simp: ipbench_fail_def rounds_result_def)
      next
        case not: False
        obtain R' w2 where w2: "poll_loop polls ?later ts w1 = (rounds_result failure, w2)" "collected p t js b R' w2"
            "failure = None \<longrightarrow> R' = R1 \<union> set ?later"
          using 2(1) [OF False None not _ w1(2)] 2(2,4-7) False None not w1(3) by auto
        moreover have "R \<union> set ?now \<union> set ?later = R \<union> set ws"
          by auto
        ultimately show ?thesis
          using now not w1(3) None by (intro exI [of _ R'] exI [of _ w2]) simp
      qed
    qed
  qed
qed

end
