(* ===== verification/Target_Run.thy ===== *)
theory Target_Run
  imports Controller_Run Target_Session
begin

text \<open>
  The targets of a run of \<^verbatim>\<open>main\<close>, any number of them, when every target's daemon does its part. An
  \<open>errand\<close> is one target: its entry, its peer, what the peer says after the replies of the set-up,
  and the data and flag that it delivers if that is a result. The
  targets are set up before the clients and started after them, so the worlds of their set-up
  (\<open>targets_up\<close>, \<open>errands_started\<close>) are the ones that those of \<^theory_text>\<open>Controller_Run\<close> start from. The
  module is shared by all targets; what a sequence of loads makes of it is \<open>mods_at\<close>.
\<close>

section \<open>Errands\<close>

record errand =
  e_target :: target_dict
  e_peer :: sock
  e_replies :: "bytes list"
  e_flag :: int
  e_data :: bytes

definition errand_host :: "errand \<Rightarrow> str" where
  "errand_host e = the (g_hostname (e_target e))"

definition errand_lines :: "errand \<Rightarrow> bytes list" where
  "errand_lines e = target_lines (g_test (e_target e)) (g_test_args (e_target e))"

definition errand_ok :: "errand \<Rightarrow> bool" where
  "errand_ok e \<longleftrightarrow> g_hostname (e_target e) \<noteq> None \<and> port_ok (g_port (e_target e)) \<and>
     peer_says (e_peer e) (e_replies e)"

lemma errand_says: "errand_ok e \<Longrightarrow> peer_says (e_peer e) (e_replies e)"
  by (simp add: errand_ok_def)

text \<open>The target's test has succeeded.\<close>

definition errand_delivers :: "errand \<Rightarrow> bool" where
  "errand_delivers e \<longleftrightarrow> e_replies e = marshall_replies (e_flag e) (e_data e) \<and> length (e_data e) < 10 ^ 19"

section \<open>The shared module\<close>

definition load_target :: "str option \<Rightarrow> str \<Rightarrow> ('p cmod, unit) io" where
  "load_target a n = bind (load_plugin n) (\<lambda>_. setup_controller_target a)"

definition mods_at :: "str option \<Rightarrow> errand list \<Rightarrow> nat \<Rightarrow> 'p cmod \<Rightarrow> 'p cmod" where
  "mods_at a es n m = snd (for_each (map (g_test \<circ> e_target) (take n es)) (load_target a) m)"

definition targets_load :: "str option \<Rightarrow> errand list \<Rightarrow> 'p plugin \<Rightarrow> 'p cmod \<Rightarrow> bool" where
  "targets_load a es pt m \<longleftrightarrow>
     fst (for_each (map (g_test \<circ> e_target) es) (load_target a) m) = Ret () \<and>
     (es \<noteq> [] \<longrightarrow> ipbench_plugin (mods_at a es (length es) m) = Some pt)"

lemma for_each_prefix:
  assumes "fst (for_each xs f w) = Ret ()" and "i < length xs"
  shows "f (xs ! i) (snd (for_each (take i xs) f w)) = (Ret (), snd (for_each (take (Suc i) xs) f w))"
proof -
  have "for_each xs f w = bind (for_each (take i xs) f) (\<lambda>_. for_each (drop i xs) f) w"
    by (simp add: for_each_append [symmetric])
  with assms(1) obtain v where v: "for_each (take i xs) f w = (Ret (), v)" "fst (for_each (drop i xs) f v) = Ret ()"
    by (cases "for_each (take i xs) f w"; cases "fst (for_each (take i xs) f w)") (auto simp: bind_eval bind_def)
  moreover have "drop i xs = xs ! i # drop (Suc i) xs"
    using assms(2) by (simp add: Cons_nth_drop_Suc)
  ultimately obtain v' where v': "f (xs ! i) v = (Ret (), v')"
    by (cases "f (xs ! i) v"; cases "fst (f (xs ! i) v)") (auto simp: bind_def)
  with v(1) assms(2) show ?thesis
    by (simp add: take_Suc_conv_app_nth for_each_append bind_eval)
qed

lemma mods_step:
  assumes "targets_load a es pt m" and "i < length es"
  shows "load_target a (g_test (e_target (es ! i))) (mods_at a es i m) = (Ret (), mods_at a es (Suc i) m)"
  using for_each_prefix [of "map (g_test \<circ> e_target) es" "load_target a" m i] assms
  by (simp add: targets_load_def mods_at_def take_map)

section \<open>The worlds\<close>

definition errand_obj :: "errand list \<Rightarrow> nat \<Rightarrow> tester" where
  "errand_obj es i = (let g = e_target (es ! i) in
     \<lparr>is_target = True, hostname = errand_host (es ! i), t_port = g_port g, t_test_target = None,
      t_test_port = None, t_test_args = Some (g_test_args g), t_client_id = 0, test_name = g_test g,
      t_socket = Some i\<rparr>)"

definition errand_entry :: "errand list \<Rightarrow> nat \<Rightarrow> target_dict" where
  "errand_entry es i = (e_target (es ! i))\<lparr>g_testobj := Some i\<rparr>"

definition errand_sock :: "errand list \<Rightarrow> nat \<Rightarrow> sock" where
  "errand_sock es i = (e_peer (es ! i))\<lparr>sent := take 3 (errand_lines (es ! i)),
     inbox := result_pieces (e_peer (es ! i))\<rparr>"

definition targets_up :: "str option \<Rightarrow> errand list \<Rightarrow> nat \<Rightarrow> 'p controller \<Rightarrow> 'p controller" where
  "targets_up a es n w =
     w\<lparr>net := map (Peer \<circ> e_peer) (drop n es) @ drop (length es) (net w),
       dialled := dialled w @ map (\<lambda>e. (errand_host e, g_port (e_target e))) (take n es),
       socks := map (errand_sock es) [0..<n], objs := map (errand_obj es) [0..<n],
       target_mod := mods_at a es n (target_mod w),
       targets := map (\<lambda>i. if i < n then errand_entry es i else e_target (es ! i)) [0..<length es]\<rparr>"

text \<open>The world of \<^verbatim>\<open>main\<close> when the \<^verbatim>\<open>try\<close> begins, in a process that has no object and no socket yet.\<close>

definition targets_ready :: "errand list \<Rightarrow> 'p controller \<Rightarrow> bool" where
  "targets_ready es w \<longleftrightarrow> map (Peer \<circ> e_peer) es @ drop (length es) (net w) = net w \<and>
     socks w = [] \<and> objs w = [] \<and> \<not> opt_reset w \<and> targets w = map e_target es"

lemma targets_up_0:
  assumes "targets_ready es w"
  shows "targets_up a es 0 w = w"
proof -
  have "map (Peer \<circ> e_peer) es @ drop (length es) (net w) = net w" "socks w = []" "objs w = []"
      "targets w = map e_target es"
    using assms by (simp_all add: targets_ready_def)
  then show ?thesis
    by (intro controller.equality) (simp_all add: targets_up_def mods_at_def map_nth_fun)
qed

lemma targets_up_simps [simp]:
  "client_mod (targets_up a es n w) = client_mod w" "opt_reset (targets_up a es n w) = opt_reset w"
  "clients (targets_up a es n w) = clients w" "stdout (targets_up a es n w) = stdout w"
  "target_mod (targets_up a es n w) = mods_at a es n (target_mod w)"
  "objs (targets_up a es n w) = map (errand_obj es) [0..<n]"
  "socks (targets_up a es n w) = map (errand_sock es) [0..<n]"
  "net (targets_up a es n w) = map (Peer \<circ> e_peer) (drop n es) @ drop (length es) (net w)"
  by (simp_all add: targets_up_def)

lemma errand_obj_simps [simp]:
  "is_target (errand_obj es i)" "t_socket (errand_obj es i) = Some i"
  "hostname (errand_obj es i) = errand_host (es ! i)" "t_port (errand_obj es i) = g_port (e_target (es ! i))"
  "test_name (errand_obj es i) = g_test (e_target (es ! i))"
  "t_test_args (errand_obj es i) = Some (g_test_args (e_target (es ! i)))"
  by (simp_all add: errand_obj_def Let_def)

section \<open>Setting up the targets\<close>

text \<open>The world in which target \<open>i\<close> connects.\<close>

definition target_entered :: "str option \<Rightarrow> errand list \<Rightarrow> nat \<Rightarrow> 'p controller \<Rightarrow> 'p controller" where
  "target_entered a es i w = (let v = targets_up a es i w in
     v\<lparr>target_mod := mods_at a es (Suc i) (target_mod w), objs := objs v @ [(errand_obj es i)\<lparr>t_socket := None\<rparr>],
       targets := (targets v)[i := errand_entry es i]\<rparr>)"

lemma target_entered_simps [simp]:
  "opt_reset (target_entered a es i w) = opt_reset w"
  "net (target_entered a es i w) = map (Peer \<circ> e_peer) (drop i es) @ drop (length es) (net w)"
  "socks (target_entered a es i w) = map (errand_sock es) [0..<i]"
  "objs (target_entered a es i w) = map (errand_obj es) [0..<i] @ [(errand_obj es i)\<lparr>t_socket := None\<rparr>]"
  by (simp_all add: target_entered_def Let_def)

lemma target_entry_connects:
  assumes "targets_load a es pt (target_mod w)" and "i < length es" and "errand_ok (es ! i)"
    and "o_target_controller_args opts = a"
  shows "setup_target_entry opts i (targets_up a es i w) =
    bind (connect i) (\<lambda>_. tester_setup i) (target_entered a es i w)"
proof -
  let ?v = "targets_up a es i w" and ?g = "e_target (es ! i)"
  let ?v1 = "?v\<lparr>target_mod := mods_at a es (Suc i) (target_mod w)\<rparr>"
  have g: "targets ?v ! i = ?g" "g_hostname ?g = Some (errand_host (es ! i))"
    using assms(2,3) by (simp_all add: targets_up_def errand_ok_def errand_host_def)
  obtain m where m: "load_plugin (g_test ?g) (target_mod ?v) = (Ret (), m)"
      "setup_controller_target a m = (Ret (), mods_at a es (Suc i) (target_mod w))"
    using mods_step [OF assms(1,2)] unfolding load_target_def by (auto elim!: bind_RetE)
  have l: "on_target_mod (load_plugin (g_test ?g)) ?v = (Ret (), ?v\<lparr>target_mod := m\<rparr>)"
    "on_target_mod (setup_controller_target a) (?v\<lparr>target_mod := m\<rparr>) = (Ret (), ?v1)"
    using m by (simp_all add: on_target_mod_def zoom_def)
  have o: "IpbenchTestTarget (errand_host (es ! i)) (g_port ?g) (g_test ?g) (g_test_args ?g) ?v1 =
      (Ret i, ?v1\<lparr>objs := objs ?v @ [(errand_obj es i)\<lparr>t_socket := None\<rparr>]\<rparr>)"
    by (simp add: IpbenchTestTarget_def new_obj_def errand_obj_def Let_def)
  show ?thesis
    unfolding setup_target_entry_def Let_def g assms(4)
    by (simp add: bind_eval [of "on_target_mod _"] l bind_eval [of "IpbenchTestTarget _ _ _ _"] o
        bind_eval [of "\<lambda>w. _ w"] target_entered_def errand_entry_def Let_def)
qed

lemma dialled_targets_up:
  assumes "i < length es"
  shows "(dialled_to (target_entered a es i w) i s)\<lparr>socks :=
      (map (errand_sock es) [0..<i] @ [s])[i := errand_sock es i]\<rparr> = targets_up a es (Suc i) w"
proof (rule controller.equality)
  let ?f = "\<lambda>n k. if k < n then errand_entry es k else e_target (es ! k)"
  have "(map (?f i) [0..<length es])[i := ?f (Suc i) i] = map (?f (Suc i)) [0..<length es]"
    using assms by (intro map_upt_update) simp_all
  then show "targets ((dialled_to (target_entered a es i w) i s)\<lparr>socks :=
      (map (errand_sock es) [0..<i] @ [s])[i := errand_sock es i]\<rparr>) = targets (targets_up a es (Suc i) w)"
    by (simp add: target_entered_def targets_up_def Let_def)
qed (use assms in \<open>simp_all add: dialled_to_def target_entered_def targets_up_def Let_def list_update_append
    nth_append take_Suc_conv_app_nth Cons_nth_drop_Suc [OF assms, symmetric]\<close>)

lemma targets_up_step:
  assumes "targets_load a es pt (target_mod w)" and "i < length es" and "errand_ok (es ! i)"
    and "o_target_controller_args opts = a" and "\<not> opt_reset w"
  shows "setup_target_entry opts i (targets_up a es i w) = (Ret (), targets_up a es (Suc i) w)"
proof -
  let ?e = "es ! i" and ?v = "target_entered a es i w"
  let ?g = "e_target ?e" and ?k = "e_peer ?e" and ?in = "result_pieces (e_peer ?e)"
  let ?s1 = "?k\<lparr>sent := sent ?k @ [''HELLO'' @ nl, load_message (g_test ?g) @ nl], inbox := reply 200 [] # ?in\<rparr>"
  have k: "usable ?k" "sent ?k = []" "port_ok (g_port ?g)"
    using assms(3) by (simp_all add: errand_ok_def peer_says_def)
  have i: "drop i es = ?e # drop (Suc i) es"
    using assms(2) by (simp add: Cons_nth_drop_Suc)
  have o: "objs ?v ! i = (errand_obj es i)\<lparr>t_socket := None\<rparr>"
    by (simp add: nth_append)
  have "connects ?v i ?k"
    using assms(5) k i o by (simp add: connects_def)
  then have c: "connect i ?v = (Ret (), dialled_to ?v i ?s1)"
    using connect_ok [where w = ?v and r = i, OF _ peer_inbox(1) [OF errand_says [OF assms(3)]]
        daemon_replies(1) _ daemon_replies(3) _ daemon_replies(2)] o
    by simp
  have w: "wired (dialled_to ?v i ?s1) i i"
    using dialled_wired [of i ?v ?s1] by simp
  have "tester_setup i (dialled_to ?v i ?s1) = (Ret (), (dialled_to ?v i ?s1)\<lparr>socks :=
      (socks (dialled_to ?v i ?s1))[i := ?s1\<lparr>sent := sent ?s1 @ [target_setup_message (g_test_args ?g) @ nl],
        inbox := ?in\<rparr>]\<rparr>)"
    using target_setup_ok [where w = "dialled_to ?v i ?s1" and a = "g_test_args ?g", OF _ _ w _ _ daemon_replies(2), of ?in]
      o k by (simp add: nth_append)
  then show ?thesis
    unfolding target_entry_connects [OF assms(1-4)] bind_eval c
    using dialled_targets_up [OF assms(2), where a = a and w = w and s = ?s1] k
    by (simp add: errand_lines_def target_lines_def errand_sock_def)
qed

lemma targets_set_up:
  assumes "targets_ready es w" and "targets_load a es pt (target_mod w)" and "\<forall>e \<in> set es. errand_ok e"
    and "o_target_controller_args opts = a"
  shows "for_each [0..<length es] (setup_target_entry opts) w = (Ret (), targets_up a es (length es) w)"
  using for_each_upto [of "length es" "setup_target_entry opts" "\<lambda>i. targets_up a es i w"]
    targets_up_step [OF assms(2) _ _ assms(4)] assms(1,3) targets_up_0 [OF assms(1)]
  by (simp add: targets_ready_def)

section \<open>Starting the targets, when the clients are set up\<close>

definition errand_running :: "errand list \<Rightarrow> nat \<Rightarrow> sock" where
  "errand_running es i = (errand_sock es i)\<lparr>sent := errand_lines (es ! i)\<rparr>"

definition errands_started :: "errand list \<Rightarrow> nat \<Rightarrow> 'p controller \<Rightarrow> 'p controller" where
  "errands_started es n w =
     w\<lparr>socks := map (\<lambda>i. if i < n then errand_running es i else errand_sock es i) [0..<length es]\<rparr>"

text \<open>A command on a socket of a target does not meet the clients that are set up after it.\<close>

lemma start_below:
  assumes "wired w k k" and "usable (socks w ! k)"
  shows "tester_start k (set_up p t js n w) = (Ret (), set_up p t js n
    (w\<lparr>socks := (socks w)[k := (socks w ! k)\<lparr>sent := sent (socks w ! k) @ [''START'' @ nl]\<rparr>]\<rparr>))"
proof -
  have k: "k < length (objs w)" "k < length (socks w)"
    using assms(1) by (simp_all add: wired_def)
  have "wired (set_up p t js n w) k k" "usable (socks (set_up p t js n w) ! k)"
    using assms k by (simp_all add: wired_def nth_append)
  then have "tester_start k (set_up p t js n w) = (Ret (), (set_up p t js n w)\<lparr>socks :=
      (socks (set_up p t js n w))[k := (socks w ! k)\<lparr>sent := sent (socks w ! k) @ [''START'' @ nl]\<rparr>]\<rparr>)"
    using k by (simp add: start_ok nth_append)
  then show ?thesis
    using k by (simp add: set_up_def list_update_append)
qed

lemma errands_started_step:
  assumes "socks v = map (errand_sock es) [0..<length es]" and "objs v = map (errand_obj es) [0..<length es]"
    and "i < length es" and "errand_ok (es ! i)"
  shows "tester_start i (set_up p t js n (errands_started es i v)) =
    (Ret (), set_up p t js n (errands_started es (Suc i) v))"
proof -
  let ?v = "errands_started es i v"
  let ?f = "\<lambda>n i. if i < n then errand_running es i else errand_sock es i"
  have s: "socks ?v = map (?f i) [0..<length es]" "objs ?v = map (errand_obj es) [0..<length es]"
    using assms(2) by (simp_all add: errands_started_def)
  have k: "socks ?v ! i = errand_sock es i"
    using assms(3) s by simp
  have "wired ?v i i" "usable (socks ?v ! i)"
    using assms(3,4) s by (simp_all add: wired_def errand_sock_def errand_ok_def peer_says_def)
  then have "tester_start i (set_up p t js n ?v) = (Ret (), set_up p t js n (?v\<lparr>socks :=
      (socks ?v)[i := (errand_sock es i)\<lparr>sent := sent (errand_sock es i) @ [''START'' @ nl]\<rparr>]\<rparr>))"
    by (simp add: start_below k)
  moreover have "(errand_sock es i)\<lparr>sent := sent (errand_sock es i) @ [''START'' @ nl]\<rparr> = errand_running es i"
    by (simp add: errand_running_def errand_sock_def errand_lines_def target_lines_def)
  moreover have "(map (?f i) [0..<length es])[i := ?f (Suc i) i] = map (?f (Suc i)) [0..<length es]"
    using assms(3) by (intro map_upt_update) simp_all
  ultimately show ?thesis
    by (simp add: s(1)) (simp add: errands_started_def)
qed

lemma errands_start:
  assumes "socks v = map (errand_sock es) [0..<length es]" and "objs v = map (errand_obj es) [0..<length es]"
    and "\<forall>e \<in> set es. errand_ok e"
  shows "for_each [0..<length es] tester_start (set_up p t js n v) =
    (Ret (), set_up p t js n (errands_started es (length es) v))"
proof -
  have "map (\<lambda>i. if i < 0 then errand_running es i else errand_sock es i) [0..<length es] = socks v"
    using assms(1) by simp
  then have "errands_started es 0 v = v"
    by (simp add: errands_started_def)
  moreover have "tester_start i (set_up p t js n (errands_started es i v)) =
      (Ret (), set_up p t js n (errands_started es (Suc i) v))" if "i < length es" for i
    using that assms by (intro errands_started_step) simp_all
  ultimately show ?thesis
    using for_each_upto [of "length es" tester_start "\<lambda>i. set_up p t js n (errands_started es i v)"] by simp
qed

end
