(* ===== verification/Benchmark_Run.thy ===== *)
theory Benchmark_Run
  imports Target_Run
begin

text \<open>
  A whole run of \<^verbatim>\<open>main\<close> with any number of clients and targets: the phases of
  \<^theory_text>\<open>Controller_Run\<close> and \<^theory_text>\<open>Target_Run\<close> put together, the stopping of the targets, the output and
  the closing, whether the receive rounds end with all results or with an error of a client or target; and
  the daemons on the other side of such a run.
\<close>

section \<open>Stopping the targets\<close>

definition stop_target :: "nat \<Rightarrow> ('p controller, unit) io" where
  "stop_target k = bind (tester_stop k) (\<lambda>_. tester_unmarshall k)"

text \<open>
  The first \<open>n\<close> targets have been stopped and their results read; the module holds the result of
  the last of them, and everything else is as it was at the end of the rounds.
\<close>

definition stopped :: "errand list \<Rightarrow> 'p plugin \<Rightarrow> 'p controller \<Rightarrow> nat \<Rightarrow> 'p controller \<Rightarrow> bool" where
  "stopped es pt c n w \<longleftrightarrow> objs w = objs c \<and> clients w = clients c \<and> targets w = targets c \<and>
     stdout w = stdout c \<and> client_mod w = client_mod c \<and> length (socks w) = length (socks c) \<and>
     ipbench_plugin (target_mod w) = ipbench_plugin (target_mod c) \<and>
     (\<forall>k < length (socks c). if k < n
        then usable (socks w ! k) \<and> sent (socks w ! k) = errand_lines (es ! k) @ [''STOP'' @ nl] \<and> inbox (socks w ! k) = []
        else socks w ! k = socks c ! k) \<and>
     (0 < n \<longrightarrow> entry_for pt (e_flag (es ! (n - 1))) (e_data (es ! (n - 1))) (target_data (target_mod w)))"

text \<open>What the targets must be like at the end of the rounds.\<close>

definition errands_run :: "errand list \<Rightarrow> 'p controller \<Rightarrow> bool" where
  "errands_run es c \<longleftrightarrow> length es \<le> length (objs c) \<and> length es \<le> length (socks c) \<and>
     (\<forall>k < length es. objs c ! k = errand_obj es k \<and> socks c ! k = errand_running es k)"

lemma unmarshall_target_ok:
  assumes "ipbench_plugin m = Some p" and "never_fails p"
  shows "\<exists>r e s. unmarshall_target d (v = 0) m = (Ret r, m\<lparr>plugin_state := s, target_data := e\<rparr>) \<and>
    entry_for p v d e"
proof -
  obtain r x s where u: "pl_unmarshall p d (plugin_state m) = (r, x, s)"
    by (metis prod_cases3)
  then have "r \<noteq> - 1"
    using assms(2) by (metis fst_conv never_fails_def)
  with u assms(1) have "unmarshall_target d (v = 0) m = (Ret r, m\<lparr>plugin_state := s, target_data :=
      Some \<lparr>cd_data = x, cd_size = (case x of None \<Rightarrow> 0 | Some b \<Rightarrow> length b), cd_valid = (v = 0)\<rparr>\<rparr>)"
    by (simp add: unmarshall_target_def with_plugin_def)
  with u show ?thesis
    unfolding entry_for_def by blast
qed

lemma stop_step:
  assumes "stopped es pt c k w" and "errands_run es c" and "k < length es" and "errand_ok (es ! k)"
    and "ipbench_plugin (target_mod c) = Some pt" and "never_fails pt" and "errand_delivers (es ! k)"
  shows "\<exists>w'. stop_target k w = (Ret (), w') \<and> stopped es pt c (Suc k) w'"
proof -
  let ?e = "es ! k"
  have k: "k < length (socks c)" "k < length (objs c)" "socks w ! k = errand_running es k"
      "objs w ! k = errand_obj es k" "length (socks w) = length (socks c)" "objs w = objs c"
    using assms(1-3) by (auto simp: stopped_def errands_run_def)
  have r: "usable (errand_running es k)" "sent (errand_running es k) = errand_lines ?e"
      "in_pieces (marshall_replies (e_flag ?e) (e_data ?e)) (inbox (errand_running es k))"
    using assms(4,7) peer_inbox(2) [OF errand_says [OF assms(4)]]
    by (simp_all add: errand_running_def errand_sock_def errand_ok_def peer_says_def errand_delivers_def)
  let ?w = "w\<lparr>socks := (socks w)[k := (socks w ! k)\<lparr>sent := sent (socks w ! k) @ [''STOP'' @ nl]\<rparr>]\<rparr>"
  have wd: "wired w k k" "usable (socks w ! k)"
    using k r by (simp_all add: wired_def)
  have s: "tester_stop k w = (Ret (), ?w)"
    using wd by (rule stop_ok)
  obtain s' where s': "tester_unmarshall k ?w =
      call_test_unmarshall k (e_data ?e) (e_flag ?e = 0) (?w\<lparr>socks := (socks ?w)[k := s']\<rparr>)"
      "inbox s' = []" "sent s' = sent (socks ?w ! k)" "usable s'"
    using unmarshall_of_daemon [of ?w k k "e_flag ?e" "e_data ?e"] wd k r assms(7)
    by (auto simp: errand_delivers_def)
  have pl: "ipbench_plugin (target_mod w) = Some pt"
    using assms(1,5) by (simp add: stopped_def)
  obtain x e p where u: "unmarshall_target (e_data ?e) (e_flag ?e = 0) (target_mod w) =
      (Ret x, (target_mod w)\<lparr>plugin_state := p, target_data := e\<rparr>)" "entry_for pt (e_flag ?e) (e_data ?e) e"
    using unmarshall_target_ok [OF pl assms(6)] by blast
  let ?w' = "w\<lparr>socks := (socks w)[k := s'], target_mod := (target_mod w)\<lparr>plugin_state := p, target_data := e\<rparr>\<rparr>"
  have "tester_unmarshall k ?w = (Ret (), ?w')"
    unfolding s'(1) using u(1) k(4)
    by (simp add: call_test_unmarshall_def bind_eval obj_def on_target_mod_def zoom_def)
  then have "stop_target k w = (Ret (), ?w')"
    by (simp add: stop_target_def bind_eval s)
  moreover have "stopped es pt c (Suc k) ?w'"
    using assms(1) s'(2-4) k r u(2) by (auto simp: stopped_def nth_list_update less_Suc_eq)
  ultimately show ?thesis
    by blast
qed

lemma stopped_0: "stopped es pt c 0 c"
  by (simp add: stopped_def)

lemma stop_all:
  assumes "errands_run es c" and "\<forall>e \<in> set es. errand_ok e \<and> errand_delivers e"
    and "es \<noteq> [] \<longrightarrow> ipbench_plugin (target_mod c) = Some pt" and "never_fails pt"
  shows "k \<le> length es \<Longrightarrow> \<exists>w. for_each [0..<k] stop_target c = (Ret (), w) \<and> stopped es pt c k w"
proof (induction k)
  case 0
  then show ?case by (simp add: stopped_0)
next
  case (Suc k)
  then obtain w where w: "for_each [0..<k] stop_target c = (Ret (), w)" "stopped es pt c k w"
    by auto
  moreover obtain w' where "stop_target k w = (Ret (), w')" "stopped es pt c (Suc k) w'"
    using stop_step [OF w(2) assms(1)] assms(2-4) Suc.prems by force
  ultimately show ?case
    by (simp add: for_each_append bind_eval)
qed

section \<open>Output\<close>

text \<open>The plugin has been called for its output on these entries.\<close>

definition shown :: "'p plugin \<Rightarrow> client_data option list \<Rightarrow> 'p cmod \<Rightarrow> bool" where
  "shown p es m \<longleftrightarrow> (\<exists>s. plugin_state m = snd (pl_output p es s))"

lemma shown_now: "pl_output p es (plugin_state m) = (r, s) \<Longrightarrow> shown p es (m\<lparr>plugin_state := s\<rparr>)"
  unfolding shown_def by (rule exI [of _ "plugin_state m"]) simp

lemma output_succeeds:
  assumes "never_fails p"
  obtains r s' where "pl_output p es s = (r, s')" and "r \<noteq> - 1"
  using assms by (metis fst_conv never_fails_def surj_pair)

lemma output_client_ok:
  assumes "ipbench_plugin m = Some p" and "never_fails p"
  shows "\<exists>r s. output_client m = (Ret r, m\<lparr>plugin_state := s\<rparr>) \<and> shown p (client_data m) (m\<lparr>plugin_state := s\<rparr>)"
proof -
  obtain r s where o: "pl_output p (client_data m) (plugin_state m) = (r, s)" "r \<noteq> - 1"
    using assms(2) by (rule output_succeeds)
  then have "output_client m = (Ret r, m\<lparr>plugin_state := s\<rparr>)"
    using assms(1) by (simp add: output_client_def with_plugin_def)
  with shown_now [OF o(1)] show ?thesis
    by blast
qed

lemma output_target_ok:
  assumes "ipbench_plugin m = Some p" and "never_fails p"
  shows "\<exists>r s. output_target m = (Ret r, m\<lparr>plugin_state := s\<rparr>) \<and> shown p [target_data m] (m\<lparr>plugin_state := s\<rparr>)"
proof -
  obtain r s where o: "pl_output p [target_data m] (plugin_state m) = (r, s)" "r \<noteq> - 1"
    using assms(2) by (rule output_succeeds)
  then have "output_target m = (Ret r, m\<lparr>plugin_state := s\<rparr>)"
    using assms(1) by (simp add: output_target_def with_plugin_def)
  with shown_now [OF o(1)] show ?thesis
    by blast
qed

definition show_target :: "nat \<Rightarrow> ('p controller, unit) io" where
  "show_target k = bind (on_target_mod output_target) (\<lambda>_. ret ())"

lemma show_targets:
  assumes "never_fails p"
  shows "(ks \<noteq> [] \<longrightarrow> ipbench_plugin (target_mod w) = Some p) \<Longrightarrow>
    \<exists>s. for_each ks show_target w = (Ret (), w\<lparr>target_mod := (target_mod w)\<lparr>plugin_state := s\<rparr>\<rparr>) \<and>
      (ks \<noteq> [] \<longrightarrow> shown p [target_data (target_mod w)] ((target_mod w)\<lparr>plugin_state := s\<rparr>))"
proof (induction ks arbitrary: w)
  case Nil
  then show ?case
    by (intro exI [of _ "plugin_state (target_mod w)"]) simp
next
  case (Cons k ks)
  obtain r s where o: "output_target (target_mod w) = (Ret r, (target_mod w)\<lparr>plugin_state := s\<rparr>)"
      "shown p [target_data (target_mod w)] ((target_mod w)\<lparr>plugin_state := s\<rparr>)"
    using output_target_ok [of "target_mod w" p] Cons.prems assms by auto
  let ?w = "w\<lparr>target_mod := (target_mod w)\<lparr>plugin_state := s\<rparr>\<rparr>"
  have "show_target k w = (Ret (), ?w)"
    using o(1) by (simp add: show_target_def bind_eval on_target_mod_def zoom_def)
  then have step: "for_each (k # ks) show_target w = for_each ks show_target ?w"
    by (simp add: bind_eval)
  show ?case
  proof (cases "ks = []")
    case True
    with step o(2) show ?thesis
      by (intro exI [of _ s]) simp
  next
    case False
    obtain s' where "for_each ks show_target ?w = (Ret (), ?w\<lparr>target_mod := (target_mod ?w)\<lparr>plugin_state := s'\<rparr>\<rparr>)"
        "ks \<noteq> [] \<longrightarrow> shown p [target_data (target_mod ?w)] ((target_mod ?w)\<lparr>plugin_state := s'\<rparr>)"
      using Cons.IH [of ?w] Cons.prems by auto
    with step False show ?thesis
      by (intro exI [of _ s']) simp
  qed
qed

section \<open>The end of a run\<close>

text \<open>Every client and target is connected, on the socket of its number, and has been sent these lines.\<close>

definition open_run ::
  "'p plugin \<Rightarrow> str \<Rightarrow> errand list \<Rightarrow> job list \<Rightarrow> bytes list \<Rightarrow> 'p controller \<Rightarrow> bool" where
  "open_run p t es js extra w \<longleftrightarrow>
     clients w = map (job_entry p (length es) js) [0..<length js] \<and>
     targets w = map (errand_entry es) [0..<length es] \<and> length (objs w) = length es + length js \<and>
     length (socks w) = length es + length js \<and>
     (\<forall>k < length es + length js. t_socket (objs w ! k) = Some k \<and> usable (socks w ! k)) \<and>
     (\<forall>i < length es. sent (socks w ! i) = errand_lines (es ! i) @ extra) \<and>
     (\<forall>i < length js. sent (socks w ! (length es + i)) = job_lines p t (js ! i))"

text \<open>Every one of them has been sent \<^verbatim>\<open>QUIT\<close> besides, and is closed.\<close>

definition closed_run ::
  "'p plugin \<Rightarrow> str \<Rightarrow> errand list \<Rightarrow> job list \<Rightarrow> bytes list \<Rightarrow> 'p controller \<Rightarrow> bool" where
  "closed_run p t es js extra w \<longleftrightarrow>
     (\<forall>i < length es. closed (socks w ! i) \<and> sent (socks w ! i) = errand_lines (es ! i) @ extra @ [''QUIT'' @ nl]) \<and>
     (\<forall>i < length js. closed (socks w ! (length es + i)) \<and>
        sent (socks w ! (length es + i)) = job_lines p t (js ! i) @ [''QUIT'' @ nl])"

lemma close_completes:
  assumes "open_run p t es js extra w"
  shows "\<exists>w'. close_all w = (Ret (), w') \<and> w' = w\<lparr>socks := socks w'\<rparr> \<and> closed_run p t es js extra w'"
proof -
  let ?q = "length es" and ?n = "length js"
  let ?ks = "[?q..<?q + ?n] @ [0..<?q]"
  have "list_all2 (wired w) ?ks ?ks" "distinct ?ks" "\<forall>k \<in> set ?ks. usable (socks w ! k)"
    using assms by (auto simp: open_run_def wired_def list_all2_same)
  from close_each [OF this] obtain w' where
    w': "for_each (map Some ?ks) (\<lambda>x. bind (testobj x) tester_close) w = (Ret (), w')"
      "\<forall>k. socks w' ! k = (if k \<in> set ?ks
        then (socks w ! k)\<lparr>sent := sent (socks w ! k) @ [''QUIT'' @ nl], closed := True\<rparr>
        else socks w ! k)" "w' = w\<lparr>socks := socks w'\<rparr>"
    by blast
  have "map c_testobj (clients w) = map Some [?q..<?q + ?n]" "map g_testobj (targets w) = map Some [0..<?q]"
    using assms by (auto simp: open_run_def job_entry_def errand_entry_def intro!: nth_equalityI)
  then have "map c_testobj (clients w) @ map g_testobj (targets w) = map Some ?ks"
    by simp
  then have "close_all w = (Ret (), w')"
    using w'(1) by (simp only: close_all_eq)
  moreover have "closed_run p t es js extra w'"
    using assms w'(2) by (simp add: closed_run_def open_run_def)
  ultimately show ?thesis
    using w'(3) by blast
qed

section \<open>The body of the try\<close>

lemma testobjs_some: "testobjs (map Some rs) w = (Ret rs, w)"
  by (induction rs) (simp_all add: bind_eval)

lemma for_each_map: "for_each (map f xs) g = for_each xs (\<lambda>x. g (f x))"
  by (induction xs) simp_all

lemma for_each_shift: "for_each [q..<q + n] g = for_each [0..<n] (\<lambda>i. g (q + i))"
proof -
  have "[q..<q + n] = map (\<lambda>i. q + i) [0..<n]"
    by (rule nth_equalityI) simp_all
  then show ?thesis
    by (simp add: for_each_map)
qed

text \<open>What a successful run leaves: every result, each client's at its number, and the outputs.\<close>

definition results ::
  "'p plugin \<Rightarrow> 'p plugin \<Rightarrow> errand list \<Rightarrow> job list \<Rightarrow> 'p cmod \<Rightarrow> 'p cmod \<Rightarrow> bool" where
  "results p pt es js cm tm \<longleftrightarrow>
     list_all2 (entry_of p) js (client_data cm) \<and> shown p (client_data cm) cm \<and>
     (es \<noteq> [] \<longrightarrow> entry_for pt (e_flag (last es)) (e_data (last es)) (target_data tm) \<and>
        shown pt [target_data tm] tm)"

lemma collected_open:
  assumes "collected p t js b R c" and "targets b = map (errand_entry es) [0..<length es]"
    and "objs b = map (errand_obj es) [0..<length es]" and "socks b = map (errand_running es) [0..<length es]"
    and "\<forall>e \<in> set es. errand_ok e"
  shows "errands_run es c" and "open_run p t es js [] c"
proof -
  show "errands_run es c"
    using assms(1,3,4) by (auto simp: errands_run_def collected_def nth_append)
  have "t_socket (objs c ! k) = Some k \<and> usable (socks c ! k)" if "k < length es + length js" for k
  proof (cases "k < length es")
    case True
    with assms show ?thesis
      by (auto simp: collected_def nth_append errand_running_def errand_sock_def errand_ok_def peer_says_def)
  next
    case False
    define i where "i = k - length es"
    then have i: "k = length es + i" "i < length js"
      using False that by simp_all
    with assms(1,3) show ?thesis
      unfolding i(1) by (simp add: collected_def nth_append job_state_def)
  qed
  moreover have "sent (socks c ! i) = errand_lines (es ! i)" if "i < length es" for i
    using that assms(1,3,4) by (simp add: collected_def errand_running_def)
  moreover have "sent (socks c ! (length es + i)) = job_lines p t (js ! i)" if "i < length js" for i
    using that assms(1,3) by (simp add: collected_def job_state_def)
  moreover have "clients c = map (job_entry p (length es) js) [0..<length js]" "length (objs c) = length es + length js"
      "targets c = map (errand_entry es) [0..<length es]" "length (socks c) = length es + length js"
    using assms(1-3) by (simp_all add: collected_def)
  ultimately show "open_run p t es js [] c"
    unfolding open_run_def by simp
qed

lemma stopped_open:
  assumes "stopped es pt c (length es) w" and "open_run p t es js [] c"
  shows "open_run p t es js [''STOP'' @ nl] w"
proof -
  have w: "objs w = objs c" "clients w = clients c" "targets w = targets c" "length (socks w) = length (socks c)"
    and k: "\<forall>k < length (socks c). if k < length es
        then usable (socks w ! k) \<and> sent (socks w ! k) = errand_lines (es ! k) @ [''STOP'' @ nl] \<and> inbox (socks w ! k) = []
        else socks w ! k = socks c ! k"
    using assms(1) by (simp_all add: stopped_def)
  have "usable (socks w ! k)" if "k < length es + length js" for k
    using k that assms(2) by (cases "k < length es") (auto simp: open_run_def)
  with w k assms(2) show ?thesis
    by (auto simp: open_run_def)
qed

text \<open>The end of the successful run, from the end of the receive rounds on.\<close>

lemma stop_and_show:
  assumes "errands_run es c" and "open_run p t es js [] c" and "\<forall>e \<in> set es. errand_ok e \<and> errand_delivers e"
    and "es \<noteq> [] \<longrightarrow> ipbench_plugin (target_mod c) = Some pt" and "never_fails p" and "never_fails pt"
    and "ipbench_plugin (client_mod c) = Some p" and "list_all2 (entry_of p) js (client_data (client_mod c))"
  shows "\<exists>w'. bind (for_each [0..<length es] stop_target) (\<lambda>_. bind (on_client_mod output_client) (\<lambda>_.
      for_each [0..<length es] show_target)) c = (Ret (), w') \<and> stdout w' = stdout c \<and>
    open_run p t es js [''STOP'' @ nl] w' \<and> results p pt es js (client_mod w') (target_mod w')"
proof -
  obtain w1 where w1: "for_each [0..<length es] stop_target c = (Ret (), w1)" "stopped es pt c (length es) w1"
    using stop_all [OF assms(1,3,4,6), of "length es"] by blast
  have e1: "client_mod w1 = client_mod c" "stdout w1 = stdout c"
      "es \<noteq> [] \<longrightarrow> ipbench_plugin (target_mod w1) = Some pt"
      "es \<noteq> [] \<longrightarrow> entry_for pt (e_flag (last es)) (e_data (last es)) (target_data (target_mod w1))"
    using w1(2) assms(4) by (auto simp: stopped_def last_conv_nth)
  obtain r s where o: "output_client (client_mod w1) = (Ret r, (client_mod w1)\<lparr>plugin_state := s\<rparr>)"
      "shown p (client_data (client_mod c)) ((client_mod w1)\<lparr>plugin_state := s\<rparr>)"
    using output_client_ok [OF assms(7,5)] e1(1) by auto
  let ?w2 = "w1\<lparr>client_mod := (client_mod w1)\<lparr>plugin_state := s\<rparr>\<rparr>"
  have w2: "on_client_mod output_client w1 = (Ret r, ?w2)"
    using o(1) by (simp add: on_client_mod_def zoom_def)
  obtain s' where s': "for_each [0..<length es] show_target ?w2 =
      (Ret (), ?w2\<lparr>target_mod := (target_mod ?w2)\<lparr>plugin_state := s'\<rparr>\<rparr>)"
      "es \<noteq> [] \<longrightarrow> shown pt [target_data (target_mod w1)] ((target_mod w1)\<lparr>plugin_state := s'\<rparr>)"
    using show_targets [OF assms(6), of "[0..<length es]" ?w2] e1(3) by auto
  let ?w = "?w2\<lparr>target_mod := (target_mod ?w2)\<lparr>plugin_state := s'\<rparr>\<rparr>"
  have "open_run p t es js [''STOP'' @ nl] ?w"
    using stopped_open [OF w1(2) assms(2)] by (simp add: open_run_def)
  moreover have "results p pt es js (client_mod ?w) (target_mod ?w)"
    using e1 assms(8) o(2) s'(2) by (simp add: results_def)
  ultimately show ?thesis
    using e1(2) by (intro exI [of _ ?w]) (simp add: bind_eval w1(1) w2 s'(1))
qed

text \<open>The world in which the \<^verbatim>\<open>try\<close> begins.\<close>

definition try_world ::
  "'p plugin \<Rightarrow> 'p plugin \<Rightarrow> str option \<Rightarrow> errand list \<Rightarrow> job list \<Rightarrow> 'p controller \<Rightarrow> bool" where
  "try_world p pt a es js w \<longleftrightarrow> targets_ready es w \<and> targets_load a es pt (target_mod w) \<and>
     ipbench_plugin (client_mod w) = Some p \<and> drop (length es) (net w) = map (Peer \<circ> j_peer) js \<and>
     clients w = map j_client js \<and> length (client_data (client_mod w)) = length js \<and>
     (\<forall>e \<in> set es. errand_ok e) \<and> (\<forall>j \<in> set js. job_ok p j) \<and> never_fails p \<and> never_fails pt"

lemma clients_of_set_up:
  "map c_testobj (clients (set_up p t js (length js) w)) = map Some [length (objs w)..<length (objs w) + length js]"
  "map c_testobj (clients (started p t js (length js) w)) = map Some [length (objs w)..<length (objs w) + length js]"
  by (auto simp: set_up_def started_def job_entry_def intro!: nth_equalityI)

lemma run_tests_ends:
  assumes "try_world p pt (o_target_controller_args opts) es js w" and "py_str (o_test opts) = t"
    and "rounds_end (object_fails (length es) js) polls [length es..<length es + length js] [0..<length es] = Some failure"
    and "failure = None \<longrightarrow> (\<forall>e \<in> set es. errand_delivers e)"
  shows "\<exists>w'. run_tests opts polls w = (rounds_result failure, w') \<and> stdout w' = stdout w \<and>
    open_run p t es js (if failure = None then [''STOP'' @ nl] else []) w' \<and>
    (failure = None \<longrightarrow> results p pt es js (client_mod w') (target_mod w'))"
proof -
  let ?q = "length es" and ?n = "length js" and ?a = "o_target_controller_args opts"
  let ?b = "targets_up ?a es ?q w"
  let ?d = "errands_started es ?q ?b"
  have w: "targets_ready es w" "targets_load ?a es pt (target_mod w)" "ipbench_plugin (client_mod w) = Some p"
      "drop ?q (net w) = map (Peer \<circ> j_peer) js" "clients w = map j_client js"
      "length (client_data (client_mod w)) = ?n" "\<forall>e \<in> set es. errand_ok e" "\<forall>j \<in> set js. job_ok p j"
      "never_fails p" "never_fails pt"
    using assms(1) by (simp_all add: try_world_def)
  have sizes: "length (targets w) = ?q" "length (clients w) = ?n"
    using w(1,5) by (simp_all add: targets_ready_def)
  have b: "ready_for p js ?b" "ready_for p js ?d" "length (objs ?b) = ?q" "length (objs ?d) = ?q"
      "length (socks ?d) = length (objs ?d)"
    using w(1,3-6) by (simp_all add: ready_for_def targets_ready_def errands_started_def)
  let ?u = "set_up p t js ?n ?b" and ?v = "set_up p t js ?n ?d" and ?s = "started p t js ?n ?d"
  have up: "for_each [0..<?n] (setup_client_entry opts) ?b = (Ret (), ?u)"
    using set_up_all [OF b(1) w(8) assms(2)] .
  have "map g_testobj (targets ?u) = map Some [0..<?q]"
    by (auto simp: targets_up_def errand_entry_def intro!: nth_equalityI)
  then have ts: "bind target_objs testobjs ?u = (Ret [0..<?q], ?u)"
    using testobjs_some [of "[0..<?q]" ?u] by (simp add: bind_eval target_objs_def)
  have start_ts: "for_each [0..<?q] tester_start ?u = (Ret (), ?v)"
    using w(7) by (intro errands_start) simp_all
  have cs: "bind client_objs testobjs ?v = (Ret [?q..<?q + ?n], ?v)"
    using testobjs_some [of "[?q..<?q + ?n]" ?v] clients_of_set_up(1) [of p t js ?d] b(4)
    by (simp add: bind_eval client_objs_def)
  have start_cs: "for_each [?q..<?q + ?n] tester_start ?v = (Ret (), ?s)"
    using start_all [OF w(8) b(5)] b(4) by (simp add: for_each_shift)
  have "collected p t js ?d {} ?s"
    using started_collected [OF b(2) w(8)] .
  moreover have "targets_wired ?d"
    using w(7) by (auto simp: targets_wired_def errands_started_def targets_up_def errand_obj_def
        errand_running_def errand_sock_def errand_ok_def peer_says_def usable_def Let_def)
  ultimately have "\<exists>R c. poll_loop polls [?q..<?q + ?n] [0..<?q] ?s = (rounds_result failure, c) \<and>
      collected p t js ?d R c \<and> (failure = None \<longrightarrow> R = {?q..<?q + ?n})"
    using collect_rounds [where b = ?d and js = js and w = ?s and R = "{}" and t = t and polls = polls and
        ws = "[?q..<?q + ?n]" and ts = "[0..<?q]" and failure = failure, OF w(9,8)] assms(3) b(4)
    by (simp add: atLeast0LessThan)
  then obtain R c where
    c: "poll_loop polls [?q..<?q + ?n] [0..<?q] ?s = (rounds_result failure, c)" "collected p t js ?d R c"
      "failure = None \<longrightarrow> R = {?q..<?q + ?n}"
    by (elim exE conjE) rule
  have d: "targets ?d = map (errand_entry es) [0..<?q]" "objs ?d = map (errand_obj es) [0..<?q]"
      "socks ?d = map (errand_running es) [0..<?q]" "stdout ?d = stdout w"
      "target_mod ?d = mods_at ?a es ?q (target_mod w)"
    by (simp_all add: errands_started_def targets_up_def)
  have oc: "errands_run es c" "open_run p t es js [] c"
    using collected_open [OF c(2) d(1-3) w(7)] by blast+
  have sh: "(\<lambda>_. bind (on_target_mod output_target) (\<lambda>_. ret ())) = show_target"
    by (rule ext) (simp add: show_target_def)
  have run: "run_tests opts polls w = bind (\<lambda>w. (rounds_result failure, c)) (\<lambda>_. bind (for_each [0..<?q] stop_target) (\<lambda>_.
      bind (on_client_mod output_client) (\<lambda>_. for_each [0..<?q] show_target))) ?s"
    unfolding run_tests_def bind_eval [of "\<lambda>w. (Ret (length (targets w), length (clients w)), w)"] sizes
      stop_target_def [symmetric] sh
    by (simp add: bind_eval [of "for_each _ (setup_target_entry opts)"] targets_set_up [OF w(1,2,7) refl]
        bind_eval [of "for_each _ (setup_client_entry opts)"] up bind_eval [of "bind target_objs testobjs"] ts
        bind_eval [of "for_each _ tester_start"] start_ts bind_eval [of "bind client_objs testobjs"] cs start_cs
        bind_eval [of "poll_loop _ _ _"] c(1) bind_eval [of "\<lambda>w. (rounds_result failure, c)"])
  show ?thesis
  proof (cases failure)
    case (Some m)
    with c(2) oc(2) d(4) show ?thesis
      by (intro exI [of _ c]) (simp add: run rounds_result_def bind_eval collected_def)
  next
    case None
    have "j_fails (js ! i) = None" if "i < ?n" for i
      using rounds_end_reported [of "object_fails ?q js" polls _ _ "?q + i"] assms(3) None that
      by (simp add: object_fails_def)
    then have "list_all2 (entry_of p) js (client_data (client_mod c))"
      using c(2,3) None b(4) by (simp add: collected_def job_state_def list_all2_conv_all_nth)
    moreover have "es \<noteq> [] \<longrightarrow> ipbench_plugin (target_mod c) = Some pt"
      using c(2) w(2) d(5) by (simp add: collected_def targets_load_def)
    moreover have "ipbench_plugin (client_mod c) = Some p" "stdout c = stdout w"
      using c(2) d(4) by (simp_all add: collected_def)
    ultimately show ?thesis
      using stop_and_show [OF oc _ _ w(9,10)] w(7) assms(4) None by (simp add: run rounds_result_def bind_eval)
  qed
qed

section \<open>The whole of main\<close>

text \<open>The world in which the \<^verbatim>\<open>try\<close> begins: the lists are there, the client module is loaded as \<open>m\<close> and set up.\<close>

definition try_start ::
  "'p plugin \<Rightarrow> options \<Rightarrow> client_dict list \<Rightarrow> target_dict list \<Rightarrow> 'p cmod \<Rightarrow> 'p controller \<Rightarrow> 'p controller" where
  "try_start p opts cs ts m w = w\<lparr>clients := cs, targets := ts, client_mod :=
     m\<lparr>nclients := length cs, client_data := replicate (length cs) None,
       plugin_state := snd (pl_setup_controller p (o_controller_args opts) (plugin_state m))\<rparr>\<rparr>"

lemma try_start_simps [simp]:
  "net (try_start p opts cs ts m w) = net w" "socks (try_start p opts cs ts m w) = socks w"
  "objs (try_start p opts cs ts m w) = objs w" "opt_reset (try_start p opts cs ts m w) = opt_reset w"
  "clients (try_start p opts cs ts m w) = cs" "targets (try_start p opts cs ts m w) = ts"
  "target_mod (try_start p opts cs ts m w) = target_mod w" "stdout (try_start p opts cs ts m w) = stdout w"
  "ipbench_plugin (client_mod (try_start p opts cs ts m w)) = ipbench_plugin m"
  "length (client_data (client_mod (try_start p opts cs ts m w))) = length cs"
  by (simp_all add: try_start_def)

lemma main_tries:
  assumes "configure config opts w = (Ret (opts', cs, ts), w)" and "load_plugin t (client_mod w) = (Ret (), m)"
    and "ipbench_plugin m = Some p" and "o_test opts' = Some t"
  shows "main config opts polls w = bind (try_else (run_tests opts' polls) except_IpBenchError ret) (\<lambda>_. close_all)
    (try_start p opts' cs ts m w)"
proof -
  let ?w1 = "w\<lparr>clients := cs, targets := ts\<rparr>"
  have load: "on_client_mod (load_plugin (py_str (o_test opts'))) ?w1 = (Ret (), ?w1\<lparr>client_mod := m\<rparr>)"
    using assms(2,4) by (simp add: on_client_mod_def zoom_def)
  have sets: "on_client_mod (setup_controller_client (int (length cs)) (o_controller_args opts'))
      (?w1\<lparr>client_mod := m\<rparr>) = (Ret (), try_start p opts' cs ts m w)"
    using assms(3)
    by (simp add: on_client_mod_def zoom_def setup_controller_client_def with_plugin_def try_start_def split: prod.splits)
  show ?thesis
    unfolding main_def bind_eval [of "configure config opts"] assms(1)
    by (simp add: bind_eval [of "\<lambda>w. _ w"] bind_eval [of "on_client_mod _"] load sets)
qed

lemma main_fails:
  assumes "run_tests opts' polls (try_start p opts' cs ts m w) = (Raise (IpBenchError e), v)"
    and "configure config opts w = (Ret (opts', cs, ts), w)" and "load_plugin t (client_mod w) = (Ret (), m)"
    and "ipbench_plugin m = Some p" and "o_test opts' = Some t"
  shows "main config opts polls w = close_all (v\<lparr>stdout := stdout v @ [''Ipbench failed : '' @ e]\<rparr>)"
  using assms(1) by (simp add: main_tries [OF assms(2-5)] bind_eval try_else_eval print_line_def)

lemma main_completes:
  assumes "configure config opts w = (Ret (opts', map j_client js, map e_target es), w)"
    and "load_plugin t (client_mod w) = (Ret (), m)" and "ipbench_plugin m = Some p" and "o_test opts' = Some t"
    and "targets_load (o_target_controller_args opts') es pt (target_mod w)"
    and "net w = map (Peer \<circ> e_peer) es @ map (Peer \<circ> j_peer) js"
    and "socks w = []" and "objs w = []" and "\<not> opt_reset w"
    and "\<forall>e \<in> set es. errand_ok e" and "\<forall>j \<in> set js. job_ok p j" and "never_fails p" and "never_fails pt"
    and "rounds_end (object_fails (length es) js) polls [length es..<length es + length js] [0..<length es] = Some failure"
    and "failure = None \<longrightarrow> (\<forall>e \<in> set es. errand_delivers e)"
  shows "\<exists>w'. main config opts polls w = (Ret (), w') \<and>
    closed_run p t es js (if failure = None then [''STOP'' @ nl] else []) w' \<and>
    (failure = None \<longrightarrow> stdout w' = stdout w \<and> results p pt es js (client_mod w') (target_mod w')) \<and>
    (\<forall>msg. failure = Some msg \<longrightarrow> stdout w' = stdout w @ [''Ipbench failed : '' @ msg])"
proof -
  let ?w = "try_start p opts' (map j_client js) (map e_target es) m w" and ?more = "if failure = None then [''STOP'' @ nl] else []"
  have "try_world p pt (o_target_controller_args opts') es js ?w"
    using assms by (simp add: try_world_def targets_ready_def)
  from run_tests_ends [OF this _ assms(14,15)] assms(4) obtain v where
    v: "run_tests opts' polls ?w = (rounds_result failure, v)" "stdout v = stdout w" "open_run p t es js ?more v"
      "failure = None \<longrightarrow> results p pt es js (client_mod v) (target_mod v)"
    by auto
  define v' where "v' = (case failure of None \<Rightarrow> v | Some msg \<Rightarrow> v\<lparr>stdout := stdout v @ [''Ipbench failed : '' @ msg]\<rparr>)"
  have m: "main config opts polls w = close_all v'"
  proof (cases failure)
    case None
    with v(1) show ?thesis
      by (simp add: main_tries [OF assms(1-4)] bind_eval try_else_eval rounds_result_def v'_def)
  next
    case (Some msg)
    with v(1) main_fails [OF _ assms(1-4)] show ?thesis
      by (simp add: rounds_result_def v'_def)
  qed
  have "open_run p t es js ?more v'"
    using v(3) by (simp add: open_run_def v'_def split: option.splits)
  from close_completes [OF this] obtain w' where
    w': "close_all v' = (Ret (), w')" "w' = v'\<lparr>socks := socks w'\<rparr>" "closed_run p t es js ?more w'"
    by blast
  have kept: "client_mod w' = client_mod v" "target_mod w' = target_mod v" "stdout w' = stdout v'"
    using arg_cong [OF w'(2), of client_mod] arg_cong [OF w'(2), of target_mod] arg_cong [OF w'(2), of stdout]
    by (simp_all add: v'_def split: option.splits)
  with m w'(1,3) v(2,4) show ?thesis
    by (intro exI [of _ w']) (auto simp: v'_def split: option.splits)
qed

end
