(* ===== verification/Run_Daemons.thy ===== *)
theory Run_Daemons
  imports Benchmark_Run
begin

text \<open>
  The daemons on the other side of a run of \<^verbatim>\<open>main\<close>: what makes a daemon serve a job or an errand,
  and the state in which the run leaves it. A target has two processes from \<^verbatim>\<open>START\<close> on, the one that
  runs the test and its child that reads \<^verbatim>\<open>STOP\<close>; both are runs of the handler in the same world but
  for the side of the fork.
\<close>

section \<open>Daemons of the clients\<close>

text \<open>
  An idle daemon whose connection reads what the controller sends for a job, whose module is set up,
  and which then writes the job's replies: a result, or the failure of the test to start.
\<close>

definition idle_daemon :: "'s shunt \<Rightarrow> 'p plugin \<Rightarrow> str \<Rightarrow> job \<Rightarrow> 's daemon \<Rightarrow> bool" where
  "idle_daemon C p t j v \<longleftrightarrow> wleft v = None \<and> \<not> opt_target v \<and> shm_holds (test_running v) 0 \<and>
     (\<exists>q. own_pid v = int q \<and> q < 10 ^ 19) \<and> rfile v = job_lines p t j @ [''QUIT'' @ nl] \<and> wfile v = [] \<and>
     (\<exists>s. client_session_spec C t (job_target j) (job_port p j) (c_test_args (j_client j)) (shunt_state v) =
        Some ([reply 200 [], reply 200 []] @ j_replies j, 4, s))"

definition job_texts :: "'p plugin \<Rightarrow> str \<Rightarrow> job \<Rightarrow> bool" where
  "job_texts p t j \<longleftrightarrow> plugin_name t \<and> c_test_target (j_client j) \<noteq> None \<and> target_text (job_target j) \<and>
     args_text (c_test_args (j_client j)) \<and> port_ok (c_port (j_client j)) \<and> default_port p \<noteq> - 1 \<and> job_ends j"

text \<open>
  The network brings the writes of a connection to a fresh socket of the controller: the first four,
  each of which answers one step of the controller, in a piece of its own, and the result in any
  pieces that can be read.
\<close>

definition carries :: "sock \<Rightarrow> bytes list \<Rightarrow> bool" where
  "carries k out \<longleftrightarrow> usable k \<and> sent k = [] \<and>
     (\<exists>ps. inbox k = delivered (take 4 out) @ ps \<and> in_pieces (drop 4 out) ps)"

lemma carries_says:
  "carries k ([reply 100 [], reply 200 [''Ready to go''], reply 200 [], reply 200 []] @ out) = peer_says k out"
  by (simp add: carries_def peer_says_def delivered_def eval_nat_numeral)

lemma carries_short: "length out \<le> 4 \<Longrightarrow> carries k out \<longleftrightarrow> usable k \<and> sent k = [] \<and> inbox k = delivered out"
  by (auto simp: carries_def in_pieces_def concat_eq_Nil_conv) (metis list.set_intros(1) neq_Nil_conv)

definition serves_job :: "'s shunt \<Rightarrow> 's shunt \<Rightarrow> 'p plugin \<Rightarrow> str \<Rightarrow> 's daemon \<Rightarrow> job \<Rightarrow> bool" where
  "serves_job C T p t v j \<longleftrightarrow> job_texts p t j \<and> idle_daemon C p t j v \<and>
     (\<exists>r v'. handle C T v = Some (r, v') \<and> carries (j_peer j) (wfile v'))"

text \<open>How a run leaves such a daemon: the last \<^verbatim>\<open>QUIT\<close> unread, and idle.\<close>

definition served_job :: "'s shunt \<Rightarrow> 's shunt \<Rightarrow> 's daemon \<Rightarrow> bool" where
  "served_job C T v \<longleftrightarrow> (\<exists>v'. handle C T v = Some (Ret (), v') \<and> rfile v' = [''QUIT'' @ nl] \<and>
     shm_holds (test_running v') 0)"

lemma serves_job_ends:
  assumes "serves_job C T p t v j"
  shows "job_ok p j" and "served_job C T v" and "rfile v = job_lines p t j @ [''QUIT'' @ nl]"
proof -
  obtain q s where q: "own_pid v = int q" "q < 10 ^ 19"
      "client_session_spec C t (job_target j) (job_port p j) (c_test_args (j_client j)) (shunt_state v) =
        Some ([reply 200 [], reply 200 []] @ j_replies j, 4, s)"
    using assms by (auto simp: serves_job_def idle_daemon_def)
  have v: "wleft v = None" "\<not> opt_target v" "shm_holds (test_running v) 0" "wfile v = []"
      "rfile v = session_lines t (job_target j) (job_port p j) (c_test_args (j_client j)) @ [''QUIT'' @ nl]"
      "plugin_name t" "target_text (job_target j)" "args_text (c_test_args (j_client j))"
    using assms by (auto simp: serves_job_def idle_daemon_def job_texts_def job_lines_def)
  obtain m where m: "shm_holds m 0" "handle C T v = Some (Ret (), v\<lparr>rfile := drop 4 (rfile v),
      wfile := wfile v @ [reply 100 [], reply 200 [''Ready to go'']] @
        [reply 200 [], reply 200 []] @ j_replies j, shunt_state := s, test_running := m\<rparr>)"
    using session_from_listen [OF v(1-3) q(1,2) v(5-8) q(3), of T] by (auto simp: ends_clear_def)
  then have "peer_says (j_peer j) (j_replies j)"
    using assms v(4) by (auto simp: serves_job_def simp flip: carries_says)
  then show "job_ok p j"
    using assms by (simp add: job_ok_def serves_job_def job_texts_def)
  show "served_job C T v"
    using m v(5) by (simp add: served_job_def session_lines_def)
  show "rfile v = job_lines p t j @ [''QUIT'' @ nl]"
    using v(5) by (simp add: job_lines_def)
qed

section \<open>Daemons of the targets\<close>

text \<open>
  An idle target daemon whose connection reads what the controller sends for an errand until it
  stops the test; the test runs in the process that got the connection, its child has the pid \<open>c\<close>.
\<close>

definition target_forks :: "'s daemon \<Rightarrow> int \<Rightarrow> bool" where
  "target_forks v c \<longleftrightarrow> (\<exists>fs. forks v = InParent c # fs) \<and> 0 < c \<and> c \<noteq> own_pid v"

definition child_of :: "'s daemon \<Rightarrow> int \<Rightarrow> 's daemon" where
  "child_of v c = v\<lparr>forks := InChild c # tl (forks v)\<rparr>"

definition serves_errand ::
  "'s shunt \<Rightarrow> 's shunt \<Rightarrow> 's daemon \<times> int \<Rightarrow> errand \<Rightarrow> bool" where
  "serves_errand C T = (\<lambda>(v, c) e. g_hostname (e_target e) \<noteq> None \<and> port_ok (g_port (e_target e)) \<and>
     errand_delivers e \<and> target_forks v c \<and> wfile v = [] \<and> kill_env v (own_pid v) SIGUSR1 = Delivered \<and>
     (\<exists>q s s' s''. idle_target T (g_test (e_target e)) (g_test_args (e_target e)) q s [''STOP'' @ nl, ''QUIT'' @ nl] v \<and>
        sh_start T s = (Ret (), s') \<and> sh_marshall T s' = (Ret (e_flag e, Some (e_data e)), s'')) \<and>
     (\<exists>r v'. handle C T v = Some (r, v') \<and> carries (e_peer e) (wfile v')))"

text \<open>How a run leaves it: idle, and the child gone after the signal that ends the test.\<close>

definition served_errand :: "'s shunt \<Rightarrow> 's shunt \<Rightarrow> 's daemon \<times> int \<Rightarrow> bool" where
  "served_errand C T = (\<lambda>(v, c).
     (\<exists>v'. handle C T v = Some (Ret (), v') \<and> shm_holds (test_running v') 0) \<and>
     (\<exists>v'. handle C T (child_of v c) = Some (Halt, v') \<and> rfile v' = [''QUIT'' @ nl] \<and>
        signals v' = signals v @ [(own_pid v, SIGUSR1)]))"

lemma idle_target_child: "idle_target T t a q s rest v \<Longrightarrow> idle_target T t a q s rest (child_of v c)"
  by (simp add: idle_target_def child_of_def)

lemma serves_errand_ends:
  assumes "serves_errand C T (v, c) e"
  shows "errand_ok e" and "served_errand C T (v, c)"
    and "rfile v = errand_lines e @ [''STOP'' @ nl, ''QUIT'' @ nl]"
proof -
  let ?rest = "[''STOP'' @ nl, ''QUIT'' @ nl]"
  obtain q s s' s'' where i: "idle_target T (g_test (e_target e)) (g_test_args (e_target e)) q s ?rest v"
      "sh_start T s = (Ret (), s')" "sh_marshall T s' = (Ret (e_flag e, Some (e_data e)), s'')"
    using assms by (auto simp: serves_errand_def)
  obtain fs where f: "forks v = InParent c # fs" "0 < c" "c \<noteq> own_pid v"
      "kill_env v (own_pid v) SIGUSR1 = Delivered" "wfile v = []"
    using assms by (auto simp: serves_errand_def target_forks_def)
  obtain m where m: "shm_holds m 0" "handle C T v = Some (Ret (), (target_ready v ?rest s'' m)\<lparr>rfile := ?rest,
      wfile := wfile v @ [reply 100 [], reply 200 [''Ready to go''], reply 200 [], reply 200 []] @
        marshall_replies (e_flag e) (e_data e), forks := fs\<rparr>)"
    using parent_session [OF i(1) f(1,2) i(2,3), of C] by blast
  have "peer_says (e_peer e) (marshall_replies (e_flag e) (e_data e))"
    using assms m(2) f(5) by (auto simp: serves_errand_def simp flip: carries_says)
  then show "errand_ok e"
    using assms by (simp add: serves_errand_def errand_ok_def errand_delivers_def)
  obtain m' where m': "handle C T (child_of v c) = Some (Halt, (target_ready (child_of v c) [''QUIT'' @ nl] s m')\<lparr>
      rfile := [''QUIT'' @ nl], forks := fs, own_pid := c, signals := signals v @ [(own_pid v, SIGUSR1)]\<rparr>)"
    using child_stops_session [OF idle_target_child [OF i(1), of c], of c fs C] f by (auto simp: child_of_def)
  show "served_errand C T (v, c)"
    using m m' by (auto simp: served_errand_def)
  show "rfile v = errand_lines e @ ?rest"
    using i(1) by (simp add: idle_target_def errand_lines_def)
qed

end
