(* ===== verification/Refused_Run.thy ===== *)
theory Refused_Run
  imports Benchmark_Run
begin

text \<open>
  A run of \<^verbatim>\<open>main\<close> in which the set-up of one client fails: its daemon refuses \<^verbatim>\<open>HELLO\<close>, because it is
  busy, or \<^verbatim>\<open>LOAD\<close> or \<^verbatim>\<open>SETUP\<close>, because its module cannot do them, or no target has been named for it.
  The targets and the clients before it are set up; the entries of the clients after it have
  no connection object, which the closing loop meets before it comes to the targets.
\<close>

section \<open>The set-up that fails\<close>

definition good_replies :: "bytes list" where
  "good_replies = [reply 100 [], reply 200 [''Ready to go''], reply 200 []]"

text \<open>The error for the reply to the command number \<open>l\<close>.\<close>

definition refusal :: "nat \<Rightarrow> str \<Rightarrow> return_code \<Rightarrow> str" where
  "refusal l h c = (if l = 1 then hello_failed h c else if l = 2 then load_failed h c else setup_failed h c)"

text \<open>The peer of a client brings its set-up to an end after \<open>l\<close> commands, with the error \<open>e\<close>.\<close>

definition replies_badly :: "job \<Rightarrow> nat \<Rightarrow> str \<Rightarrow> bool" where
  "replies_badly j l e \<longleftrightarrow> l \<in> {1, 2, 3} \<and> (l = 3 \<longrightarrow> c_test_target (j_client j) \<noteq> None) \<and>
     (\<exists>b c. inbox (j_peer j) = take l good_replies @ [b] \<and> reads_as b c \<and> rc_code c \<noteq> 200 \<and>
        e = refusal l (c_hostname (j_client j)) c)"

definition lacks_target :: "job \<Rightarrow> nat \<Rightarrow> str \<Rightarrow> bool" where
  "lacks_target j l e \<longleftrightarrow> l = 2 \<and> c_test_target (j_client j) = None \<and> (\<exists>bs. inbox (j_peer j) = good_replies @ bs) \<and>
     e = ''Must specify --test-target''"

definition refuses :: "job \<Rightarrow> nat \<Rightarrow> str \<Rightarrow> bool" where
  "refuses j l e \<longleftrightarrow> usable (j_peer j) \<and> sent (j_peer j) = [] \<and> port_ok (c_port (j_client j)) \<and>
     (replies_badly j l e \<or> lacks_target j l e)"

lemma refuses_cases:
  assumes "refuses j l e"
  obtains b c where "l = 1" "inbox (j_peer j) = reply 100 [] # b # []" "reads_as b c" "rc_code c \<noteq> 200"
      "e = hello_failed (c_hostname (j_client j)) c"
  | b c where "l = 2" "inbox (j_peer j) = reply 100 [] # reply 200 [''Ready to go''] # b # []" "reads_as b c"
      "rc_code c \<noteq> 200" "e = load_failed (c_hostname (j_client j)) c"
  | b c h where "l = 3" "inbox (j_peer j) = good_replies @ [b]" "reads_as b c" "rc_code c \<noteq> 200"
      "e = setup_failed (c_hostname (j_client j)) c" "c_test_target (j_client j) = Some h"
  | bs where "l = 2" "c_test_target (j_client j) = None" "inbox (j_peer j) = good_replies @ bs"
      "e = ''Must specify --test-target''"
proof (cases "replies_badly j l e")
  case True
  then obtain b c where b: "l \<in> {1, 2, 3}" "l = 3 \<longrightarrow> c_test_target (j_client j) \<noteq> None"
      "inbox (j_peer j) = take l good_replies @ [b]" "reads_as b c" "rc_code c \<noteq> 200"
      "e = refusal l (c_hostname (j_client j)) c"
    by (auto simp: replies_badly_def)
  then consider "l = 1" | "l = 2" | "l = 3"
    by blast
  then show thesis
  proof cases
    case 3
    with b obtain h where "c_test_target (j_client j) = Some h"
      by auto
    with b 3 show thesis
      by (intro that(3) [of b c h]) (simp_all add: good_replies_def refusal_def)
  qed (use b in \<open>simp_all add: that(1) [of b c] that(2) [of b c] good_replies_def refusal_def eval_nat_numeral\<close>)
next
  case False
  with assms obtain bs where "l = 2" "c_test_target (j_client j) = None" "inbox (j_peer j) = good_replies @ bs"
      "e = ''Must specify --test-target''"
    by (auto simp: refuses_def lacks_target_def)
  then show thesis
    by (rule that(4))
qed

definition refused_sock :: "'p plugin \<Rightarrow> str \<Rightarrow> job list \<Rightarrow> nat \<Rightarrow> nat \<Rightarrow> sock" where
  "refused_sock p t js i l = (j_peer (js ! i))\<lparr>sent := take l (job_lines p t (js ! i)),
     inbox := drop (Suc l) (inbox (j_peer (js ! i)))\<rparr>"

definition refused_at :: "'p plugin \<Rightarrow> str \<Rightarrow> job list \<Rightarrow> nat \<Rightarrow> nat \<Rightarrow> 'p controller \<Rightarrow> 'p controller" where
  "refused_at p t js i l w = dialled_to (entered p t js i w) (length (objs w) + i) (refused_sock p t js i l)"

lemma dialled_update:
  "length (socks w) = k \<Longrightarrow> (dialled_to w r s)\<lparr>socks := (socks (dialled_to w r s))[k := s']\<rparr> = dialled_to w r s'"
  by (rule controller.equality) (auto simp: dialled_to_def)

lemma entry_refused:
  assumes "ready_for p js w" and "i < length js" and "default_port p \<noteq> - 1" and "py_str (o_test opts) = t"
    and "refuses (js ! i) l e"
  shows "setup_client_entry opts i (set_up p t js i w) = (Raise (IpBenchError e), refused_at p t js i l w)"
proof -
  let ?v = "entered p t js i w" and ?r = "length (objs w) + i" and ?j = "js ! i"
  let ?k = "j_peer ?j" and ?c = "j_client ?j"
  let ?s = "?k\<lparr>sent := sent ?k @ [''HELLO'' @ nl, load_message t @ nl], inbox := drop 3 (inbox ?k)\<rparr>"
  have i: "drop i js = ?j # drop (Suc i) js"
    using assms(2) by (simp add: Cons_nth_drop_Suc)
  have o: "objs ?v ! ?r = fresh_obj p t js i"
    by (simp add: nth_append)
  have q: "length (socks w) = length (objs w)"
    using assms(1) by (simp add: ready_for_def)
  have k: "usable ?k" "sent ?k = []" "port_ok (c_port ?c)"
    using assms(5) by (simp_all add: refuses_def)
  then have c: "connects ?v ?r ?k"
    using assms(1) i o by (simp add: connects_def ready_for_def)
  have loaded: "connect ?r ?v = (Ret (), dialled_to ?v ?r ?s)" if "inbox ?k = good_replies @ bs" for bs
    using connect_ok [OF c _ daemon_replies(1) _ daemon_replies(3) _ daemon_replies(2), of bs] that o
    by (simp add: good_replies_def)
  have wd: "wired (dialled_to ?v ?r ?s) ?r ?r"
    using dialled_wired [of ?r ?v ?s] q by simp
  have obj: "client_obj (objs (dialled_to ?v ?r ?s) ! ?r) (c_test_target ?c) (job_port p ?j) (c_test_args ?c)"
      "hostname (objs (dialled_to ?v ?r ?s) ! ?r) = c_hostname ?c"
    by (simp_all add: client_obj_def nth_append) (simp_all add: fresh_obj_def job_obj_def Let_def)
  have lines: "job_lines p t ?j = [''HELLO'' @ nl, load_message t @ nl,
      setup_message (job_target ?j) (job_port p ?j) (c_test_args ?c) @ nl, ''START'' @ nl]"
    by (simp add: job_lines_def session_lines_def)
  from assms(5) have "bind (connect ?r) (\<lambda>_. tester_setup ?r) ?v = (Raise (IpBenchError e), refused_at p t js i l w)"
  proof (cases rule: refuses_cases)
    case (1 b c)
    then show ?thesis
      using connect_hello_fails [OF c 1(2) daemon_replies(1) _ 1(3,4)] o k(2)
      by (simp add: bind_eval refused_at_def refused_sock_def lines)
  next
    case (2 b c)
    then show ?thesis
      using connect_load_fails [OF c 2(2) daemon_replies(1) _ daemon_replies(3) _ 2(3,4)] o k(2)
      by (simp add: bind_eval refused_at_def refused_sock_def lines eval_nat_numeral)
  next
    case (3 b c h)
    have "tester_setup ?r (dialled_to ?v ?r ?s) = (Raise (IpBenchError e), dialled_to ?v ?r
        (?s\<lparr>sent := sent ?s @ [setup_message h (job_port p ?j) (c_test_args ?c) @ nl], inbox := []\<rparr>))"
      using setup_fails [where w = "dialled_to ?v ?r ?s", OF _ wd _ _ 3(3,4), of h "job_port p ?j" "c_test_args ?c" "[]"]
        obj 3 k(1) q dialled_update [where w = ?v and k = ?r and r = ?r and s = ?s]
      by (simp add: good_replies_def nth_append)
    then show ?thesis
      using 3 k(2) by (simp add: bind_eval loaded [OF 3(2)] refused_at_def refused_sock_def lines eval_nat_numeral job_target_def good_replies_def)
  next
    case (4 bs)
    have "tester_setup ?r (dialled_to ?v ?r ?s) = (Raise (IpBenchError e), dialled_to ?v ?r ?s)"
      using obj(1) 4(2,4) by (simp add: setup_no_target)
    then show ?thesis
      using 4 k(2) by (simp add: bind_eval loaded [OF 4(3)] refused_at_def refused_sock_def lines eval_nat_numeral good_replies_def)
  qed
  then show ?thesis
    unfolding entry_connects [OF assms(1-4)] .
qed

lemma for_each_raises:
  assumes "\<And>i. i < n \<Longrightarrow> f i (S i) = (Ret (), S (Suc i))" and "f n (S n) = (Raise e, v)" and "n < m"
  shows "for_each [0..<m] f (S 0) = (Raise e, v)"
proof -
  have "[0..<m] = [0..<n] @ n # [Suc n..<m]"
    using assms(3) upt_add_eq_append [of 0 n "m - n"] by (simp add: upt_conv_Cons)
  then show ?thesis
    using for_each_upto [where f = f and S = S and n = n, OF assms(1)] assms(2) by (simp add: for_each_append bind_eval)
qed

lemma set_up_refused:
  assumes "ready_for p js w" and "n < length js" and "\<And>i. i < n \<Longrightarrow> job_ok p (js ! i)" and "py_str (o_test opts) = t"
    and "default_port p \<noteq> - 1" and "refuses (js ! n) l e"
  shows "for_each [0..<length js] (setup_client_entry opts) w = (Raise (IpBenchError e), refused_at p t js n l w)"
proof -
  have "setup_client_entry opts i (set_up p t js i w) = (Ret (), set_up p t js (Suc i) w)" if "i < n" for i
    using that assms(1-4) by (intro set_up_step) simp_all
  from for_each_raises [where f = "setup_client_entry opts" and S = "\<lambda>i. set_up p t js i w", OF this entry_refused [OF assms(1,2,5,4,6)] assms(2)] show ?thesis
    by (simp add: set_up_0 [OF assms(1)])
qed

lemma refused_at_simps:
  assumes "length (socks w) = length (objs w)"
  shows "stdout (refused_at p t js n l w) = stdout w" "targets (refused_at p t js n l w) = targets w"
    "socks (refused_at p t js n l w) = socks w @ map (set_up_sock p t js) [0..<n] @ [refused_sock p t js n l]"
    "objs (refused_at p t js n l w) = objs w @ map (job_obj p t (length (objs w)) js) [0..<Suc n]"
    "n < length js \<Longrightarrow> clients (refused_at p t js n l w) =
       map (\<lambda>i. if i \<le> n then job_entry p (length (objs w)) js i else j_client (js ! i)) [0..<length js]"
proof -
  show "n < length js \<Longrightarrow> clients (refused_at p t js n l w) =
       map (\<lambda>i. if i \<le> n then job_entry p (length (objs w)) js i else j_client (js ! i)) [0..<length js]"
    using map_upt_update [of n "length js"
        "\<lambda>i. if i < n then job_entry p (length (objs w)) js i else j_client (js ! i)"
        "\<lambda>i. if i \<le> n then job_entry p (length (objs w)) js i else j_client (js ! i)"]
    by (simp add: refused_at_def entered_def set_up_def Let_def)
qed (use assms in \<open>simp_all add: refused_at_def entered_def dialled_to_def set_up_def Let_def list_update_append nth_append\<close>)

section \<open>Closing\<close>

lemma close_stops:
  assumes "list_all2 (wired w) rs ks" and "distinct ks" and "\<forall>k \<in> set ks. usable (socks w ! k)"
    and "map c_testobj (clients w) @ map g_testobj (targets w) = map Some rs @ None # xs"
  shows "\<exists>w'. close_all w = (Raise KeyError, w') \<and>
    (\<forall>k. socks w' ! k = (if k \<in> set ks
        then (socks w ! k)\<lparr>sent := sent (socks w ! k) @ [''QUIT'' @ nl], closed := True\<rparr>
        else socks w ! k)) \<and> w' = w\<lparr>socks := socks w'\<rparr>"
proof -
  obtain w' where w': "for_each (map Some rs) (\<lambda>x. bind (testobj x) tester_close) w = (Ret (), w')"
      "\<forall>k. socks w' ! k = (if k \<in> set ks
        then (socks w ! k)\<lparr>sent := sent (socks w ! k) @ [''QUIT'' @ nl], closed := True\<rparr>
        else socks w ! k)" "w' = w\<lparr>socks := socks w'\<rparr>"
    using close_each [OF assms(1-3)] by blast
  have "close_all w = (Raise KeyError, w')"
    unfolding close_all_eq assms(4) for_each_append bind_eval [of "for_each _ _"] w'(1)
    by (simp add: bind_eval)
  with w'(2,3) show ?thesis
    by blast
qed

text \<open>What the closing leaves of a run in which client \<open>n\<close> has been refused.\<close>

definition refused_run ::
  "'p plugin \<Rightarrow> str \<Rightarrow> errand list \<Rightarrow> job list \<Rightarrow> nat \<Rightarrow> nat \<Rightarrow> 'p controller \<Rightarrow> bool" where
  "refused_run p t es js n l w \<longleftrightarrow>
     (\<forall>i < length es. closed (socks w ! i) = (Suc n = length js) \<and>
        sent (socks w ! i) = take 3 (errand_lines (es ! i)) @ (if Suc n = length js then [''QUIT'' @ nl] else [])) \<and>
     (\<forall>i < n. closed (socks w ! (length es + i)) \<and>
        sent (socks w ! (length es + i)) = take 3 (job_lines p t (js ! i)) @ [''QUIT'' @ nl]) \<and>
     closed (socks w ! (length es + n)) \<and> 
     sent (socks w ! (length es + n)) = take l (job_lines p t (js ! n)) @ [''QUIT'' @ nl]"

text \<open>The world in which the closing begins.\<close>

definition refused_world ::
  "'p plugin \<Rightarrow> str \<Rightarrow> errand list \<Rightarrow> job list \<Rightarrow> nat \<Rightarrow> nat \<Rightarrow> 'p controller \<Rightarrow> bool" where
  "refused_world p t es js n l w \<longleftrightarrow> n < length js \<and>
     socks w = map (errand_sock es) [0..<length es] @ map (set_up_sock p t js) [0..<n] @ [refused_sock p t js n l] \<and>
     objs w = map (errand_obj es) [0..<length es] @ map (job_obj p t (length es) js) [0..<Suc n] \<and>
     clients w = map (\<lambda>i. if i \<le> n then job_entry p (length es) js i else j_client (js ! i)) [0..<length js] \<and>
     targets w = map (errand_entry es) [0..<length es] \<and>
     (\<forall>e \<in> set es. errand_ok e) \<and> (\<forall>i < n. job_ok p (js ! i)) \<and> usable (j_peer (js ! n)) \<and>
     (\<forall>j \<in> set js. c_testobj (j_client j) = None)"

lemma refused_world_wired:
  assumes "refused_world p t es js n l w" and "k < length es + Suc n"
  shows "wired w k k" and "usable (socks w ! k)"
proof -
  consider "k < length es" | i where "k = length es + i" "i < n" | "k = length es + n"
  proof -
    define i where "i = k - length es"
    with assms(2) have "k < length es \<or> (k = length es + i \<and> (i < n \<or> i = n))"
      by linarith
    then show ?thesis
      using that by blast
  qed
  then have "t_socket (objs w ! k) = Some k \<and> usable (socks w ! k)"
  proof cases
    case 1
    with assms(1) show ?thesis
      by (simp add: refused_world_def nth_append errand_sock_def errand_ok_def peer_says_def)
  next
    case (2 i)
    with assms(1) show ?thesis
      by (simp add: refused_world_def nth_append set_up_sock_def job_ok_def peer_says_def del: upt_Suc)
  next
    case 3
    with assms(1) show ?thesis
      by (simp add: refused_world_def nth_append refused_sock_def del: upt_Suc)
  qed
  with assms show "wired w k k" "usable (socks w ! k)"
    by (simp_all add: wired_def refused_world_def)
qed

lemma refused_world_objs:
  assumes "refused_world p t es js n l w"
  defines "q \<equiv> length es"
  shows "map c_testobj (clients w) @ map g_testobj (targets w) =
    map Some [q..<q + Suc n] @ replicate (length js - Suc n) None @ map Some [0..<q]"
proof -
  have "map c_testobj (clients w) = map Some [q..<q + Suc n] @ replicate (length js - Suc n) None"
  proof (rule nth_equalityI)
    fix i
    assume "i < length (map c_testobj (clients w))"
    then show "map c_testobj (clients w) ! i = (map Some [q..<q + Suc n] @ replicate (length js - Suc n) None) ! i"
      using assms by (auto simp: refused_world_def job_entry_def nth_append simp del: upt_Suc)
  qed (use assms in \<open>auto simp: refused_world_def simp del: upt_Suc\<close>)
  moreover have "map g_testobj (targets w) = map Some [0..<q]"
    using assms by (auto simp: refused_world_def errand_entry_def intro!: nth_equalityI)
  ultimately show ?thesis
    by simp
qed

lemma close_refused:
  assumes "refused_world p t es js n l w"
  shows "\<exists>w'. close_all w = (if Suc n = length js then Ret () else Raise KeyError, w') \<and>
    w' = w\<lparr>socks := socks w'\<rparr> \<and> refused_run p t es js n l w'"
proof -
  let ?q = "length es"
  let ?ks = "[?q..<?q + Suc n] @ (if Suc n = length js then [0..<?q] else [])"
  have wd: "list_all2 (wired w) ?ks ?ks" "distinct ?ks" "\<forall>k \<in> set ?ks. usable (socks w ! k)"
    using refused_world_wired [OF assms] by (auto simp: list_all2_same split: if_splits simp del: upt_Suc)
  have "n < length js"
    using assms by (simp add: refused_world_def)
  have "\<exists>w'. close_all w = (if Suc n = length js then Ret () else Raise KeyError, w') \<and>
    (\<forall>k. socks w' ! k = (if k \<in> set ?ks
        then (socks w ! k)\<lparr>sent := sent (socks w ! k) @ [''QUIT'' @ nl], closed := True\<rparr>
        else socks w ! k)) \<and> w' = w\<lparr>socks := socks w'\<rparr>"
  proof (cases "Suc n = length js")
    case True
    then have "map c_testobj (clients w) @ map g_testobj (targets w) = map Some ?ks"
      using refused_world_objs [OF assms] by simp
    with close_each [OF wd] True show ?thesis
      unfolding close_all_eq by simp
  next
    case False
    then have "replicate (length js - Suc n) None = None # replicate (length js - Suc (Suc n)) (None :: nat option)"
      using \<open>n < length js\<close> by (simp add: Suc_diff_Suc flip: replicate_Suc)
    then have "map c_testobj (clients w) @ map g_testobj (targets w) =
        map Some ?ks @ None # replicate (length js - Suc (Suc n)) None @ map Some [0..<?q]"
      using refused_world_objs [OF assms] False by simp
    from close_stops [OF wd this] False show ?thesis
      by simp
  qed
  then obtain w' where w': "close_all w = (if Suc n = length js then Ret () else Raise KeyError, w')"
    "\<forall>k. socks w' ! k = (if k \<in> set ?ks
        then (socks w ! k)\<lparr>sent := sent (socks w ! k) @ [''QUIT'' @ nl], closed := True\<rparr>
        else socks w ! k)" "w' = w\<lparr>socks := socks w'\<rparr>"
    by blast
  have "refused_run p t es js n l w'"
    using assms unfolding refused_run_def w'(2) [rule_format]
    by (auto simp: refused_world_def nth_append errand_sock_def set_up_sock_def refused_sock_def job_lines_def
        session_lines_def errand_lines_def target_lines_def errand_ok_def peer_says_def job_ok_def usable_def
        simp del: upt_Suc)
  with w'(1,3) show ?thesis
    by blast
qed

section \<open>The whole of main\<close>

lemma run_tests_refused:
  assumes "targets_ready es w" and "targets_load (o_target_controller_args opts) es pt (target_mod w)"
    and "ipbench_plugin (client_mod w) = Some p" and "drop (length es) (net w) = map (Peer \<circ> j_peer) js"
    and "clients w = map j_client js" and "length (client_data (client_mod w)) = length js"
    and "\<forall>e \<in> set es. errand_ok e" and "\<And>i. i < n \<Longrightarrow> job_ok p (js ! i)" and "py_str (o_test opts) = t"
    and "n < length js" and "default_port p \<noteq> - 1" and "refuses (js ! n) l e" and "\<forall>j \<in> set js. c_testobj (j_client j) = None"
  shows "\<exists>v. run_tests opts polls w = (Raise (IpBenchError e), v) \<and>
    stdout v = stdout w \<and> refused_world p t es js n l v"
proof -
  let ?q = "length es" and ?b = "targets_up (o_target_controller_args opts) es (length es) w"
  have sizes: "length (targets w) = ?q" "length (clients w) = length js"
    using assms(1,5) by (simp_all add: targets_ready_def)
  have b: "ready_for p js ?b"
    using assms(1,3-6) by (simp add: ready_for_def targets_ready_def)
  let ?v = "refused_at p t js n l ?b"
  have "run_tests opts polls w = (Raise (IpBenchError e), ?v)"
    unfolding run_tests_def bind_eval [of "\<lambda>w. (Ret (length (targets w), length (clients w)), w)"] sizes
    by (simp add: bind_eval [of "for_each _ (setup_target_entry opts)"] targets_set_up [OF assms(1,2,7) refl]
        bind_eval [of "for_each _ (setup_client_entry opts)"] set_up_refused [OF b assms(10,8,9,11,12)])
  moreover have "length (socks ?b) = length (objs ?b)"
    by simp
  note s = refused_at_simps [OF this, where p = p and t = t and js = js and n = n and l = l]
  have "targets ?b = map (errand_entry es) [0..<?q]"
    by (simp add: targets_up_def)
  then have "refused_world p t es js n l ?v"
    using assms(7,8,10,12,13) s(5) by (simp add: refused_world_def s(2-4) refuses_def del: upt_Suc)
  ultimately show ?thesis
    using s(1) by (intro exI [of _ ?v]) simp
qed

lemma main_refused:
  assumes "configure config opts w = (Ret (opts', map j_client js, map e_target es), w)"
    and "load_plugin t (client_mod w) = (Ret (), m)" and "ipbench_plugin m = Some p" and "o_test opts' = Some t"
    and "targets_load (o_target_controller_args opts') es pt (target_mod w)"
    and "net w = map (Peer \<circ> e_peer) es @ map (Peer \<circ> j_peer) js"
    and "socks w = []" and "objs w = []" and "\<not> opt_reset w"
    and "\<forall>e \<in> set es. errand_ok e" and "\<And>i. i < n \<Longrightarrow> job_ok p (js ! i)"
    and "n < length js" and "default_port p \<noteq> - 1" and "refuses (js ! n) l e"
  shows "\<exists>w'. main config opts polls w = (if Suc n = length js then Ret () else Raise KeyError, w') \<and>
    stdout w' = stdout w @ [''Ipbench failed : '' @ e] \<and>
    refused_run p t es js n l w'"
proof -
  let ?w = "try_start p opts' (map j_client js) (map e_target es) m w"
  have "list_all fresh_client (map j_client js)"
    using configure_fresh [OF assms(1)] by simp
  then have "\<forall>j \<in> set js. c_testobj (j_client j) = None"
    by (simp add: list_all_iff fresh_client_def)
  moreover have "targets_ready es ?w" "drop (length es) (net ?w) = map (Peer \<circ> j_peer) js"
    using assms(6-9) by (simp_all add: targets_ready_def)
  ultimately obtain v where v: "run_tests opts' polls ?w = (Raise (IpBenchError e), v)" "stdout v = stdout w"
      "refused_world p t es js n l v"
    using run_tests_refused [of es ?w opts' pt p js n t l e polls] assms(3-5,10-14) by auto
  let ?v = "v\<lparr>stdout := stdout v @ [''Ipbench failed : '' @ e]\<rparr>"
  have "refused_world p t es js n l ?v"
    using v(3) by (simp add: refused_world_def)
  from close_refused [OF this] obtain w' where
    w': "close_all ?v = (if Suc n = length js then Ret () else Raise KeyError, w')" "w' = ?v\<lparr>socks := socks w'\<rparr>"
      "refused_run p t es js n l w'"
    by blast
  have "main config opts polls w = close_all ?v"
    using v(1) assms(1-4) by (rule main_fails)
  moreover have "stdout w' = stdout w @ [''Ipbench failed : '' @ e]"
    using arg_cong [OF w'(2), of stdout] v(2) by simp
  ultimately show ?thesis
    using w'(1,3) by metis
qed

end
