(* ===== verification/Refused_Daemons.thy ===== *)
theory Refused_Daemons
  imports Run_Daemons Refused_Run
begin

text \<open>
  The daemons that bring the set-up of a client to an end, for each of the reasons: another test runs,
  the module cannot load the test, no target has been named for the client, or the module cannot set
  the test up. In each case the daemon has read some of the lines of the job and then \<^verbatim>\<open>QUIT\<close>, and
  what it writes makes the controller raise one error.
\<close>

section \<open>Reasons\<close>

datatype reason = Busy | No_Test | No_Target | No_Setup

text \<open>How many commands the controller sends, and what it raises.\<close>

fun commands :: "reason \<Rightarrow> nat" where
  "commands Busy = 1"
| "commands No_Test = 2"
| "commands No_Target = 2"
| "commands No_Setup = 3"

fun complaint :: "reason \<Rightarrow> str \<Rightarrow> str" where
  "complaint Busy h = ''HELLO to '' @ h @ '' failed (421 SERVICE NOT AVAILABLE)''"
| "complaint No_Test h = ''LOAD Failed''"
| "complaint No_Target h = ''Must specify --test-target''"
| "complaint No_Setup h = ''SETUP to '' @ h @ ''failed (451 LOCAL PROCESSING ERROR)''"

section \<open>The reply of a module that fails\<close>

text \<open>A message that reaches the controller in one read with its reply.\<close>

definition error_text :: "str \<Rightarrow> bool" where
  "error_text m \<longleftrightarrow> ascii (strip m) \<and> length (strip m) \<le> 900"

lemma error_reply:
  assumes "error_text m"
  obtains c where "reads_as (reply 451 [strip m]) c" and "rc_code c = 451" and "rc_str c = ''LOCAL PROCESSING ERROR''"
proof -
  have r: "reply 451 [strip m] = ''451 LOCAL PROCESSING ERROR ('' @ strip m @ '')'' @ nl"
  proof -
    have "repr_int 451 = ''451''"
      by code_simp
    then show ?thesis
      by (simp add: reply_def str_status_def)
  qed
  have "str_status 451 [strip m] = Inr (reply 451 [strip m])"
    by (rule str_status_reply) (simp add:)
  from parse_reply [OF this] assms obtain t where t: "errCodes 451 = Some t"
      "parse_return_code_text (reply 451 [strip m]) =
        Inr \<lparr>rc_code = 451, rc_str = t, rc_msg = strip (before_paren (join_sp [strip m]))\<rparr>"
    by (auto simp: error_text_def)
  moreover have "ascii (reply 451 [strip m])" "length (reply 451 [strip m]) \<le> 1024" "reply 451 [strip m] \<noteq> []"
    using assms by (simp_all add: r error_text_def nl_def newline_def)
  ultimately show thesis
    by (intro that) (auto simp: reads_as_def ascii_utf8_valid)
qed

section \<open>Unready daemons\<close>

definition idle_client :: "str \<Rightarrow> 's daemon \<Rightarrow> bool" where
  "idle_client t v \<longleftrightarrow> \<not> opt_target v \<and> shm_holds (test_running v) 0 \<and> (\<exists>q. own_pid v = int q \<and> q < 10 ^ 19) \<and>
     plugin_name t"

fun unready :: "reason \<Rightarrow> 's shunt \<Rightarrow> 'p plugin \<Rightarrow> str \<Rightarrow> job \<Rightarrow> 's daemon \<Rightarrow> bool" where
  "unready Busy C p t j v = (\<exists>q. shm_holds (test_running v) q \<and> 0 < q)"
| "unready No_Test C p t j v = (idle_client t v \<and>
     (\<exists>m s. sh_load C t (shunt_state v) = (Raise (RuntimeError m), s) \<and> error_text m))"
| "unready No_Target C p t j v = (idle_client t v \<and> c_test_target (j_client j) = None \<and>
     (\<exists>s. sh_load C t (shunt_state v) = (Ret (), s)))"
| "unready No_Setup C p t j v = (idle_client t v \<and> c_test_target (j_client j) \<noteq> None \<and>
     target_text (job_target j) \<and> args_text (c_test_args (j_client j)) \<and>
     (\<exists>s s' m. sh_load C t (shunt_state v) = (Ret (), s) \<and> error_text m \<and>
        sh_setup3 C (job_target j) (job_port p j) (c_test_args (j_client j)) s = (Raise (RuntimeError m), s')))"

definition meets_unready ::
  "'s shunt \<Rightarrow> 's shunt \<Rightarrow> 'p plugin \<Rightarrow> str \<Rightarrow> reason \<Rightarrow> 's daemon \<Rightarrow> job \<Rightarrow> bool" where
  "meets_unready C T p t y v j \<longleftrightarrow> port_ok (c_port (j_client j)) \<and> unready y C p t j v \<and> wleft v = None \<and>
     wfile v = [] \<and> rfile v = take (commands y) (job_lines p t j) @ [''QUIT'' @ nl] \<and>
     (\<exists>r v'. handle C T v = Some (r, v') \<and> carries (j_peer j) (wfile v'))"

text \<open>What the connection leaves: the test that runs goes on, and any other daemon is idle.\<close>

definition left_alone :: "'s shunt \<Rightarrow> 's shunt \<Rightarrow> reason \<Rightarrow> 's daemon \<Rightarrow> bool" where
  "left_alone C T y v \<longleftrightarrow> (\<exists>v'. handle C T v = Some (Ret (), v') \<and> signals v' = signals v \<and>
     (if y = Busy then test_running v' = test_running v else shm_holds (test_running v') 0))"

lemma reply_nonempty: "reply 100 [] \<noteq> []" "reply 200 msg \<noteq> []" "reply 222 msg \<noteq> []" "reply 421 msg \<noteq> []"
  "reply 451 msg \<noteq> []"
  by (cases msg; simp add: reply_def str_status_def nl_def)+

lemma refuses_reply:
  assumes "carries (j_peer j) (take l good_replies @ [b])" and "b \<noteq> []" and "reads_as b c" and "rc_code c \<noteq> 200"
    and "l \<in> {1, 2, 3}" and "l = 3 \<longrightarrow> c_test_target (j_client j) \<noteq> None" and "port_ok (c_port (j_client j))"
  shows "refuses j l (refusal l (c_hostname (j_client j)) c)"
proof -
  have "inbox (j_peer j) = take l good_replies @ [b]"
    using assms(1,2,5) by (auto simp: carries_short delivered_def good_replies_def reply_nonempty eval_nat_numeral)
  with assms show ?thesis
    by (auto simp: refuses_def replies_badly_def carries_def)
qed

lemma refuses_target:
  assumes "carries (j_peer j) (good_replies @ bs)" and "c_test_target (j_client j) = None" and "port_ok (c_port (j_client j))"
  shows "refuses j 2 ''Must specify --test-target''"
proof -
  have "\<exists>bs. inbox (j_peer j) = good_replies @ bs"
    using assms(1) by (auto simp: carries_def delivered_def good_replies_def reply_nonempty eval_nat_numeral)
  with assms show ?thesis
    by (auto simp: refuses_def lacks_target_def carries_def)
qed

lemma ends_clear_left:
  assumes "ends_clear w' (handle C T v)" and "signals w' = signals v" and "y \<noteq> Busy"
  shows "left_alone C T y v" and "handle C T v = Some (r, v') \<Longrightarrow> wfile v' = wfile w'"
  using assms by (auto simp: ends_clear_def left_alone_def)

text \<open>The connection of an unready daemon, and what the controller makes of it.\<close>

lemma busy_ends:
  assumes "meets_unready C T p t Busy v j"
  shows "left_alone C T Busy v \<and> refuses j 1 (complaint Busy (c_hostname (j_client j)))"
proof -
  obtain q where v: "wleft v = None" "rfile v = (''HELLO'' @ nl) # [''QUIT'' @ nl]" "shm_holds (test_running v) q" "0 < q"
      "wfile v = []"
    using assms by (auto simp: meets_unready_def job_lines_def session_lines_def)
  note h = handle_busy [OF v(1-4), of C T]
  then have "left_alone C T Busy v"
    by (simp add: left_alone_def)
  moreover have "carries (j_peer j) (take 1 good_replies @ [reply 421 [''Already Running'']])"
    using assms h v(5) by (auto simp: meets_unready_def good_replies_def)
  from refuses_reply [OF this reply_nonempty(4) daemon_replies(4)] assms have
    "refuses j 1 (refusal 1 (c_hostname (j_client j)) \<lparr>rc_code = 421, rc_str = ''SERVICE NOT AVAILABLE'', rc_msg = ''Already Running''\<rparr>)"
    by (simp add: meets_unready_def)
  moreover have "repr_int 421 = ''421''"
    by code_simp
  ultimately show ?thesis
    by (simp add: refusal_def hello_failed_def)
qed

lemma module_ends:
  assumes "meets_unready C T p t y v j" and "ends_clear w' (handle C T v)" and "signals w' = signals v" and "y \<noteq> Busy"
    and "wfile w' = take l good_replies @ [reply 451 [strip m]]" and "error_text m"
    and "l \<in> {2, 3}" and "l = 3 \<longrightarrow> c_test_target (j_client j) \<noteq> None"
  shows "left_alone C T y v \<and> refuses j l (if l = 2 then ''LOAD Failed'' else complaint No_Setup (c_hostname (j_client j)))"
proof -
  obtain c where c: "reads_as (reply 451 [strip m]) c" "rc_code c = 451" "rc_str c = ''LOCAL PROCESSING ERROR''"
    by (rule error_reply [OF assms(6)])
  have "carries (j_peer j) (take l good_replies @ [reply 451 [strip m]])"
    using assms(1,2,5) by (auto simp: meets_unready_def ends_clear_def)
  from refuses_reply [OF this reply_nonempty(5) c(1)] assms(1,7,8) c(2) have
    "refuses j l (refusal l (c_hostname (j_client j)) c)"
    by (auto simp: meets_unready_def)
  moreover have "repr_int 451 = ''451''"
    by code_simp
  ultimately show ?thesis
    using assms(7) c ends_clear_left(1) [OF assms(2-4)]
    by (auto simp: refusal_def load_failed_def setup_failed_def)
qed

lemma unready_ends:
  assumes "meets_unready C T p t y v j"
  shows "left_alone C T y v \<and> refuses j (commands y) (complaint y (c_hostname (j_client j)))"
proof (cases "y = Busy")
  case True
  with busy_ends assms show ?thesis
    by simp
next
  case False
  then obtain q where v: "wleft v = None" "\<not> opt_target v" "shm_holds (test_running v) 0" "own_pid v = int q"
      "q < 10 ^ 19" "plugin_name t" "wfile v = []" "rfile v = take (commands y) (job_lines p t j) @ [''QUIT'' @ nl]"
    using assms by (cases y) (auto simp: meets_unready_def idle_client_def)
  note ends = module_ends [OF assms _ _ False]
  have "y = No_Test \<or> y = No_Target \<or> y = No_Setup"
    using False by (cases y) simp_all
  then show ?thesis
  proof (elim disjE)
    assume y: "y = No_Test"
    then obtain m s where m: "sh_load C t (shunt_state v) = (Raise (RuntimeError m), s)" "error_text m"
      using assms by (auto simp: meets_unready_def)
    have "rfile v = (''HELLO'' @ nl) # (load_message t @ nl) # [''QUIT'' @ nl]"
      using v(8) y by (simp add: job_lines_def session_lines_def eval_nat_numeral)
    from ends [OF handle_load_fails [OF v(1-5) this v(6) m(1)] _ _ m(2), of 2] v(7) y show ?thesis
      by (simp add: good_replies_def eval_nat_numeral)
  next
    assume y: "y = No_Target"
    then obtain s where s: "sh_load C t (shunt_state v) = (Ret (), s)" "c_test_target (j_client j) = None"
      using assms by (auto simp: meets_unready_def)
    have "rfile v = (''HELLO'' @ nl) # (load_message t @ nl) # (''QUIT'' @ nl) # []"
      using v(8) y by (simp add: job_lines_def session_lines_def eval_nat_numeral)
    note h = handle_setup_quits [OF v(1-5) this v(6) s(1), of T]
    have "carries (j_peer j) (good_replies @ [reply 222 [''Come back soon!'']])"
      using assms h v(7) by (auto simp: meets_unready_def ends_clear_def good_replies_def)
    from refuses_target [OF this s(2)] ends_clear_left(1) [OF h _ False] assms y show ?thesis
      by (simp add: meets_unready_def)
  next
    assume y: "y = No_Setup"
    then obtain s s' m where m: "sh_load C t (shunt_state v) = (Ret (), s)" "error_text m"
        "sh_setup3 C (job_target j) (job_port p j) (c_test_args (j_client j)) s = (Raise (RuntimeError m), s')"
        "target_text (job_target j)" "args_text (c_test_args (j_client j))" "c_test_target (j_client j) \<noteq> None"
      using assms by (auto simp: meets_unready_def)
    have "rfile v = (''HELLO'' @ nl) # (load_message t @ nl) #
        (setup_message (job_target j) (job_port p j) (c_test_args (j_client j)) @ nl) # [''QUIT'' @ nl]"
      using v(8) y by (simp add: job_lines_def session_lines_def eval_nat_numeral)
    from ends [OF handle_setup_fails [OF v(1-5) this v(6) m(4,5,1,3)] _ _ m(2), of 3] v(7) y m(6) show ?thesis
      by (simp add: good_replies_def eval_nat_numeral)
  qed
qed

end
