(* ===== verification/Reset_Run.thy ===== *)
theory Reset_Run
  imports Refused_Daemons
begin

text \<open>
  A run of \<^verbatim>\<open>main\<close> with \<^verbatim>\<open>--reset\<close> whose first client's daemon is busy: the first connection to it is
  used for \<^verbatim>\<open>ABORT\<close> and replaced by a second one, on which \<^verbatim>\<open>HELLO\<close> is refused.
\<close>

text \<open>The socket of the second connection, and the world when its \<^verbatim>\<open>HELLO\<close> has been refused.\<close>

definition aborted_sock :: "sock \<Rightarrow> sock" where
  "aborted_sock k = k\<lparr>inbox := [], sent := sent k @ [''ABORT'' @ nl]\<rparr>"

definition refused_hello :: "sock \<Rightarrow> sock" where
  "refused_hello k = k\<lparr>sent := sent k @ [''HELLO'' @ nl], inbox := []\<rparr>"

lemma run_tests_reset:
  assumes "clients w = d # ds" and "targets w = []" and "objs w = []" and "socks w = []"
    and "ipbench_plugin (client_mod w) = Some p" and "default_port p \<noteq> - 1" and "opt_reset w"
    and "net w = Peer k # Peer k' # ns" and "port_ok (c_port d)" and "usable k" and "usable k'"
    and "inbox k = [reply 100 []]" and "inbox k' = [reply 100 [], b]" and "reads_as b c" and "rc_code c \<noteq> 200"
  shows "\<exists>v. run_tests opts polls w = (Raise (IpBenchError (hello_failed (c_hostname d) c)), v) \<and>
    socks v = [aborted_sock k, refused_hello k'] \<and> targets v = [] \<and> stdout v = stdout w \<and>
    map c_testobj (clients v) = Some 0 # map c_testobj ds \<and> wired v 0 1"
proof -
  let ?port = "if c_test_port d = 0 then default_port p else c_test_port d"
  let ?o = "\<lparr>is_target = False, hostname = c_hostname d, t_port = c_port d, t_test_target = c_test_target d,
       t_test_port = Some ?port, t_test_args = Some (c_test_args d), t_client_id = 0,
       test_name = py_str (o_test opts), t_socket = None\<rparr>"
  let ?w = "w\<lparr>objs := [?o], clients := d\<lparr>c_test_port := ?port, c_testobj := Some 0\<rparr> # ds\<rparr>"
  let ?v = "dialled_to (dialled_to ?w 0 (aborted_sock k)) 0 (refused_hello k')"
  have port: "(if c_test_port d = 0 then on_client_mod get_default_port else ret (c_test_port d)) w = (Ret ?port, w)"
    using assms(5,6) default_port_ok [of w p] by simp
  have obj: "IpbenchTestClient (c_hostname d) (c_port d) (c_test_target d) ?port 0 (py_str (o_test opts)) (c_test_args d) w =
      (Ret 0, w\<lparr>objs := [?o]\<rparr>)"
    using assms(3) by (simp add: IpbenchTestClient_def new_obj_def)
  have "setup_client_entry opts 0 w = bind (connect 0) (\<lambda>_. tester_setup 0) ?w"
    unfolding setup_client_entry_def Let_def assms(1) nth_Cons_0 bind_eval [of "if _ then _ else _"] port prod.case res.case
      bind_eval [of "IpbenchTestClient _ _ _ _ _ _ _"] obj
    by (simp add: bind_eval [of "\<lambda>w. _ w"] assms(1))
  moreover have "connect 0 ?w = (Raise (IpBenchError (hello_failed (c_hostname d) c)), ?v)"
    using connect_reset_fails [of ?w k k' ns 0 "reply 100 []" "[]" _ "reply 100 []" b "[]" _ c] assms daemon_replies(1)
    by (simp add: aborted_sock_def refused_hello_def)
  ultimately have e: "setup_client_entry opts 0 w = (Raise (IpBenchError (hello_failed (c_hostname d) c)), ?v)"
    by (simp add: bind_eval)
  have "run_tests opts polls w = (Raise (IpBenchError (hello_failed (c_hostname d) c)), ?v)"
    using assms(1,2) e by (simp add: run_tests_def bind_eval upt_conv_Cons del: upt_Suc)
  then show ?thesis
    using assms(2,4) by (intro exI [of _ ?v]) (simp add: dialled_to_def wired_def)
qed

lemma close_reset:
  assumes "map c_testobj (clients w) = Some 0 # replicate n None" and "targets w = []"
    and "socks w = [s, s']" and "wired w 0 1" and "usable s'"
  shows "\<exists>w'. close_all w = (if n = 0 then Ret () else Raise KeyError, w') \<and> stdout w' = stdout w \<and>
    socks w' = [s, s'\<lparr>sent := sent s' @ [''QUIT'' @ nl], closed := True\<rparr>]"
proof -
  have "for_each (replicate n None) (\<lambda>x. bind (testobj x) tester_close) v =
      (if n = 0 then Ret () else Raise KeyError, v)" for v :: "'a controller"
    by (cases n) (simp_all add: testobj_def)
  then show ?thesis
    using assms close_ok [OF assms(4)]
    by (intro exI [of _ "w\<lparr>socks := [s, s'\<lparr>sent := sent s' @ [''QUIT'' @ nl], closed := True\<rparr>]\<rparr>"])
      (simp add: close_all_eq testobj_def bind_eval)
qed

lemma main_reset_refused:
  assumes "configure config opts w = (Ret (opts', d # ds, []), w)"
    and "load_plugin t (client_mod w) = (Ret (), m)" and "ipbench_plugin m = Some p" and "o_test opts' = Some t"
    and "default_port p \<noteq> - 1" and "opt_reset w" and "socks w = []" and "objs w = []"
    and "net w = Peer k # Peer k' # ns" and "port_ok (c_port d)" and "usable k" and "usable k'"
    and "inbox k = [reply 100 []]" and "inbox k' = [reply 100 [], b]" and "reads_as b c" and "rc_code c \<noteq> 200"
  shows "\<exists>w'. main config opts polls w = (if ds = [] then Ret () else Raise KeyError, w') \<and>
    stdout w' = stdout w @ [''Ipbench failed : '' @ hello_failed (c_hostname d) c] \<and>
    socks w' = [aborted_sock k, (refused_hello k')\<lparr>sent := sent (refused_hello k') @ [''QUIT'' @ nl], closed := True\<rparr>]"
proof -
  let ?w = "try_start p opts' (d # ds) [] m w"
  obtain v where v: "run_tests opts' polls ?w = (Raise (IpBenchError (hello_failed (c_hostname d) c)), v)"
    "socks v = [aborted_sock k, refused_hello k']" "targets v = []" "stdout v = stdout w"
    "map c_testobj (clients v) = Some 0 # map c_testobj ds" "wired v 0 1"
    using run_tests_reset [of ?w d ds p k k' ns b c opts' polls] assms(3,5-16) by auto
  have "map c_testobj ds = map (\<lambda>_. None) ds"
    using configure_fresh [OF assms(1)] by (auto simp: fresh_client_def list_all_iff)
  then have "map c_testobj ds = replicate (length ds) None"
    by (simp add: map_replicate_const)
  moreover have "usable (refused_hello k')"
    using assms(12) by (simp add: refused_hello_def)
  ultimately show ?thesis
    using main_fails [OF v(1) assms(1-4)] v(2-6)
      close_reset [of "v\<lparr>stdout := stdout v @ [''Ipbench failed : '' @ hello_failed (c_hostname d) c]\<rparr>" "length ds"]
    by (simp add: wired_def)
qed

end
