(* ===== verification/Run_Samples.thy ===== *)
theory Run_Samples
  imports Reset_Run Target_Properties
begin

text \<open>
  A concrete run for the witnesses: two clients of the same test, the second of which reports first,
  and one target.
\<close>

definition two_options :: options where
  "two_options = default_options\<lparr>o_clients := [''node1'', ''node2''], o_test := Some ''latency'',
     o_test_args := ''size=64'', o_test_target := Some ''10.0.0.1'', o_target_test := Some ''latency'',
     o_target_test_hostname := Some ''box''\<rparr>"

definition sample_peer :: "bytes list \<Rightarrow> sock" where
  "sample_peer out = peer_sending (delivered
     ([reply 100 [], reply 200 [''Ready to go''], reply 200 [], reply 200 []] @ out))"

definition two_job :: "str \<Rightarrow> job" where
  "two_job h = \<lparr>j_client = cli_entry two_options h, j_peer = sample_peer (marshall_replies 0 ''12,34''),
     j_replies = marshall_replies 0 ''12,34'', j_fails = None, j_flag = 0, j_data = ''12,34''\<rparr>"

definition box_errand :: "bytes list \<Rightarrow> errand" where
  "box_errand out = \<lparr>e_target = hd (cli_target_entries two_options), e_peer = sample_peer out,
     e_replies = out, e_flag = 0, e_data = ''12,34''\<rparr>"

definition two_controller :: "bytes list \<Rightarrow> unit controller" where
  "two_controller out = (sample_controller [Peer (e_peer (box_errand out)), Peer (j_peer (two_job ''node1'')),
     Peer (j_peer (two_job ''node2''))])\<lparr>client_mod := sample_module, objs := []\<rparr>"

definition two_daemon :: "unit cmod daemon" where
  "two_daemon = sample_world False 0 (session_lines ''latency'' ''10.0.0.1'' 7 ''size=64'' @ [''QUIT'' @ nl])"

definition box_daemon :: "unit cmod daemon" where
  "box_daemon = sample_target [''STOP'' @ nl, ''QUIT'' @ nl] [InParent 43]"

text \<open>The same run when the test of the second client fails to start.\<close>

definition failing_job :: "str \<Rightarrow> job" where
  "failing_job m = (two_job ''node2'')\<lparr>j_peer := sample_peer [reply 451 [m]], j_replies := [reply 451 [m]],
     j_fails := Some m\<rparr>"

definition failing_controller :: "str \<Rightarrow> unit controller" where
  "failing_controller m = (two_controller [])\<lparr>net := map (Peer \<circ> e_peer) [box_errand []] @
     map (Peer \<circ> j_peer) [two_job ''node1'', failing_job m]\<rparr>"

lemma sample_peer_pieces: "in_pieces out (delivered out) \<Longrightarrow> peer_says (sample_peer out) out"
  unfolding peer_says_def sample_peer_def by (intro conjI exI [of _ "delivered out"]) (simp_all add: delivered_def)

lemma sample_peer_says:
  "peer_says (sample_peer []) []"
  "peer_says (sample_peer (marshall_replies 0 ''12,34'')) (marshall_replies 0 ''12,34'')"
  "peer_says (sample_peer [reply 451 [''no device'']]) [reply 451 [''no device'']]"
proof -
  have "reply 451 [''no device''] \<noteq> []" "length (reply 451 [''no device'']) \<le> 128"
    by code_simp+
  then show "peer_says (sample_peer [reply 451 [''no device'']]) [reply 451 [''no device'']]"
    by (intro sample_peer_pieces delivered_pieces)
qed (simp_all add: sample_peer_pieces delivered_pieces(3), simp add: sample_peer_pieces delivered_pieces(1) delivered_def)

lemma two_target:
  "cli_target_entries two_options =
     [\<lparr>g_hostname = Some ''box'', g_port = 8037, g_test_args = [], g_test = ''latency'', g_testobj = None\<rparr>]"
  by (simp add: cli_target_entries_def target_named_def two_options_def default_options_def)

lemma two_configure:
  "configure None two_options w = (Ret (two_options, map j_client [two_job ''node1'', two_job ''node2''],
     map e_target [box_errand out]), w)"
proof -
  have "o_test two_options \<noteq> None \<and> o_clients two_options \<noteq> [] \<and>
      (target_named two_options \<longrightarrow> o_target_test_hostname two_options \<noteq> None)"
    "o_clients two_options = [''node1'', ''node2'']"
    by (simp_all add: two_options_def default_options_def)
  then show ?thesis
    by (simp add: configure_cli two_job_def box_errand_def two_target)
qed

lemma two_controller_simps [simp]:
  "net (two_controller out) = map (Peer \<circ> e_peer) [box_errand out] @
     map (Peer \<circ> j_peer) [two_job ''node1'', two_job ''node2'']"
  "socks (two_controller out) = []" "objs (two_controller out) = []" "\<not> opt_reset (two_controller out)"
  "client_mod (two_controller out) = sample_module" "target_mod (two_controller out) = sample_module"
  "stdout (two_controller out) = []"
  by (simp_all add: two_controller_def)

lemma failing_configure:
  "configure None two_options w = (Ret (two_options, map j_client [two_job ''node1'', failing_job m],
     map e_target [box_errand out]), w)"
  using two_configure [of w out] by (simp add: failing_job_def)

lemma failing_controller_simps [simp]:
  "net (failing_controller m) = map (Peer \<circ> e_peer) [box_errand []] @
     map (Peer \<circ> j_peer) [two_job ''node1'', failing_job m]"
  "socks (failing_controller m) = []" "objs (failing_controller m) = []" "\<not> opt_reset (failing_controller m)"
  "client_mod (failing_controller m) = sample_module" "target_mod (failing_controller m) = sample_module"
  "stdout (failing_controller m) = []"
  by (simp_all add: failing_controller_def)

lemma two_targets_load: "targets_load a [box_errand out] sample_plugin sample_module"
proof -
  have "load_target a ''latency'' sample_module = (Ret (), loaded_module)"
    by (simp add: load_target_def bind_eval sample_load busy_modules)
  then show ?thesis
    by (simp add: targets_load_def mods_at_def box_errand_def two_target bind_eval)
qed

lemma two_plugin: "ipbench_plugin loaded_module = Some sample_plugin" "o_test two_options = Some ''latency''"
  "never_fails sample_plugin"
  by (simp_all add: two_options_def never_fails_def sample_plugin_def)

lemma box_ok: "errand_ok (box_errand [])" "errand_ok (box_errand (marshall_replies 0 ''12,34''))"
  "errand_ok (box_errand [reply 451 [''no device'']])"
  using sample_peer_says by (simp_all add: errand_ok_def box_errand_def two_target port_ok_def)

lemma two_job_ok: "job_ok sample_plugin (two_job h)"
  using sample_peer_says
  by (simp add: job_ok_def job_ends_def two_job_def cli_entry_def two_options_def default_options_def
      port_ok_def sample_plugin_def)

text \<open>The same run when a client's daemon is busy.\<close>

definition busy_job :: "str \<Rightarrow> job" where
  "busy_job h = (two_job h)\<lparr>j_peer := peer_sending [reply 100 [], reply 421 [''Already Running'']]\<rparr>"

definition busy_controller :: "job list \<Rightarrow> unit controller" where
  "busy_controller js = (two_controller [])\<lparr>net := map (Peer \<circ> e_peer) [box_errand []] @ map (Peer \<circ> j_peer) js\<rparr>"

lemma busy_controller_simps [simp]:
  "net (busy_controller js) = map (Peer \<circ> e_peer) [box_errand []] @ map (Peer \<circ> j_peer) js"
  "socks (busy_controller js) = []" "objs (busy_controller js) = []" "\<not> opt_reset (busy_controller js)"
  "client_mod (busy_controller js) = sample_module" "target_mod (busy_controller js) = sample_module"
  "stdout (busy_controller js) = []"
  by (simp_all add: busy_controller_def)

lemma busy_job_facts:
  "port_ok (c_port (j_client (busy_job h)))"
  "carries (j_peer (busy_job h)) [reply 100 [], reply 421 [''Already Running'']]"
  using two_job_ok [of h] by (simp_all add: busy_job_def carries_short delivered_def reply_nonempty job_ok_def)

lemma busy_run_configure:
  "map j_client js = map j_client [two_job ''node1'', two_job ''node2''] \<Longrightarrow>
     configure None two_options w = (Ret (two_options, map j_client js, map e_target [box_errand out]), w)"
  using two_configure [of w out] by simp

text \<open>The same run when a client's daemon has no plugin for the test.\<close>

definition bare_job :: "str \<Rightarrow> job" where
  "bare_job h = (two_job h)\<lparr>j_peer := peer_sending [reply 100 [], reply 200 [''Ready to go''],
     reply 451 [''Can not find plugin: latency'']]\<rparr>"

definition bare_daemon :: "unit cmod daemon" where
  "bare_daemon = (sample_world False 0 (take 2 (session_lines ''latency'' ''10.0.0.1'' 7 ''size=64'') @ [''QUIT'' @ nl]))
     \<lparr>shunt_state := sample_module\<lparr>scandir_result := Some []\<rparr>\<rparr>"

definition busy_daemon :: "unit cmod daemon" where
  "busy_daemon = sample_world False 7 [''HELLO'' @ nl, ''QUIT'' @ nl]"

lemma failing_job_ok: "job_ok sample_plugin (failing_job ''no device'')"
proof -
  have "reply 451 [''no device''] = ''451 LOCAL PROCESSING ERROR (no device)'' @ nl"
    by code_simp
  moreover have "ascii ''451 LOCAL PROCESSING ERROR (no device)''" "newline \<notin> set ''451 LOCAL PROCESSING ERROR (no device)''"
    "length (''451 LOCAL PROCESSING ERROR (no device)'' @ nl) \<le> 128"
    "parse_return_code_text ''451 LOCAL PROCESSING ERROR (no device)'' =
       Inr \<lparr>rc_code = 451, rc_str = ''LOCAL PROCESSING ERROR'', rc_msg = ''no device''\<rparr>"
    by code_simp+
  ultimately have "reports (reply 451 [''no device'']) ''no device''"
    unfolding reports_def by force
  then show ?thesis
    using two_job_ok [of "''node2''"] sample_peer_says(3)
    by (simp add: job_ok_def job_ends_def failing_job_def)
qed

lemma two_serves: "serves_job ipbench_client ipbench_target sample_plugin ''latency'' two_daemon (two_job h)"
proof -
  have args: "job_target (two_job h) = ''10.0.0.1''" "job_port sample_plugin (two_job h) = 7"
    "c_test_args (j_client (two_job h)) = ''size=64''" "j_replies (two_job h) = marshall_replies 0 ''12,34''"
    "job_ends (two_job h)"
    by (simp_all add: job_target_def job_port_def two_job_def cli_entry_def two_options_def default_options_def
        sample_plugin_def job_ends_def)
  have texts: "job_texts sample_plugin ''latency'' (two_job h)"
    using sample_texts by (simp add: job_texts_def args) (simp add: two_job_def cli_entry_def two_options_def
        default_options_def port_ok_def sample_plugin_def)
  have idle: "idle_daemon ipbench_client sample_plugin ''latency'' (two_job h) two_daemon"
    using shm_of_holds [of 0] sample_session
    by (simp add: idle_daemon_def job_lines_def args two_daemon_def)
  have spec: "client_session_spec ipbench_client ''latency'' ''10.0.0.1'' 7 ''size=64'' (shunt_state two_daemon) =
     Some ([reply 200 [], reply 200 []] @ marshall_replies 0 ''12,34'', 4, loaded_module\<lparr>timer_start := 10\<rparr>)"
    using sample_session by (simp add: two_daemon_def)
  obtain v' where v': "handle ipbench_client ipbench_target two_daemon = Some (Ret (), v')"
      "wfile v' = [reply 100 [], reply 200 [''Ready to go'']] @ [reply 200 [], reply 200 []] @ marshall_replies 0 ''12,34''"
    using session_from_listen [where w = two_daemon and q = 42 and rest = "[''QUIT'' @ nl]" and T = ipbench_target,
        OF _ _ _ _ _ _ sample_texts(1-3) spec] shm_of_holds [of 0]
    by (auto simp: ends_clear_def two_daemon_def)
  have "carries (j_peer (two_job h)) (wfile v')"
    using sample_peer_says by (simp add: v'(2) two_job_def carries_says [simplified])
  with texts idle v'(1) show ?thesis
    by (auto simp: serves_job_def)
qed

lemma box_serves:
  "serves_errand ipbench_client ipbench_target (box_daemon, 43) (box_errand (marshall_replies 0 ''12,34''))"
proof -
  let ?e = "box_errand (marshall_replies 0 ''12,34'')"
  have e: "g_hostname (e_target ?e) = Some ''box''" "g_port (e_target ?e) = 8037" "g_test (e_target ?e) = ''latency''"
      "g_test_args (e_target ?e) = []" "e_flag ?e = 0" "e_data ?e = ''12,34''"
      "e_peer ?e = sample_peer (marshall_replies 0 ''12,34'')" "errand_delivers ?e"
    by (simp_all add: box_errand_def two_target errand_delivers_def)
  have idle: "idle_target ipbench_target ''latency'' [] 42 ready_module [''STOP'' @ nl, ''QUIT'' @ nl] box_daemon"
    unfolding box_daemon_def by (rule sample_target_idle)
  have f: "forks box_daemon = [InParent 43]" "own_pid box_daemon = 42" "wfile box_daemon = []"
      "kill_env box_daemon 42 SIGUSR1 = Delivered"
    by (simp_all add: box_daemon_def sample_target_def)
  obtain v' where v': "handle ipbench_client ipbench_target box_daemon = Some (Ret (), v')"
      "wfile v' = [reply 100 [], reply 200 [''Ready to go''], reply 200 [], reply 200 []] @ marshall_replies 0 ''12,34''"
    using parent_session [OF idle f(1) _ sample_target_calls, of ipbench_client] f(3) by auto
  have "carries (e_peer ?e) (wfile v')"
    using sample_peer_says by (simp add: v'(2) e carries_says [simplified])
  with idle f v'(1) sample_target_calls show ?thesis
    by (auto simp: serves_errand_def e target_forks_def port_ok_def)
qed

lemma busy_meets:
  "meets_unready ipbench_client ipbench_target sample_plugin ''latency'' Busy busy_daemon (busy_job h)"
proof -
  have "shm_holds (test_running busy_daemon) 7"
    using shm_of_holds [of 7] by (simp add: busy_daemon_def)
  moreover from handle_busy [of busy_daemon "[''QUIT'' @ nl]" 7 ipbench_client ipbench_target] this obtain v' where
    "handle ipbench_client ipbench_target busy_daemon = Some (Ret (), v')"
    "wfile v' = [reply 100 [], reply 421 [''Already Running'']]"
    by (auto simp: busy_daemon_def)
  ultimately show ?thesis
    using busy_job_facts [of h] by (auto simp: meets_unready_def busy_daemon_def job_lines_def session_lines_def)
qed

lemma bare_load: "load_plugin ''latency'' (sample_module\<lparr>scandir_result := Some []\<rparr>) =
   (Raise (RuntimeError ''Can not find plugin: latency''),
    sample_module\<lparr>scandir_result := Some [], errmsg := ''Can not find plugin: latency''\<rparr>)"
  by (simp add: load_plugin_def ipbench_plugin_error_def ipbench_error_def sample_module_def)

lemma bare_meets:
  "meets_unready ipbench_client ipbench_target sample_plugin ''latency'' No_Test bare_daemon (bare_job h)"
proof -
  let ?m = "''Can not find plugin: latency''"
  have m: "error_text ?m" "strip ?m = ?m"
    by (simp_all add: error_text_def) code_simp+
  have rf: "rfile bare_daemon = (''HELLO'' @ nl) # (load_message ''latency'' @ nl) # [''QUIT'' @ nl]"
    by (simp add: bare_daemon_def session_lines_def)
  obtain v' where v': "handle ipbench_client ipbench_target bare_daemon = Some (Ret (), v')"
    "wfile v' = [reply 100 [], reply 200 [''Ready to go''], reply 451 [?m]]"
    using handle_load_fails [OF _ _ _ _ _ rf sample_texts(1), of 42 ipbench_client ?m _ ipbench_target] bare_load
      shm_of_holds [of 0] m(2)
    by (auto simp: bare_daemon_def ends_clear_def)
  have "idle_client ''latency'' bare_daemon"
    using shm_of_holds [of 0] sample_texts(1) by (simp add: idle_client_def bare_daemon_def)
  moreover have "carries (j_peer (bare_job h)) (wfile v')" "port_ok (c_port (j_client (bare_job h)))"
    using two_job_ok [of h] by (simp_all add: v'(2) bare_job_def carries_short delivered_def reply_nonempty job_ok_def)
  ultimately show ?thesis
    using v'(1) m(1) rf bare_load
    by (auto simp: meets_unready_def bare_daemon_def job_lines_def session_lines_def eval_nat_numeral)
qed


text \<open>Two clients and no target, with \<^verbatim>\<open>--reset\<close>; the first client's daemon is busy.\<close>

definition reset_options :: options where
  "reset_options = default_options\<lparr>o_clients := [''node1'', ''node2''], o_test := Some ''latency'',
     o_test_args := ''size=64'', o_test_target := Some ''10.0.0.1''\<rparr>"

definition reset_controller :: "unit controller" where
  "reset_controller = (sample_controller [Peer (peer_sending [reply 100 []]),
     Peer (peer_sending [reply 100 [], reply 421 [''Already Running'']])])\<lparr>opt_reset := True, client_mod := sample_module, objs := []\<rparr>"

lemma reset_controller_simps [simp]:
  "net reset_controller = [Peer (peer_sending [reply 100 []]),
     Peer (peer_sending [reply 100 [], reply 421 [''Already Running'']])]"
  "opt_reset reset_controller" "socks reset_controller = []" "objs reset_controller = []"
  "client_mod reset_controller = sample_module" "stdout reset_controller = []"
  by (simp_all add: reset_controller_def)

lemma reset_configure:
  "configure None reset_options w = (Ret (reset_options, [cli_entry reset_options ''node1'', cli_entry reset_options ''node2''], []), w)"
proof -
  have "o_test reset_options \<noteq> None \<and> o_clients reset_options \<noteq> [] \<and> \<not> target_named reset_options"
    "o_clients reset_options = [''node1'', ''node2'']"
    by (simp_all add: reset_options_def default_options_def target_named_def)
  then show ?thesis
    by (simp add: configure_cli cli_target_entries_def)
qed

end
