(* ===== verification/Spec2Isabelle.thy ===== *)
theory Spec2Isabelle
  imports Daemon_Properties Target_Properties Part_Properties Controller_Properties Server_Properties
    Run_Samples
begin

text \<open>
  A verification development of ipbench, a distributed network benchmark: the daemon
  \<^verbatim>\<open>ipbench2/src/ipbenchd.py\<close> that runs tests on client and target machines, the controller
  \<^verbatim>\<open>ipbench2/src/ipbench.py\<close> that drives the daemons, the C extension module
  \<^verbatim>\<open>ipbench2/src/pymod/ipbench.c\<close> that both load test plugins through, and the log filter
  \<^verbatim>\<open>helpers/scripts/ununmarshall.py\<close> (all below \<^verbatim>\<open>src/\<close>).

  \<^bold>\<open>The program.\<close> A daemon forks a handler process for every connection. The handler runs a
  state machine (LISTEN, SETUP, RUN, MARSHALL, ERROR, ABORT, RESET) over the lines it reads; a
  mapping shared by all handlers holds the pid of the process that runs a test. The controller
  reads a command line and an XML file, connects to every target and client (HELLO, LOAD), sends
  SETUP and START, waits with \<^verbatim>\<open>select\<close> for results, unmarshalls each, prints the output of the
  plugin and sends QUIT on every connection.

  \<^bold>\<open>How it is modelled.\<close> Every function is a state-and-exception computation
  \<open>('w, 'a) io = 'w \<Rightarrow> 'a res \<times> 'w\<close> over an explicit world: it returns, raises a Python exception,
  waits for input that has not come, or ends its process. The worlds are \<open>daemon\<close> (one handler
  process: input lines, output, shared mapping, kernel answers, test module) and \<open>controller\<close> (objects,
  sockets, the two modules, the lists \<^verbatim>\<open>clients\<close> and \<^verbatim>\<open>targets\<close>). Names follow the source.

  \<^item> \<open>Py_Prelude\<close>, \<open>Py_Effects\<close>: the Python the programs use (UTF-8, slices, \<^verbatim>\<open>strip\<close>, \<^verbatim>\<open>split\<close>, \<^verbatim>\<open>int\<close>,
    \<^verbatim>\<open>repr\<close>, exceptions) and the computations, with \<open>world_order\<close>, the locale of relations that
    every step of a computation respects.
  \<^item> \<open>Test_Status\<close>: the class \<^verbatim>\<open>TestStatus\<close> over the bytes of its mapping; the locale \<open>pid_cell\<close> is what
    the handlers rely on. \<open>Status_Codes\<close>: \<^verbatim>\<open>str_status\<close> and the controller's \<^verbatim>\<open>_parse_return_code\<close>.
    \<open>State_Machine\<close>: the class \<^verbatim>\<open>StateMachine\<close>; the locales \<open>ranked_machine\<close> (termination by a rank) and
    \<open>ordered_machine\<close>. \<open>Machine_Path\<close>: its runs as paths of configurations, and their types in the daemon. \<open>Shunt\<close>: the extension module; the locale \<open>shunt_contract\<close> is what it promises.
  \<^item> \<open>Daemon_World\<close>, \<open>Daemon\<close>, \<open>Daemon_Target\<close>, \<open>Daemon_Handler\<close>: the handler's world, the states of
    \<^verbatim>\<open>IpbenchClient\<close>, the \<^verbatim>\<open>run\<close> of \<^verbatim>\<open>IpbenchTarget\<close> and \<^verbatim>\<open>IpbenchRequestHandler.handle\<close>.
    \<open>Daemon_Facts\<close> (successor states, effects; the locale \<open>daemon_order\<close>), \<open>Daemon_Raises\<close> (exceptions),
    \<open>Setup_Text\<close> (the texts the protocol carries), \<open>Daemon_Session\<close> and \<open>Connections\<close> (what each state
    and a whole connection does on the lines of the protocol).
    \<open>Target_Session\<close>: the same for a target, in both processes of its fork.
  \<^item> \<open>Server\<close>: the options, the process of a connection, connections one after the other, and handlers that interleave on the mapping as a
    step relation whose steps are shown to be those of \<^verbatim>\<open>listen\<close>.
  \<^item> \<open>Sockets\<close>, \<open>Receive\<close>: the sockets of the controller, and receiving a result (the locales
    \<open>stream_reader\<close> and \<open>reading\<close>). \<open>Tester\<close>, \<open>Tester_Facts\<close>: \<^verbatim>\<open>IpbenchTestClient\<close> and \<^verbatim>\<open>IpbenchTestTarget\<close>.
    \<open>Config\<close>, \<open>Controller\<close>, \<open>Controller_Facts\<close>: \<^verbatim>\<open>main\<close>, in its two halves (the locale
    \<open>controller_order\<close>). \<open>End_To_End\<close>: both programs on the two ends of a connection. Whole runs
    of \<^verbatim>\<open>main\<close> with any number of clients and targets: \<open>Controller_Run\<close> (the clients, up to the receive rounds),
    \<open>Target_Run\<close> (the set-up and start of the targets), \<open>Benchmark_Run\<close> (the phases put together, the
    stopping, output and closing), \<open>Refused_Run\<close> (a client whose set-up fails), \<open>Run_Daemons\<close> and \<open>Refused_Daemons\<close> (the daemons of
    such runs).
    \<open>Ununmarshall\<close>: the script.
  \<^item> \<open>Samples\<close>, \<open>Controller_Samples\<close>, \<open>Run_Samples\<close>: concrete worlds for the witnesses. The theories
    \<open>Daemon_Properties\<close>, \<open>Target_Properties\<close>, \<open>Part_Properties\<close>, \<open>Server_Properties\<close>,
    \<open>Controller_Properties\<close> and this one hold the properties.

  \<^bold>\<open>What is shown.\<close> A whole benchmark between the controller and the daemons of its clients and targets
  delivers the data unchanged to the plugins and leaves the daemons idle, and the failing runs print one error
  and close the connections that they know of (this theory); the daemon's connections end, keep the shared mapping well
  formed and let only two exceptions out; every state they come to is declared and has a cargo
  of its type; sessions of the protocol, on the successful path and on every failing one, equal a specification; SETUP lines and replies survive the trip; the
  controller gets results whole however they are cut up, unmarshalls every client once, closes every
  connection, and configures exactly the clients its files and options name. Where the code does
  not do what it or its documents say, the behaviour is a property too (the status is no lock,
  ABORT does not free the daemon, QUIT frees it while a target's test runs on, an early close is never
  noticed, a refused client leaves the targets open, and others).

  \<^bold>\<open>Loops and bounds.\<close> The handlers' loops are total functions: each iteration consumes an input
  line. The machine's loop is a \<open>partial_function\<close>; that it returns is proved from a rank of the
  states. The receive loop consumes what the peer has sent or ends the stream; the receive rounds
  consume the answers of \<^verbatim>\<open>select\<close> (\<open>rounds_end\<close> says how they end, and whether the answers suffice). At the end of its input a run is \<open>Wait\<close>, which is a value of its
  own, never success. Pids have at most 19 digits, what the 20 bytes of the mapping hold.

  \<^bold>\<open>Parameters.\<close> Test plugins, the kernel's answers (\<^verbatim>\<open>kill\<close>, \<^verbatim>\<open>fork\<close>), the peer's input, the outcomes of
  \<^verbatim>\<open>connect\<close> and \<^verbatim>\<open>select\<close>, and the answers of the XML library to the queries of \<^verbatim>\<open>main\<close>.

  \<^bold>\<open>Not modelled.\<close> Debug output; \<^verbatim>\<open>argparse\<close> and \<^verbatim>\<open>lxml\<close>; the accept loop, forking and reaping of
  \<^verbatim>\<open>socketserver\<close>, and the dead code of \<^verbatim>\<open>handle_error\<close> after its \<^verbatim>\<open>raise\<close>; the character classes of
  code points above 127; Python's limit on the digits of an int; a NUL inside a string that is
  handed to C; text on standard error. The C test plugins, the helper servers, the packaging and the
  web pages are not part of the two programs.
\<close>

section \<open>The two programs together\<close>

text \<open>C1: A benchmark with any number of clients and targets. Suppose the daemon of every client and target
  is idle, its module succeeds and marshalls some data, and its writes reach the controller, and every
  client's socket becomes readable at some time, with no target's before that. Then \<^verbatim>\<open>main\<close> returns
  and prints nothing of its own. The plugin has unmarshalled the data of every client, each entry at the
  number of its client and with its validity flag, and has been called for its output on all of them; so has
  the targets' plugin, on the data of the last target. Each connection is closed, its daemon was sent
  exactly the lines that it reads, and each daemon is idle again; the child of each target's test has
  signalled the test and is gone.\<close>
theorem benchmark_delivers:
  assumes "configure config opts w = (Ret (opts', map j_client js, map e_target es), w)"
    and "load_plugin t (client_mod w) = (Ret (), m)" and "ipbench_plugin m = Some p" and "o_test opts' = Some t"
    and "targets_load (o_target_controller_args opts') es pt (target_mod w)"
    and "net w = map (Peer \<circ> e_peer) es @ map (Peer \<circ> j_peer) js"
    and "socks w = []" and "objs w = []" and "\<not> opt_reset w"
    and "list_all2 (serves_errand C T) us es" and "list_all2 (serves_job C T p t) vs js"
    and "never_fails p" and "never_fails pt"
    and "rounds_end (object_fails (length es) js) polls [length es..<length es + length js] [0..<length es] = Some None"
  shows "\<exists>w'. main config opts polls w = (Ret (), w') \<and> stdout w' = stdout w \<and>
    results p pt es js (client_mod w') (target_mod w') \<and>
    (\<forall>i < length es. closed (socks w' ! i) \<and> sent (socks w' ! i) = rfile (fst (us ! i)) \<and>
      served_errand C T (us ! i)) \<and>
    (\<forall>i < length js. closed (socks w' ! (length es + i)) \<and>
      sent (socks w' ! (length es + i)) = rfile (vs ! i) \<and> served_job C T (vs ! i))"
proof -
  have e: "serves_errand C T (fst (us ! i), snd (us ! i)) (es ! i)" if "i < length es" for i
    using assms(10) that by (simp add: list_all2_conv_all_nth)
  have j: "serves_job C T p t (vs ! i) (js ! i)" if "i < length js" for i
    using assms(11) that by (simp add: list_all2_conv_all_nth)
  have "\<forall>e \<in> set es. errand_ok e" "\<forall>e \<in> set es. errand_delivers e" "\<forall>j \<in> set js. job_ok p j"
    using serves_errand_ends(1) [OF e] e serves_job_ends(1) [OF j]
    by (fastforce simp: in_set_conv_nth serves_errand_def)+
  with main_completes [OF assms(1-9) _ _ assms(12-14)] obtain w' where
    w': "main config opts polls w = (Ret (), w')" "closed_run p t es js [''STOP'' @ nl] w'" "stdout w' = stdout w"
      "results p pt es js (client_mod w') (target_mod w')"
    by auto
  with serves_errand_ends(2,3) [OF e] serves_job_ends(2,3) [OF j] show ?thesis
    by (intro exI [of _ w']) (simp add: closed_run_def)
qed

theorem benchmark_delivers_witness:
  "\<exists>w'. main None two_options [([2], []), ([1], [])] (two_controller (marshall_replies 0 ''12,34'')) = (Ret (), w') \<and>
    length (client_data (client_mod w')) = 2 \<and> target_data (target_mod w') \<noteq> None \<and> stdout w' = [] \<and>
    closed (socks w' ! 0) \<and> sent (socks w' ! 0) = rfile box_daemon"
proof -
  let ?out = "marshall_replies 0 ''12,34''"
  let ?js = "[two_job ''node1'', two_job ''node2'']" and ?es = "[box_errand ?out]"
  have l: "load_plugin ''latency'' (client_mod (two_controller ?out)) = (Ret (), loaded_module)"
    by (simp add: sample_load)
  have tl: "targets_load (o_target_controller_args two_options) ?es sample_plugin (target_mod (two_controller ?out))"
    using two_targets_load by simp
  have ss: "list_all2 (serves_errand ipbench_client ipbench_target) [(box_daemon, 43)] ?es"
    "list_all2 (serves_job ipbench_client ipbench_target sample_plugin ''latency'') [two_daemon, two_daemon] ?js"
    using two_serves box_serves by simp_all
  have r: "rounds_end (object_fails (length ?es) ?js) [([2], []), ([1], [])] [length ?es..<length ?es + length ?js]
      [0..<length ?es] = Some None"
    by (simp add: upt_conv_Cons object_fails_def two_job_def)
  from benchmark_delivers [OF two_configure l two_plugin(1,2) tl two_controller_simps(1-4) ss two_plugin(3,3) r]
  obtain w' where w': "main None two_options [([2], []), ([1], [])] (two_controller ?out) = (Ret (), w')"
      "stdout w' = []" "results sample_plugin sample_plugin ?es ?js (client_mod w') (target_mod w')"
      "closed (socks w' ! 0)" "sent (socks w' ! 0) = rfile box_daemon"
    by auto
  from w'(3) have "length (client_data (client_mod w')) = 2" "target_data (target_mod w') \<noteq> None"
    by (auto simp: results_def entry_for_def dest: list_all2_lengthD)
  with w' show ?thesis
    by blast
qed

text \<open>C2: A run in which something fails once all tests have been started: a client reports the failure
  of its test in place of a result, or a target has something to read, whatever it is, before all clients
  have reported. \<^verbatim>\<open>main\<close> prints the first such error and returns. No target is sent \<^verbatim>\<open>STOP\<close>, but
  every client and target is sent \<^verbatim>\<open>QUIT\<close>, after exactly the lines of its set-up and \<^verbatim>\<open>START\<close>, and
  every connection is closed.\<close>
theorem failure_ends_run:
  assumes "configure config opts w = (Ret (opts', map j_client js, map e_target es), w)"
    and "load_plugin t (client_mod w) = (Ret (), m)" and "ipbench_plugin m = Some p" and "o_test opts' = Some t"
    and "targets_load (o_target_controller_args opts') es pt (target_mod w)"
    and "net w = map (Peer \<circ> e_peer) es @ map (Peer \<circ> j_peer) js"
    and "socks w = []" and "objs w = []" and "\<not> opt_reset w"
    and "\<forall>e \<in> set es. errand_ok e" and "\<forall>j \<in> set js. job_ok p j" and "never_fails p" and "never_fails pt"
    and "rounds_end (object_fails (length es) js) polls [length es..<length es + length js] [0..<length es] =
      Some (Some msg)"
  shows "\<exists>w'. main config opts polls w = (Ret (), w') \<and> stdout w' = stdout w @ [''Ipbench failed : '' @ msg] \<and>
    (\<forall>i < length es. closed (socks w' ! i) \<and> sent (socks w' ! i) = errand_lines (es ! i) @ [''QUIT'' @ nl]) \<and>
    (\<forall>i < length js. closed (socks w' ! (length es + i)) \<and>
      sent (socks w' ! (length es + i)) = job_lines p t (js ! i) @ [''QUIT'' @ nl])"
  using main_completes [OF assms] by (auto simp: closed_run_def)

text \<open>A target whose test fails to start, and a client whose test does.\<close>

theorem failure_ends_run_witness:
  "(\<exists>w'. main None two_options [([2], [0])] (two_controller [reply 451 [''no device'']]) = (Ret (), w') \<and>
      stdout w' = [''Ipbench failed : Target returned an error!''] \<and> closed (socks w' ! 0)) \<and>
   (\<exists>w'. main None two_options [([1], []), ([2], [])] (failing_controller ''no device'') = (Ret (), w') \<and>
      stdout w' = [''Ipbench failed : Test failed  : no device''] \<and> closed (socks w' ! 0))"
proof
  let ?out = "[reply 451 [''no device'']]"
  let ?js = "[two_job ''node1'', two_job ''node2'']" and ?es = "[box_errand ?out]"
  have l: "load_plugin ''latency'' (client_mod (two_controller ?out)) = (Ret (), loaded_module)"
    by (simp add: sample_load)
  have tl: "targets_load (o_target_controller_args two_options) ?es sample_plugin (target_mod (two_controller ?out))"
    using two_targets_load by simp
  have ok: "\<forall>e \<in> set ?es. errand_ok e" "\<forall>j \<in> set ?js. job_ok sample_plugin j"
    using box_ok two_job_ok by simp_all
  have r: "rounds_end (object_fails (length ?es) ?js) [([2], [0])] [length ?es..<length ?es + length ?js] [0..<length ?es] =
      Some (Some ''Target returned an error!'')"
    by (simp add: upt_conv_Cons object_fails_def two_job_def)
  show "\<exists>w'. main None two_options [([2], [0])] (two_controller ?out) = (Ret (), w') \<and>
      stdout w' = [''Ipbench failed : Target returned an error!''] \<and> closed (socks w' ! 0)"
    using failure_ends_run [OF two_configure l two_plugin(1,2) tl two_controller_simps(1-4) ok two_plugin(3,3) r]
    by auto
next
  let ?w = "failing_controller ''no device''"
  let ?js = "[two_job ''node1'', failing_job ''no device'']" and ?es = "[box_errand []]"
  have l: "load_plugin ''latency'' (client_mod ?w) = (Ret (), loaded_module)"
    by (simp add: sample_load)
  have tl: "targets_load (o_target_controller_args two_options) ?es sample_plugin (target_mod ?w)"
    using two_targets_load by simp
  have ok: "\<forall>e \<in> set ?es. errand_ok e" "\<forall>j \<in> set ?js. job_ok sample_plugin j"
    using box_ok two_job_ok failing_job_ok by simp_all
  have r: "rounds_end (object_fails (length ?es) ?js) [([1], []), ([2], [])] [length ?es..<length ?es + length ?js]
      [0..<length ?es] = Some (Some ''Test failed  : no device'')"
    by (simp add: upt_conv_Cons object_fails_def two_job_def failing_job_def)
  show "\<exists>w'. main None two_options [([1], []), ([2], [])] ?w = (Ret (), w') \<and>
      stdout w' = [''Ipbench failed : Test failed  : no device''] \<and> closed (socks w' ! 0)"
    using failure_ends_run [OF failing_configure l two_plugin(1,2) tl failing_controller_simps(1-4) ok two_plugin(3,3) r]
    by auto
qed

text \<open>C3: A run in which the set-up of one client fails: its daemon is busy with another test, its module
  cannot load the test or set it up, or no target has been named for it. The targets and the clients
  before it are set up, \<^verbatim>\<open>main\<close> prints the one error of that client, a test that was running goes on, and any
  other daemon is idle. If that client is the last, every connection is closed and \<^verbatim>\<open>main\<close> returns.
  Otherwise only the connections of the clients up to it are: \<^verbatim>\<open>main\<close> ends with a \<^verbatim>\<open>KeyError\<close> at the
  next client, which has no connection object, and no target is sent \<^verbatim>\<open>QUIT\<close>.\<close>
theorem unready_daemon_ends_run:
  assumes "configure config opts w = (Ret (opts', map j_client js, map e_target es), w)"
    and "load_plugin t (client_mod w) = (Ret (), m)" and "ipbench_plugin m = Some p" and "o_test opts' = Some t"
    and "targets_load (o_target_controller_args opts') es pt (target_mod w)"
    and "net w = map (Peer \<circ> e_peer) es @ map (Peer \<circ> j_peer) js"
    and "socks w = []" and "objs w = []" and "\<not> opt_reset w"
    and "\<forall>e \<in> set es. errand_ok e" and "\<forall>i < n. job_ok p (js ! i)"
    and "n < length js" and "default_port p \<noteq> - 1" and "meets_unready C T p t y v (js ! n)"
  shows "left_alone C T y v \<and>
    (\<exists>w'. main config opts polls w = (if Suc n = length js then Ret () else Raise KeyError, w') \<and>
      stdout w' = stdout w @ [''Ipbench failed : '' @ complaint y (c_hostname (j_client (js ! n)))] \<and>
      (\<forall>i < length es. closed (socks w' ! i) = (Suc n = length js) \<and>
        sent (socks w' ! i) = take 3 (errand_lines (es ! i)) @ (if Suc n = length js then [''QUIT'' @ nl] else [])) \<and>
      (\<forall>i < n. closed (socks w' ! (length es + i)) \<and>
        sent (socks w' ! (length es + i)) = take 3 (job_lines p t (js ! i)) @ [''QUIT'' @ nl]) \<and>
      closed (socks w' ! (length es + n)) \<and> sent (socks w' ! (length es + n)) = rfile v)"
proof -
  have u: "left_alone C T y v" "refuses (js ! n) (commands y) (complaint y (c_hostname (j_client (js ! n))))"
    using unready_ends [OF assms(14)] by simp_all
  have "rfile v = take (commands y) (job_lines p t (js ! n)) @ [''QUIT'' @ nl]"
    using assms(14) by (simp add: meets_unready_def)
  with main_refused [OF assms(1-10) _ assms(12,13) u(2), of polls] assms(11) u(1) show ?thesis
    by (auto simp: refused_run_def)
qed

theorem unready_daemon_ends_run_witness:
  "(\<exists>w'. main None two_options [] (busy_controller [two_job ''node1'', busy_job ''node2'']) = (Ret (), w') \<and>
      stdout w' = [''Ipbench failed : HELLO to node2 failed (421 SERVICE NOT AVAILABLE)''] \<and> closed (socks w' ! 0)) \<and>
   (\<exists>w'. main None two_options [] (busy_controller [bare_job ''node1'', two_job ''node2'']) = (Raise KeyError, w') \<and>
      stdout w' = [''Ipbench failed : LOAD Failed''] \<and> closed (socks w' ! 1) \<and> \<not> closed (socks w' ! 0))"
proof -
  let ?es = "[box_errand []]"
  let ?js = "[two_job ''node1'', busy_job ''node2'']" and ?ks = "[bare_job ''node1'', two_job ''node2'']"
  have c: "configure None two_options w = (Ret (two_options, map j_client ?js, map e_target ?es), w)"
    "configure None two_options w = (Ret (two_options, map j_client ?ks, map e_target ?es), w)" for w :: "unit controller"
    by (rule busy_run_configure; simp add: busy_job_def bare_job_def)+
  have l: "load_plugin ''latency'' (client_mod (busy_controller js)) = (Ret (), loaded_module)" for js
    by (simp add: sample_load)
  have tl: "targets_load (o_target_controller_args two_options) ?es sample_plugin (target_mod (busy_controller js))" for js
    using two_targets_load by simp
  have ok: "\<forall>e \<in> set ?es. errand_ok e" "default_port sample_plugin \<noteq> - 1"
    using box_ok by (simp_all add: sample_plugin_def)
  have n: "\<forall>i < 1. job_ok sample_plugin (?js ! i)" "1 < length ?js"
      "meets_unready ipbench_client ipbench_target sample_plugin ''latency'' Busy busy_daemon (?js ! 1)"
      "\<forall>i < 0. job_ok sample_plugin (?ks ! i)" "0 < length ?ks"
      "meets_unready ipbench_client ipbench_target sample_plugin ''latency'' No_Test bare_daemon (?ks ! 0)"
    using two_job_ok busy_meets bare_meets by simp_all
  have h: "c_hostname (j_client (busy_job h)) = h" for h
    by (simp add: busy_job_def two_job_def cli_entry_def)
  show ?thesis
    using unready_daemon_ends_run [OF c(1) l two_plugin(1,2) tl busy_controller_simps(1-4) ok(1) n(1,2) ok(2) n(3), of "[]"]
      unready_daemon_ends_run [OF c(2) l two_plugin(1,2) tl busy_controller_simps(1-4) ok(1) n(4,5) ok(2) n(6), of "[]"]
    by (auto simp: h)
qed

text \<open>The case of a single client, apart from \<^verbatim>\<open>main\<close>. A controller and a daemon that exchange each other's bytes agree on the whole test. If the
  daemon is idle, its module succeeds in every step and marshalls some data, and the socket of the
  controller delivers what the daemon writes, then the controller's calls for this client return
  from every read with exactly these data and their validity flag, what the controller has sent is
  exactly what the daemon has read, nothing is left unread on either side, and the daemon is idle
  again.\<close>
lemma controller_meets_daemon:
  assumes "wleft w = None" and "\<not> opt_target w" and "shm_holds (test_running w) 0"
    and "own_pid w = int q" and "q < 10 ^ 19" and "rfile w = session_lines t h p a" and "wfile w = []"
    and "plugin_name t" and "target_text h" and "args_text a"
    and "client_session_spec C t h p a (shunt_state w) =
           Some ([reply 200 [], reply 200 []] @ marshall_replies v d, 4, s)"
    and "handle C T w = Some (res, w')"
    and "connects c r k" and "carries k (wfile w')"
    and "client_obj (objs c ! r) (Some h) p a" and "test_name (objs c ! r) = t" and "length d < 10 ^ 19"
  shows "res = Ret () \<and> rfile w' = [] \<and> shm_holds (test_running w') 0 \<and>
    (\<exists>k'. client_conversation r c = call_test_unmarshall r d (v = 0) (dialled_to c r k') \<and>
      sent k' = rfile w \<and> inbox k' = [])"
proof -
  have "rfile w = session_lines t h p a @ []"
    using assms(6) by simp
  from session_from_listen [OF assms(1-5) this assms(8-11), of T] obtain m where
    m: "shm_holds m 0" "res = Ret ()" "w' = w\<lparr>rfile := drop 4 (rfile w),
      wfile := wfile w @ [reply 100 [], reply 200 [''Ready to go'']] @
        [reply 200 [], reply 200 []] @ marshall_replies v d, shunt_state := s, test_running := m\<rparr>"
    using assms(12) by (auto simp: ends_clear_def)
  then have "carries k ([reply 100 [], reply 200 [''Ready to go''], reply 200 [], reply 200 []] @ marshall_replies v d)"
    using assms(7,14) by simp
  then obtain ps where "sent k = []"
    "inbox k = [reply 100 [], reply 200 [''Ready to go''], reply 200 [], reply 200 []] @ ps"
    "in_pieces (marshall_replies v d) ps"
    unfolding carries_says by (auto simp: peer_says_def)
  from conversation_of_daemon [OF assms(13) this(1) assms(15,16) this(2,3) assms(17)] m assms(6) show ?thesis
    by (auto simp: session_lines_def)
qed

text \<open>C18: A run of the controller with \<^verbatim>\<open>--reset\<close> whose first client's daemon runs a test in another
  process. The \<^verbatim>\<open>ABORT\<close> on the first connection kills that process, with \<^verbatim>\<open>SIGINT\<close> and then \<^verbatim>\<open>SIGKILL\<close>, but
  leaves its pid in the status, so \<^verbatim>\<open>HELLO\<close> on the second connection is refused: \<^verbatim>\<open>main\<close> prints the daemon's
  421 as its one error, having sent on each connection exactly what the daemon has read or has left
  there; it sends \<^verbatim>\<open>QUIT\<close> on the second connection and closes it, and ends with a \<^verbatim>\<open>KeyError\<close> if there are
  more clients. The daemon is not free after the run: its status still names the dead process.\<close>
theorem reset_fails_on_busy_daemon:
  assumes "wleft w = None" and "wfile w = []" and "rfile w = [''ABORT'' @ nl]"
    and "shm_holds (test_running w) n" and "0 < n" and "own_pid w \<noteq> int n"
    and "kill_env w (int n) SIGINT = Delivered" and "kill_env w (int n) SIGKILL = Delivered"
    and "handle C T w = Some (res, w')"
    and "wleft v = None" and "wfile v = []" and "rfile v = [''HELLO'' @ nl, ''QUIT'' @ nl]"
    and "test_running v = test_running w'" and "handle C T v = Some (res', v')"
    and "configure config opts c = (Ret (opts', d # ds, []), c)"
    and "load_plugin t (client_mod c) = (Ret (), m)" and "ipbench_plugin m = Some p" and "o_test opts' = Some t"
    and "default_port p \<noteq> - 1" and "opt_reset c" and "socks c = []" and "objs c = []"
    and "net c = Peer k # Peer k' # ns" and "port_ok (c_port d)" and "usable k" and "usable k'"
    and "sent k = []" and "sent k' = []"
    and "inbox k = delivered (wfile w')" and "inbox k' = delivered (wfile v')"
  shows "signals w' = signals w @ [(int n, SIGINT), (int n, SIGKILL)] \<and> shm_holds (test_running v') n \<and>
    signals v' = signals v \<and> (\<exists>c'. main config opts polls c = (if ds = [] then Ret () else Raise KeyError, c') \<and>
      stdout c' = stdout c @
        [''Ipbench failed : HELLO to '' @ c_hostname d @ '' failed (421 SERVICE NOT AVAILABLE)''] \<and>
      map sent (socks c') = [rfile w, rfile v] \<and> closed (socks c' ! 1))"
proof -
  have w': "wfile w' = [reply 100 []]" "test_running w' = test_running w"
      "signals w' = signals w @ [(int n, SIGINT), (int n, SIGKILL)]"
    using handle_abort_other [of w "[]" n C T] assms(1-9) by auto
  have v': "wfile v' = [reply 100 [], reply 421 [''Already Running'']]" "test_running v' = test_running w"
      "signals v' = signals v"
    using handle_busy [of v "[''QUIT'' @ nl]" n C T] assms(4,5,10-14) w' by auto
  have k: "inbox k = [reply 100 []]" "inbox k' = [reply 100 [], reply 421 [''Already Running'']]"
    using assms(29,30) w' v' by (simp_all add: delivered_def reply_nonempty)
  let ?c = "\<lparr>rc_code = 421, rc_str = ''SERVICE NOT AVAILABLE'', rc_msg = ''Already Running''\<rparr>"
  obtain c' where c': "main config opts polls c = (if ds = [] then Ret () else Raise KeyError, c')"
    "stdout c' = stdout c @ [''Ipbench failed : '' @ hello_failed (c_hostname d) ?c]"
    "socks c' = [aborted_sock k, (refused_hello k')\<lparr>sent := sent (refused_hello k') @ [''QUIT'' @ nl], closed := True\<rparr>]"
    using main_reset_refused [OF assms(15-26) k daemon_replies(4), of polls] by auto
  have "repr_int 421 = ''421''"
    by code_simp
  then have "hello_failed (c_hostname d) ?c = ''HELLO to '' @ c_hostname d @ '' failed (421 SERVICE NOT AVAILABLE)''"
    by (simp add: hello_failed_def)
  with w' v' c' assms(3,4,12,27,28) show ?thesis
    by (intro conjI exI [of _ c']) (simp_all add: aborted_sock_def refused_hello_def)
qed

theorem reset_fails_on_busy_daemon_witness:
  "\<exists>c'. main None reset_options [] reset_controller = (Raise KeyError, c') \<and>
     stdout c' = [''Ipbench failed : HELLO to node1 failed (421 SERVICE NOT AVAILABLE)''] \<and>
     map sent (socks c') = [[''ABORT'' @ nl], [''HELLO'' @ nl, ''QUIT'' @ nl]]"
proof -
  let ?w = "sample_world False 7 [''ABORT'' @ nl]" and ?v = "sample_world False 7 [''HELLO'' @ nl, ''QUIT'' @ nl]"
  have m: "shm_holds (shm_of 7) 7"
    using shm_of_holds [of 7] by simp
  obtain w' where w': "handle ipbench_client ipbench_target ?w = Some (Ret (), w')"
      "wfile w' = [reply 100 []]" "test_running w' = shm_of 7"
    using handle_abort_other [of ?w "[]" 7 ipbench_client ipbench_target] m by auto
  obtain v' where v': "handle ipbench_client ipbench_target ?v = Some (Ret (), v')"
      "wfile v' = [reply 100 [], reply 421 [''Already Running'']]"
    using handle_busy [of ?v "[''QUIT'' @ nl]" 7 ipbench_client ipbench_target] m by auto
  have o: "o_test reset_options = Some ''latency''" "default_port sample_plugin \<noteq> - 1"
      "c_hostname (cli_entry reset_options ''node1'') = ''node1''" "port_ok (c_port (cli_entry reset_options ''node1''))"
    by (simp_all add: reset_options_def default_options_def cli_entry_def sample_plugin_def port_ok_def)
  have l: "load_plugin ''latency'' (client_mod reset_controller) = (Ret (), loaded_module)"
    by (simp add: sample_load)
  show ?thesis
    using reset_fails_on_busy_daemon [of ?w 7 ipbench_client ipbench_target "Ret ()" w' ?v "Ret ()" v' None reset_options
        reset_controller reset_options "cli_entry reset_options ''node1''" "[cli_entry reset_options ''node2'']" "''latency''"
        loaded_module sample_plugin "peer_sending [reply 100 []]"
        "peer_sending [reply 100 [], reply 421 [''Already Running'']]" "[]" "[]"] w' v' m o l reset_configure [of reset_controller] two_plugin(1)
    by (auto simp: delivered_def reply_nonempty)
qed

end
